(* ===== verification/Prelude.thy ===== *)
theory Prelude
  imports Main "HOL-Library.State_Monad" "HOL-Library.AList" "HOL-Library.Multiset"
begin

text \<open>
  The prelude of the development: the collections of facts the component proofs use, the
  model of Go's error values and of the pieces of Go's standard library the operator calls
  (\<^verbatim>\<open>fmt\<close>, \<^verbatim>\<open>errors\<close>, the iteration order of a \<^verbatim>\<open>range\<close> over a map), and the generic
  lemmas on lists and on the state monad that several components share.
\<close>

named_theorems reconcile_defs \<open>definitions of the steps of the reconcilers\<close>
named_theorems run_simps \<open>what running a primitive step does to the state\<close>
named_theorems monitor_simps \<open>definitions of the trace monitors\<close>

section \<open>Go error values\<close>

text \<open>
  An \<^verbatim>\<open>error\<close> is the concrete error at its leaf, carrying the text its \<^verbatim>\<open>Error()\<close> method
  returns, below any number of \<^verbatim>\<open>fmt.Errorf("...: %w", err)\<close> wrappers. The leaf of the Keyline
  client also carries its HTTP status code, and the leaf of the Kubernetes client the reason
  string of its status. A nil error is \<open>None\<close> in a \<open>goerr option\<close>.
\<close>

datatype goerr =
    ApiError int string
  | KubeError string string
  | PlainError string
  | WrapError string goerr

fun error_text :: "goerr \<Rightarrow> string" where
  "error_text (ApiError code msg) = msg"
| "error_text (KubeError reason msg) = msg"
| "error_text (PlainError msg) = msg"
| "error_text (WrapError prefix err) = prefix @ '': '' @ error_text err"

text \<open>\<^verbatim>\<open>errors.As\<close> with a target of type \<^verbatim>\<open>keylineclient.ApiError\<close>: the first such error of the chain.\<close>

fun errors_As_ApiError :: "goerr \<Rightarrow> (int \<times> string) option" where
  "errors_As_ApiError (ApiError code msg) = Some (code, msg)"
| "errors_As_ApiError (WrapError prefix err) = errors_As_ApiError err"
| "errors_As_ApiError (KubeError reason msg) = None"
| "errors_As_ApiError (PlainError msg) = None"

section \<open>Formatting\<close>

text \<open>The decimal rendering of \<^verbatim>\<open>%d\<close> for a non-negative number.\<close>

fun dec_digits :: "nat \<Rightarrow> string" where
  "dec_digits n =
     (if n < 10 then [char_of (48 + n)]
      else dec_digits (n div 10) @ [char_of (48 + n mod 10)])"

declare dec_digits.simps [simp del]

definition hex_digit :: "nat \<Rightarrow> char" where
  "hex_digit n = (if n < 10 then char_of (48 + n) else char_of (87 + n))"

text \<open>\<^verbatim>\<open>%x\<close> of a byte string: two lower-case hexadecimal digits for each byte.\<close>

definition hex_bytes :: "string \<Rightarrow> string" where
  "hex_bytes bs = concat (map (\<lambda>b. [hex_digit (of_char b div 16), hex_digit (of_char b mod 16)]) bs)"

lemma length_hex_bytes: "length (hex_bytes bs) = 2 * length bs"
  by (induction bs) (simp_all add: hex_bytes_def)

text \<open>
  \<^verbatim>\<open>%q\<close> of a string of printable ASCII characters: double quotes around it, with a backslash
  before each double quote and backslash. The operator quotes only the literals
  \<^verbatim>\<open>username\<close>, \<^verbatim>\<open>password\<close> and \<^verbatim>\<open>token\<close>.
\<close>

definition go_quote :: "string \<Rightarrow> string" where
  "go_quote s = [CHR 0x22] @ concat (map (\<lambda>c. if c = CHR 0x22 \<or> c = CHR 0x5C then [CHR 0x5C, c] else [c]) s) @ [CHR 0x22]"

section \<open>Ranging over a Go map\<close>

text \<open>
  Go visits the entries of a map in an order that the language leaves open. The model draws
  the order from a list of choices: the first choice picks the entry visited first, and so on.
  Whatever the choices, the visit is a permutation of the entries, and every permutation is
  the visit of some choices, so a statement over all choices is a statement over all orders.
\<close>

fun range_order :: "nat list \<Rightarrow> 'a list \<Rightarrow> 'a list" where
  "range_order [] xs = xs"
| "range_order (c # cs) [] = []"
| "range_order (c # cs) (x # xs) =
     (let i = c mod Suc (length xs);
          y = (x # xs) ! i
      in y # range_order cs (take i (x # xs) @ drop (Suc i) (x # xs)))"

lemma range_order_pick:
  assumes "i < length xs"
  shows "set (xs ! i # take i xs @ drop (Suc i) xs) = set xs"
    and "distinct xs \<Longrightarrow> distinct (xs ! i # take i xs @ drop (Suc i) xs)"
    and "length (xs ! i # take i xs @ drop (Suc i) xs) = length xs"
proof -
  have split: "xs = take i xs @ xs ! i # drop (Suc i) xs"
    using assms by (rule id_take_nth_drop)
  have "set xs = set (take i xs @ xs ! i # drop (Suc i) xs)"
    using split by simp
  then show "set (xs ! i # take i xs @ drop (Suc i) xs) = set xs" by simp
  show "distinct (xs ! i # take i xs @ drop (Suc i) xs)" if d: "distinct xs"
  proof -
    have "distinct (take i xs @ xs ! i # drop (Suc i) xs)"
      using split d by simp
    then show ?thesis by auto
  qed
  show "length (xs ! i # take i xs @ drop (Suc i) xs) = length xs"
    using assms by simp
qed

lemma set_range_order [simp]: "set (range_order cs xs) = set xs"
proof (induction cs xs rule: range_order.induct)
  case (3 c cs x xs)
  define i where "i = c mod Suc (length xs)"
  have "i < length (x # xs)" by (simp add: i_def)
  from range_order_pick(1) [OF this] 3 [OF i_def refl] show ?case
    by (simp add: Let_def i_def del: take_Suc_Cons drop_Suc_Cons)
qed simp_all

lemma distinct_range_order: "distinct xs \<Longrightarrow> distinct (range_order cs xs)"
proof (induction cs xs rule: range_order.induct)
  case (3 c cs x xs)
  define i where "i = c mod Suc (length xs)"
  have "i < length (x # xs)" by (simp add: i_def)
  from range_order_pick(2) [OF this 3(2)] 3(1) [OF i_def refl] show ?case
    by (simp add: Let_def i_def del: take_Suc_Cons drop_Suc_Cons)
qed simp_all

lemma range_order_complete: "mset ys = mset xs \<Longrightarrow> \<exists>cs. range_order cs xs = ys"
proof (induction ys arbitrary: xs)
  case Nil
  then have "range_order [] xs = []" by simp
  then show ?case by blast
next
  case (Cons y ys)
  then have "y \<in> set xs" by (metis list.set_intros(1) mset_eq_setD)
  then obtain i where i: "i < length xs" "xs ! i = y" by (auto simp: in_set_conv_nth)
  define rest where "rest = take i xs @ drop (Suc i) xs"
  have "mset xs = mset (take i xs @ xs ! i # drop (Suc i) xs)"
    by (rule arg_cong [OF id_take_nth_drop [OF i(1)]])
  with Cons.prems i(2) have "mset ys = mset rest" by (simp add: rest_def)
  then obtain cs where cs: "range_order cs rest = ys" using Cons.IH by blast
  from i(1) obtain x xs' where xs: "xs = x # xs'" by (cases xs) auto
  have "range_order (i # cs) xs = y # range_order cs rest"
    using i by (simp add: xs Let_def rest_def del: take_Suc_Cons drop_Suc_Cons)
  with cs show ?case by blast
qed

section \<open>Association lists as Go maps\<close>

lemma map_of_foldl_update:
  "map_of (foldl (\<lambda>m x. AList.update (f x) (g x) m) m xs) =
     foldl (\<lambda>m x. m(f x \<mapsto> g x)) (map_of m) xs"
  by (induction xs arbitrary: m) (simp_all add: update_conv')

lemma distinct_keys_foldl_update:
  "distinct (map fst m) \<Longrightarrow> distinct (map fst (foldl (\<lambda>m x. AList.update (f x) (g x) m) m xs))"
  by (induction xs arbitrary: m) (simp_all add: distinct_update)

lemma keys_foldl_update:
  "fst ` set (foldl (\<lambda>m x. AList.update (f x) (g x) m) m xs) = fst ` set m \<union> f ` set xs"
  by (induction xs arbitrary: m) (auto simp: dom_update)

end
