(* ===== verification/Kube_Types.thy ===== *)
theory Kube_Types
  imports Prelude "HOL-Library.Word"
begin

text \<open>
  The Kubernetes types the operator builds and reads, with the fields the operator uses: object
  metadata, conditions, Secrets, PersistentVolumeClaims, Services and Deployments. A Go map
  is an association list, a nil pointer or slice is \<open>None\<close> where the code tells it from an
  empty one, and an \<^verbatim>\<open>int32\<close> is a \<open>32 word\<close> read by \<open>sint\<close>.
\<close>

section \<open>Metadata and references\<close>

type_synonym string_map = "(string \<times> string) list"

record local_object_reference =
  ref_name :: string

record namespaced_name =
  nn_namespace :: string
  nn_name :: string

record owner_reference =
  own_kind :: string
  own_name :: string
  own_uid :: string
  own_controller :: bool

record object_meta =
  om_name :: string
  om_namespace :: string
  om_uid :: string
  om_owner_refs :: "owner_reference list"

definition new_meta :: "string \<Rightarrow> string \<Rightarrow> object_meta" where
  "new_meta name namespace =
     \<lparr>om_name = name, om_namespace = namespace, om_uid = [], om_owner_refs = []\<rparr>"

abbreviation nn_of :: "object_meta \<Rightarrow> namespaced_name" where
  "nn_of m \<equiv> \<lparr>nn_namespace = om_namespace m, nn_name = om_name m\<rparr>"

abbreviation nname :: "string \<Rightarrow> string \<Rightarrow> namespaced_name" where
  "nname namespace name \<equiv> \<lparr>nn_namespace = namespace, nn_name = name\<rparr>"

lemma nn_of_new_meta [simp]: "nn_of (new_meta name namespace) = nname namespace name"
  by (simp add: new_meta_def)

section \<open>Conditions\<close>

datatype condition_status = ConditionTrue | ConditionFalse | ConditionUnknown

text \<open>Times are opaque to the operator: it only stores what \<^verbatim>\<open>metav1.Now()\<close> returned.\<close>

type_synonym time = int

record condition =
  cond_type :: string
  cond_status :: condition_status
  cond_reason :: string
  cond_message :: string
  cond_last_transition_time :: time

section \<open>Quantities and resources\<close>

text \<open>A \<^verbatim>\<open>resource.Quantity\<close> in its textual form.\<close>

datatype quantity = Quantity string

record resource_requirements =
  rr_limits :: "(string \<times> quantity) list"
  rr_requests :: "(string \<times> quantity) list"

section \<open>Secrets, claims, services\<close>

record secret =
  sec_meta :: object_meta
  sec_data :: string_map

text \<open>
  Reading a missing key of \<^verbatim>\<open>secret.Data\<close> yields the nil byte slice, which converts to the
  empty string.
\<close>

definition sec_get :: "secret \<Rightarrow> string \<Rightarrow> string" where
  "sec_get s key = (case map_of (sec_data s) key of None \<Rightarrow> [] | Some v \<Rightarrow> v)"

datatype access_mode = ReadWriteOnce | ReadOnlyMany | ReadWriteMany

record persistent_volume_claim =
  pvc_meta :: object_meta
  pvc_access_modes :: "access_mode list"
  pvc_storage :: quantity
  pvc_storage_class :: "string option"

datatype protocol = ProtocolTCP | ProtocolUDP

record service_port =
  port_name :: string
  port_port :: "32 word"
  port_protocol :: protocol

datatype service_type = ServiceTypeClusterIP | ServiceTypeNodePort | ServiceTypeLoadBalancer

record service =
  svc_meta :: object_meta
  svc_selector :: string_map
  svc_ports :: "service_port list"
  svc_type :: service_type
  svc_cluster_ip :: string

section \<open>Deployments\<close>

datatype volume_source = SecretVolume string | PersistentVolumeClaimVolume string

record volume =
  vol_name :: string
  vol_source :: volume_source

record volume_mount =
  vm_name :: string
  vm_mount_path :: string
  vm_read_only :: bool

record container_port =
  cp_container_port :: "32 word"
  cp_protocol :: protocol

record container =
  ctr_name :: string
  ctr_image :: string
  ctr_command :: "string list"
  ctr_args :: "string list"
  ctr_ports :: "container_port list"
  ctr_volume_mounts :: "volume_mount list"
  ctr_resources :: resource_requirements

datatype deployment_strategy = RecreateDeploymentStrategyType | RollingUpdateDeploymentStrategyType

record pod_template =
  pt_labels :: string_map
  pt_annotations :: string_map
  pt_containers :: "container list"
  pt_volumes :: "volume list"

record deployment_spec =
  dep_selector :: string_map
  dep_strategy :: deployment_strategy
  dep_template :: pod_template

record deployment_condition =
  dc_type :: string
  dc_status :: condition_status

record deployment =
  dep_meta :: object_meta
  dep_spec :: "deployment_spec option"
  dep_conditions :: "deployment_condition list"

end
