(* ===== verification/Api_Types.thy ===== *)
theory Api_Types
  imports Kube_Types
begin

text \<open>
  The custom resources of \<^verbatim>\<open>api/v1alpha1\<close>: one record per Go struct with its fields in the
  struct's order, and per resource the predicate its kubebuilder validation markers state, which
  the API server enforces on every object it stores.
\<close>

definition ConditionReady :: string where
  "ConditionReady = ''Ready''"

section \<open>KeylineInstance (keylineinstance\_types.go)\<close>

record postgres_spec =
  pg_host :: string
  pg_port :: "32 word"
  pg_database :: string
  pg_ssl_mode :: string
  pg_credentials_secret_ref :: local_object_reference

record database_spec =
  db_mode :: string
  db_postgres :: "postgres_spec option"

record directory_spec =
  dir_storage_class_name :: "string option"
  dir_storage_size :: "quantity option"

record vault_spec =
  vault_address :: string
  vault_mount :: string
  vault_prefix :: string
  vault_token_secret_ref :: local_object_reference

record key_store_spec =
  ks_mode :: string
  ks_directory :: "directory_spec option"
  ks_vault :: "vault_spec option"

record instance_spec =
  inst_image :: string
  inst_external_url :: string
  inst_frontend_external_url :: string
  inst_virtual_server :: string
  inst_database :: database_spec
  inst_key_store :: key_store_spec
  inst_resources :: resource_requirements

record instance_status =
  inst_url :: string
  inst_conditions :: "condition list"

record keyline_instance =
  inst_meta :: object_meta
  inst_spec :: instance_spec
  inst_status :: instance_status

section \<open>KeylineVirtualServer (keylinevirtualserver\_types.go)\<close>

record virtual_server_spec =
  vs_instance_ref :: local_object_reference
  vs_name :: string
  vs_display_name :: "string option"
  vs_registration_enabled :: "bool option"
  vs_require_2fa :: "bool option"
  vs_require_email_verification :: "bool option"
  vs_primary_signing_algorithm :: "string option"
  vs_additional_signing_algorithms :: "string list option"

record virtual_server_status =
  vs_conditions :: "condition list"

record keyline_virtual_server =
  vs_meta :: object_meta
  vs_spec :: virtual_server_spec
  vs_status :: virtual_server_status

section \<open>KeylineProject (keylineproject\_types.go)\<close>

record project_spec =
  proj_virtual_server_ref :: local_object_reference
  proj_slug :: string
  proj_name :: string
  proj_description :: "string option"

record project_status =
  proj_conditions :: "condition list"

record keyline_project =
  proj_meta :: object_meta
  proj_spec :: project_spec
  proj_status :: project_status

section \<open>KeylineApplication (keylineapplication\_types.go)\<close>

record application_spec =
  app_project_ref :: local_object_reference
  app_name :: string
  app_display_name :: string
  app_type :: string
  app_redirect_uris :: "string list option"
  app_post_logout_uris :: "string list option"
  app_access_token_header_type :: "string option"
  app_device_flow_enabled :: bool
  app_claims_mapping_script :: "string option"
  app_signing_algorithm :: "string option"

record application_status =
  app_application_id :: string
  app_conditions :: "condition list"

record keyline_application =
  app_meta :: object_meta
  app_spec :: application_spec
  app_status :: application_status

section \<open>KeylineRole (keylinerole\_types.go)\<close>

record role_spec =
  role_project_ref :: local_object_reference
  role_name :: string
  role_description :: "string option"

record role_status =
  role_role_id :: string
  role_conditions :: "condition list"

record keyline_role =
  role_meta :: object_meta
  role_spec :: role_spec
  role_status :: role_status

section \<open>KeylineUser (keylineuser\_types.go)\<close>

record service_user_public_key =
  key_kid :: string
  key_pem :: string

record user_spec =
  user_virtual_server_ref :: local_object_reference
  user_username :: string
  user_display_name :: "string option"
  user_public_keys :: "service_user_public_key list"

record user_status =
  user_user_id :: string
  user_managed_key_ids :: "string list"
  user_conditions :: "condition list"

record keyline_user =
  user_meta :: object_meta
  user_spec :: user_spec
  user_status :: user_status

section \<open>KeylineRoleAssignment (keylineroleassignment\_types.go)\<close>

record role_assignment_spec =
  ra_role_ref :: local_object_reference
  ra_user_ref :: local_object_reference

record role_assignment_status =
  ra_conditions :: "condition list"

record keyline_role_assignment =
  ra_meta :: object_meta
  ra_spec :: role_assignment_spec
  ra_status :: role_assignment_status

section \<open>Any object the operator reads or writes\<close>

datatype kind =
    KInstance | KVirtualServer | KProject | KApplication | KRole | KUser | KRoleAssignment
  | KSecret | KPersistentVolumeClaim | KService | KDeployment

datatype k8s_object =
    ObjInstance keyline_instance
  | ObjVirtualServer keyline_virtual_server
  | ObjProject keyline_project
  | ObjApplication keyline_application
  | ObjRole keyline_role
  | ObjUser keyline_user
  | ObjRoleAssignment keyline_role_assignment
  | ObjSecret secret
  | ObjPersistentVolumeClaim persistent_volume_claim
  | ObjService service
  | ObjDeployment deployment

fun object_kind :: "k8s_object \<Rightarrow> kind" where
  "object_kind (ObjInstance x) = KInstance"
| "object_kind (ObjVirtualServer x) = KVirtualServer"
| "object_kind (ObjProject x) = KProject"
| "object_kind (ObjApplication x) = KApplication"
| "object_kind (ObjRole x) = KRole"
| "object_kind (ObjUser x) = KUser"
| "object_kind (ObjRoleAssignment x) = KRoleAssignment"
| "object_kind (ObjSecret x) = KSecret"
| "object_kind (ObjPersistentVolumeClaim x) = KPersistentVolumeClaim"
| "object_kind (ObjService x) = KService"
| "object_kind (ObjDeployment x) = KDeployment"

fun object_meta_of :: "k8s_object \<Rightarrow> object_meta" where
  "object_meta_of (ObjInstance x) = inst_meta x"
| "object_meta_of (ObjVirtualServer x) = vs_meta x"
| "object_meta_of (ObjProject x) = proj_meta x"
| "object_meta_of (ObjApplication x) = app_meta x"
| "object_meta_of (ObjRole x) = role_meta x"
| "object_meta_of (ObjUser x) = user_meta x"
| "object_meta_of (ObjRoleAssignment x) = ra_meta x"
| "object_meta_of (ObjSecret x) = sec_meta x"
| "object_meta_of (ObjPersistentVolumeClaim x) = pvc_meta x"
| "object_meta_of (ObjService x) = svc_meta x"
| "object_meta_of (ObjDeployment x) = dep_meta x"

text \<open>The conditions in the status of a custom resource; the operator writes no others.\<close>

fun conditions_of :: "k8s_object \<Rightarrow> condition list" where
  "conditions_of (ObjInstance x) = inst_conditions (inst_status x)"
| "conditions_of (ObjVirtualServer x) = vs_conditions (vs_status x)"
| "conditions_of (ObjProject x) = proj_conditions (proj_status x)"
| "conditions_of (ObjApplication x) = app_conditions (app_status x)"
| "conditions_of (ObjRole x) = role_conditions (role_status x)"
| "conditions_of (ObjUser x) = user_conditions (user_status x)"
| "conditions_of (ObjRoleAssignment x) = ra_conditions (ra_status x)"
| "conditions_of _ = []"

section \<open>Admission: the kubebuilder validation markers\<close>

definition len_between :: "nat \<Rightarrow> nat \<Rightarrow> string \<Rightarrow> bool" where
  "len_between lo hi s \<longleftrightarrow> lo \<le> length s \<and> length s \<le> hi"

definition valid_instance_spec :: "instance_spec \<Rightarrow> bool" where
  "valid_instance_spec sp \<longleftrightarrow>
     inst_image sp \<noteq> [] \<and> inst_external_url sp \<noteq> [] \<and> inst_frontend_external_url sp \<noteq> [] \<and>
     db_mode (inst_database sp) \<in> {''postgres'', ''memory''} \<and>
     pred_option (\<lambda>pg. pg_host pg \<noteq> []) (db_postgres (inst_database sp)) \<and>
     ks_mode (inst_key_store sp) \<in> {''directory'', ''vault''} \<and>
     pred_option (\<lambda>v. vault_address v \<noteq> [] \<and> vault_mount v \<noteq> []) (ks_vault (inst_key_store sp))"

definition signing_algorithms :: "string set" where
  "signing_algorithms = {''RS256'', ''EdDSA''}"

definition valid_application_spec :: "application_spec \<Rightarrow> bool" where
  "valid_application_spec sp \<longleftrightarrow>
     len_between 1 255 (app_name sp) \<and> len_between 1 255 (app_display_name sp) \<and>
     app_type sp \<in> {''public'', ''confidential''} \<and>
     pred_option (\<lambda>us. us \<noteq> []) (app_redirect_uris sp) \<and> app_redirect_uris sp \<noteq> None \<and>
     pred_option (\<lambda>t. t \<in> {''at+jwt'', ''JWT''}) (app_access_token_header_type sp) \<and>
     pred_option (\<lambda>a. a \<in> signing_algorithms) (app_signing_algorithm sp)"

definition valid_user_spec :: "user_spec \<Rightarrow> bool" where
  "valid_user_spec sp \<longleftrightarrow>
     len_between 1 255 (user_username sp) \<and>
     distinct (map key_kid (user_public_keys sp)) \<and>
     list_all (\<lambda>k. len_between 1 255 (key_kid k) \<and> key_pem k \<noteq> []) (user_public_keys sp)"

definition valid_role_spec :: "role_spec \<Rightarrow> bool" where
  "valid_role_spec sp \<longleftrightarrow>
     len_between 1 255 (role_name sp) \<and> pred_option (len_between 0 1024) (role_description sp)"

definition valid_project_spec :: "project_spec \<Rightarrow> bool" where
  "valid_project_spec sp \<longleftrightarrow> len_between 1 255 (proj_slug sp) \<and> len_between 1 255 (proj_name sp)"

end
