(* ===== verification/Keyline_Types.thy ===== *)
theory Keyline_Types
  imports Api_Types
begin

text \<open>
  The types of the Keyline client library (\<^verbatim>\<open>keylineclient\<close>, \<^verbatim>\<open>keylineapi\<close>) and of Keyline's
  configuration file (\<^verbatim>\<open>keylineconfig\<close>), with the fields the operator sets or reads. Their code
  is not part of the repository, so these records only carry data: what a call does is a
  parameter of the model (theory \<^verbatim>\<open>Operator_Env\<close>).
\<close>

section \<open>The client\<close>

type_synonym uuid = "128 word"

definition uuid_Nil :: uuid where
  "uuid_Nil = 0"

record token_source =
  ts_keyline_url :: string
  ts_virtual_server :: string
  ts_priv_key_pem :: string
  ts_kid :: string
  ts_username :: string
  ts_application :: string

record keyline_client =
  kc_base_url :: string
  kc_virtual_server :: string
  kc_token_source :: token_source

section \<open>Request and response bodies\<close>

record virtual_server_dto =
  vsd_display_name :: string
  vsd_registration_enabled :: bool
  vsd_require_2fa :: bool
  vsd_require_email_verification :: bool
  vsd_primary_signing_algorithm :: string
  vsd_additional_signing_algorithms :: "string list option"

record patch_virtual_server_input =
  pvs_display_name :: "string option"
  pvs_enable_registration :: "bool option"
  pvs_require_2fa :: "bool option"
  pvs_require_email_verification :: "bool option"
  pvs_primary_signing_algorithm :: "string option"
  pvs_additional_signing_algorithms :: "string list option"

record create_project_dto =
  cp_slug :: string
  cp_name :: string
  cp_description :: string

record role_dto =
  rd_name :: string
  rd_description :: string

record patch_role_dto =
  pr_name :: "string option"
  pr_description :: "string option"

record role_item =
  ri_id :: uuid
  ri_name :: string

record create_role_dto =
  cr_name :: string
  cr_description :: string

record application_dto =
  ad_display_name :: string
  ad_device_flow_enabled :: bool
  ad_claims_mapping_script :: "string option"
  ad_redirect_uris :: "string list option"
  ad_post_logout_redirect_uris :: "string list option"
  ad_access_token_header_type :: string
  ad_signing_algorithm :: "string option"

record patch_application_dto =
  pa_display_name :: "string option"
  pa_device_flow_enabled :: "bool option"
  pa_claims_mapping_script :: "string option"
  pa_redirect_uris :: "string list option"
  pa_post_logout_uris :: "string list option"
  pa_access_token_header_type :: "string option"
  pa_signing_algorithm :: "string option"

record application_item =
  ai_id :: uuid
  ai_name :: string

record create_application_dto =
  ca_name :: string
  ca_display_name :: string
  ca_type :: string
  ca_redirect_uris :: "string list option"
  ca_post_logout_uris :: "string list option"
  ca_access_token_header_type :: "string option"
  ca_device_flow_enabled :: bool
  ca_signing_algorithm :: "string option"

record user_item =
  ui_id :: uuid
  ui_username :: string
  ui_is_service_user :: bool

record patch_user_dto =
  pu_display_name :: "string option"

record associate_key_dto =
  ak_public_key :: string
  ak_kid :: "string option"

section \<open>Keyline's configuration\<close>

datatype database_mode = DatabaseModeMemory | DatabaseModePostgres
datatype key_store_mode = KeyStoreModeUnset | KeyStoreModeDirectory | KeyStoreModeVault
datatype cache_mode = CacheModeMemory | CacheModeRedis
datatype leader_election_mode = LeaderElectionModeNone | LeaderElectionModeOther
datatype signing_algorithm = SigningAlgorithmEdDSA | SigningAlgorithmRS256

record server_config =
  sc_host :: string
  sc_port :: int
  sc_external_url :: string
  sc_allowed_origins :: "string list"

record postgres_config =
  pc_host :: string
  pc_port :: int
  pc_database :: string
  pc_username :: string
  pc_password :: string
  pc_ssl_mode :: string

record database_config =
  dbc_mode :: database_mode
  dbc_postgres :: postgres_config

record service_user_config =
  suc_username :: string
  suc_roles :: "string list"
  suc_public_key_pem :: string
  suc_public_key_kid :: string

record initial_application_config =
  iac_name :: string
  iac_display_name :: string
  iac_type :: string

record initial_project_config =
  ipc_slug :: string
  ipc_name :: string
  ipc_applications :: "initial_application_config list"

record initial_virtual_server_config =
  ivs_name :: string
  ivs_enable_registration :: bool
  ivs_primary_signing_algorithm :: signing_algorithm
  ivs_create_system_admin_role :: bool
  ivs_create_admin :: bool
  ivs_service_users :: "service_user_config list"
  ivs_projects :: "initial_project_config list"

record vault_key_store_config =
  vks_address :: string
  vks_token :: string
  vks_mount :: string
  vks_prefix :: string

record key_store_config =
  ksc_mode :: key_store_mode
  ksc_directory_path :: string
  ksc_vault :: vault_key_store_config

record keyline_config =
  cfg_server :: server_config
  cfg_frontend_external_url :: string
  cfg_database :: database_config
  cfg_initial_virtual_server :: initial_virtual_server_config
  cfg_cache_mode :: cache_mode
  cfg_leader_election_mode :: leader_election_mode
  cfg_key_store :: key_store_config

text \<open>The Go zero values of the nested configuration structs.\<close>

definition zero_postgres_config :: postgres_config where
  "zero_postgres_config =
     \<lparr>pc_host = [], pc_port = 0, pc_database = [], pc_username = [], pc_password = [], pc_ssl_mode = []\<rparr>"

definition zero_vault_key_store_config :: vault_key_store_config where
  "zero_vault_key_store_config = \<lparr>vks_address = [], vks_token = [], vks_mount = [], vks_prefix = []\<rparr>"

definition zero_key_store_config :: key_store_config where
  "zero_key_store_config =
     \<lparr>ksc_mode = KeyStoreModeUnset, ksc_directory_path = [], ksc_vault = zero_vault_key_store_config\<rparr>"

end
