(* ===== verification/Operator_Env.thy ===== *)
theory Operator_Env
  imports Keyline_Types
begin

text \<open>
  The environment of the reconcilers. Everything a reconciler calls that is not in the
  repository (the Kubernetes client, the Keyline client, the API machinery, cryptography,
  the clock) is a field of an environment record, a function the reconcilers take as
  argument. Calls with an effect pass an abstract world of type \<open>'w\<close>, about which nothing
  is assumed: an environment may answer any call with any value or error.

  A reconciler is a state-monad action over that world and a log of the calls made so far with
  their answers. The log is an observation only: no definition reads it. Properties of what a
  reconciler calls, in which order and after which answers, are statements about the log.
\<close>

section \<open>The events of the log\<close>

datatype event =
    EvGet kind namespaced_name "goerr + k8s_object"
  | EvCreate k8s_object "goerr option"
  | EvCreateOrUpdate "goerr + k8s_object" "goerr option"
  | EvStatusPatch k8s_object k8s_object "goerr option"
  | EvToken token_source "goerr + string"
  | EvVirtualServerGet keyline_client "goerr + virtual_server_dto"
  | EvVirtualServerPatch keyline_client patch_virtual_server_input "goerr option"
  | EvProjectGet keyline_client string "goerr option"
  | EvProjectCreate keyline_client create_project_dto "goerr option"
  | EvRoleGet keyline_client string uuid "goerr + role_dto"
  | EvRolePatch keyline_client string uuid patch_role_dto "goerr option"
  | EvRoleList keyline_client string nat nat "goerr + role_item list"
  | EvRoleCreate keyline_client string create_role_dto "goerr + uuid"
  | EvRoleListUsers keyline_client string uuid nat nat "goerr + uuid list"
  | EvRoleAssign keyline_client string uuid uuid "goerr option"
  | EvApplicationGet keyline_client string uuid "goerr + application_dto"
  | EvApplicationPatch keyline_client string uuid patch_application_dto "goerr option"
  | EvApplicationList keyline_client string nat nat "goerr + application_item list"
  | EvApplicationCreate keyline_client string create_application_dto "goerr + uuid"
  | EvUserGet keyline_client uuid "goerr option"
  | EvUserList keyline_client nat nat "goerr + user_item list"
  | EvUserCreate keyline_client string "goerr + uuid"
  | EvUserPatch keyline_client uuid patch_user_dto "goerr option"
  | EvKeyAssociate keyline_client uuid associate_key_dto "goerr option"
  | EvKeyRemove keyline_client uuid string "goerr option"

section \<open>The environment\<close>

text \<open>The controller-runtime client and \<^verbatim>\<open>controllerutil.CreateOrUpdate\<close>.\<close>

record 'w kube_client =
  k_get_instance :: "namespaced_name \<Rightarrow> 'w \<Rightarrow> (goerr + keyline_instance) \<times> 'w"
  k_get_virtual_server :: "namespaced_name \<Rightarrow> 'w \<Rightarrow> (goerr + keyline_virtual_server) \<times> 'w"
  k_get_project :: "namespaced_name \<Rightarrow> 'w \<Rightarrow> (goerr + keyline_project) \<times> 'w"
  k_get_application :: "namespaced_name \<Rightarrow> 'w \<Rightarrow> (goerr + keyline_application) \<times> 'w"
  k_get_role :: "namespaced_name \<Rightarrow> 'w \<Rightarrow> (goerr + keyline_role) \<times> 'w"
  k_get_user :: "namespaced_name \<Rightarrow> 'w \<Rightarrow> (goerr + keyline_user) \<times> 'w"
  k_get_role_assignment :: "namespaced_name \<Rightarrow> 'w \<Rightarrow> (goerr + keyline_role_assignment) \<times> 'w"
  k_get_secret :: "namespaced_name \<Rightarrow> 'w \<Rightarrow> (goerr + secret) \<times> 'w"
  k_get_pvc :: "namespaced_name \<Rightarrow> 'w \<Rightarrow> (goerr + persistent_volume_claim) \<times> 'w"
  k_get_deployment :: "namespaced_name \<Rightarrow> 'w \<Rightarrow> (goerr + deployment) \<times> 'w"
  k_create_secret :: "secret \<Rightarrow> 'w \<Rightarrow> goerr option \<times> 'w"
  k_create_pvc :: "persistent_volume_claim \<Rightarrow> 'w \<Rightarrow> goerr option \<times> 'w"
  k_create_or_update_secret :: "secret \<Rightarrow> (secret \<Rightarrow> goerr + secret) \<Rightarrow> 'w \<Rightarrow> goerr option \<times> 'w"
  k_create_or_update_service :: "service \<Rightarrow> (service \<Rightarrow> goerr + service) \<Rightarrow> 'w \<Rightarrow> goerr option \<times> 'w"
  k_create_or_update_deployment ::
    "deployment \<Rightarrow> (deployment \<Rightarrow> goerr + deployment) \<Rightarrow> 'w \<Rightarrow> goerr option \<times> 'w"
  k_patch_status :: "k8s_object \<Rightarrow> k8s_object \<Rightarrow> 'w \<Rightarrow> goerr option \<times> 'w"

text \<open>The Keyline management API, each call on the client it is made with.\<close>

record 'w keyline_api =
  a_token :: "token_source \<Rightarrow> 'w \<Rightarrow> (goerr + string) \<times> 'w"
  a_virtual_server_get :: "keyline_client \<Rightarrow> 'w \<Rightarrow> (goerr + virtual_server_dto) \<times> 'w"
  a_virtual_server_patch :: "keyline_client \<Rightarrow> patch_virtual_server_input \<Rightarrow> 'w \<Rightarrow> goerr option \<times> 'w"
  a_project_get :: "keyline_client \<Rightarrow> string \<Rightarrow> 'w \<Rightarrow> goerr option \<times> 'w"
  a_project_create :: "keyline_client \<Rightarrow> create_project_dto \<Rightarrow> 'w \<Rightarrow> goerr option \<times> 'w"
  a_role_get :: "keyline_client \<Rightarrow> string \<Rightarrow> uuid \<Rightarrow> 'w \<Rightarrow> (goerr + role_dto) \<times> 'w"
  a_role_patch :: "keyline_client \<Rightarrow> string \<Rightarrow> uuid \<Rightarrow> patch_role_dto \<Rightarrow> 'w \<Rightarrow> goerr option \<times> 'w"
  a_role_list :: "keyline_client \<Rightarrow> string \<Rightarrow> nat \<Rightarrow> nat \<Rightarrow> 'w \<Rightarrow> (goerr + role_item list) \<times> 'w"
  a_role_create :: "keyline_client \<Rightarrow> string \<Rightarrow> create_role_dto \<Rightarrow> 'w \<Rightarrow> (goerr + uuid) \<times> 'w"
  a_role_list_users :: "keyline_client \<Rightarrow> string \<Rightarrow> uuid \<Rightarrow> nat \<Rightarrow> nat \<Rightarrow> 'w \<Rightarrow> (goerr + uuid list) \<times> 'w"
  a_role_assign :: "keyline_client \<Rightarrow> string \<Rightarrow> uuid \<Rightarrow> uuid \<Rightarrow> 'w \<Rightarrow> goerr option \<times> 'w"
  a_application_get :: "keyline_client \<Rightarrow> string \<Rightarrow> uuid \<Rightarrow> 'w \<Rightarrow> (goerr + application_dto) \<times> 'w"
  a_application_patch ::
    "keyline_client \<Rightarrow> string \<Rightarrow> uuid \<Rightarrow> patch_application_dto \<Rightarrow> 'w \<Rightarrow> goerr option \<times> 'w"
  a_application_list ::
    "keyline_client \<Rightarrow> string \<Rightarrow> nat \<Rightarrow> nat \<Rightarrow> 'w \<Rightarrow> (goerr + application_item list) \<times> 'w"
  a_application_create ::
    "keyline_client \<Rightarrow> string \<Rightarrow> create_application_dto \<Rightarrow> 'w \<Rightarrow> (goerr + uuid) \<times> 'w"
  a_user_get :: "keyline_client \<Rightarrow> uuid \<Rightarrow> 'w \<Rightarrow> goerr option \<times> 'w"
  a_user_list :: "keyline_client \<Rightarrow> nat \<Rightarrow> nat \<Rightarrow> 'w \<Rightarrow> (goerr + user_item list) \<times> 'w"
  a_user_create_service_user :: "keyline_client \<Rightarrow> string \<Rightarrow> 'w \<Rightarrow> (goerr + uuid) \<times> 'w"
  a_user_patch :: "keyline_client \<Rightarrow> uuid \<Rightarrow> patch_user_dto \<Rightarrow> 'w \<Rightarrow> goerr option \<times> 'w"
  a_user_associate_key :: "keyline_client \<Rightarrow> uuid \<Rightarrow> associate_key_dto \<Rightarrow> 'w \<Rightarrow> goerr option \<times> 'w"
  a_user_remove_key :: "keyline_client \<Rightarrow> uuid \<Rightarrow> string \<Rightarrow> 'w \<Rightarrow> goerr option \<times> 'w"

text \<open>
  The API machinery, \<^verbatim>\<open>google/uuid\<close>, \<^verbatim>\<open>yaml.v3\<close>, cryptography, the clock, and the choices that
  order a \<^verbatim>\<open>range\<close> over a map.
\<close>

record 'w runtime_lib =
  l_now :: "'w \<Rightarrow> time \<times> 'w"
  l_range_choices :: "'w \<Rightarrow> nat list \<times> 'w"
  l_ed25519_generate_key :: "'w \<Rightarrow> (goerr + string) \<times> 'w"
  l_public_key :: "string \<Rightarrow> string"
  l_marshal_pkcs8 :: "string \<Rightarrow> goerr + string"
  l_marshal_pkix :: "string \<Rightarrow> goerr + string"
  l_pem_encode :: "string \<Rightarrow> string \<Rightarrow> string"
  l_uuid_new :: "'w \<Rightarrow> uuid \<times> 'w"
  l_uuid_string :: "uuid \<Rightarrow> string"
  l_uuid_parse :: "string \<Rightarrow> goerr + uuid"
  l_set_status_condition :: "condition list \<Rightarrow> condition \<Rightarrow> condition list"
  l_is_status_condition_true :: "condition list \<Rightarrow> string \<Rightarrow> bool"
  l_set_controller_reference :: "keyline_instance \<Rightarrow> object_meta \<Rightarrow> goerr + object_meta"
  l_is_not_found :: "goerr \<Rightarrow> bool"
  l_ignore_not_found :: "goerr \<Rightarrow> goerr option"
  l_yaml_marshal :: "keyline_config \<Rightarrow> goerr + string"
  l_must_parse_quantity :: "string \<Rightarrow> quantity"

record 'w env =
  kube :: "'w kube_client"
  api :: "'w keyline_api"
  lib :: "'w runtime_lib"

section \<open>Actions\<close>

record 'w st =
  st_world :: 'w
  st_trace :: "event list"

type_synonym ('w, 'a) op = "('w st, 'a) state"

definition start :: "'w \<Rightarrow> 'w st" where
  "start w = \<lparr>st_world = w, st_trace = []\<rparr>"

lemma start_simps [simp]: "st_world (start w) = w" "st_trace (start w) = []"
  by (simp_all add: start_def)

definition call :: "('a \<Rightarrow> event) \<Rightarrow> ('w \<Rightarrow> 'a \<times> 'w) \<Rightarrow> ('w, 'a) op" where
  "call ev f = State (\<lambda>s. case f (st_world s) of (a, w) \<Rightarrow>
     (a, \<lparr>st_world = w, st_trace = st_trace s @ [ev a]\<rparr>))"

definition silent :: "('w \<Rightarrow> 'a \<times> 'w) \<Rightarrow> ('w, 'a) op" where
  "silent f = State (\<lambda>s. case f (st_world s) of (a, w) \<Rightarrow> (a, s\<lparr>st_world := w\<rparr>))"

lemma run_call [run_simps]:
  "run_state (call ev f) s =
     (case f (st_world s) of (a, w) \<Rightarrow> (a, \<lparr>st_world = w, st_trace = st_trace s @ [ev a]\<rparr>))"
  by (simp add: call_def)

lemma run_silent [run_simps]:
  "run_state (silent f) s = (case f (st_world s) of (a, w) \<Rightarrow> (a, s\<lparr>st_world := w\<rparr>))"
  by (simp add: silent_def)

text \<open>The logged calls: each makes one call of the environment and records it.\<close>

definition get_instance :: "'w env \<Rightarrow> namespaced_name \<Rightarrow> ('w, goerr + keyline_instance) op" where
  [reconcile_defs]: "get_instance env nn =
     call (\<lambda>r. EvGet KInstance nn (map_sum id ObjInstance r)) (k_get_instance (kube env) nn)"

definition get_virtual_server :: "'w env \<Rightarrow> namespaced_name \<Rightarrow> ('w, goerr + keyline_virtual_server) op" where
  [reconcile_defs]: "get_virtual_server env nn =
     call (\<lambda>r. EvGet KVirtualServer nn (map_sum id ObjVirtualServer r)) (k_get_virtual_server (kube env) nn)"

definition get_project :: "'w env \<Rightarrow> namespaced_name \<Rightarrow> ('w, goerr + keyline_project) op" where
  [reconcile_defs]: "get_project env nn =
     call (\<lambda>r. EvGet KProject nn (map_sum id ObjProject r)) (k_get_project (kube env) nn)"

definition get_application :: "'w env \<Rightarrow> namespaced_name \<Rightarrow> ('w, goerr + keyline_application) op" where
  [reconcile_defs]: "get_application env nn =
     call (\<lambda>r. EvGet KApplication nn (map_sum id ObjApplication r)) (k_get_application (kube env) nn)"

definition get_role :: "'w env \<Rightarrow> namespaced_name \<Rightarrow> ('w, goerr + keyline_role) op" where
  [reconcile_defs]: "get_role env nn =
     call (\<lambda>r. EvGet KRole nn (map_sum id ObjRole r)) (k_get_role (kube env) nn)"

definition get_user :: "'w env \<Rightarrow> namespaced_name \<Rightarrow> ('w, goerr + keyline_user) op" where
  [reconcile_defs]: "get_user env nn =
     call (\<lambda>r. EvGet KUser nn (map_sum id ObjUser r)) (k_get_user (kube env) nn)"

definition get_role_assignment ::
    "'w env \<Rightarrow> namespaced_name \<Rightarrow> ('w, goerr + keyline_role_assignment) op" where
  [reconcile_defs]: "get_role_assignment env nn =
     call (\<lambda>r. EvGet KRoleAssignment nn (map_sum id ObjRoleAssignment r)) (k_get_role_assignment (kube env) nn)"

definition get_secret :: "'w env \<Rightarrow> namespaced_name \<Rightarrow> ('w, goerr + secret) op" where
  [reconcile_defs]: "get_secret env nn =
     call (\<lambda>r. EvGet KSecret nn (map_sum id ObjSecret r)) (k_get_secret (kube env) nn)"

definition get_pvc :: "'w env \<Rightarrow> namespaced_name \<Rightarrow> ('w, goerr + persistent_volume_claim) op" where
  [reconcile_defs]: "get_pvc env nn =
     call (\<lambda>r. EvGet KPersistentVolumeClaim nn (map_sum id ObjPersistentVolumeClaim r)) (k_get_pvc (kube env) nn)"

definition get_deployment :: "'w env \<Rightarrow> namespaced_name \<Rightarrow> ('w, goerr + deployment) op" where
  [reconcile_defs]: "get_deployment env nn =
     call (\<lambda>r. EvGet KDeployment nn (map_sum id ObjDeployment r)) (k_get_deployment (kube env) nn)"

definition create_secret :: "'w env \<Rightarrow> secret \<Rightarrow> ('w, goerr option) op" where
  [reconcile_defs]: "create_secret env x = call (EvCreate (ObjSecret x)) (k_create_secret (kube env) x)"

definition create_pvc :: "'w env \<Rightarrow> persistent_volume_claim \<Rightarrow> ('w, goerr option) op" where
  [reconcile_defs]: "create_pvc env x =
     call (EvCreate (ObjPersistentVolumeClaim x)) (k_create_pvc (kube env) x)"

definition create_or_update_secret ::
    "'w env \<Rightarrow> secret \<Rightarrow> (secret \<Rightarrow> goerr + secret) \<Rightarrow> ('w, goerr option) op" where
  [reconcile_defs]: "create_or_update_secret env x f =
     call (EvCreateOrUpdate (map_sum id ObjSecret (f x))) (k_create_or_update_secret (kube env) x f)"

definition create_or_update_service ::
    "'w env \<Rightarrow> service \<Rightarrow> (service \<Rightarrow> goerr + service) \<Rightarrow> ('w, goerr option) op" where
  [reconcile_defs]: "create_or_update_service env x f =
     call (EvCreateOrUpdate (map_sum id ObjService (f x))) (k_create_or_update_service (kube env) x f)"

definition create_or_update_deployment ::
    "'w env \<Rightarrow> deployment \<Rightarrow> (deployment \<Rightarrow> goerr + deployment) \<Rightarrow> ('w, goerr option) op" where
  [reconcile_defs]: "create_or_update_deployment env x f =
     call (EvCreateOrUpdate (map_sum id ObjDeployment (f x))) (k_create_or_update_deployment (kube env) x f)"

definition patch_status :: "'w env \<Rightarrow> k8s_object \<Rightarrow> k8s_object \<Rightarrow> ('w, goerr option) op" where
  [reconcile_defs]: "patch_status env obj base =
     call (EvStatusPatch obj base) (k_patch_status (kube env) obj base)"

definition ts_Token :: "'w env \<Rightarrow> token_source \<Rightarrow> ('w, goerr + string) op" where
  [reconcile_defs]: "ts_Token env ts = call (EvToken ts) (a_token (api env) ts)"

definition virtual_server_get :: "'w env \<Rightarrow> keyline_client \<Rightarrow> ('w, goerr + virtual_server_dto) op" where
  [reconcile_defs]: "virtual_server_get env kc =
     call (EvVirtualServerGet kc) (a_virtual_server_get (api env) kc)"

definition virtual_server_patch ::
    "'w env \<Rightarrow> keyline_client \<Rightarrow> patch_virtual_server_input \<Rightarrow> ('w, goerr option) op" where
  [reconcile_defs]: "virtual_server_patch env kc p =
     call (EvVirtualServerPatch kc p) (a_virtual_server_patch (api env) kc p)"

definition project_get :: "'w env \<Rightarrow> keyline_client \<Rightarrow> string \<Rightarrow> ('w, goerr option) op" where
  [reconcile_defs]: "project_get env kc slug = call (EvProjectGet kc slug) (a_project_get (api env) kc slug)"

definition project_create ::
    "'w env \<Rightarrow> keyline_client \<Rightarrow> create_project_dto \<Rightarrow> ('w, goerr option) op" where
  [reconcile_defs]: "project_create env kc dto = call (EvProjectCreate kc dto) (a_project_create (api env) kc dto)"

definition role_get :: "'w env \<Rightarrow> keyline_client \<Rightarrow> string \<Rightarrow> uuid \<Rightarrow> ('w, goerr + role_dto) op" where
  [reconcile_defs]: "role_get env kc slug i = call (EvRoleGet kc slug i) (a_role_get (api env) kc slug i)"

definition role_patch ::
    "'w env \<Rightarrow> keyline_client \<Rightarrow> string \<Rightarrow> uuid \<Rightarrow> patch_role_dto \<Rightarrow> ('w, goerr option) op" where
  [reconcile_defs]: "role_patch env kc slug i p =
     call (EvRolePatch kc slug i p) (a_role_patch (api env) kc slug i p)"

definition role_list ::
    "'w env \<Rightarrow> keyline_client \<Rightarrow> string \<Rightarrow> nat \<Rightarrow> nat \<Rightarrow> ('w, goerr + role_item list) op" where
  [reconcile_defs]: "role_list env kc slug page sz =
     call (EvRoleList kc slug page sz) (a_role_list (api env) kc slug page sz)"

definition role_create ::
    "'w env \<Rightarrow> keyline_client \<Rightarrow> string \<Rightarrow> create_role_dto \<Rightarrow> ('w, goerr + uuid) op" where
  [reconcile_defs]: "role_create env kc slug dto =
     call (EvRoleCreate kc slug dto) (a_role_create (api env) kc slug dto)"

definition role_list_users ::
    "'w env \<Rightarrow> keyline_client \<Rightarrow> string \<Rightarrow> uuid \<Rightarrow> nat \<Rightarrow> nat \<Rightarrow> ('w, goerr + uuid list) op" where
  [reconcile_defs]: "role_list_users env kc slug i page sz =
     call (EvRoleListUsers kc slug i page sz) (a_role_list_users (api env) kc slug i page sz)"

definition role_assign ::
    "'w env \<Rightarrow> keyline_client \<Rightarrow> string \<Rightarrow> uuid \<Rightarrow> uuid \<Rightarrow> ('w, goerr option) op" where
  [reconcile_defs]: "role_assign env kc slug i u =
     call (EvRoleAssign kc slug i u) (a_role_assign (api env) kc slug i u)"

definition application_get ::
    "'w env \<Rightarrow> keyline_client \<Rightarrow> string \<Rightarrow> uuid \<Rightarrow> ('w, goerr + application_dto) op" where
  [reconcile_defs]: "application_get env kc slug i =
     call (EvApplicationGet kc slug i) (a_application_get (api env) kc slug i)"

definition application_patch ::
    "'w env \<Rightarrow> keyline_client \<Rightarrow> string \<Rightarrow> uuid \<Rightarrow> patch_application_dto \<Rightarrow> ('w, goerr option) op" where
  [reconcile_defs]: "application_patch env kc slug i p =
     call (EvApplicationPatch kc slug i p) (a_application_patch (api env) kc slug i p)"

definition application_list ::
    "'w env \<Rightarrow> keyline_client \<Rightarrow> string \<Rightarrow> nat \<Rightarrow> nat \<Rightarrow> ('w, goerr + application_item list) op" where
  [reconcile_defs]: "application_list env kc slug page sz =
     call (EvApplicationList kc slug page sz) (a_application_list (api env) kc slug page sz)"

definition application_create ::
    "'w env \<Rightarrow> keyline_client \<Rightarrow> string \<Rightarrow> create_application_dto \<Rightarrow> ('w, goerr + uuid) op" where
  [reconcile_defs]: "application_create env kc slug dto =
     call (EvApplicationCreate kc slug dto) (a_application_create (api env) kc slug dto)"

definition user_get :: "'w env \<Rightarrow> keyline_client \<Rightarrow> uuid \<Rightarrow> ('w, goerr option) op" where
  [reconcile_defs]: "user_get env kc i = call (EvUserGet kc i) (a_user_get (api env) kc i)"

definition user_list :: "'w env \<Rightarrow> keyline_client \<Rightarrow> nat \<Rightarrow> nat \<Rightarrow> ('w, goerr + user_item list) op" where
  [reconcile_defs]: "user_list env kc page sz = call (EvUserList kc page sz) (a_user_list (api env) kc page sz)"

definition user_create_service_user :: "'w env \<Rightarrow> keyline_client \<Rightarrow> string \<Rightarrow> ('w, goerr + uuid) op" where
  [reconcile_defs]: "user_create_service_user env kc name =
     call (EvUserCreate kc name) (a_user_create_service_user (api env) kc name)"

definition user_patch :: "'w env \<Rightarrow> keyline_client \<Rightarrow> uuid \<Rightarrow> patch_user_dto \<Rightarrow> ('w, goerr option) op" where
  [reconcile_defs]: "user_patch env kc i p = call (EvUserPatch kc i p) (a_user_patch (api env) kc i p)"

definition user_associate_key ::
    "'w env \<Rightarrow> keyline_client \<Rightarrow> uuid \<Rightarrow> associate_key_dto \<Rightarrow> ('w, goerr option) op" where
  [reconcile_defs]: "user_associate_key env kc i dto =
     call (EvKeyAssociate kc i dto) (a_user_associate_key (api env) kc i dto)"

definition user_remove_key :: "'w env \<Rightarrow> keyline_client \<Rightarrow> uuid \<Rightarrow> string \<Rightarrow> ('w, goerr option) op" where
  [reconcile_defs]: "user_remove_key env kc i kid =
     call (EvKeyRemove kc i kid) (a_user_remove_key (api env) kc i kid)"

definition metav1_Now :: "'w env \<Rightarrow> ('w, time) op" where
  [reconcile_defs]: "metav1_Now env = silent (l_now (lib env))"

end
