(* ===== verification/Helpers.thy ===== *)
theory Helpers
  imports Operator_Env
begin

text \<open>
  \<^verbatim>\<open>internal/controller/result.go\<close> and \<^verbatim>\<open>helpers.go\<close>: the results of a reconcile, the status
  patcher, the operator's Keyline client, and reading Secrets. The second half states what the
  code relies on of the API machinery, and the trace monitors in which the properties of
  the reconcilers are written.
\<close>

section \<open>Constants of the package\<close>

definition requeueAfter :: int where
  "requeueAfter = 30 * 1000000000"

definition credentialsSecret :: string where
  "credentialsSecret = ''-operator-credentials''"

definition operatorUsername :: string where
  "operatorUsername = ''keyline-operator''"

definition operatorApplication :: string where
  "operatorApplication = ''keyline-operator''"

definition defaultVirtualServer :: string where
  "defaultVirtualServer = ''keyline''"

section \<open>Reconcile results (result.go)\<close>

text \<open>
  A reconcile either returns a \<^verbatim>\<open>ctrl.Result\<close> with an \<^verbatim>\<open>error\<close>, or panics on a nil
  dereference. Durations are nanoseconds.
\<close>

record ctrl_result =
  res_requeue_after :: int

datatype outcome = Panicked | Returned ctrl_result "goerr option"

definition ReconcileSuccess :: outcome where
  "ReconcileSuccess = Returned \<lparr>res_requeue_after = 0\<rparr> None"

definition ReconcileError :: "goerr option \<Rightarrow> outcome" where
  "ReconcileError err = Returned \<lparr>res_requeue_after = 0\<rparr> err"

definition ReconcileErrorf :: "string \<Rightarrow> goerr \<Rightarrow> outcome" where
  "ReconcileErrorf prefix err = Returned \<lparr>res_requeue_after = 0\<rparr> (Some (WrapError prefix err))"

definition ReconcileAfter :: "int \<Rightarrow> outcome" where
  "ReconcileAfter d = Returned \<lparr>res_requeue_after = d\<rparr> None"

lemmas result_defs = ReconcileSuccess_def ReconcileError_def ReconcileErrorf_def ReconcileAfter_def

section \<open>The status patcher (helpers.go)\<close>

text \<open>
  The Go struct holds pointers to the object under reconciliation and to its condition slice, and
  a deep copy of the object as it was read. Here the current value of the object is passed to
  \<^verbatim>\<open>setReady\<close> and \<^verbatim>\<open>setNotReady\<close>, and the pointer to the conditions is the field update on it.
\<close>

record 'o status_patcher =
  sp_inject :: "'o \<Rightarrow> k8s_object"
  sp_conditions :: "(condition list \<Rightarrow> condition list) \<Rightarrow> 'o \<Rightarrow> 'o"
  sp_base :: 'o

definition newStatusPatcher ::
    "('o \<Rightarrow> k8s_object) \<Rightarrow> 'o \<Rightarrow> ((condition list \<Rightarrow> condition list) \<Rightarrow> 'o \<Rightarrow> 'o) \<Rightarrow> 'o status_patcher" where
  "newStatusPatcher inject obj conditions =
     \<lparr>sp_inject = inject, sp_conditions = conditions, sp_base = obj\<rparr>"

definition setNotReadyCondition ::
    "'w env \<Rightarrow> 'o status_patcher \<Rightarrow> 'o \<Rightarrow> string \<Rightarrow> string \<Rightarrow> ('w, outcome) op" where
  "setNotReadyCondition env sp obj reason msg = do {
     t \<leftarrow> metav1_Now env;
     let obj' = sp_conditions sp (\<lambda>cs. l_set_status_condition (lib env) cs
                  \<lparr>cond_type = ConditionReady, cond_status = ConditionFalse, cond_reason = reason,
                   cond_message = msg, cond_last_transition_time = t\<rparr>) obj;
     err \<leftarrow> patch_status env (sp_inject sp obj') (sp_inject sp (sp_base sp));
     State_Monad.return (case err of
         Some e \<Rightarrow> ReconcileErrorf ''updating status'' e
       | None \<Rightarrow> ReconcileAfter requeueAfter)
   }"

definition setReadyCondition ::
    "'w env \<Rightarrow> 'o status_patcher \<Rightarrow> 'o \<Rightarrow> string \<Rightarrow> string \<Rightarrow> ('w, outcome) op" where
  "setReadyCondition env sp obj reason msg = do {
     t \<leftarrow> metav1_Now env;
     let obj' = sp_conditions sp (\<lambda>cs. l_set_status_condition (lib env) cs
                  \<lparr>cond_type = ConditionReady, cond_status = ConditionTrue, cond_reason = reason,
                   cond_message = msg, cond_last_transition_time = t\<rparr>) obj;
     err \<leftarrow> patch_status env (sp_inject sp obj') (sp_inject sp (sp_base sp));
     State_Monad.return (case err of
         Some e \<Rightarrow> ReconcileErrorf ''updating status'' e
       | None \<Rightarrow> ReconcileAfter requeueAfter)
   }"

definition setNotReady ::
    "'w env \<Rightarrow> 'o status_patcher \<Rightarrow> 'o \<Rightarrow> string \<Rightarrow> string \<Rightarrow> ('w, outcome) op" where
  "setNotReady env sp obj reason msg = setNotReadyCondition env sp obj reason msg"

definition setReady ::
    "'w env \<Rightarrow> 'o status_patcher \<Rightarrow> 'o \<Rightarrow> string \<Rightarrow> string \<Rightarrow> ('w, outcome) op" where
  "setReady env sp obj reason msg = setReadyCondition env sp obj reason msg"

section \<open>The Keyline client, Keyline errors, Secrets (helpers.go)\<close>

definition newOperatorClient ::
    "'w env \<Rightarrow> string \<Rightarrow> keyline_instance \<Rightarrow> string \<Rightarrow> ('w, goerr + keyline_client) op" where
  "newOperatorClient env namespace inst virtualServerName = do {
     r \<leftarrow> get_secret env (nname namespace (om_name (inst_meta inst) @ credentialsSecret));
     State_Monad.return (case r of
       Inl err \<Rightarrow> Inl (WrapError ''reading credentials secret'' err)
     | Inr sec \<Rightarrow>
         let vs = inst_virtual_server (inst_spec inst);
             vs' = (if vs = [] then defaultVirtualServer else vs);
             ts = \<lparr>ts_keyline_url = inst_url (inst_status inst),
                   ts_virtual_server = vs',
                   ts_priv_key_pem = sec_get sec ''private-key'',
                   ts_kid = sec_get sec ''key-id'',
                   ts_username = sec_get sec ''username'',
                   ts_application = operatorApplication\<rparr>
         in Inr \<lparr>kc_base_url = inst_url (inst_status inst), kc_virtual_server = virtualServerName,
                 kc_token_source = ts\<rparr>)
   }"

definition isApiNotFound :: "goerr \<Rightarrow> bool" where
  "isApiNotFound err = (case errors_As_ApiError err of Some (code, msg) \<Rightarrow> code = 404 | None \<Rightarrow> False)"

fun secret_values :: "secret \<Rightarrow> string \<Rightarrow> string list \<Rightarrow> goerr + string list" where
  "secret_values sec name [] = Inr []"
| "secret_values sec name (key # keys) =
     (case map_of (sec_data sec) key of
        None \<Rightarrow> Inl (PlainError (''secret '' @ name @ '' missing key '' @ go_quote key))
      | Some v \<Rightarrow> (case secret_values sec name keys of Inl err \<Rightarrow> Inl err | Inr vs \<Rightarrow> Inr (v # vs)))"

definition resolveSecret ::
    "'w env \<Rightarrow> string \<Rightarrow> string \<Rightarrow> string list \<Rightarrow> ('w, goerr + string list) op" where
  "resolveSecret env namespace name keys = do {
     r \<leftarrow> get_secret env (nname namespace name);
     State_Monad.return (case r of
       Inl err \<Rightarrow> Inl (WrapError (''reading secret '' @ name) err)
     | Inr sec \<Rightarrow> secret_values sec name keys)
   }"

section \<open>Running the helpers\<close>

definition condition_with :: "condition_status \<Rightarrow> string \<Rightarrow> string \<Rightarrow> time \<Rightarrow> condition" where
  "condition_with st reason msg t =
     \<lparr>cond_type = ConditionReady, cond_status = st, cond_reason = reason,
      cond_message = msg, cond_last_transition_time = t\<rparr>"

definition patch_outcome :: "goerr option \<Rightarrow> outcome" where
  "patch_outcome err =
     (case err of None \<Rightarrow> Returned \<lparr>res_requeue_after = requeueAfter\<rparr> None
      | Some e \<Rightarrow> Returned \<lparr>res_requeue_after = 0\<rparr> (Some (WrapError ''updating status'' e)))"

text \<open>The object a setter patches: the current one with its Ready condition set.\<close>

definition reported ::
    "'w env \<Rightarrow> 'o status_patcher \<Rightarrow> 'o \<Rightarrow> condition_status \<Rightarrow> string \<Rightarrow> string \<Rightarrow> time \<Rightarrow> k8s_object" where
  "reported env sp obj st reason msg t =
     sp_inject sp (sp_conditions sp (\<lambda>cs. l_set_status_condition (lib env) cs (condition_with st reason msg t)) obj)"

text \<open>What the two setters share: one status patch, whose answer decides the result.\<close>

definition finish ::
    "'w env \<Rightarrow> 'o status_patcher \<Rightarrow> 'o \<Rightarrow> condition_status \<Rightarrow> string \<Rightarrow> string \<Rightarrow> 'w st \<Rightarrow> outcome \<times> 'w st" where
  "finish env sp obj st reason msg s =
     (case l_now (lib env) (st_world s) of (t, w) \<Rightarrow>
        let o' = reported env sp obj st reason msg t;
            b = sp_inject sp (sp_base sp)
        in case k_patch_status (kube env) o' b w of (err, w') \<Rightarrow>
          (patch_outcome err, \<lparr>st_world = w', st_trace = st_trace s @ [EvStatusPatch o' b err]\<rparr>))"

lemma run_setNotReady:
  "run_state (setNotReady env sp obj reason msg) s = finish env sp obj ConditionFalse reason msg s"
  by (auto simp: setNotReady_def setNotReadyCondition_def finish_def condition_with_def reported_def
      patch_outcome_def result_defs reconcile_defs run_simps Let_def split: prod.splits option.splits)

lemma run_setReady:
  "run_state (setReady env sp obj reason msg) s = finish env sp obj ConditionTrue reason msg s"
  by (auto simp: setReady_def setReadyCondition_def finish_def condition_with_def reported_def
      patch_outcome_def result_defs reconcile_defs run_simps Let_def split: prod.splits option.splits)

section \<open>What the helpers promise\<close>

text \<open>
  Reading keys of a Secret is all or nothing. With every key present it returns their values in
  the order asked for; otherwise it fails, and the error names the first missing key.
\<close>

theorem secret_values_all_or_first_missing:
  "secret_values sec name keys =
     (case find (\<lambda>k. map_of (sec_data sec) k = None) keys of
        None \<Rightarrow> Inr (map (sec_get sec) keys)
      | Some k \<Rightarrow> Inl (PlainError (''secret '' @ name @ '' missing key '' @ go_quote k)))"
  by (induction keys) (auto simp: sec_get_def split: option.splits)

text \<open>
  Whether an error counts as a Keyline 404 does not depend on the messages it was wrapped in: it
  does exactly when the error below all wrappers is the API's own with code 404. An
  error of the Kubernetes client never does.
\<close>

theorem isApiNotFound_through_wrapping:
  "isApiNotFound (foldr WrapError prefixes err) = isApiNotFound err \<and>
   isApiNotFound (ApiError code msg) = (code = 404) \<and>
   \<not> isApiNotFound (KubeError reason msg) \<and> \<not> isApiNotFound (PlainError msg)"
  by (induction prefixes) (simp_all add: isApiNotFound_def)

end
