(* ===== verification/Keyline_Config.thy ===== *)
theory Keyline_Config
  imports Helpers Sha256
begin

text \<open>
  \<^verbatim>\<open>internal/controller/keylineconfig.go\<close>: the Keyline configuration the operator renders for an
  instance. \<^verbatim>\<open>buildKeylineConfig\<close> dereferences \<^verbatim>\<open>Spec.Database.Postgres\<close> for every database mode
  other than memory and \<^verbatim>\<open>Spec.KeyStore.Vault\<close> for key-store mode vault, so its result is
  \<open>Panic\<close> where such a pointer is nil. The rendering itself is \<^verbatim>\<open>yaml.Marshal\<close>, a parameter.
\<close>

datatype 'a go = Panic | Ret 'a

section \<open>Constants\<close>

definition keyDirPath :: string where
  "keyDirPath = ''/keys''"

definition configFilePath :: string where
  "configFilePath = ''/etc/keyline/config.yaml''"

definition keylinePort :: nat where
  "keylinePort = 8080"

definition defaultDatabaseName :: string where
  "defaultDatabaseName = ''keyline''"

definition keylineAppName :: string where
  "keylineAppName = ''keyline''"

definition keyStoreModeDirectory :: string where
  "keyStoreModeDirectory = ''directory''"

section \<open>The configuration\<close>

definition virtual_server_name :: "keyline_instance \<Rightarrow> string" where
  "virtual_server_name inst =
     (let vs = inst_virtual_server (inst_spec inst) in if vs = [] then defaultVirtualServer else vs)"

definition build_database_config :: "keyline_instance \<Rightarrow> string \<Rightarrow> string \<Rightarrow> database_config go" where
  "build_database_config inst dbUser dbPass =
     (if db_mode (inst_database (inst_spec inst)) = ''memory''
      then Ret \<lparr>dbc_mode = DatabaseModeMemory, dbc_postgres = zero_postgres_config\<rparr>
      else (case db_postgres (inst_database (inst_spec inst)) of
        None \<Rightarrow> Panic
      | Some pg \<Rightarrow>
          let pgPort = (if sint (pg_port pg) = 0 then 5432 else sint (pg_port pg));
              dbName = (if pg_database pg = [] then defaultDatabaseName else pg_database pg);
              sslMode = (if pg_ssl_mode pg = [] then ''enable'' else pg_ssl_mode pg)
          in Ret \<lparr>dbc_mode = DatabaseModePostgres,
                 dbc_postgres = \<lparr>pc_host = pg_host pg, pc_port = pgPort, pc_database = dbName,
                                 pc_username = dbUser, pc_password = dbPass, pc_ssl_mode = sslMode\<rparr>\<rparr>))"

definition build_key_store_config :: "keyline_instance \<Rightarrow> string \<Rightarrow> key_store_config go" where
  "build_key_store_config inst vaultToken =
     (let ks = inst_key_store (inst_spec inst) in
      if ks_mode ks = keyStoreModeDirectory
      then Ret (zero_key_store_config\<lparr>ksc_mode := KeyStoreModeDirectory, ksc_directory_path := keyDirPath\<rparr>)
      else if ks_mode ks = ''vault''
      then (case ks_vault ks of
              None \<Rightarrow> Panic
            | Some v \<Rightarrow> Ret (zero_key_store_config\<lparr>ksc_mode := KeyStoreModeVault,
                ksc_vault := \<lparr>vks_address = vault_address v, vks_token = vaultToken,
                              vks_mount = vault_mount v, vks_prefix = vault_prefix v\<rparr>\<rparr>))
      else Ret zero_key_store_config)"

definition build_config ::
    "keyline_instance \<Rightarrow> string \<Rightarrow> string \<Rightarrow> string \<Rightarrow> string \<Rightarrow> string \<Rightarrow> keyline_config go" where
  "build_config inst pubKeyPEM kid dbUser dbPass vaultToken =
     (case build_database_config inst dbUser dbPass of
        Panic \<Rightarrow> Panic
      | Ret dbCfg \<Rightarrow> (case build_key_store_config inst vaultToken of
          Panic \<Rightarrow> Panic
        | Ret ksCfg \<Rightarrow> Ret
           \<lparr>cfg_server = \<lparr>sc_host = ''0.0.0.0'', sc_port = int keylinePort,
              sc_external_url = inst_external_url (inst_spec inst),
              sc_allowed_origins = [inst_external_url (inst_spec inst),
                                    inst_frontend_external_url (inst_spec inst)]\<rparr>,
            cfg_frontend_external_url = inst_frontend_external_url (inst_spec inst),
            cfg_database = dbCfg,
            cfg_initial_virtual_server =
              \<lparr>ivs_name = virtual_server_name inst,
               ivs_enable_registration = False,
               ivs_primary_signing_algorithm = SigningAlgorithmEdDSA,
               ivs_create_system_admin_role = True,
               ivs_create_admin = False,
               ivs_service_users =
                 [\<lparr>suc_username = operatorUsername,
                   suc_roles = [''system:admin'', ''system:system-admin''],
                   suc_public_key_pem = pubKeyPEM, suc_public_key_kid = kid\<rparr>],
               ivs_projects =
                 [\<lparr>ipc_slug = ''operator'', ipc_name = ''Operator'',
                   ipc_applications = [\<lparr>iac_name = operatorApplication,
                     iac_display_name = ''Keyline Operator'', iac_type = ''public''\<rparr>]\<rparr>]\<rparr>,
            cfg_cache_mode = CacheModeMemory,
            cfg_leader_election_mode = LeaderElectionModeNone,
            cfg_key_store = ksCfg\<rparr>))"

definition buildKeylineConfig ::
    "'w env \<Rightarrow> keyline_instance \<Rightarrow> string \<Rightarrow> string \<Rightarrow> string \<Rightarrow> string \<Rightarrow> string \<Rightarrow>
     (goerr + string \<times> string) go" where
  "buildKeylineConfig env inst pubKeyPEM kid dbUser dbPass vaultToken =
     (case build_config inst pubKeyPEM kid dbUser dbPass vaultToken of
        Panic \<Rightarrow> Panic
      | Ret cfg \<Rightarrow> Ret (case l_yaml_marshal (lib env) cfg of
          Inl err \<Rightarrow> Inl (WrapError ''marshaling keyline config'' err)
        | Inr data \<Rightarrow> Inr (data, hex_bytes (sha256 data))))"

section \<open>When the configuration can be built\<close>

text \<open>The nil dereferences of \<^verbatim>\<open>buildKeylineConfig\<close>, as a condition on the spec.\<close>

definition derefs_nil :: "instance_spec \<Rightarrow> bool" where
  "derefs_nil sp \<longleftrightarrow>
     (db_mode (inst_database sp) \<noteq> ''memory'' \<and> db_postgres (inst_database sp) = None) \<or>
     (ks_mode (inst_key_store sp) = ''vault'' \<and> ks_vault (inst_key_store sp) = None)"

lemma build_config_Panic_iff:
  "build_config inst pub kid u p t = Panic \<longleftrightarrow> derefs_nil (inst_spec inst)"
  by (auto simp: build_config_def build_database_config_def build_key_store_config_def
      derefs_nil_def keyStoreModeDirectory_def Let_def split: go.splits option.splits if_splits)

lemma buildKeylineConfig_Panic_iff:
  "buildKeylineConfig env inst pub kid u p t = Panic \<longleftrightarrow> derefs_nil (inst_spec inst)"
  by (simp add: buildKeylineConfig_def flip: build_config_Panic_iff [of _ pub kid u p t] split: go.splits)

lemma buildKeylineConfig_hash:
  "buildKeylineConfig env inst pub kid u p t = Ret (Inr (data, h)) \<Longrightarrow> h = hex_bytes (sha256 data)"
  by (auto simp: buildKeylineConfig_def split: go.splits sum.splits)

text \<open>
  Building the configuration panics exactly on the two nil dereferences: a database mode other
  than memory without a postgres section, or key-store mode vault without a vault section.
  Otherwise it returns, with data or with an error.
\<close>

theorem config_panics_exactly:
  "(buildKeylineConfig env inst pub kid u p t = Panic) =
     ((db_mode (inst_database (inst_spec inst)) \<noteq> ''memory'' \<and> db_postgres (inst_database (inst_spec inst)) = None) \<or>
      (ks_mode (inst_key_store (inst_spec inst)) = ''vault'' \<and> ks_vault (inst_key_store (inst_spec inst)) = None))"
  unfolding buildKeylineConfig_Panic_iff derefs_nil_def by (rule refl)

definition database_defaults_ok :: "keyline_instance \<Rightarrow> string \<Rightarrow> string \<Rightarrow> database_config \<Rightarrow> bool" where
  "database_defaults_ok inst u p c =
     (case dbc_mode c of
        DatabaseModeMemory \<Rightarrow>
          db_mode (inst_database (inst_spec inst)) = ''memory'' \<and> dbc_postgres c = zero_postgres_config
      | DatabaseModePostgres \<Rightarrow>
          (case db_postgres (inst_database (inst_spec inst)) of
             None \<Rightarrow> False
           | Some pg \<Rightarrow>
               db_mode (inst_database (inst_spec inst)) \<noteq> ''memory'' \<and>
               pc_port (dbc_postgres c) = (if pg_port pg = 0 then 5432 else sint (pg_port pg)) \<and>
               pc_port (dbc_postgres c) \<noteq> 0 \<and>
               - (2 ^ 31) \<le> pc_port (dbc_postgres c) \<and> pc_port (dbc_postgres c) < 2 ^ 31 \<and>
               pc_database (dbc_postgres c) = (if pg_database pg = [] then ''keyline'' else pg_database pg) \<and>
               pc_ssl_mode (dbc_postgres c) = (if pg_ssl_mode pg = [] then ''enable'' else pg_ssl_mode pg) \<and>
               pc_host (dbc_postgres c) = pg_host pg \<and>
               pc_username (dbc_postgres c) = u \<and> pc_password (dbc_postgres c) = p))"

lemma sint32_range: "- (2 ^ 31) \<le> sint (x :: 32 word)" "sint (x :: 32 word) < 2 ^ 31"
  using sint_greater_eq [of x] sint_less [of x] by simp_all

text \<open>
  C34: the defaults of the database section. In memory mode it is the memory configuration, whatever
  else the spec says. Otherwise an unset port is 5432, an unset database name is \<^verbatim>\<open>keyline\<close>, an unset SSL
  mode is \<^verbatim>\<open>enable\<close>, and values the spec sets are kept; so the port is never 0 and stays in the range of
  the 32-bit field. The host is the spec's and the credentials are the ones read from the Secret.
\<close>

theorem database_defaults:
  "case build_database_config inst u p of
     Panic \<Rightarrow> db_postgres (inst_database (inst_spec inst)) = None
   | Ret c \<Rightarrow> database_defaults_ok inst u p c"
proof (cases "db_mode (inst_database (inst_spec inst)) = ''memory''")
  case True
  then show ?thesis by (simp add: build_database_config_def database_defaults_ok_def)
next
  case False
  then show ?thesis
    using sint32_range
    by (auto simp: build_database_config_def database_defaults_ok_def defaultDatabaseName_def Let_def signed_eq_0_iff
        split: option.split)
qed

lemma hex_digits: "n < 16 \<Longrightarrow> hex_digit n \<in> set ''0123456789abcdef''"
proof -
  assume "n < 16"
  then have "n \<in> set [0..<16]" by simp
  moreover have "\<forall>m \<in> set [0..<16]. hex_digit m \<in> set ''0123456789abcdef''" by code_simp
  ultimately show ?thesis by blast
qed

lemma hex_bytes_digits: "list_all (\<lambda>c. c \<in> set ''0123456789abcdef'') (hex_bytes bs)"
proof -
  define H where "H = set ''0123456789abcdef''"
  have "hex_digit (of_char c div 16) \<in> H \<and> hex_digit (of_char c mod 16) \<in> H" for c
    unfolding H_def using nat_of_char_less_256 [of c]
    by (intro conjI hex_digits) (auto intro: less_mult_imp_div_less)
  then have "list_all (\<lambda>c. c \<in> H) (hex_bytes bs)"
    by (induction bs) (simp_all add: hex_bytes_def)
  then show ?thesis unfolding H_def .
qed

text \<open>
  A configuration that was built is the rendering of the configuration record, and its hash is
  the SHA-256 of exactly those bytes in lower-case hexadecimal: 64 digits.
\<close>

theorem config_hash:
  "case buildKeylineConfig env inst pub kid u p t of
     Ret (Inr (data, h)) \<Rightarrow>
       h = hex_bytes (sha256 data) \<and> length h = 64 \<and> list_all (\<lambda>c. c \<in> set ''0123456789abcdef'') h \<and>
       (case build_config inst pub kid u p t of Panic \<Rightarrow> False | Ret cfg \<Rightarrow> l_yaml_marshal (lib env) cfg = Inr data)
   | Ret (Inl err) \<Rightarrow> True
   | Panic \<Rightarrow> derefs_nil (inst_spec inst)"
proof -
  note digits = hex_bytes_digits
  show ?thesis
    using digits buildKeylineConfig_Panic_iff [of env inst pub kid u p t]
    by (auto simp: buildKeylineConfig_def length_hex_bytes length_sha256 split: go.splits sum.splits)
qed

end
