(* ===== verification/Reconciler.thy ===== *)
theory Reconciler
  imports Helpers
begin

text \<open>
  The contract every reconciler of the operator keeps, as a locale, and the means to prove it:
  inversion rules for running an action, and the trace monitors (executable predicates on the
  log of calls) in which the properties of the reconcilers are stated.
\<close>

section \<open>Running an action\<close>

text \<open>
  \<open>post m Q\<close>: from every state, whatever the environment answers, the action extends the log by
  events that satisfy \<open>Q\<close> together with the result. The rules below compute such a
  statement from the text of the action, one branch at a time, with the events of the branch as
  an explicit list.
\<close>

declare run_state_bind [simp del]

definition post :: "('w, 'a) op \<Rightarrow> ('a \<Rightarrow> event list \<Rightarrow> bool) \<Rightarrow> bool" where
  "post m Q \<longleftrightarrow>
     (\<forall>s. \<exists>evs. st_trace (snd (run_state m s)) = st_trace s @ evs \<and> Q (fst (run_state m s)) evs)"

named_theorems post_intros \<open>rules that compute the events of an action\<close>

lemma postD: "post m Q \<Longrightarrow> run_state m (start w) = (a, s') \<Longrightarrow> Q a (st_trace s')"
  by (auto simp: post_def dest!: spec [of _ "start w"])

lemma post_mono: "post m R \<Longrightarrow> (\<And>a evs. R a evs \<Longrightarrow> Q a evs) \<Longrightarrow> post m Q"
  unfolding post_def by blast

lemma post_conj: "post m Q \<Longrightarrow> post m R \<Longrightarrow> post m (\<lambda>a evs. Q a evs \<and> R a evs)"
  by (auto simp: post_def) (metis same_append_eq)

lemma post_bind:
  assumes m: "post m R"
    and f: "\<And>a evs. R a evs \<Longrightarrow> post (f a) (\<lambda>b evs'. Q b (evs @ evs'))"
  shows "post (State_Monad.bind m f) Q"
  unfolding post_def
proof
  fix s
  obtain a s1 where 1: "run_state m s = (a, s1)" by (cases "run_state m s")
  with m obtain evs where 2: "st_trace s1 = st_trace s @ evs" "R a evs"
    by (auto simp: post_def dest!: spec [of _ s])
  obtain b s2 where 3: "run_state (f a) s1 = (b, s2)" by (cases "run_state (f a) s1")
  with f [OF 2(2)] obtain evs' where "st_trace s2 = st_trace s1 @ evs'" "Q b (evs @ evs')"
    by (auto simp: post_def dest!: spec [of _ s1])
  with 1 2 3 show "\<exists>evs. st_trace (snd (run_state (State_Monad.bind m f) s)) = st_trace s @ evs \<and>
      Q (fst (run_state (State_Monad.bind m f) s)) evs"
    by (auto simp: run_state_bind)
qed

lemma post_return [post_intros]: "Q a [] \<Longrightarrow> post (State_Monad.return a) Q"
  by (simp add: post_def)

lemma post_call [post_intros]: "(\<And>a. Q a [ev a]) \<Longrightarrow> post (call ev f) Q"
  by (auto simp: post_def run_call split: prod.splits)

lemma post_silent: "(\<And>a. Q a []) \<Longrightarrow> post (silent f) Q"
  by (auto simp: post_def run_silent split: prod.splits)

lemma post_bind_return [post_intros]:
  "post (f a) Q \<Longrightarrow> post (State_Monad.bind (State_Monad.return a) f) Q"
  by simp

lemma post_bind_call:
  "(\<And>a. post (f a) (\<lambda>b evs. Q b (ev a # evs))) \<Longrightarrow> post (State_Monad.bind (call ev c) f) Q"
  by (rule post_bind [where R = "\<lambda>a evs. evs = [ev a]"]) (auto intro: post_call)

lemma post_bind_call_sum [post_intros]:
  "(\<And>e. post (f e) (\<lambda>b evs. Q b (ev (Inl e) # evs))) \<Longrightarrow>
   (\<And>x. post (g x) (\<lambda>b evs. Q b (ev (Inr x) # evs))) \<Longrightarrow>
   post (State_Monad.bind (call ev c) (case_sum f g)) Q"
  by (rule post_bind_call) (auto split: sum.split)

lemma post_bind_call_option [post_intros]:
  "post g (\<lambda>b evs. Q b (ev None # evs)) \<Longrightarrow>
   (\<And>x. post (f x) (\<lambda>b evs. Q b (ev (Some x) # evs))) \<Longrightarrow>
   post (State_Monad.bind (call ev c) (case_option g f)) Q"
  by (rule post_bind_call) (auto split: option.split)

lemma post_bind_call_return_sum [post_intros]:
  "(\<And>e. Q (f e) [ev (Inl e)]) \<Longrightarrow> (\<And>x. Q (g x) [ev (Inr x)]) \<Longrightarrow>
   post (State_Monad.bind (call ev c) (\<lambda>r. State_Monad.return (case_sum f g r))) Q"
  by (rule post_bind_call) (auto intro: post_return split: sum.split)

lemma post_bind_call_return_option [post_intros]:
  "Q g [ev None] \<Longrightarrow> (\<And>x. Q (f x) [ev (Some x)]) \<Longrightarrow>
   post (State_Monad.bind (call ev c) (\<lambda>r. State_Monad.return (case_option g f r))) Q"
  by (rule post_bind_call) (auto intro: post_return split: option.split)

lemma post_bind_silent [post_intros]:
  "(\<And>a. post (f a) Q) \<Longrightarrow> post (State_Monad.bind (silent c) f) Q"
  by (rule post_bind [where R = "\<lambda>a evs. evs = []"]) (auto intro: post_silent)

lemma post_if [post_intros]:
  "(P \<Longrightarrow> post m Q) \<Longrightarrow> (\<not> P \<Longrightarrow> post n Q) \<Longrightarrow> post (if P then m else n) Q"
  by simp

lemma post_case_sum [post_intros]:
  "(\<And>e. r = Inl e \<Longrightarrow> post (f e) Q) \<Longrightarrow> (\<And>x. r = Inr x \<Longrightarrow> post (g x) Q) \<Longrightarrow>
   post (case_sum f g r) Q"
  by (cases r) auto

lemma post_case_option [post_intros]:
  "(r = None \<Longrightarrow> post g Q) \<Longrightarrow> (\<And>x. r = Some x \<Longrightarrow> post (f x) Q) \<Longrightarrow>
   post (case_option g f r) Q"
  by (cases r) auto

lemma post_case_prod [post_intros]:
  "(\<And>x y. p = (x, y) \<Longrightarrow> post (f x y) Q) \<Longrightarrow> post (case_prod f p) Q"
  by (cases p) auto

lemma post_Let [post_intros]: "(\<And>x. x = a \<Longrightarrow> post (f x) Q) \<Longrightarrow> post (Let a f) Q"
  by simp

lemma post_finish:
  "(\<And>t err. Q (patch_outcome err)
      [EvStatusPatch (reported env sp obj st reason msg t) (sp_inject sp (sp_base sp)) err]) \<Longrightarrow>
   post (State (finish env sp obj st reason msg)) Q"
  by (auto simp: post_def finish_def Let_def split: prod.splits)

lemma post_setNotReady [post_intros]:
  assumes "\<And>t err. Q (patch_outcome err)
      [EvStatusPatch (reported env sp obj ConditionFalse reason msg t) (sp_inject sp (sp_base sp)) err]"
  shows "post (setNotReady env sp obj reason msg) Q"
proof -
  have "post (State (finish env sp obj ConditionFalse reason msg)) Q"
    by (rule post_finish) (rule assms)
  then show ?thesis by (simp add: post_def run_setNotReady)
qed

lemma post_setReady [post_intros]:
  assumes "\<And>t err. Q (patch_outcome err)
      [EvStatusPatch (reported env sp obj ConditionTrue reason msg t) (sp_inject sp (sp_base sp)) err]"
  shows "post (setReady env sp obj reason msg) Q"
proof -
  have "post (State (finish env sp obj ConditionTrue reason msg)) Q"
    by (rule post_finish) (rule assms)
  then show ?thesis by (simp add: post_def run_setReady)
qed

text \<open>The operator's client is one Get of the credentials Secret.\<close>

definition operator_client :: "keyline_instance \<Rightarrow> string \<Rightarrow> secret \<Rightarrow> keyline_client" where
  "operator_client inst virtualServerName sec =
     \<lparr>kc_base_url = inst_url (inst_status inst), kc_virtual_server = virtualServerName,
      kc_token_source =
        \<lparr>ts_keyline_url = inst_url (inst_status inst),
         ts_virtual_server =
           (if inst_virtual_server (inst_spec inst) = [] then defaultVirtualServer
            else inst_virtual_server (inst_spec inst)),
         ts_priv_key_pem = sec_get sec ''private-key'', ts_kid = sec_get sec ''key-id'',
         ts_username = sec_get sec ''username'', ts_application = operatorApplication\<rparr>\<rparr>"

definition client_secret_name :: "string \<Rightarrow> keyline_instance \<Rightarrow> namespaced_name" where
  "client_secret_name ns inst = nname ns (om_name (inst_meta inst) @ credentialsSecret)"

lemma post_bind_newOperatorClient [post_intros]:
  assumes "\<And>e. post (f (WrapError ''reading credentials secret'' e))
      (\<lambda>b evs. Q b (EvGet KSecret (client_secret_name ns inst) (Inl e) # evs))"
    and "\<And>sec. post (g (operator_client inst vsName sec))
      (\<lambda>b evs. Q b (EvGet KSecret (client_secret_name ns inst) (Inr (ObjSecret sec)) # evs))"
  shows "post (State_Monad.bind (newOperatorClient env ns inst vsName) (case_sum f g)) Q"
  using assms
  by (auto simp: newOperatorClient_def get_secret_def client_secret_name_def operator_client_def Let_def
      intro!: post_bind_call split: sum.split)

section \<open>Monitors\<close>

fun is_status_patch :: "event \<Rightarrow> bool" where
  "is_status_patch (EvStatusPatch obj base err) = True"
| "is_status_patch _ = False"

text \<open>The calls of the Keyline management API, and those among them that change Keyline.\<close>

fun is_api_call :: "event \<Rightarrow> bool" where
  "is_api_call (EvGet k nn r) = False"
| "is_api_call (EvCreate x err) = False"
| "is_api_call (EvCreateOrUpdate x err) = False"
| "is_api_call (EvStatusPatch obj base err) = False"
| "is_api_call (EvToken ts r) = False"
| "is_api_call _ = True"

fun is_api_write :: "event \<Rightarrow> bool" where
  "is_api_write (EvVirtualServerPatch kc p err) = True"
| "is_api_write (EvProjectCreate kc dto err) = True"
| "is_api_write (EvRolePatch kc slug i p err) = True"
| "is_api_write (EvRoleCreate kc slug dto r) = True"
| "is_api_write (EvRoleAssign kc slug i u err) = True"
| "is_api_write (EvApplicationPatch kc slug i p err) = True"
| "is_api_write (EvApplicationCreate kc slug dto r) = True"
| "is_api_write (EvUserCreate kc name r) = True"
| "is_api_write (EvUserPatch kc i p err) = True"
| "is_api_write (EvKeyAssociate kc i dto err) = True"
| "is_api_write (EvKeyRemove kc i kid err) = True"
| "is_api_write _ = False"

text \<open>
  The status discipline. A reconcile first reads its own object. When that fails nothing else is
  called, and the error is returned unless it is a not-found. Otherwise, unless it panics, it
  ends with exactly one patch of the status, of that object and against that object as read, and
  the answer to the patch decides the result: requeue after 30 seconds, or the error.
\<close>

definition ends_with_patch :: "k8s_object \<Rightarrow> outcome \<Rightarrow> event list \<Rightarrow> bool" where
  "ends_with_patch obj out evs \<longleftrightarrow>
     evs \<noteq> [] \<and> list_all (\<lambda>e. \<not> is_status_patch e) (butlast evs) \<and>
     (case last evs of
        EvStatusPatch obj' base err \<Rightarrow>
          base = obj \<and> object_kind obj' = object_kind obj \<and> object_meta_of obj' = object_meta_of obj \<and>
          out = patch_outcome err
      | _ \<Rightarrow> False)"

fun status_discipline ::
    "kind \<Rightarrow> namespaced_name \<Rightarrow> (goerr \<Rightarrow> goerr option) \<Rightarrow> outcome \<Rightarrow> event list \<Rightarrow> bool" where
  "status_discipline k nn ignore out (EvGet k' nn' (Inl err) # evs) \<longleftrightarrow>
     k' = k \<and> nn' = nn \<and> evs = [] \<and> out = ReconcileError (ignore err)"
| "status_discipline k nn ignore out (EvGet k' nn' (Inr obj) # evs) \<longleftrightarrow>
     k' = k \<and> nn' = nn \<and> object_kind obj = k \<and>
     (case out of
        Panicked \<Rightarrow> list_all (\<lambda>e. \<not> is_status_patch e) evs
      | Returned res err \<Rightarrow> ends_with_patch obj out evs)"
| "status_discipline k nn ignore out _ \<longleftrightarrow> False"

text \<open>
  The gates. \<open>refs_of ns obj\<close> are the objects that \<open>obj\<close> refers to, which the operator looks up in
  the namespace \<open>ns\<close> of the object it reconciles.
\<close>

fun refs_of :: "string \<Rightarrow> k8s_object \<Rightarrow> (kind \<times> namespaced_name) list" where
  "refs_of ns (ObjVirtualServer x) = [(KInstance, nname ns (ref_name (vs_instance_ref (vs_spec x))))]"
| "refs_of ns (ObjProject x) = [(KVirtualServer, nname ns (ref_name (proj_virtual_server_ref (proj_spec x))))]"
| "refs_of ns (ObjApplication x) = [(KProject, nname ns (ref_name (app_project_ref (app_spec x))))]"
| "refs_of ns (ObjRole x) = [(KProject, nname ns (ref_name (role_project_ref (role_spec x))))]"
| "refs_of ns (ObjUser x) = [(KVirtualServer, nname ns (ref_name (user_virtual_server_ref (user_spec x))))]"
| "refs_of ns (ObjRoleAssignment x) =
     [(KRole, nname ns (ref_name (ra_role_ref (ra_spec x)))),
      (KUser, nname ns (ref_name (ra_user_ref (ra_spec x))))]"
| "refs_of ns _ = []"

definition before_api :: "event list \<Rightarrow> event list" where
  "before_api evs = takeWhile (\<lambda>e. \<not> is_api_call e) evs"

text \<open>The event reads the object \<open>nn\<close> of kind \<open>k\<close>, ready where \<open>k\<close> is one of the \<open>gates\<close>.\<close>

definition reads_gated ::
    "(condition list \<Rightarrow> bool) \<Rightarrow> kind list \<Rightarrow> kind \<times> namespaced_name \<Rightarrow> event \<Rightarrow> bool" where
  "reads_gated rdy gates = (\<lambda>(k, nn) e.
     (case e of
        EvGet k' nn' (Inr obj) \<Rightarrow>
          k' = k \<and> nn' = nn \<and> object_kind obj = k \<and>
          (if k \<in> set gates then rdy (conditions_of obj) else True)
      | _ \<Rightarrow> False))"

text \<open>The references of what the event read, where they are followed, were read among \<open>evs\<close>.\<close>

definition refs_read ::
    "(condition list \<Rightarrow> bool) \<Rightarrow> kind list \<Rightarrow> kind list \<Rightarrow> string \<Rightarrow> event list \<Rightarrow> event \<Rightarrow> bool" where
  "refs_read rdy follow gates ns evs e =
     (case e of
        EvGet k nn (Inr obj) \<Rightarrow>
          (if k \<in> set follow
           then list_all (\<lambda>r. list_ex (reads_gated rdy gates r) evs) (refs_of ns obj)
           else True)
      | _ \<Rightarrow> True)"

text \<open>
  \<open>gated rdy follow gates evs\<close>: before the first call of the Keyline API, the object under
  reconciliation, everything it refers to, and what those refer to in turn were read (for the
  kinds \<open>follow\<close>), and those of the kinds \<open>gates\<close> were ready.
\<close>

definition gated :: "(condition list \<Rightarrow> bool) \<Rightarrow> kind list \<Rightarrow> kind list \<Rightarrow> event list \<Rightarrow> bool" where
  "gated rdy follow gates evs =
     (if list_ex is_api_call evs
      then (case evs of
          EvGet k nn (Inr obj) # _ \<Rightarrow>
            k \<in> set follow \<and>
            list_all (refs_read rdy follow gates (om_namespace (object_meta_of obj)) (before_api evs))
              (before_api evs)
        | _ \<Rightarrow> False)
      else True)"

text \<open>The client a call of the API is made with.\<close>

fun client_of :: "event \<Rightarrow> keyline_client option" where
  "client_of (EvVirtualServerGet kc r) = Some kc"
| "client_of (EvVirtualServerPatch kc p err) = Some kc"
| "client_of (EvProjectGet kc slug err) = Some kc"
| "client_of (EvProjectCreate kc dto err) = Some kc"
| "client_of (EvRoleGet kc slug i r) = Some kc"
| "client_of (EvRolePatch kc slug i p err) = Some kc"
| "client_of (EvRoleList kc slug page sz r) = Some kc"
| "client_of (EvRoleCreate kc slug dto r) = Some kc"
| "client_of (EvRoleListUsers kc slug i page sz r) = Some kc"
| "client_of (EvRoleAssign kc slug i u err) = Some kc"
| "client_of (EvApplicationGet kc slug i r) = Some kc"
| "client_of (EvApplicationPatch kc slug i p err) = Some kc"
| "client_of (EvApplicationList kc slug page sz r) = Some kc"
| "client_of (EvApplicationCreate kc slug dto r) = Some kc"
| "client_of (EvUserGet kc i err) = Some kc"
| "client_of (EvUserList kc page sz r) = Some kc"
| "client_of (EvUserCreate kc name r) = Some kc"
| "client_of (EvUserPatch kc i p err) = Some kc"
| "client_of (EvKeyAssociate kc i dto err) = Some kc"
| "client_of (EvKeyRemove kc i kid err) = Some kc"
| "client_of _ = None"

text \<open>
  \<open>entitled ns evs kc\<close>: the client is the operator's client for an instance that was read, scoped
  to the virtual server that refers to it, with the key of that instance's credentials Secret.
\<close>

definition entitled :: "string \<Rightarrow> event list \<Rightarrow> keyline_client \<Rightarrow> bool" where
  "entitled ns evs kc =
     list_ex (\<lambda>e1. case e1 of EvGet KVirtualServer nn1 (Inr (ObjVirtualServer vs)) \<Rightarrow>
       list_ex (\<lambda>e2. case e2 of EvGet KInstance nn2 (Inr (ObjInstance inst)) \<Rightarrow>
         nn2 = nname ns (ref_name (vs_instance_ref (vs_spec vs))) \<and>
         list_ex (\<lambda>e3. case e3 of EvGet KSecret nn3 (Inr (ObjSecret sec)) \<Rightarrow>
           nn3 = client_secret_name ns inst \<and> kc = operator_client inst (vs_name (vs_spec vs)) sec
         | _ \<Rightarrow> False) evs
       | _ \<Rightarrow> False) evs
     | _ \<Rightarrow> False) evs"

definition clients_entitled :: "event list \<Rightarrow> bool" where
  "clients_entitled evs =
     (case evs of
        EvGet k nn (Inr obj) # _ \<Rightarrow>
          list_all (\<lambda>e. case client_of e of None \<Rightarrow> True
             | Some kc \<Rightarrow> entitled (om_namespace (object_meta_of obj)) (before_api evs) kc) evs
      | _ \<Rightarrow> list_all (\<lambda>e. client_of e = None) evs)"

text \<open>
  Isolation: apart from the object itself, a reconcile reads only objects in its namespace.
\<close>

definition reads_in :: "string \<Rightarrow> event \<Rightarrow> bool" where
  "reads_in ns e = (case e of EvGet k nn r \<Rightarrow> nn_namespace nn = ns | _ \<Rightarrow> True)"

definition isolated :: "event list \<Rightarrow> bool" where
  "isolated evs =
     (case evs of
        EvGet k nn (Inr obj) # rest \<Rightarrow> list_all (reads_in (om_namespace (object_meta_of obj))) rest
      | _ \<Rightarrow> list_all (\<lambda>e. case e of EvGet k nn (Inl err) \<Rightarrow> True | _ \<Rightarrow> False) evs)"

text \<open>Whether the status patched last reports the object as ready.\<close>

definition reports_ready :: "(condition list \<Rightarrow> bool) \<Rightarrow> event list \<Rightarrow> bool" where
  "reports_ready rdy evs =
     (case rev evs of EvStatusPatch obj base err # _ \<Rightarrow> rdy (conditions_of obj) | _ \<Rightarrow> False)"

lemma reports_ready_simps [simp]:
  "reports_ready rdy [] = False"
  "reports_ready rdy (e # evs) =
     (if evs = [] then (case e of EvStatusPatch obj base err \<Rightarrow> rdy (conditions_of obj) | _ \<Rightarrow> False)
      else reports_ready rdy evs)"
  "reports_ready rdy (evs @ evs') = (if evs' = [] then reports_ready rdy evs else reports_ready rdy evs')"
  subgoal by (simp add: reports_ready_def)
  subgoal by (cases evs rule: rev_cases; cases e) (simp_all add: reports_ready_def)
  subgoal by (cases evs' rule: rev_cases) (simp_all add: reports_ready_def)
  done

text \<open>The error an API call answered, if any.\<close>

fun api_error :: "event \<Rightarrow> goerr option" where
  "api_error (EvToken ts (Inl e)) = Some e"
| "api_error (EvVirtualServerGet kc (Inl e)) = Some e"
| "api_error (EvVirtualServerPatch kc p err) = err"
| "api_error (EvProjectGet kc slug err) = err"
| "api_error (EvProjectCreate kc dto err) = err"
| "api_error (EvRoleGet kc slug i (Inl e)) = Some e"
| "api_error (EvRolePatch kc slug i p err) = err"
| "api_error (EvRoleList kc slug page sz (Inl e)) = Some e"
| "api_error (EvRoleCreate kc slug dto (Inl e)) = Some e"
| "api_error (EvRoleListUsers kc slug i page sz (Inl e)) = Some e"
| "api_error (EvRoleAssign kc slug i u err) = err"
| "api_error (EvApplicationGet kc slug i (Inl e)) = Some e"
| "api_error (EvApplicationPatch kc slug i p err) = err"
| "api_error (EvApplicationList kc slug page sz (Inl e)) = Some e"
| "api_error (EvApplicationCreate kc slug dto (Inl e)) = Some e"
| "api_error (EvUserGet kc i err) = err"
| "api_error (EvUserList kc page sz (Inl e)) = Some e"
| "api_error (EvUserCreate kc name (Inl e)) = Some e"
| "api_error (EvUserPatch kc i p err) = err"
| "api_error (EvKeyAssociate kc i dto err) = err"
| "api_error (EvKeyRemove kc i kid err) = err"
| "api_error _ = None"

text \<open>
  The lookups that may answer 404, and the removal of a key that is already gone: the calls whose
  404 is not a failure of the reconcile.
\<close>

fun may_answer_404 :: "event \<Rightarrow> bool" where
  "may_answer_404 (EvProjectGet kc slug err) = True"
| "may_answer_404 (EvRoleGet kc slug i r) = True"
| "may_answer_404 (EvApplicationGet kc slug i r) = True"
| "may_answer_404 (EvUserGet kc i err) = True"
| "may_answer_404 (EvKeyRemove kc i kid err) = True"
| "may_answer_404 _ = False"

definition tolerated :: "event \<Rightarrow> bool" where
  "tolerated e = (case api_error e of None \<Rightarrow> True | Some err \<Rightarrow> may_answer_404 e \<and> isApiNotFound err)"

text \<open>A report is honest if it says ready only when every answer of the API was tolerated.\<close>

definition honest :: "(condition list \<Rightarrow> bool) \<Rightarrow> event list \<Rightarrow> bool" where
  "honest rdy evs = (if reports_ready rdy evs then list_all tolerated evs else True)"

lemmas discipline_simps = ends_with_patch_def reported_def patch_outcome_def

lemmas gate_simps =
  gated_def before_api_def refs_read_def reads_gated_def
  clients_entitled_def entitled_def reported_def

lemmas isolated_simps = isolated_def reads_in_def client_secret_name_def

lemmas honest_simps = honest_def tolerated_def reported_def

text \<open>
  \<open>justified R seen evs\<close>: every write to Keyline in \<open>evs\<close> is one that \<open>R\<close> allows after the events
  before it, which are given latest first.
\<close>

primrec justified :: "(event list \<Rightarrow> event \<Rightarrow> bool) \<Rightarrow> event list \<Rightarrow> event list \<Rightarrow> bool" where
  "justified R seen [] = True"
| "justified R seen (e # evs) =
     ((if is_api_write e then R seen e else True) \<and> justified R (e # seen) evs)"

lemma justified_append [simp]:
  "justified R seen (evs @ evs') \<longleftrightarrow> justified R seen evs \<and> justified R (rev evs @ seen) evs'"
  by (induction evs arbitrary: seen) simp_all

text \<open>
  A segment of the log in which one client was used throughout, for operations that are proved on
  their own and then used in a reconcile.
\<close>

definition api_segment :: "keyline_client \<Rightarrow> event list \<Rightarrow> bool" where
  "api_segment kc evs = list_all (\<lambda>e. client_of e = Some kc) evs"

lemma client_of_api: "client_of e = Some kc \<Longrightarrow> is_api_call e \<and> \<not> is_status_patch e"
  by (cases e) auto

lemma api_segment_simps [simp]:
  "api_segment kc []"
  "api_segment kc (e # evs) \<longleftrightarrow> client_of e = Some kc \<and> api_segment kc evs"
  "api_segment kc (evs @ evs') \<longleftrightarrow> api_segment kc evs \<and> api_segment kc evs'"
  by (simp_all add: api_segment_def)

lemma api_segment_no_patch: "api_segment kc evs \<Longrightarrow> list_all (\<lambda>e. \<not> is_status_patch e) evs"
  by (auto simp: api_segment_def list_all_iff dest: client_of_api)

lemma api_segment_reads: "api_segment kc evs \<Longrightarrow> list_all (reads_in ns) evs"
  by (auto simp: api_segment_def list_all_iff reads_in_def split: event.split)

lemma api_segment_stops:
  "api_segment kc evs \<Longrightarrow> evs \<noteq> [] \<Longrightarrow> takeWhile (\<lambda>e. \<not> is_api_call e) (evs @ rest) = []"
  by (cases evs) (auto simp: api_segment_def dest: client_of_api)

lemma api_segment_clients:
  "api_segment kc evs \<Longrightarrow> P kc \<Longrightarrow> list_all (\<lambda>e. case client_of e of None \<Rightarrow> True | Some k \<Rightarrow> P k) evs"
  by (auto simp: api_segment_def list_all_iff)

lemma butlast_segment [simp]: "butlast (evs @ [e]) = evs" "last (evs @ [e]) = e"
  by simp_all

section \<open>What the reconcilers rely on of the API machinery\<close>

text \<open>
  \<^verbatim>\<open>meta.SetStatusCondition\<close> sets the condition of its type and leaves the others, and
  \<^verbatim>\<open>meta.IsStatusConditionTrue\<close> reads it back.
\<close>

definition meta_conditions_ok :: "'w runtime_lib \<Rightarrow> bool" where
  "meta_conditions_ok l \<longleftrightarrow>
     (\<forall>cs c t. l_is_status_condition_true l (l_set_status_condition l cs c) t =
        (if t = cond_type c then cond_status c = ConditionTrue else l_is_status_condition_true l cs t))"

lemma meta_conditions_set:
  "meta_conditions_ok l \<Longrightarrow>
     l_is_status_condition_true l (l_set_status_condition l cs (condition_with st reason msg t)) ConditionReady
       \<longleftrightarrow> st = ConditionTrue"
  by (simp add: meta_conditions_ok_def condition_with_def)

abbreviation ready_in :: "'w env \<Rightarrow> condition list \<Rightarrow> bool" where
  "ready_in env cs \<equiv> l_is_status_condition_true (lib env) cs ConditionReady"

text \<open>\<^verbatim>\<open>client.IgnoreNotFound\<close>: nil for a not-found error, the error itself otherwise.\<close>

definition ignore_not_found_ok :: "'w runtime_lib \<Rightarrow> bool" where
  "ignore_not_found_ok l \<longleftrightarrow>
     (\<forall>e. l_ignore_not_found l e = (if l_is_not_found l e then None else Some e))"

text \<open>
  \<^verbatim>\<open>uuid.UUID.String\<close> is never empty, and \<^verbatim>\<open>uuid.Parse\<close> reads it back.
\<close>

definition uuid_ok :: "'w runtime_lib \<Rightarrow> bool" where
  "uuid_ok l \<longleftrightarrow> (\<forall>u. l_uuid_string l u \<noteq> [] \<and> l_uuid_parse l (l_uuid_string l u) = Inr u)"

section \<open>Patches that converge\<close>

text \<open>
  A controller compares the spec with what it read and builds a patch in which a field is set
  where the two differ, with a flag whether any does. \<open>merge\<close> is what such a patch denotes: set
  fields overwrite, the others stay. A patch builder is one whose patch, merged, leaves
  nothing to patch.
\<close>

lemma patch_step: "(if c then (p, True) else (q, n)) = (if c then p else q, c \<or> n)"
  by simp

locale patch_builder =
  fixes build :: "'spec \<Rightarrow> 'current \<Rightarrow> 'patch \<times> bool"
    and merge :: "'patch \<Rightarrow> 'current \<Rightarrow> 'current"
    and in_sync :: "'spec \<Rightarrow> 'current \<Rightarrow> bool"
    and empty :: 'patch
  assumes flag: "snd (build sp cur) \<longleftrightarrow> \<not> in_sync sp cur"
    and keeps: "in_sync sp cur \<Longrightarrow> fst (build sp cur) = empty"
    and merged: "in_sync sp (merge (fst (build sp cur)) cur)"
    and merge_empty: "merge empty cur = cur"
begin

lemma build_in_sync: "in_sync sp cur \<Longrightarrow> build sp cur = (empty, False)"
  by (rule prod_eqI) (simp_all add: flag keeps)

lemma converges: "build sp (merge (fst (build sp cur)) cur) = (empty, False)"
  using merged by (rule build_in_sync)

lemma stable: "merge (fst (build sp (merge (fst (build sp cur)) cur))) (merge (fst (build sp cur)) cur) =
    merge (fst (build sp cur)) cur"
  by (simp add: converges merge_empty)

end

section \<open>The contract of a reconciler\<close>

locale reconciler =
  fixes kd :: kind
    and reconcile :: "'w env \<Rightarrow> namespaced_name \<Rightarrow> ('w, outcome) op"
  assumes discipline:
    "run_state (reconcile env nn) (start w) = (out, s') \<Longrightarrow>
       status_discipline kd nn (l_ignore_not_found (lib env)) out (st_trace s')"
  assumes isolation:
    "run_state (reconcile env nn) (start w) = (out, s') \<Longrightarrow> isolated (st_trace s')"
begin

lemma first_reads_itself:
  assumes "run_state (reconcile env nn) (start w) = (out, s')"
  shows "\<exists>r evs. st_trace s' = EvGet kd nn r # evs"
  using discipline [OF assms]
  by (cases "(kd, nn, l_ignore_not_found (lib env), out, st_trace s')" rule: status_discipline.cases) auto

text \<open>A controller that returned without an error either lost its object or comes back.\<close>

lemma requeued:
  assumes "run_state (reconcile env nn) (start w) = (Returned res None, s')"
    and "st_trace s' = EvGet kd nn (Inr obj) # evs"
  shows "res_requeue_after res = requeueAfter"
  using discipline [OF assms(1)] assms(2)
  by (auto simp: ends_with_patch_def patch_outcome_def split: event.splits option.splits)

lemma one_status_patch:
  assumes "run_state (reconcile env nn) (start w) = (Returned res err, s')"
    and "st_trace s' = EvGet kd nn (Inr obj) # evs"
  shows "\<exists>pre obj' perr. evs = pre @ [EvStatusPatch obj' obj perr] \<and>
     list_all (\<lambda>e. \<not> is_status_patch e) pre \<and>
     object_meta_of obj' = object_meta_of obj \<and> Returned res err = patch_outcome perr"
proof -
  have "ends_with_patch obj (Returned res err) evs"
    using discipline [OF assms(1)] assms(2) by auto
  then show ?thesis
    by (cases evs rule: rev_cases) (auto simp: ends_with_patch_def split: event.splits)
qed

lemma gone_object_is_dropped:
  assumes "run_state (reconcile env nn) (start w) = (out, s')"
    and "st_trace s' = EvGet kd nn (Inl e) # evs"
    and "ignore_not_found_ok (lib env)" and "l_is_not_found (lib env) e"
  shows "evs = [] \<and> out = ReconcileSuccess"
  using discipline [OF assms(1)] assms(2-)
  by (auto simp: ignore_not_found_ok_def result_defs)

end

text \<open>
  The reconcilers of the objects that live inside Keyline also wait for what they refer to, use
  only a client they are entitled to, and report honestly.
\<close>

locale gated_reconciler = reconciler kd reconcile
  for kd :: kind
    and reconcile :: "'w env \<Rightarrow> namespaced_name \<Rightarrow> ('w, outcome) op" +
  fixes follow :: "kind list"
    and gates :: "kind list"
  assumes gate:
    "run_state (reconcile env nn) (start w) = (out, s') \<Longrightarrow> gated (ready_in env) follow gates (st_trace s')"
  assumes entitlement:
    "run_state (reconcile env nn) (start w) = (out, s') \<Longrightarrow> clients_entitled (st_trace s')"
  assumes honesty:
    "meta_conditions_ok (lib env) \<Longrightarrow> run_state (reconcile env nn) (start w) = (out, s') \<Longrightarrow>
       honest (ready_in env) (st_trace s')"
begin

lemma no_api_call_without_own_object:
  assumes "run_state (reconcile env nn) (start w) = (out, s')"
    and "st_trace s' = EvGet kd nn (Inl e) # evs"
  shows "list_all (\<lambda>e. \<not> is_api_call e) (st_trace s')"
  using discipline [OF assms(1)] assms(2) by simp

text \<open>A reference of the object itself was read, and ready where gated, before any API call.\<close>

lemma reference_read:
  assumes run: "run_state (reconcile env nn) (start w) = (out, s')"
    and tr: "st_trace s' = pre @ e # rest" and e: "is_api_call e" and pre: "list_all (\<lambda>x. \<not> is_api_call x) pre"
  shows "\<exists>obj. hd pre = EvGet kd nn (Inr obj) \<and>
     list_all (\<lambda>r. list_ex (reads_gated (ready_in env) gates r) pre)
       (refs_of (om_namespace (object_meta_of obj)) obj)"
proof -
  have bef: "before_api (st_trace s') = pre"
    unfolding before_api_def tr using pre e by (subst takeWhile_append2) (auto simp: list_all_iff)
  obtain r evs where first: "st_trace s' = EvGet kd nn r # evs"
    using first_reads_itself [OF run] by blast
  have api: "list_ex is_api_call (st_trace s')"
    using e by (simp add: tr)
  obtain obj where r: "r = Inr obj" and m: "kd \<in> set follow"
    and all: "list_all (refs_read (ready_in env) follow gates (om_namespace (object_meta_of obj)) pre) pre"
    using gate [OF run] api unfolding gated_def bef by (cases r) (auto simp: first)
  have ne: "pre = EvGet kd nn (Inr obj) # tl pre"
    using tr first e by (cases pre) (auto simp: r)
  have "refs_read (ready_in env) follow gates (om_namespace (object_meta_of obj)) pre (hd pre)"
    using all ne by (metis list.set_intros(1) list.sel(1) list_all_iff)
  moreover have "hd pre = EvGet kd nn (Inr obj)" using ne by (metis list.sel(1))
  ultimately show ?thesis using m by (auto simp: refs_read_def)
qed

end

end
