(* ===== verification/Example_Env.thy ===== *)
theory Example_Env
  imports Reconciler
begin

text \<open>
  A concrete environment: a small in-memory Kubernetes and Keyline, executable, on which the
  properties with hypotheses are applied. It keeps the objects in an association list, answers
  not-found for what it does not hold, creates what it is asked to create, and numbers the ids
  it hands out.
\<close>

record world =
  w_objects :: "((kind \<times> namespaced_name) \<times> k8s_object) list"
  w_virtual_server :: virtual_server_dto
  w_projects :: "string list"
  w_roles :: "(uuid \<times> role_dto) list"
  w_applications :: "(uuid \<times> string \<times> application_dto) list"
  w_users :: "(uuid \<times> string) list"
  w_keys :: "(uuid \<times> string) list"
  w_assignments :: "(uuid \<times> uuid) list"
  w_fresh :: nat
  w_clock :: time

definition not_found :: goerr where
  "not_found = KubeError ''NotFound'' ''not found''"

definition api_not_found :: goerr where
  "api_not_found = ApiError 404 ''not found''"

definition ex_lookup :: "kind \<Rightarrow> (k8s_object \<Rightarrow> 'a option) \<Rightarrow> namespaced_name \<Rightarrow> world \<Rightarrow> (goerr + 'a) \<times> world" where
  "ex_lookup k f nn w =
     (case map_of (w_objects w) (k, nn) of
        None \<Rightarrow> (Inl not_found, w)
      | Some obj \<Rightarrow> (case f obj of None \<Rightarrow> (Inl not_found, w) | Some x \<Rightarrow> (Inr x, w)))"

definition ex_store :: "k8s_object \<Rightarrow> world \<Rightarrow> goerr option \<times> world" where
  "ex_store obj w =
     (None, w\<lparr>w_objects := AList.update (object_kind obj, nn_of (object_meta_of obj)) obj (w_objects w)\<rparr>)"

definition ex_create :: "k8s_object \<Rightarrow> world \<Rightarrow> goerr option \<times> world" where
  "ex_create obj w =
     (case map_of (w_objects w) (object_kind obj, nn_of (object_meta_of obj)) of
        None \<Rightarrow> ex_store obj w
      | Some obj' \<Rightarrow>
          if object_kind obj' = object_kind obj then (Some (KubeError ''AlreadyExists'' ''already exists''), w)
          else ex_store obj w)"

text \<open>\<^verbatim>\<open>CreateOrUpdate\<close>: the closure runs on the object in the cluster, or on the desired one.\<close>

definition ex_create_or_update ::
    "(k8s_object \<Rightarrow> 'a option) \<Rightarrow> ('a \<Rightarrow> k8s_object) \<Rightarrow> 'a \<Rightarrow> ('a \<Rightarrow> goerr + 'a) \<Rightarrow> world \<Rightarrow> goerr option \<times> world" where
  "ex_create_or_update sel mk x f w =
     (let key = (object_kind (mk x), nn_of (object_meta_of (mk x)));
          cur = (case map_of (w_objects w) key of None \<Rightarrow> x
                 | Some obj \<Rightarrow> (case sel obj of None \<Rightarrow> x | Some y \<Rightarrow> y))
      in case f cur of Inl e \<Rightarrow> (Some e, w) | Inr y \<Rightarrow> ex_store (mk y) w)"

fun as_instance where "as_instance (ObjInstance x) = Some x" | "as_instance _ = None"
fun as_virtual_server where "as_virtual_server (ObjVirtualServer x) = Some x" | "as_virtual_server _ = None"
fun as_project where "as_project (ObjProject x) = Some x" | "as_project _ = None"
fun as_application where "as_application (ObjApplication x) = Some x" | "as_application _ = None"
fun as_role where "as_role (ObjRole x) = Some x" | "as_role _ = None"
fun as_user where "as_user (ObjUser x) = Some x" | "as_user _ = None"
fun as_role_assignment where "as_role_assignment (ObjRoleAssignment x) = Some x" | "as_role_assignment _ = None"
fun as_secret where "as_secret (ObjSecret x) = Some x" | "as_secret _ = None"
fun as_pvc where "as_pvc (ObjPersistentVolumeClaim x) = Some x" | "as_pvc _ = None"
fun as_service where "as_service (ObjService x) = Some x" | "as_service _ = None"
fun as_deployment where "as_deployment (ObjDeployment x) = Some x" | "as_deployment _ = None"

definition ex_kube :: "world kube_client" where
  "ex_kube =
     \<lparr>k_get_instance = ex_lookup KInstance as_instance,
      k_get_virtual_server = ex_lookup KVirtualServer as_virtual_server,
      k_get_project = ex_lookup KProject as_project,
      k_get_application = ex_lookup KApplication as_application,
      k_get_role = ex_lookup KRole as_role,
      k_get_user = ex_lookup KUser as_user,
      k_get_role_assignment = ex_lookup KRoleAssignment as_role_assignment,
      k_get_secret = ex_lookup KSecret as_secret,
      k_get_pvc = ex_lookup KPersistentVolumeClaim as_pvc,
      k_get_deployment = ex_lookup KDeployment as_deployment,
      k_create_secret = (\<lambda>x. ex_create (ObjSecret x)),
      k_create_pvc = (\<lambda>x. ex_create (ObjPersistentVolumeClaim x)),
      k_create_or_update_secret = ex_create_or_update as_secret ObjSecret,
      k_create_or_update_service = ex_create_or_update as_service ObjService,
      k_create_or_update_deployment = ex_create_or_update as_deployment ObjDeployment,
      k_patch_status = (\<lambda>obj base. ex_store obj)\<rparr>"

definition ex_patch_virtual_server :: "patch_virtual_server_input \<Rightarrow> virtual_server_dto \<Rightarrow> virtual_server_dto" where
  "ex_patch_virtual_server p d =
     \<lparr>vsd_display_name = (case pvs_display_name p of None \<Rightarrow> vsd_display_name d | Some x \<Rightarrow> x),
      vsd_registration_enabled = (case pvs_enable_registration p of None \<Rightarrow> vsd_registration_enabled d | Some x \<Rightarrow> x),
      vsd_require_2fa = (case pvs_require_2fa p of None \<Rightarrow> vsd_require_2fa d | Some x \<Rightarrow> x),
      vsd_require_email_verification =
        (case pvs_require_email_verification p of None \<Rightarrow> vsd_require_email_verification d | Some x \<Rightarrow> x),
      vsd_primary_signing_algorithm =
        (case pvs_primary_signing_algorithm p of None \<Rightarrow> vsd_primary_signing_algorithm d | Some x \<Rightarrow> x),
      vsd_additional_signing_algorithms =
        (case pvs_additional_signing_algorithms p of None \<Rightarrow> vsd_additional_signing_algorithms d | Some x \<Rightarrow> Some x)\<rparr>"

definition ex_new_id :: "world \<Rightarrow> uuid \<times> world" where
  "ex_new_id w = (of_nat (w_fresh w), w\<lparr>w_fresh := Suc (w_fresh w)\<rparr>)"

definition ex_patch_role :: "patch_role_dto \<Rightarrow> role_dto \<Rightarrow> role_dto" where
  "ex_patch_role p d =
     \<lparr>rd_name = (case pr_name p of None \<Rightarrow> rd_name d | Some x \<Rightarrow> x),
      rd_description = (case pr_description p of None \<Rightarrow> rd_description d | Some x \<Rightarrow> x)\<rparr>"

definition ex_application :: "create_application_dto \<Rightarrow> application_dto" where
  "ex_application dto =
     \<lparr>ad_display_name = ca_display_name dto, ad_device_flow_enabled = ca_device_flow_enabled dto,
      ad_claims_mapping_script = None, ad_redirect_uris = ca_redirect_uris dto,
      ad_post_logout_redirect_uris = ca_post_logout_uris dto,
      ad_access_token_header_type =
        (case ca_access_token_header_type dto of None \<Rightarrow> ''at+jwt'' | Some t \<Rightarrow> t),
      ad_signing_algorithm = ca_signing_algorithm dto\<rparr>"

definition ex_api :: "world keyline_api" where
  "ex_api =
     \<lparr>a_token = (\<lambda>ts w. (Inr ''token'', w)),
      a_virtual_server_get = (\<lambda>kc w. (Inr (w_virtual_server w), w)),
      a_virtual_server_patch = (\<lambda>kc p w.
        (None, w\<lparr>w_virtual_server := ex_patch_virtual_server p (w_virtual_server w)\<rparr>)),
      a_project_get = (\<lambda>kc slug w.
        (if List.list_ex (\<lambda>s. s = slug) (w_projects w) then None else Some api_not_found, w)),
      a_project_create = (\<lambda>kc dto w. (None, w\<lparr>w_projects := cp_slug dto # w_projects w\<rparr>)),
      a_role_get = (\<lambda>kc slug i w.
        (case map_of (w_roles w) i of None \<Rightarrow> Inl api_not_found | Some d \<Rightarrow> Inr d, w)),
      a_role_patch = (\<lambda>kc slug i p w.
        (None, w\<lparr>w_roles := AList.map_entry i (ex_patch_role p) (w_roles w)\<rparr>)),
      a_role_list = (\<lambda>kc slug page sz w.
        (Inr (map (\<lambda>(i, d). \<lparr>ri_id = i, ri_name = rd_name d\<rparr>) (w_roles w)), w)),
      a_role_create = (\<lambda>kc slug dto w. case ex_new_id w of (i, w') \<Rightarrow>
        (Inr i, w'\<lparr>w_roles := (i, \<lparr>rd_name = cr_name dto, rd_description = cr_description dto\<rparr>) # w_roles w'\<rparr>)),
      a_role_list_users = (\<lambda>kc slug i page sz w.
        (Inr (map snd (filter (\<lambda>(r, u). r = i) (w_assignments w))), w)),
      a_role_assign = (\<lambda>kc slug i u w. (None, w\<lparr>w_assignments := (i, u) # w_assignments w\<rparr>)),
      a_application_get = (\<lambda>kc slug i w.
        (case map_of (w_applications w) i of None \<Rightarrow> Inl api_not_found | Some (n, d) \<Rightarrow> Inr d, w)),
      a_application_patch = (\<lambda>kc slug i p w. (None, w)),
      a_application_list = (\<lambda>kc slug page sz w.
        (Inr (map (\<lambda>(i, n, d). \<lparr>ai_id = i, ai_name = n\<rparr>) (w_applications w)), w)),
      a_application_create = (\<lambda>kc slug dto w. case ex_new_id w of (i, w') \<Rightarrow>
        (Inr i, w'\<lparr>w_applications := (i, ca_name dto, ex_application dto) # w_applications w'\<rparr>)),
      a_user_get = (\<lambda>kc i w.
        (case map_of (w_users w) i of None \<Rightarrow> Some api_not_found | Some n \<Rightarrow> None, w)),
      a_user_list = (\<lambda>kc page sz w.
        (Inr (map (\<lambda>(i, n). \<lparr>ui_id = i, ui_username = n, ui_is_service_user = True\<rparr>) (w_users w)), w)),
      a_user_create_service_user = (\<lambda>kc name w. case ex_new_id w of (i, w') \<Rightarrow>
        (Inr i, w'\<lparr>w_users := (i, name) # w_users w'\<rparr>)),
      a_user_patch = (\<lambda>kc i p w. (None, w)),
      a_user_associate_key = (\<lambda>kc i dto w.
        (None, w\<lparr>w_keys := (i, case ak_kid dto of None \<Rightarrow> [] | Some k \<Rightarrow> k) # w_keys w\<rparr>)),
      a_user_remove_key = (\<lambda>kc i kid w.
        (if List.list_ex (\<lambda>p. p = (i, kid)) (w_keys w)
         then (None, w\<lparr>w_keys := filter (\<lambda>p. p \<noteq> (i, kid)) (w_keys w)\<rparr>)
         else (Some api_not_found, w)))\<rparr>"

definition ex_set_condition :: "condition list \<Rightarrow> condition \<Rightarrow> condition list" where
  "ex_set_condition cs c = c # filter (\<lambda>d. cond_type d \<noteq> cond_type c) cs"

definition ex_condition_true :: "condition list \<Rightarrow> string \<Rightarrow> bool" where
  "ex_condition_true cs t =
     (case find (\<lambda>c. cond_type c = t) cs of None \<Rightarrow> False | Some c \<Rightarrow> cond_status c = ConditionTrue)"

text \<open>The example renders an id in unary, and a configuration as its virtual server's name.\<close>

definition ex_lib :: "world runtime_lib" where
  "ex_lib =
     \<lparr>l_now = (\<lambda>w. (w_clock w, w\<lparr>w_clock := w_clock w + 1\<rparr>)),
      l_range_choices = (\<lambda>w. ([1, 0], w)),
      l_ed25519_generate_key = (\<lambda>w. (Inr ''key'', w)),
      l_public_key = (\<lambda>k. k @ ''.pub''),
      l_marshal_pkcs8 = Inr,
      l_marshal_pkix = Inr,
      l_pem_encode = (\<lambda>t b. t @ '' '' @ b),
      l_uuid_new = ex_new_id,
      l_uuid_string = (\<lambda>u. CHR ''u'' # replicate (unat u) (CHR ''i'')),
      l_uuid_parse = (\<lambda>s. case s of
          [] \<Rightarrow> Inl (PlainError ''invalid UUID'')
        | c # cs \<Rightarrow> if c = CHR ''u'' \<and> list_all (\<lambda>d. d = CHR ''i'') cs then Inr (of_nat (length cs))
                    else Inl (PlainError ''invalid UUID'')),
      l_set_status_condition = ex_set_condition,
      l_is_status_condition_true = ex_condition_true,
      l_set_controller_reference = (\<lambda>inst m. Inr (m\<lparr>om_owner_refs :=
        [\<lparr>own_kind = ''KeylineInstance'', own_name = om_name (inst_meta inst),
          own_uid = om_uid (inst_meta inst), own_controller = True\<rparr>]\<rparr>)),
      l_is_not_found = (\<lambda>e. e = not_found),
      l_ignore_not_found = (\<lambda>e. if e = not_found then None else Some e),
      l_yaml_marshal = (\<lambda>c. Inr (ivs_name (cfg_initial_virtual_server c))),
      l_must_parse_quantity = Quantity\<rparr>"

definition ex_env :: "world env" where
  "ex_env = \<lparr>kube = ex_kube, api = ex_api, lib = ex_lib\<rparr>"

lemma ex_meta_conditions_ok: "meta_conditions_ok (lib ex_env)"
proof -
  have "find (\<lambda>d. cond_type d = t) (filter (\<lambda>d. cond_type d \<noteq> t') cs) = find (\<lambda>d. cond_type d = t) cs"
    if "t \<noteq> t'" for t t' and cs :: "condition list"
    using that by (induction cs) auto
  then show ?thesis
    by (auto simp: meta_conditions_ok_def ex_env_def ex_lib_def ex_set_condition_def ex_condition_true_def)
qed

lemma ex_ignore_not_found_ok: "ignore_not_found_ok (lib ex_env)"
  by (simp add: ignore_not_found_ok_def ex_env_def ex_lib_def)

lemma ex_uuid_ok: "uuid_ok (lib ex_env)"
  by (simp add: uuid_ok_def ex_env_def ex_lib_def list_all_iff)

section \<open>An example cluster\<close>

definition ready_condition :: condition where
  "ready_condition = condition_with ConditionTrue ''Synced'' [] 0"

definition ex_meta :: "string \<Rightarrow> object_meta" where
  "ex_meta n = new_meta n ''ns''"

definition ex_instance :: keyline_instance where
  "ex_instance =
     \<lparr>inst_meta = ex_meta ''kl'',
      inst_spec = \<lparr>inst_image = ''img'', inst_external_url = ''https://kl'',
        inst_frontend_external_url = ''https://ui'', inst_virtual_server = [],
        inst_database = \<lparr>db_mode = ''memory'', db_postgres = None\<rparr>,
        inst_key_store = \<lparr>ks_mode = ''directory'', ks_directory = None, ks_vault = None\<rparr>,
        inst_resources = \<lparr>rr_limits = [], rr_requests = []\<rparr>\<rparr>,
      inst_status = \<lparr>inst_url = ''u'', inst_conditions = [ready_condition]\<rparr>\<rparr>"

definition ex_virtual_server :: keyline_virtual_server where
  "ex_virtual_server =
     \<lparr>vs_meta = ex_meta ''vs'',
      vs_spec = \<lparr>vs_instance_ref = \<lparr>ref_name = ''kl''\<rparr>, vs_name = ''main'', vs_display_name = Some ''Main'',
        vs_registration_enabled = None, vs_require_2fa = None, vs_require_email_verification = None,
        vs_primary_signing_algorithm = None, vs_additional_signing_algorithms = None\<rparr>,
      vs_status = \<lparr>vs_conditions = [ready_condition]\<rparr>\<rparr>"

definition ex_project :: keyline_project where
  "ex_project =
     \<lparr>proj_meta = ex_meta ''p'',
      proj_spec = \<lparr>proj_virtual_server_ref = \<lparr>ref_name = ''vs''\<rparr>, proj_slug = ''p'', proj_name = ''P'',
        proj_description = None\<rparr>,
      proj_status = \<lparr>proj_conditions = [ready_condition]\<rparr>\<rparr>"

definition ex_role :: keyline_role where
  "ex_role =
     \<lparr>role_meta = ex_meta ''r'',
      role_spec = \<lparr>role_project_ref = \<lparr>ref_name = ''p''\<rparr>, role_name = ''admin'', role_description = None\<rparr>,
      role_status = \<lparr>role_role_id = [], role_conditions = []\<rparr>\<rparr>"

definition ex_application_object :: keyline_application where
  "ex_application_object =
     \<lparr>app_meta = ex_meta ''a'',
      app_spec = \<lparr>app_project_ref = \<lparr>ref_name = ''p''\<rparr>, app_name = ''web'', app_display_name = ''Web'',
        app_type = ''public'', app_redirect_uris = Some [''https://web''], app_post_logout_uris = None,
        app_access_token_header_type = None, app_device_flow_enabled = False,
        app_claims_mapping_script = None, app_signing_algorithm = None\<rparr>,
      app_status = \<lparr>app_application_id = [], app_conditions = []\<rparr>\<rparr>"

definition ex_user :: keyline_user where
  "ex_user =
     \<lparr>user_meta = ex_meta ''u'',
      user_spec = \<lparr>user_virtual_server_ref = \<lparr>ref_name = ''vs''\<rparr>, user_username = ''bot'',
        user_display_name = Some ''Bot'',
        user_public_keys = [\<lparr>key_kid = ''k1'', key_pem = ''P1''\<rparr>, \<lparr>key_kid = ''k2'', key_pem = ''P2''\<rparr>]\<rparr>,
      user_status = \<lparr>user_user_id = [], user_managed_key_ids = [''k0'', ''k1''], user_conditions = []\<rparr>\<rparr>"

definition ex_secret :: secret where
  "ex_secret =
     \<lparr>sec_meta = ex_meta ''kl-operator-credentials'',
      sec_data = [(''private-key'', ''priv''), (''public-key'', ''pub''), (''key-id'', ''kid''),
                  (''username'', ''keyline-operator'')]\<rparr>"

definition ex_deployment :: deployment where
  "ex_deployment =
     \<lparr>dep_meta = ex_meta ''kl'', dep_spec = None,
      dep_conditions = [\<lparr>dc_type = ''Available'', dc_status = ConditionTrue\<rparr>]\<rparr>"

definition ex_object :: "k8s_object \<Rightarrow> (kind \<times> namespaced_name) \<times> k8s_object" where
  "ex_object obj = ((object_kind obj, nn_of (object_meta_of obj)), obj)"

definition ex_world :: world where
  "ex_world =
     \<lparr>w_objects = map ex_object
        [ObjInstance ex_instance, ObjVirtualServer ex_virtual_server, ObjProject ex_project, ObjRole ex_role,
         ObjApplication ex_application_object, ObjUser ex_user, ObjSecret ex_secret, ObjDeployment ex_deployment],
      w_virtual_server = \<lparr>vsd_display_name = ''main'', vsd_registration_enabled = False,
        vsd_require_2fa = False, vsd_require_email_verification = False,
        vsd_primary_signing_algorithm = ''EdDSA'', vsd_additional_signing_algorithms = None\<rparr>,
      w_projects = [], w_roles = [], w_applications = [], w_users = [], w_keys = [], w_assignments = [],
      w_fresh = 1, w_clock = 0\<rparr>"

end
