(* ===== verification/Instance_Controller.thy ===== *)
theory Instance_Controller
  imports Keyline_Config Example_Env
begin

text \<open>
  \<^verbatim>\<open>internal/controller/keylineinstance_controller.go\<close>: the reconciler that deploys a Keyline
  server. It makes sure of the operator's key pair, renders the configuration into a Secret,
  creates the key PVC, the Service and the Deployment, and reports the instance ready once the
  Deployment is available and a token exchange has succeeded.
\<close>

section \<open>Names and labels\<close>

definition configHashAnno :: string where
  "configHashAnno = ''keyline.keyline.dev/config-hash''"

definition configSecret :: string where
  "configSecret = ''-config''"

definition keysPVC :: string where
  "keysPVC = ''-keys''"

abbreviation inst_name :: "keyline_instance \<Rightarrow> string" where
  "inst_name inst \<equiv> om_name (inst_meta inst)"

abbreviation inst_namespace :: "keyline_instance \<Rightarrow> string" where
  "inst_namespace inst \<equiv> om_namespace (inst_meta inst)"

definition instanceLabels :: "keyline_instance \<Rightarrow> string_map" where
  "instanceLabels inst =
     [(''app.kubernetes.io/name'', keylineAppName),
      (''app.kubernetes.io/instance'', inst_name inst),
      (''app.kubernetes.io/managed-by'', ''keyline-operator'')]"

section \<open>Credentials\<close>

definition credentials_secret :: "object_meta \<Rightarrow> string \<Rightarrow> string \<Rightarrow> string \<Rightarrow> secret" where
  "credentials_secret m privKeyPEM pubKeyPEM kid =
     \<lparr>sec_meta = m,
      sec_data = [(''private-key'', privKeyPEM), (''public-key'', pubKeyPEM),
                  (''key-id'', kid), (''username'', operatorUsername)]\<rparr>"

definition ensureCredentials ::
    "'w env \<Rightarrow> keyline_instance \<Rightarrow> ('w, goerr + string \<times> string \<times> string) op" where
  "ensureCredentials env inst = do {
     let name = inst_name inst @ credentialsSecret;
     r \<leftarrow> get_secret env (nname (inst_namespace inst) name);
     case r of
       Inr sec \<Rightarrow> State_Monad.return
         (Inr (sec_get sec ''private-key'', sec_get sec ''public-key'', sec_get sec ''key-id''))
     | Inl err \<Rightarrow>
         if \<not> l_is_not_found (lib env) err
         then State_Monad.return (Inl (WrapError ''reading credentials secret'' err))
         else do {
           k \<leftarrow> silent (l_ed25519_generate_key (lib env));
           case k of
             Inl e \<Rightarrow> State_Monad.return (Inl (WrapError ''generating Ed25519 key'' e))
           | Inr privKey \<Rightarrow>
           (case l_marshal_pkcs8 (lib env) privKey of
             Inl e \<Rightarrow> State_Monad.return (Inl (WrapError ''marshaling private key'' e))
           | Inr privKeyBytes \<Rightarrow>
           (case l_marshal_pkix (lib env) (l_public_key (lib env) privKey) of
             Inl e \<Rightarrow> State_Monad.return (Inl (WrapError ''marshaling public key'' e))
           | Inr pubKeyBytes \<Rightarrow> do {
               let privKeyPEM = l_pem_encode (lib env) ''PRIVATE KEY'' privKeyBytes;
               let pubKeyPEM = l_pem_encode (lib env) ''PUBLIC KEY'' pubKeyBytes;
               u \<leftarrow> silent (l_uuid_new (lib env));
               let kid = l_uuid_string (lib env) u;
               case l_set_controller_reference (lib env) inst (new_meta name (inst_namespace inst)) of
                 Inl e \<Rightarrow> State_Monad.return
                   (Inl (WrapError ''setting owner reference on credentials secret'' e))
               | Inr meta \<Rightarrow> do {
                   e \<leftarrow> create_secret env (credentials_secret meta privKeyPEM pubKeyPEM kid);
                   State_Monad.return (case e of
                     Some e' \<Rightarrow> Inl (WrapError ''creating credentials secret'' e')
                   | None \<Rightarrow> Inr (privKeyPEM, pubKeyPEM, kid))
                 }
             }))
         }
   }"

section \<open>The dependent resources\<close>

text \<open>
  The closures handed to \<^verbatim>\<open>CreateOrUpdate\<close> are functions of the object as it is in the cluster
  (or of the empty desired object when there is none).
\<close>

definition config_secret_mutate ::
    "'w env \<Rightarrow> keyline_instance \<Rightarrow> string \<Rightarrow> secret \<Rightarrow> goerr + secret" where
  "config_secret_mutate env inst configData desired =
     (let d = desired\<lparr>sec_data := [(''config.yaml'', configData)]\<rparr>
      in map_sum id (\<lambda>m. d\<lparr>sec_meta := m\<rparr>) (l_set_controller_reference (lib env) inst (sec_meta d)))"

definition ensureConfigSecret :: "'w env \<Rightarrow> keyline_instance \<Rightarrow> string \<Rightarrow> ('w, goerr option) op" where
  [reconcile_defs]: "ensureConfigSecret env inst configData =
     create_or_update_secret env
       \<lparr>sec_meta = new_meta (inst_name inst @ configSecret) (inst_namespace inst), sec_data = []\<rparr>
       (config_secret_mutate env inst configData)"

definition pvc_storage_size :: "'w env \<Rightarrow> keyline_instance \<Rightarrow> quantity" where
  "pvc_storage_size env inst =
     (case ks_directory (inst_key_store (inst_spec inst)) of
        None \<Rightarrow> l_must_parse_quantity (lib env) ''1Gi''
      | Some d \<Rightarrow> (case dir_storage_size d of
          None \<Rightarrow> l_must_parse_quantity (lib env) ''1Gi''
        | Some q \<Rightarrow> q))"

definition claim_for :: "'w env \<Rightarrow> keyline_instance \<Rightarrow> object_meta \<Rightarrow> persistent_volume_claim" where
  "claim_for env inst m =
     \<lparr>pvc_meta = m, pvc_access_modes = [ReadWriteOnce], pvc_storage = pvc_storage_size env inst,
      pvc_storage_class =
        (case ks_directory (inst_key_store (inst_spec inst)) of
           None \<Rightarrow> None | Some d \<Rightarrow> dir_storage_class_name d)\<rparr>"

definition ensurePVC :: "'w env \<Rightarrow> keyline_instance \<Rightarrow> ('w, goerr option) op" where
  [reconcile_defs]: "ensurePVC env inst = do {
     let name = inst_name inst @ keysPVC;
     r \<leftarrow> get_pvc env (nname (inst_namespace inst) name);
     case r of
       Inr existing \<Rightarrow> State_Monad.return None
     | Inl err \<Rightarrow>
         if \<not> l_is_not_found (lib env) err
         then State_Monad.return (Some (WrapError ''checking PVC'' err))
         else (case l_set_controller_reference (lib env) inst (new_meta name (inst_namespace inst)) of
             Inl e \<Rightarrow> State_Monad.return (Some (WrapError ''setting owner reference on PVC'' e))
           | Inr meta \<Rightarrow> create_pvc env (claim_for env inst meta))
   }"

definition service_mutate :: "'w env \<Rightarrow> keyline_instance \<Rightarrow> service \<Rightarrow> goerr + service" where
  "service_mutate env inst desired =
     (let d = desired\<lparr>svc_selector := instanceLabels inst,
                      svc_ports := [\<lparr>port_name = ''http'', port_port = of_nat keylinePort,
                                     port_protocol = ProtocolTCP\<rparr>],
                      svc_type := ServiceTypeClusterIP\<rparr>
      in map_sum id (\<lambda>m. d\<lparr>svc_meta := m\<rparr>) (l_set_controller_reference (lib env) inst (svc_meta d)))"

definition ensureService :: "'w env \<Rightarrow> keyline_instance \<Rightarrow> ('w, goerr option) op" where
  [reconcile_defs]: "ensureService env inst =
     create_or_update_service env
       \<lparr>svc_meta = new_meta (inst_name inst) (inst_namespace inst), svc_selector = [], svc_ports = [],
        svc_type = ServiceTypeClusterIP, svc_cluster_ip = []\<rparr>
       (service_mutate env inst)"

definition deployment_volumes :: "keyline_instance \<Rightarrow> volume list" where
  "deployment_volumes inst =
     [\<lparr>vol_name = ''config'', vol_source = SecretVolume (inst_name inst @ configSecret)\<rparr>] @
     (if ks_mode (inst_key_store (inst_spec inst)) = keyStoreModeDirectory
      then [\<lparr>vol_name = ''keys'', vol_source = PersistentVolumeClaimVolume (inst_name inst @ keysPVC)\<rparr>]
      else [])"

definition deployment_volume_mounts :: "keyline_instance \<Rightarrow> volume_mount list" where
  "deployment_volume_mounts inst =
     [\<lparr>vm_name = ''config'', vm_mount_path = ''/etc/keyline'', vm_read_only = True\<rparr>] @
     (if ks_mode (inst_key_store (inst_spec inst)) = keyStoreModeDirectory
      then [\<lparr>vm_name = ''keys'', vm_mount_path = keyDirPath, vm_read_only = False\<rparr>]
      else [])"

definition deployment_spec_for :: "keyline_instance \<Rightarrow> string \<Rightarrow> deployment_spec" where
  "deployment_spec_for inst configHash =
     \<lparr>dep_selector = instanceLabels inst,
      dep_strategy = RecreateDeploymentStrategyType,
      dep_template =
        \<lparr>pt_labels = instanceLabels inst,
         pt_annotations = [(configHashAnno, configHash)],
         pt_containers =
           [\<lparr>ctr_name = keylineAppName,
             ctr_image = inst_image (inst_spec inst),
             ctr_command = [''/app/api''],
             ctr_args = [''--config'', configFilePath, ''--environment'', ''PRODUCTION''],
             ctr_ports = [\<lparr>cp_container_port = of_nat keylinePort, cp_protocol = ProtocolTCP\<rparr>],
             ctr_volume_mounts = deployment_volume_mounts inst,
             ctr_resources = inst_resources (inst_spec inst)\<rparr>],
         pt_volumes = deployment_volumes inst\<rparr>\<rparr>"

definition deployment_mutate :: "'w env \<Rightarrow> keyline_instance \<Rightarrow> string \<Rightarrow> deployment \<Rightarrow> goerr + deployment" where
  "deployment_mutate env inst configHash desired =
     (let d = desired\<lparr>dep_spec := Some (deployment_spec_for inst configHash)\<rparr>
      in map_sum id (\<lambda>m. d\<lparr>dep_meta := m\<rparr>) (l_set_controller_reference (lib env) inst (dep_meta d)))"

definition ensureDeployment :: "'w env \<Rightarrow> keyline_instance \<Rightarrow> string \<Rightarrow> ('w, goerr option) op" where
  [reconcile_defs]: "ensureDeployment env inst configHash =
     create_or_update_deployment env
       \<lparr>dep_meta = new_meta (inst_name inst) (inst_namespace inst), dep_spec = None, dep_conditions = []\<rparr>
       (deployment_mutate env inst configHash)"

definition deployment_available :: "deployment \<Rightarrow> bool" where
  "deployment_available d =
     list_ex (\<lambda>c. dc_type c = ''Available'' \<and> dc_status c = ConditionTrue) (dep_conditions d)"

definition isDeploymentAvailable :: "'w env \<Rightarrow> keyline_instance \<Rightarrow> ('w, goerr + bool) op" where
  "isDeploymentAvailable env inst = do {
     r \<leftarrow> get_deployment env (nname (inst_namespace inst) (inst_name inst));
     State_Monad.return (case r of
       Inl err \<Rightarrow> Inl (WrapError ''getting deployment'' err)
     | Inr d \<Rightarrow> Inr (deployment_available d))
   }"

section \<open>Reconcile\<close>

text \<open>
  The parts of \<^verbatim>\<open>Reconcile\<close> return the reason and message of the early return they take, if any.
\<close>

definition database_credentials ::
    "'w env \<Rightarrow> keyline_instance \<Rightarrow> ('w, (string \<times> string) + (string \<times> string)) op" where
  "database_credentials env inst =
     (if db_mode (inst_database (inst_spec inst)) = ''postgres''
      then (case db_postgres (inst_database (inst_spec inst)) of
          None \<Rightarrow> State_Monad.return
            (Inl (''InvalidSpec'', ''database.postgres is required when mode is postgres''))
        | Some pg \<Rightarrow> do {
            r \<leftarrow> resolveSecret env (inst_namespace inst) (ref_name (pg_credentials_secret_ref pg))
                   [''username'', ''password''];
            State_Monad.return (case r of
              Inl err \<Rightarrow> Inl (''DBCredentialsError'', error_text err)
            | Inr vs \<Rightarrow> Inr (vs ! 0, vs ! 1))
          })
      else State_Monad.return (Inr ([], [])))"

definition vault_token :: "'w env \<Rightarrow> keyline_instance \<Rightarrow> ('w, (string \<times> string) + string) op" where
  "vault_token env inst =
     (if ks_mode (inst_key_store (inst_spec inst)) = ''vault''
      then (case ks_vault (inst_key_store (inst_spec inst)) of
          None \<Rightarrow> State_Monad.return
            (Inl (''InvalidSpec'', ''keyStore.vault is required when mode is vault''))
        | Some v \<Rightarrow> do {
            r \<leftarrow> resolveSecret env (inst_namespace inst) (ref_name (vault_token_secret_ref v)) [''token''];
            State_Monad.return (case r of
              Inl err \<Rightarrow> Inl (''VaultTokenError'', error_text err)
            | Inr vs \<Rightarrow> Inr (vs ! 0))
          })
      else State_Monad.return (Inr []))"

text \<open>The claim for the keys is only made in directory mode (lines 101 to 105 of the source).\<close>

definition ensure_key_storage :: "'w env \<Rightarrow> keyline_instance \<Rightarrow> ('w, goerr option) op" where
  "ensure_key_storage env inst =
     (if ks_mode (inst_key_store (inst_spec inst)) = keyStoreModeDirectory
      then ensurePVC env inst else State_Monad.return None)"

definition ensure_resources ::
    "'w env \<Rightarrow> keyline_instance \<Rightarrow> string \<Rightarrow> string \<Rightarrow> ('w, (string \<times> string) option) op" where
  "ensure_resources env inst configData configHash = do {
     e1 \<leftarrow> ensureConfigSecret env inst configData;
     case e1 of Some err \<Rightarrow> State_Monad.return (Some (''ConfigSecretError'', error_text err))
     | None \<Rightarrow> do {
     e2 \<leftarrow> ensure_key_storage env inst;
     case e2 of Some err \<Rightarrow> State_Monad.return (Some (''PVCError'', error_text err))
     | None \<Rightarrow> do {
     e3 \<leftarrow> ensureService env inst;
     case e3 of Some err \<Rightarrow> State_Monad.return (Some (''ServiceError'', error_text err))
     | None \<Rightarrow> do {
     e4 \<leftarrow> ensureDeployment env inst configHash;
     State_Monad.return (case e4 of Some err \<Rightarrow> Some (''DeploymentError'', error_text err) | None \<Rightarrow> None)
     }}}}"

definition service_url :: "keyline_instance \<Rightarrow> string" where
  "service_url inst =
     ''http://'' @ inst_name inst @ ''.'' @ inst_namespace inst @ ''.svc.cluster.local:'' @ dec_digits keylinePort"

definition instance_token_source :: "keyline_instance \<Rightarrow> string \<Rightarrow> string \<Rightarrow> token_source" where
  "instance_token_source inst privKeyPEM kid =
     \<lparr>ts_keyline_url = service_url inst, ts_virtual_server = virtual_server_name inst,
      ts_priv_key_pem = privKeyPEM, ts_kid = kid,
      ts_username = operatorUsername, ts_application = operatorApplication\<rparr>"

definition set_url :: "string \<Rightarrow> keyline_instance \<Rightarrow> keyline_instance" where
  "set_url url inst = inst\<lparr>inst_status := inst_status inst\<lparr>inst_url := url\<rparr>\<rparr>"

definition check_ready ::
    "'w env \<Rightarrow> keyline_instance status_patcher \<Rightarrow> keyline_instance \<Rightarrow> string \<Rightarrow> string \<Rightarrow> ('w, outcome) op" where
  [reconcile_defs]: "check_ready env sp inst privKeyPEM kid = do {
     r \<leftarrow> isDeploymentAvailable env inst;
     case r of
       Inl err \<Rightarrow> setNotReady env sp inst ''DeploymentError'' (error_text err)
     | Inr available \<Rightarrow>
         if \<not> available
         then setNotReady env sp inst ''DeploymentNotAvailable'' ''waiting for Deployment to become available''
         else do {
           tok \<leftarrow> ts_Token env (instance_token_source inst privKeyPEM kid);
           case tok of
             Inl err \<Rightarrow> setNotReady env sp inst ''TokenExchangeFailed'' (error_text err)
           | Inr t \<Rightarrow> setReady env sp inst ''Ready'' ''Keyline is deployed and token exchange succeeded''
         }
   }"

definition instance_patcher :: "keyline_instance \<Rightarrow> keyline_instance status_patcher" where
  [reconcile_defs]: "instance_patcher inst =
     newStatusPatcher ObjInstance inst (\<lambda>f x. x\<lparr>inst_status := inst_status x\<lparr>inst_conditions := f (inst_conditions (inst_status x))\<rparr>\<rparr>)"

definition reconcileInstance :: "'w env \<Rightarrow> namespaced_name \<Rightarrow> ('w, outcome) op" where
  "reconcileInstance env req = do {
     r \<leftarrow> get_instance env req;
     case r of
       Inl err \<Rightarrow> State_Monad.return (ReconcileError (l_ignore_not_found (lib env) err))
     | Inr inst \<Rightarrow> do {
     let sp = instance_patcher inst;
     creds \<leftarrow> ensureCredentials env inst;
     case creds of
       Inl err \<Rightarrow> setNotReady env sp inst ''CredentialsError'' (error_text err)
     | Inr (privKeyPEM, pubKeyPEM, kid) \<Rightarrow> do {
     db \<leftarrow> database_credentials env inst;
     case db of
       Inl (reason, msg) \<Rightarrow> setNotReady env sp inst reason msg
     | Inr (dbUser, dbPass) \<Rightarrow> do {
     vt \<leftarrow> vault_token env inst;
     case vt of
       Inl (reason, msg) \<Rightarrow> setNotReady env sp inst reason msg
     | Inr vaultToken \<Rightarrow>
     (case buildKeylineConfig env inst pubKeyPEM kid dbUser dbPass vaultToken of
       Panic \<Rightarrow> State_Monad.return Panicked
     | Ret (Inl err) \<Rightarrow> setNotReady env sp inst ''ConfigBuildError'' (error_text err)
     | Ret (Inr (configData, configHash)) \<Rightarrow> do {
     res \<leftarrow> ensure_resources env inst configData configHash;
     case res of
       Some (reason, msg) \<Rightarrow> setNotReady env sp inst reason msg
     | None \<Rightarrow> check_ready env sp (set_url (service_url inst) inst) privKeyPEM kid
     })}}}}"

section \<open>What each step does\<close>

lemma post_case_go [post_intros]:
  "(r = Panic \<Longrightarrow> post m Q) \<Longrightarrow> (\<And>x. r = Ret x \<Longrightarrow> post (f x) Q) \<Longrightarrow> post (case_go m f r) Q"
  by (cases r) auto

text \<open>The events of \<^verbatim>\<open>ensureCredentials\<close>, with its result.\<close>

abbreviation credentials_secret_name :: "keyline_instance \<Rightarrow> namespaced_name" where
  "credentials_secret_name inst \<equiv> nname (inst_namespace inst) (inst_name inst @ credentialsSecret)"

definition credentials_of :: "secret \<Rightarrow> string \<times> string \<times> string" where
  "credentials_of sec = (sec_get sec ''private-key'', sec_get sec ''public-key'', sec_get sec ''key-id'')"

text \<open>
  A Secret as the operator makes it: the two halves of one generated key under the keys from which they are
  read back, the key id, the operator's user name, and the owner reference of the instance.
\<close>

definition made_credentials :: "'w env \<Rightarrow> keyline_instance \<Rightarrow> secret \<Rightarrow> bool" where
  "made_credentials env inst sec \<longleftrightarrow>
     l_set_controller_reference (lib env) inst
       (new_meta (inst_name inst @ ''-operator-credentials'') (inst_namespace inst)) = Inr (sec_meta sec) \<and>
     (\<exists>k priv pub. l_marshal_pkcs8 (lib env) k = Inr priv \<and> l_marshal_pkix (lib env) (l_public_key (lib env) k) = Inr pub \<and>
        sec_get sec ''private-key'' = l_pem_encode (lib env) ''PRIVATE KEY'' priv \<and>
        sec_get sec ''public-key'' = l_pem_encode (lib env) ''PUBLIC KEY'' pub) \<and>
     (\<exists>u. sec_get sec ''key-id'' = l_uuid_string (lib env) u) \<and>
     sec_get sec ''username'' = operatorUsername"

inductive credentials_log ::
    "'w env \<Rightarrow> keyline_instance \<Rightarrow> goerr + string \<times> string \<times> string \<Rightarrow> event list \<Rightarrow> bool"
  for env inst where
  credentials_found:
    "credentials_log env inst (Inr (credentials_of sec))
       [EvGet KSecret (credentials_secret_name inst) (Inr (ObjSecret sec))]"
| credentials_failed:
    "credentials_log env inst (Inl err) [EvGet KSecret (credentials_secret_name inst) (Inl e)]"
| credentials_not_created:
    "l_is_not_found (lib env) e \<Longrightarrow> made_credentials env inst sec \<Longrightarrow>
     credentials_log env inst (Inl err)
       [EvGet KSecret (credentials_secret_name inst) (Inl e), EvCreate (ObjSecret sec) (Some ce)]"
| credentials_created:
    "l_is_not_found (lib env) e \<Longrightarrow> made_credentials env inst sec \<Longrightarrow>
     credentials_log env inst (Inr (credentials_of sec))
       [EvGet KSecret (credentials_secret_name inst) (Inl e), EvCreate (ObjSecret sec) None]"

lemma made_credentials_secret:
  assumes "l_set_controller_reference (lib env) inst
      (new_meta (inst_name inst @ credentialsSecret) (inst_namespace inst)) = Inr m"
    and "l_marshal_pkcs8 (lib env) k = Inr priv" "l_marshal_pkix (lib env) (l_public_key (lib env) k) = Inr pub"
  shows "made_credentials env inst (credentials_secret m (l_pem_encode (lib env) ''PRIVATE KEY'' priv)
      (l_pem_encode (lib env) ''PUBLIC KEY'' pub) (l_uuid_string (lib env) u))"
  using assms by (auto simp: made_credentials_def credentials_secret_def credentialsSecret_def sec_get_def)

lemma credentials_of_secret [simp]: "credentials_of (credentials_secret m priv pub kid) = (priv, pub, kid)"
  by (simp add: credentials_of_def credentials_secret_def sec_get_def)

lemmas credentials_created_as = credentials_created [where sec = "credentials_secret m priv pub kid" for m priv pub kid,
  unfolded credentials_of_secret]

lemma ensureCredentials_step: "post (ensureCredentials env inst) (credentials_log env inst)"
  unfolding ensureCredentials_def reconcile_defs
  by (intro post_intros)
    (auto intro!: credentials_log.intros credentials_created_as made_credentials_secret
      credentials_found [unfolded credentials_of_def] split: option.splits)

text \<open>Reading the Secrets the spec refers to: at most one Get, and no other event.\<close>

inductive reads_secret :: "string \<Rightarrow> event list \<Rightarrow> bool" for ns where
  reads_none: "reads_secret ns []"
| reads_one: "reads_secret ns [EvGet KSecret (nname ns name) r]"

lemma resolveSecret_step: "post (resolveSecret env ns name keys) (\<lambda>r. reads_secret ns)"
  unfolding resolveSecret_def reconcile_defs by (intro post_intros) (rule reads_one)+

lemma database_credentials_step:
  "post (database_credentials env inst)
     (\<lambda>r evs. reads_secret (inst_namespace inst) evs \<and>
       (\<not> isl r \<longrightarrow> db_mode (inst_database (inst_spec inst)) = ''postgres'' \<longrightarrow>
          db_postgres (inst_database (inst_spec inst)) \<noteq> None))"
  unfolding database_credentials_def
  by (intro post_intros post_bind [OF resolveSecret_step]) (auto intro: reads_none split: sum.splits)

lemma vault_token_step:
  "post (vault_token env inst)
     (\<lambda>r evs. reads_secret (inst_namespace inst) evs \<and>
       (\<not> isl r \<longrightarrow> ks_mode (inst_key_store (inst_spec inst)) = ''vault'' \<longrightarrow>
          ks_vault (inst_key_store (inst_spec inst)) \<noteq> None))"
  unfolding vault_token_def
  by (intro post_intros post_bind [OF resolveSecret_step]) (auto intro: reads_none split: sum.splits)

text \<open>The claim is created only after a lookup answered not-found.\<close>

inductive key_storage_log :: "'w env \<Rightarrow> keyline_instance \<Rightarrow> goerr option \<Rightarrow> event list \<Rightarrow> bool"
  for env inst where
  no_directory:
    "ks_mode (inst_key_store (inst_spec inst)) \<noteq> keyStoreModeDirectory \<Longrightarrow> key_storage_log env inst None []"
| claim_found:
    "ks_mode (inst_key_store (inst_spec inst)) = keyStoreModeDirectory \<Longrightarrow>
     key_storage_log env inst None
       [EvGet KPersistentVolumeClaim (nname (inst_namespace inst) (inst_name inst @ keysPVC)) (Inr obj)]"
| claim_unreadable:
    "ks_mode (inst_key_store (inst_spec inst)) = keyStoreModeDirectory \<Longrightarrow>
     key_storage_log env inst (Some err)
       [EvGet KPersistentVolumeClaim (nname (inst_namespace inst) (inst_name inst @ keysPVC)) (Inl e)]"
| claim_created:
    "ks_mode (inst_key_store (inst_spec inst)) = keyStoreModeDirectory \<Longrightarrow> l_is_not_found (lib env) e \<Longrightarrow>
     l_set_controller_reference (lib env) inst
       (new_meta (inst_name inst @ keysPVC) (inst_namespace inst)) = Inr m \<Longrightarrow>
     key_storage_log env inst r
       [EvGet KPersistentVolumeClaim (nname (inst_namespace inst) (inst_name inst @ keysPVC)) (Inl e),
        EvCreate (ObjPersistentVolumeClaim (claim_for env inst m)) r]"

lemma ensure_key_storage_step: "post (ensure_key_storage env inst) (key_storage_log env inst)"
  unfolding ensure_key_storage_def reconcile_defs
  by (intro post_intros) (auto intro: key_storage_log.intros)

text \<open>The four writes, in their order, up to the first that fails.\<close>

abbreviation config_secret_for :: "'w env \<Rightarrow> keyline_instance \<Rightarrow> string \<Rightarrow> goerr + k8s_object" where
  "config_secret_for env inst data \<equiv>
     map_sum id ObjSecret (config_secret_mutate env inst data
       \<lparr>sec_meta = new_meta (inst_name inst @ configSecret) (inst_namespace inst), sec_data = []\<rparr>)"

abbreviation service_for :: "'w env \<Rightarrow> keyline_instance \<Rightarrow> goerr + k8s_object" where
  "service_for env inst \<equiv>
     map_sum id ObjService (service_mutate env inst
       \<lparr>svc_meta = new_meta (inst_name inst) (inst_namespace inst), svc_selector = [], svc_ports = [],
        svc_type = ServiceTypeClusterIP, svc_cluster_ip = []\<rparr>)"

abbreviation deployment_for :: "'w env \<Rightarrow> keyline_instance \<Rightarrow> string \<Rightarrow> goerr + k8s_object" where
  "deployment_for env inst h \<equiv>
     map_sum id ObjDeployment (deployment_mutate env inst h
       \<lparr>dep_meta = new_meta (inst_name inst) (inst_namespace inst), dep_spec = None, dep_conditions = []\<rparr>)"

inductive resources_log ::
    "'w env \<Rightarrow> keyline_instance \<Rightarrow> string \<Rightarrow> string \<Rightarrow> (string \<times> string) option \<Rightarrow> event list \<Rightarrow> bool"
  for env inst data h where
  config_failed:
    "resources_log env inst data h (Some (''ConfigSecretError'', error_text err))
       [EvCreateOrUpdate (config_secret_for env inst data) (Some err)]"
| claim_failed:
    "key_storage_log env inst (Some err) claim \<Longrightarrow>
     resources_log env inst data h (Some (''PVCError'', error_text err))
       (EvCreateOrUpdate (config_secret_for env inst data) None # claim)"
| service_failed:
    "key_storage_log env inst None claim \<Longrightarrow>
     resources_log env inst data h (Some (''ServiceError'', error_text err))
       (EvCreateOrUpdate (config_secret_for env inst data) None # claim @
        [EvCreateOrUpdate (service_for env inst) (Some err)])"
| deployment_failed:
    "key_storage_log env inst None claim \<Longrightarrow>
     resources_log env inst data h (Some (''DeploymentError'', error_text err))
       (EvCreateOrUpdate (config_secret_for env inst data) None # claim @
        [EvCreateOrUpdate (service_for env inst) None,
         EvCreateOrUpdate (deployment_for env inst h) (Some err)])"
| deployed:
    "key_storage_log env inst None claim \<Longrightarrow>
     resources_log env inst data h None
       (EvCreateOrUpdate (config_secret_for env inst data) None # claim @
        [EvCreateOrUpdate (service_for env inst) None,
         EvCreateOrUpdate (deployment_for env inst h) None])"

lemma ensure_resources_step: "post (ensure_resources env inst data h) (resources_log env inst data h)"
  unfolding ensure_resources_def reconcile_defs
  by (intro post_intros post_bind [OF ensure_key_storage_step]) (auto intro: resources_log.intros)

inductive availability_log :: "keyline_instance \<Rightarrow> goerr + bool \<Rightarrow> event list \<Rightarrow> bool"
  for inst where
  deployment_unreadable:
    "availability_log inst (Inl (WrapError ''getting deployment'' e))
       [EvGet KDeployment (nname (inst_namespace inst) (inst_name inst)) (Inl e)]"
| deployment_read:
    "availability_log inst (Inr (deployment_available d))
       [EvGet KDeployment (nname (inst_namespace inst) (inst_name inst)) (Inr (ObjDeployment d))]"

lemma isDeploymentAvailable_step: "post (isDeploymentAvailable env inst) (availability_log inst)"
  unfolding isDeploymentAvailable_def reconcile_defs by (intro post_intros) (auto intro: availability_log.intros)

lemmas instance_steps =
  post_bind [OF ensureCredentials_step] post_bind [OF database_credentials_step]
  post_bind [OF vault_token_step] post_bind [OF ensure_resources_step]
  post_bind [OF isDeploymentAvailable_step]

section \<open>The contract\<close>

text \<open>None of the steps above patches the status or calls the management API.\<close>

definition kube_only :: "event list \<Rightarrow> bool" where
  "kube_only evs = list_all (\<lambda>e. \<not> is_status_patch e \<and> \<not> is_api_call e \<and> api_error e = None) evs"

lemma kube_only_simps [simp]:
  "kube_only []"
  "kube_only (e # evs) \<longleftrightarrow> \<not> is_status_patch e \<and> \<not> is_api_call e \<and> api_error e = None \<and> kube_only evs"
  "kube_only (evs @ evs') \<longleftrightarrow> kube_only evs \<and> kube_only evs'"
  by (auto simp: kube_only_def)

lemma kube_only_no_patch: "kube_only evs \<Longrightarrow> list_all (\<lambda>e. \<not> is_status_patch e) evs"
  by (auto simp: kube_only_def list_all_iff)

lemma credentials_log_kube_only: "credentials_log env inst r evs \<Longrightarrow> kube_only evs"
  by (induction rule: credentials_log.induct) simp_all

lemma reads_secret_kube_only: "reads_secret ns evs \<Longrightarrow> kube_only evs"
  by (induction rule: reads_secret.induct) simp_all

lemma key_storage_log_kube_only: "key_storage_log env inst r evs \<Longrightarrow> kube_only evs"
  by (induction rule: key_storage_log.induct) simp_all

lemma resources_log_kube_only: "resources_log env inst data h r evs \<Longrightarrow> kube_only evs"
  by (induction rule: resources_log.induct)
    (auto dest: key_storage_log_kube_only)

lemma availability_log_kube_only: "availability_log inst r evs \<Longrightarrow> kube_only evs"
  by (induction rule: availability_log.induct) simp_all

lemmas kube_only_rules =
  credentials_log_kube_only reads_secret_kube_only resources_log_kube_only availability_log_kube_only

lemma reconcileInstance_discipline:
  "post (reconcileInstance env nn) (status_discipline KInstance nn (l_ignore_not_found (lib env)))"
  unfolding reconcileInstance_def reconcile_defs newStatusPatcher_def
  by (intro post_intros instance_steps)
    (auto simp: discipline_simps butlast_append set_url_def dest!: kube_only_rules
      intro!: kube_only_no_patch split: option.splits)

lemma instance_logs_in_namespace:
  "credentials_log env inst r evs \<Longrightarrow> list_all (reads_in (inst_namespace inst)) evs"
  "reads_secret ns evs \<Longrightarrow> list_all (reads_in ns) evs"
  "key_storage_log env inst e evs \<Longrightarrow> list_all (reads_in (inst_namespace inst)) evs"
  "availability_log inst a evs \<Longrightarrow> list_all (reads_in (inst_namespace inst)) evs"
  by (auto elim!: credentials_log.cases reads_secret.cases key_storage_log.cases availability_log.cases
      simp: reads_in_def)

lemma resources_log_in_namespace:
  "resources_log env inst data h r evs \<Longrightarrow> list_all (reads_in (inst_namespace inst)) evs"
  by (induction rule: resources_log.induct)
    (auto dest: instance_logs_in_namespace(3) simp: reads_in_def [of n "EvCreateOrUpdate x y" for n x y])

lemma reconcileInstance_isolated: "post (reconcileInstance env nn) (\<lambda>out. isolated)"
  unfolding reconcileInstance_def reconcile_defs newStatusPatcher_def
  by (intro post_intros instance_steps)
    (auto simp: isolated_def reads_in_def [of n "EvStatusPatch x y z" for n x y z] reads_in_def [of n "EvToken x y" for n x y]
      set_url_def dest!: instance_logs_in_namespace resources_log_in_namespace)

lemma kube_only_no_api: "kube_only evs \<Longrightarrow> list_all (\<lambda>e. \<not> is_api_call e) evs"
  by (auto simp: kube_only_def list_all_iff)

text \<open>The instance controller exchanges a token but never calls the management API.\<close>

lemma reconcileInstance_no_api: "post (reconcileInstance env nn) (\<lambda>out. list_all (\<lambda>e. \<not> is_api_call e))"
  unfolding reconcileInstance_def reconcile_defs newStatusPatcher_def
  by (intro post_intros instance_steps) (auto dest!: kube_only_rules intro: kube_only_no_api)

lemma kube_only_tolerated: "kube_only evs \<Longrightarrow> list_all tolerated evs"
  by (auto simp: kube_only_def list_all_iff tolerated_def)

lemma kube_only_not_ready: "kube_only evs \<Longrightarrow> \<not> reports_ready rdy evs"
  by (cases evs rule: rev_cases) (auto split: event.split)

lemma reconcileInstance_honest:
  assumes "meta_conditions_ok (lib env)"
  shows "post (reconcileInstance env nn) (\<lambda>out. honest (ready_in env))"
  unfolding reconcileInstance_def reconcile_defs newStatusPatcher_def
  by (intro post_intros instance_steps)
    (auto simp: honest_simps meta_conditions_set [OF assms] set_url_def kube_only_not_ready
      dest!: kube_only_rules intro: kube_only_tolerated)

lemma no_api_gated:
  assumes "list_all (\<lambda>e. \<not> is_api_call e) evs"
  shows "gated rdy [] [] evs" and "clients_entitled evs"
proof -
  have "client_of e = None" if "e \<in> set evs" for e
    using assms that client_of_api by (cases "client_of e") (auto simp: list_all_iff)
  then show "clients_entitled evs"
    by (auto simp: clients_entitled_def list_all_iff split: list.split event.split sum.split)
  show "gated rdy [] [] evs"
    using assms by (auto simp: gated_def list_all_iff list_ex_iff)
qed

interpretation instance_reconciler: gated_reconciler KInstance reconcileInstance "[]" "[]"
  by unfold_locales
    (fact reconcileInstance_discipline [THEN postD] reconcileInstance_isolated [THEN postD]
      reconcileInstance_honest [THEN postD]
      reconcileInstance_no_api [THEN postD, THEN no_api_gated(1)]
      reconcileInstance_no_api [THEN postD, THEN no_api_gated(2)])+

section \<open>Panics\<close>

text \<open>
  \<^verbatim>\<open>Reconcile\<close> guards the two pointers its modes need, so the one nil dereference left is that of
  a database mode that is neither memory nor postgres.
\<close>

definition unguarded_spec :: "instance_spec \<Rightarrow> bool" where
  "unguarded_spec sp \<longleftrightarrow>
     db_mode (inst_database sp) \<noteq> ''memory'' \<and> db_mode (inst_database sp) \<noteq> ''postgres'' \<and>
     db_postgres (inst_database sp) = None"

lemma valid_spec_guarded: "valid_instance_spec sp \<Longrightarrow> \<not> unguarded_spec sp"
  by (auto simp: valid_instance_spec_def unguarded_spec_def)

definition panic_explained :: "outcome \<Rightarrow> event list \<Rightarrow> bool" where
  "panic_explained out evs =
     (case out of
        Returned r e \<Rightarrow> True
      | Panicked \<Rightarrow>
          (case evs of
             EvGet k nn (Inr (ObjInstance inst)) # _ \<Rightarrow> unguarded_spec (inst_spec inst)
           | _ \<Rightarrow> False))"

lemma reconcileInstance_panic: "post (reconcileInstance env nn) panic_explained"
  unfolding reconcileInstance_def reconcile_defs newStatusPatcher_def
  by (intro post_intros instance_steps)
    (auto simp: panic_explained_def patch_outcome_def result_defs buildKeylineConfig_Panic_iff derefs_nil_def
      unguarded_spec_def split: option.splits)

section \<open>The deployed configuration\<close>

text \<open>The configuration written, and the configuration hash a Deployment is annotated with.\<close>

definition config_of :: "event \<Rightarrow> string option" where
  "config_of e = (case e of EvCreateOrUpdate (Inr (ObjSecret s)) err \<Rightarrow> Some (sec_get s ''config.yaml'') | _ \<Rightarrow> None)"

definition annotation_of :: "event \<Rightarrow> string option" where
  "annotation_of e =
     (case e of
        EvCreateOrUpdate (Inr (ObjDeployment d)) err \<Rightarrow>
          Option.bind (dep_spec d) (\<lambda>sp. map_of (pt_annotations (dep_template sp)) configHashAnno)
      | _ \<Rightarrow> None)"

definition writes_deployment :: "event \<Rightarrow> bool" where
  "writes_deployment e = (case e of EvCreateOrUpdate (Inr (ObjDeployment d)) err \<Rightarrow> True | _ \<Rightarrow> False)"

definition closure_failed :: "event \<Rightarrow> bool" where
  "closure_failed e = (case e of EvCreateOrUpdate (Inl x) err \<Rightarrow> True | _ \<Rightarrow> False)"

definition configs_of :: "event list \<Rightarrow> string list" where
  "configs_of evs = List.map_filter config_of evs"

text \<open>
  Every Deployment written has the annotation, with the hash of every configuration written; and one was
  written, unless an environment takes a write for done whose closure failed.
\<close>

definition hash_consistent :: "event list \<Rightarrow> bool" where
  "hash_consistent evs =
     list_all (\<lambda>e. if writes_deployment e
        then annotation_of e \<noteq> None \<and>
             list_all (\<lambda>data. annotation_of e = Some (hex_bytes (sha256 data))) (configs_of evs) \<and>
             (configs_of evs \<noteq> [] \<or> list_ex closure_failed evs)
        else True) evs"

definition no_updates :: "event list \<Rightarrow> bool" where
  "no_updates evs = list_all (\<lambda>e. config_of e = None \<and> \<not> writes_deployment e \<and> \<not> closure_failed e) evs"

lemma no_updates_simps [simp]:
  "no_updates []"
  "no_updates (e # evs) \<longleftrightarrow> config_of e = None \<and> \<not> writes_deployment e \<and> \<not> closure_failed e \<and> no_updates evs"
  "no_updates (evs @ evs') \<longleftrightarrow> no_updates evs \<and> no_updates evs'"
  by (simp_all add: no_updates_def)

lemma configs_of_simps [simp]:
  "configs_of [] = []"
  "configs_of (e # evs) = (case config_of e of None \<Rightarrow> configs_of evs | Some d \<Rightarrow> d # configs_of evs)"
  "configs_of (evs @ evs') = configs_of evs @ configs_of evs'"
  by (simp_all add: configs_of_def List.map_filter_def split: option.split)

lemma no_updates_facts:
  "no_updates evs \<Longrightarrow> configs_of evs = [] \<and> \<not> list_ex closure_failed evs \<and> list_all (\<lambda>e. \<not> writes_deployment e) evs"
  by (induction evs) simp_all

lemma hash_consistent_skip:
  "no_updates evs \<Longrightarrow> hash_consistent evs"
  "config_of e = None \<Longrightarrow> \<not> writes_deployment e \<Longrightarrow> \<not> closure_failed e \<Longrightarrow> hash_consistent (e # evs) = hash_consistent evs"
  "no_updates evs \<Longrightarrow> hash_consistent (evs @ evs') = hash_consistent evs'"
  "no_updates evs' \<Longrightarrow> hash_consistent (evs @ evs') = hash_consistent evs"
  by (auto simp: hash_consistent_def list_all_iff dest!: no_updates_facts)

lemma no_update_events:
  "config_of (EvGet k nn r) = None" "\<not> writes_deployment (EvGet k nn r)" "\<not> closure_failed (EvGet k nn r)"
  "config_of (EvToken ts t) = None" "\<not> writes_deployment (EvToken ts t)" "\<not> closure_failed (EvToken ts t)"
  "config_of (EvStatusPatch obj b err) = None" "\<not> writes_deployment (EvStatusPatch obj b err)"
  "\<not> closure_failed (EvStatusPatch obj b err)"
  "config_of (EvCreate obj' err') = None" "\<not> writes_deployment (EvCreate obj' err')" "\<not> closure_failed (EvCreate obj' err')"
  by (simp_all add: config_of_def writes_deployment_def closure_failed_def)

lemma no_updates_rules:
  "credentials_log env inst r evs \<Longrightarrow> no_updates evs"
  "reads_secret ns evs \<Longrightarrow> no_updates evs"
  "key_storage_log env inst r' evs \<Longrightarrow> no_updates evs"
  "availability_log inst r'' evs \<Longrightarrow> no_updates evs"
  by (auto elim!: credentials_log.cases reads_secret.cases key_storage_log.cases availability_log.cases
      simp: no_update_events)

text \<open>What the four writes are, as events.\<close>

lemma write_events:
  "config_of (EvCreateOrUpdate (config_secret_for env inst data) err) =
     (if closure_failed (EvCreateOrUpdate (config_secret_for env inst data) err) then None else Some data)"
  "\<not> writes_deployment (EvCreateOrUpdate (config_secret_for env inst data) err)"
  "config_of (EvCreateOrUpdate (service_for env inst) err) = None"
  "\<not> writes_deployment (EvCreateOrUpdate (service_for env inst) err)"
  "config_of (EvCreateOrUpdate (deployment_for env inst h) err) = None"
  "writes_deployment (EvCreateOrUpdate (deployment_for env inst h) err) \<Longrightarrow>
     annotation_of (EvCreateOrUpdate (deployment_for env inst h) err) = Some h"
  by (auto simp: config_of_def writes_deployment_def closure_failed_def annotation_of_def config_secret_mutate_def
      service_mutate_def deployment_mutate_def deployment_spec_for_def sec_get_def map_sum_def split: sum.splits)

lemma resources_log_consistent:
  assumes "resources_log env inst data h r evs" "h = hex_bytes (sha256 data)"
  shows "hash_consistent evs"
  using assms
  by (induction rule: resources_log.induct)
    (auto simp: hash_consistent_def write_events list_all_iff dest!: no_updates_rules no_updates_facts)

lemma reconcileInstance_hash: "post (reconcileInstance env nn) (\<lambda>out. hash_consistent)"
  unfolding reconcileInstance_def reconcile_defs newStatusPatcher_def
  by (intro post_intros instance_steps)
    (auto simp: hash_consistent_skip no_update_events dest!: no_updates_rules buildKeylineConfig_hash
      intro: resources_log_consistent [OF _ refl])

section \<open>Readiness\<close>

text \<open>
  The instance is reported ready only right after its Deployment was read as available and a
  token exchange at the URL in the reported status succeeded.
\<close>

definition ready_after_exchange :: "(condition list \<Rightarrow> bool) \<Rightarrow> event list \<Rightarrow> bool" where
  "ready_after_exchange rdy evs =
     (if reports_ready rdy evs
      then (case rev evs of
          EvStatusPatch obj base err # EvToken ts (Inr t) # EvGet k nn (Inr (ObjDeployment d)) # _ \<Rightarrow>
            nn = nn_of (object_meta_of obj) \<and> deployment_available d \<and>
            (case obj of
               ObjInstance inst \<Rightarrow>
                 inst_url (inst_status inst) = service_url inst \<and> ts_keyline_url ts = service_url inst
             | _ \<Rightarrow> False)
        | _ \<Rightarrow> False)
      else True)"

lemma reconcileInstance_ready:
  assumes "meta_conditions_ok (lib env)"
  shows "post (reconcileInstance env nn) (\<lambda>out. ready_after_exchange (ready_in env))"
  unfolding reconcileInstance_def reconcile_defs newStatusPatcher_def
  by (intro post_intros instance_steps)
    (auto simp: ready_after_exchange_def kube_only_not_ready reported_def meta_conditions_set [OF assms]
      set_url_def service_url_def instance_token_source_def elim!: availability_log.cases dest: kube_only_rules)

section \<open>Properties of the instance controller\<close>

text \<open>
  C20: the operator's key pair is made once and never overwritten. The credentials Secret is created
  only after a lookup of that very name answered not-found; otherwise nothing is written. A Secret that is
  created holds the two halves of one key in PEM form, its id and the operator's user name, under the
  keys from which later reconciles and clients read them, and is owned by the instance. The
  triple returned is read from the Secret that was found or created, so that the reconcile that
  creates it goes on with what the next one will find. Every other outcome is an error.
\<close>

theorem credentials_made_once:
  "case run_state (ensureCredentials env inst) (start w) of (r, s) \<Rightarrow> credentials_log env inst r (st_trace s)"
  by (auto intro: postD [OF ensureCredentials_step] split: prod.splits)

text \<open>
  C21: the resources of an instance are written in a fixed order, up to the first failure: the
  configuration Secret, in directory mode the claim for the keys (only when it does not exist
  yet), the Service, and last the Deployment; the step that failed gives the reason reported.
\<close>

theorem resources_written_in_order:
  "case run_state (ensure_resources env inst data h) (start w) of (r, s) \<Rightarrow>
     resources_log env inst data h r (st_trace s)"
  by (auto intro: postD [OF ensure_resources_step] split: prod.splits)

text \<open>
  C25: the instance controller panics only for an instance whose database mode is neither memory nor
  postgres and which has no postgres section, a spec that the CRD's validation rejects.
\<close>

theorem instance_panics_only_when_invalid:
  "case run_state (reconcileInstance env nn) (start w) of
     (Panicked, s) \<Rightarrow>
       (case st_trace s of
          EvGet k nn' (Inr (ObjInstance inst)) # _ \<Rightarrow> \<not> valid_instance_spec (inst_spec inst)
        | _ \<Rightarrow> False)
   | (Returned r e, s) \<Rightarrow> True"
proof -
  obtain out s where run: "run_state (reconcileInstance env nn) (start w) = (out, s)"
    by (metis prod.exhaust)
  from postD [OF reconcileInstance_panic run] show ?thesis
    using valid_spec_guarded unfolding run
    by (auto simp: panic_explained_def split: outcome.splits list.splits event.splits sum.splits k8s_object.splits)
qed

text \<open>
  C23: every Deployment that a reconcile writes carries the annotation with the configuration's hash, and the
  hash is that of the configuration that this same reconcile wrote into the configuration Secret, so that a
  changed configuration changes the pod template and rolls the pods.
\<close>

theorem deployment_carries_config_hash:
  "case run_state (reconcileInstance env nn) (start w) of (out, s) \<Rightarrow> hash_consistent (st_trace s)"
  by (auto intro: postD [OF reconcileInstance_hash] split: prod.splits)

text \<open>
  C24: the instance is reported ready only when, directly before, its Deployment was read as
  available and a token exchange succeeded at the service URL that the reported status carries.
\<close>

theorem instance_ready_after_exchange:
  assumes "meta_conditions_ok (lib env)"
  shows "case run_state (reconcileInstance env nn) (start w) of (out, s) \<Rightarrow>
     ready_after_exchange (ready_in env) (st_trace s)"
  by (auto intro: postD [OF reconcileInstance_ready [OF assms]] split: prod.splits)

lemma instance_ready_after_exchange_witness:
  "case run_state (reconcileInstance ex_env (nname ''ns'' ''kl'')) (start ex_world) of (out, s) \<Rightarrow>
     ready_after_exchange (ready_in ex_env) (st_trace s)"
  by (rule instance_ready_after_exchange [OF ex_meta_conditions_ok])

section \<open>The pod agrees with the configuration\<close>

text \<open>
  What the rendered configuration presupposes of the pod and of the Service: the port, the file it
  is read from, and the directory of the keys.
\<close>

definition mounted_at :: "pod_template \<Rightarrow> string \<Rightarrow> volume_source \<Rightarrow> bool \<Rightarrow> bool" where
  "mounted_at pt path src ro =
     list_ex (\<lambda>c. list_ex (\<lambda>m. vm_mount_path m = path \<and> vm_read_only m = ro \<and>
       list_ex (\<lambda>v. vol_name v = vm_name m \<and> vol_source v = src) (pt_volumes pt)) (ctr_volume_mounts c))
     (pt_containers pt)"

definition pod_agrees :: "keyline_instance \<Rightarrow> keyline_config \<Rightarrow> pod_template \<Rightarrow> bool" where
  "pod_agrees inst cfg pt \<longleftrightarrow>
     list_all (\<lambda>c. list_all (\<lambda>p. sint (cp_container_port p) = sc_port (cfg_server cfg)) (ctr_ports c))
       (pt_containers pt) \<and>
     list_all (\<lambda>c. list_ex (\<lambda>a. a = ''/etc/keyline'' @ ''/config.yaml'') (ctr_args c)) (pt_containers pt) \<and>
     mounted_at pt ''/etc/keyline'' (SecretVolume (inst_name inst @ configSecret)) True \<and>
     distinct (map vol_name (pt_volumes pt)) \<and>
     list_all (\<lambda>c. list_all (\<lambda>m. list_ex (\<lambda>v. vol_name v = vm_name m) (pt_volumes pt)) (ctr_volume_mounts c))
       (pt_containers pt) \<and>
     (ksc_mode (cfg_key_store cfg) = KeyStoreModeDirectory) =
       mounted_at pt (ksc_directory_path (cfg_key_store cfg))
         (PersistentVolumeClaimVolume (inst_name inst @ keysPVC)) False"

text \<open>
  C26: the pod the operator deploys fits the configuration it renders. The container port is the
  server's port; the configuration file passed on the command line lies in the read-only mount of
  the configuration Secret; every mount names exactly one volume; and the claim for the keys is
  mounted, writable, at the directory the configuration names exactly in directory mode.
\<close>

theorem pod_agrees_with_config:
  "case build_config inst pub kid u p t of
     Panic \<Rightarrow> derefs_nil (inst_spec inst)
   | Ret cfg \<Rightarrow> pod_agrees inst cfg (dep_template (deployment_spec_for inst h))"
proof (cases "build_config inst pub kid u p t")
  case Panic
  then show ?thesis using build_config_Panic_iff [of inst pub kid u p t] by simp
next
  case (Ret cfg)
  then have "sc_port (cfg_server cfg) = 8080"
    "ksc_mode (cfg_key_store cfg) = KeyStoreModeDirectory \<longleftrightarrow>
       ks_mode (inst_key_store (inst_spec inst)) = keyStoreModeDirectory"
    "ks_mode (inst_key_store (inst_spec inst)) = keyStoreModeDirectory \<Longrightarrow>
       ksc_directory_path (cfg_key_store cfg) = keyDirPath"
    by (auto simp: build_config_def build_key_store_config_def zero_key_store_config_def keylinePort_def Let_def
        split: go.splits if_splits option.splits)
  then show ?thesis
    by (auto simp: Ret pod_agrees_def mounted_at_def deployment_spec_for_def deployment_volumes_def
        deployment_volume_mounts_def keylinePort_def configFilePath_def keyDirPath_def)
qed

text \<open>
  C29: the operator can log in with what it renders. The token source that the readiness check uses,
  and the one a client for the instance uses later from the credentials Secret made here, are the
  same; and the configuration declares its user with its key and key id, its application,
  and its virtual server.
\<close>

theorem operator_identity_agrees:
  "case build_config inst pub kid u p t of
     Panic \<Rightarrow> derefs_nil (inst_spec inst)
   | Ret cfg \<Rightarrow>
       (let ts = instance_token_source inst priv kid;
            ivs = cfg_initial_virtual_server cfg
        in kc_token_source (operator_client (set_url (service_url inst) inst) vs
             (credentials_secret m priv pub kid)) = ts \<and>
           ts_virtual_server ts = ivs_name ivs \<and>
           list_ex (\<lambda>su. suc_username su = ts_username ts \<and> suc_public_key_kid su = ts_kid ts \<and>
             suc_public_key_pem su = pub) (ivs_service_users ivs) \<and>
           list_ex (\<lambda>pr. list_ex (\<lambda>a. iac_name a = ts_application ts) (ipc_applications pr)) (ivs_projects ivs))"
proof (cases "build_config inst pub kid u p t")
  case Panic
  then show ?thesis using build_config_Panic_iff [of inst pub kid u p t] by simp
next
  case (Ret cfg)
  then have "ivs_name (cfg_initial_virtual_server cfg) = virtual_server_name inst"
    "ivs_service_users (cfg_initial_virtual_server cfg) =
       [\<lparr>suc_username = operatorUsername, suc_roles = [''system:admin'', ''system:system-admin''],
         suc_public_key_pem = pub, suc_public_key_kid = kid\<rparr>]"
    "ivs_projects (cfg_initial_virtual_server cfg) =
       [\<lparr>ipc_slug = ''operator'', ipc_name = ''Operator'',
         ipc_applications = [\<lparr>iac_name = operatorApplication, iac_display_name = ''Keyline Operator'',
           iac_type = ''public''\<rparr>]\<rparr>]"
    by (auto simp: build_config_def split: go.splits)
  then show ?thesis
    by (simp add: Ret instance_token_source_def operator_client_def credentials_secret_def sec_get_def set_url_def
        service_url_def virtual_server_name_def Let_def)
qed

section \<open>Updates repair drift\<close>

text \<open>\<^verbatim>\<open>controllerutil.SetControllerReference\<close> is idempotent and keeps the name.\<close>

definition owner_reference_ok :: "'w runtime_lib \<Rightarrow> bool" where
  "owner_reference_ok l \<longleftrightarrow>
     (\<forall>inst m m'. l_set_controller_reference l inst m = Inr m' \<longrightarrow>
        l_set_controller_reference l inst m' = Inr m' \<and>
        om_name m' = om_name m \<and> om_namespace m' = om_namespace m)"

definition the_service :: "keyline_instance \<Rightarrow> service \<Rightarrow> service" where
  "the_service inst sv = sv\<lparr>svc_selector := instanceLabels inst,
     svc_ports := [\<lparr>port_name = ''http'', port_port = of_nat keylinePort, port_protocol = ProtocolTCP\<rparr>],
     svc_type := ServiceTypeClusterIP\<rparr>"

text \<open>
  C30: an update repairs whatever was changed by hand and then has nothing more to do. Whatever the
  object in the cluster looks like, the Deployment's spec, the Service's selector, ports and type
  (one TCP port, 8080, on a cluster IP) and the Secret's data become those computed from the instance, and each gets
  the instance's owner reference, while the Service keeps its
  cluster IP and the Deployment its conditions; applying the update again changes nothing.
\<close>

theorem updates_repair_drift:
  assumes "owner_reference_ok (lib env)"
    and "deployment_mutate env inst h d = Inr d'"
    and "service_mutate env inst sv = Inr sv'"
    and "config_secret_mutate env inst data sec = Inr sec'"
  shows "dep_spec d' = Some (deployment_spec_for inst h) \<and> dep_conditions d' = dep_conditions d \<and>
     deployment_mutate env inst h d' = Inr d' \<and>
     l_set_controller_reference (lib env) inst (dep_meta d) = Inr (dep_meta d') \<and>
     svc_selector sv' = instanceLabels inst \<and>
     svc_ports sv' = [\<lparr>port_name = ''http'', port_port = 8080, port_protocol = ProtocolTCP\<rparr>] \<and>
     svc_type sv' = ServiceTypeClusterIP \<and> svc_cluster_ip sv' = svc_cluster_ip sv \<and>
     service_mutate env inst sv' = Inr sv' \<and>
     l_set_controller_reference (lib env) inst (svc_meta sv) = Inr (svc_meta sv') \<and>
     l_set_controller_reference (lib env) inst (sec_meta sec) = Inr (sec_meta sec') \<and>
     sec_data sec' = [(''config.yaml'', data)] \<and> config_secret_mutate env inst data sec' = Inr sec'"
proof -
  have idem: "l_set_controller_reference (lib env) inst m' = Inr m'"
    if "l_set_controller_reference (lib env) inst m = Inr m'" for m m'
    using assms(1) that unfolding owner_reference_ok_def by blast
  obtain m where m: "l_set_controller_reference (lib env) inst (dep_meta d) = Inr m"
    "d' = d\<lparr>dep_spec := Some (deployment_spec_for inst h), dep_meta := m\<rparr>"
    using assms(2) by (auto simp: deployment_mutate_def map_sum_def split: sum.splits)
  obtain n where n: "l_set_controller_reference (lib env) inst (svc_meta sv) = Inr n"
    "sv' = (the_service inst sv)\<lparr>svc_meta := n\<rparr>"
    using assms(3) by (auto simp: service_mutate_def the_service_def map_sum_def split: sum.splits)
  obtain k where k: "l_set_controller_reference (lib env) inst (sec_meta sec) = Inr k"
    "sec' = sec\<lparr>sec_data := [(''config.yaml'', data)], sec_meta := k\<rparr>"
    using assms(4) by (auto simp: config_secret_mutate_def map_sum_def split: sum.splits)
  show ?thesis
    by (simp add: m(2) n(2) k(2) m(1) n(1) k(1) idem [OF m(1)] idem [OF n(1)] idem [OF k(1)] deployment_mutate_def
        service_mutate_def config_secret_mutate_def the_service_def keylinePort_def)
qed

lemma ex_owner_reference_ok: "owner_reference_ok (lib ex_env)"
  by (auto simp: owner_reference_ok_def ex_env_def ex_lib_def)

definition ex_service :: service where
  "ex_service =
     \<lparr>svc_meta = ex_meta ''kl'', svc_selector = [(''app'', ''other'')], svc_ports = [],
      svc_type = ServiceTypeNodePort, svc_cluster_ip = ''10.0.0.7''\<rparr>"

lemma updates_repair_drift_witness:
  "\<exists>d' sv' sec'.
     dep_spec d' = Some (deployment_spec_for ex_instance ''h'') \<and>
     deployment_mutate ex_env ex_instance ''h'' ex_deployment = Inr d' \<and>
     svc_selector sv' = instanceLabels ex_instance \<and> svc_cluster_ip sv' = ''10.0.0.7'' \<and>
     svc_ports sv' = [\<lparr>port_name = ''http'', port_port = 8080, port_protocol = ProtocolTCP\<rparr>] \<and>
     svc_type sv' = ServiceTypeClusterIP \<and> svc_type ex_service = ServiceTypeNodePort \<and>
     service_mutate ex_env ex_instance ex_service = Inr sv' \<and>
     sec_data sec' = [(''config.yaml'', ''c'')] \<and> config_secret_mutate ex_env ex_instance ''c'' ex_secret = Inr sec'"
proof -
  obtain d' where d: "deployment_mutate ex_env ex_instance ''h'' ex_deployment = Inr d'"
    by (simp add: deployment_mutate_def ex_env_def ex_lib_def Let_def)
  obtain sv' where sv: "service_mutate ex_env ex_instance ex_service = Inr sv'"
    by (simp add: service_mutate_def ex_env_def ex_lib_def Let_def)
  obtain sec' where sec: "config_secret_mutate ex_env ex_instance ''c'' ex_secret = Inr sec'"
    by (simp add: config_secret_mutate_def ex_env_def ex_lib_def Let_def)
  from updates_repair_drift [OF ex_owner_reference_ok d sv sec] d sv sec show ?thesis
    by (auto simp: ex_service_def)
qed

end
