(* ===== verification/VirtualServer_Controller.thy ===== *)
theory VirtualServer_Controller
  imports Example_Env
begin

text \<open>
  \<^verbatim>\<open>internal/controller/keylinevirtualserver_controller.go\<close>: waits for the instance to be ready,
  reads the virtual server from Keyline, and patches the fields the spec sets that differ.
\<close>

section \<open>The patch\<close>

definition empty_vs_patch :: patch_virtual_server_input where
  "empty_vs_patch =
     \<lparr>pvs_display_name = None, pvs_enable_registration = None, pvs_require_2fa = None,
      pvs_require_email_verification = None, pvs_primary_signing_algorithm = None,
      pvs_additional_signing_algorithms = None\<rparr>"

text \<open>A spec pointer that is set and whose value differs from the current one.\<close>

definition wants :: "'a option \<Rightarrow> 'a \<Rightarrow> bool" where
  "wants desired current = (case desired of None \<Rightarrow> False | Some d \<Rightarrow> d \<noteq> current)"

text \<open>\<^verbatim>\<open>slices.Equal\<close>: a nil slice has the elements of an empty one.\<close>

definition slice_elems :: "'a list option \<Rightarrow> 'a list" where
  "slice_elems xs = (case xs of None \<Rightarrow> [] | Some l \<Rightarrow> l)"

definition slices_Equal :: "'a list option \<Rightarrow> 'a list option \<Rightarrow> bool" where
  "slices_Equal xs ys \<longleftrightarrow> slice_elems xs = slice_elems ys"

definition wants_slice :: "'a list option \<Rightarrow> 'a list option \<Rightarrow> bool" where
  "wants_slice desired current \<longleftrightarrow> desired \<noteq> None \<and> \<not> slices_Equal desired current"

definition build_vs_patch ::
    "virtual_server_spec \<Rightarrow> virtual_server_dto \<Rightarrow> patch_virtual_server_input \<times> bool" where
  "build_vs_patch sp current =
     (let (patch, needsPatch) = (empty_vs_patch, False);
          (patch, needsPatch) =
            (if wants (vs_display_name sp) (vsd_display_name current)
             then (patch\<lparr>pvs_display_name := vs_display_name sp\<rparr>, True) else (patch, needsPatch));
          (patch, needsPatch) =
            (if wants (vs_registration_enabled sp) (vsd_registration_enabled current)
             then (patch\<lparr>pvs_enable_registration := vs_registration_enabled sp\<rparr>, True) else (patch, needsPatch));
          (patch, needsPatch) =
            (if wants (vs_require_2fa sp) (vsd_require_2fa current)
             then (patch\<lparr>pvs_require_2fa := vs_require_2fa sp\<rparr>, True) else (patch, needsPatch));
          (patch, needsPatch) =
            (if wants (vs_require_email_verification sp) (vsd_require_email_verification current)
             then (patch\<lparr>pvs_require_email_verification := vs_require_email_verification sp\<rparr>, True)
             else (patch, needsPatch));
          (patch, needsPatch) =
            (if wants (vs_primary_signing_algorithm sp) (vsd_primary_signing_algorithm current)
             then (patch\<lparr>pvs_primary_signing_algorithm := vs_primary_signing_algorithm sp\<rparr>, True)
             else (patch, needsPatch));
          (patch, needsPatch) =
            (if wants_slice (vs_additional_signing_algorithms sp) (vsd_additional_signing_algorithms current)
             then (patch\<lparr>pvs_additional_signing_algorithms := vs_additional_signing_algorithms sp\<rparr>, True)
             else (patch, needsPatch))
      in (patch, needsPatch))"

section \<open>Reconcile\<close>

definition vs_patcher :: "keyline_virtual_server \<Rightarrow> keyline_virtual_server status_patcher" where
  [reconcile_defs]: "vs_patcher vs =
     newStatusPatcher ObjVirtualServer vs
       (\<lambda>f x. x\<lparr>vs_status := vs_status x\<lparr>vs_conditions := f (vs_conditions (vs_status x))\<rparr>\<rparr>)"

definition sync_virtual_server ::
    "'w env \<Rightarrow> keyline_client \<Rightarrow> keyline_virtual_server status_patcher \<Rightarrow> keyline_virtual_server \<Rightarrow> ('w, outcome) op" where
  [reconcile_defs]: "sync_virtual_server env kc sp vs = do {
     r \<leftarrow> virtual_server_get env kc;
     case r of
       Inl err \<Rightarrow> setNotReady env sp vs ''GetFailed'' (error_text err)
     | Inr current \<Rightarrow>
     (let (patch, needsPatch) = build_vs_patch (vs_spec vs) current in
      if needsPatch
      then do {
        e \<leftarrow> virtual_server_patch env kc patch;
        case e of
          Some err \<Rightarrow> setNotReady env sp vs ''PatchFailed'' (error_text err)
        | None \<Rightarrow> setReady env sp vs ''Synced'' ''Virtual server is in sync''
      }
      else setReady env sp vs ''Synced'' ''Virtual server is in sync'')
   }"

definition reconcileVirtualServer :: "'w env \<Rightarrow> namespaced_name \<Rightarrow> ('w, outcome) op" where
  "reconcileVirtualServer env req = do {
     r \<leftarrow> get_virtual_server env req;
     case r of
       Inl err \<Rightarrow> State_Monad.return (ReconcileError (l_ignore_not_found (lib env) err))
     | Inr vs \<Rightarrow> do {
     let sp = vs_patcher vs;
     let ns = om_namespace (vs_meta vs);
     ri \<leftarrow> get_instance env (nname ns (ref_name (vs_instance_ref (vs_spec vs))));
     case ri of
       Inl err \<Rightarrow> setNotReady env sp vs ''InstanceNotFound'' (error_text err)
     | Inr inst \<Rightarrow>
     if \<not> l_is_status_condition_true (lib env) (inst_conditions (inst_status inst)) ConditionReady
     then setNotReady env sp vs ''InstanceNotReady'' ''KeylineInstance is not ready''
     else do {
     rk \<leftarrow> newOperatorClient env ns inst (vs_name (vs_spec vs));
     case rk of
       Inl err \<Rightarrow> setNotReady env sp vs ''SecretNotFound'' (error_text err)
     | Inr kc \<Rightarrow> sync_virtual_server env kc sp vs
     }}}"

section \<open>The contract\<close>

lemma reconcileVirtualServer_discipline:
  "post (reconcileVirtualServer env nn) (status_discipline KVirtualServer nn (l_ignore_not_found (lib env)))"
  unfolding reconcileVirtualServer_def reconcile_defs newStatusPatcher_def
  by (intro post_intros) (simp_all add: discipline_simps split: option.splits)

lemma reconcileVirtualServer_isolated: "post (reconcileVirtualServer env nn) (\<lambda>out. isolated)"
  unfolding reconcileVirtualServer_def reconcile_defs newStatusPatcher_def
  by (intro post_intros) (simp_all add: isolated_simps)

lemma reconcileVirtualServer_gated:
  "post (reconcileVirtualServer env nn) (\<lambda>out. gated (ready_in env) [KVirtualServer, KInstance] [KInstance])"
  unfolding reconcileVirtualServer_def reconcile_defs newStatusPatcher_def
  by (intro post_intros) (simp_all add: gate_simps)

lemma reconcileVirtualServer_entitled: "post (reconcileVirtualServer env nn) (\<lambda>out. clients_entitled)"
  unfolding reconcileVirtualServer_def reconcile_defs newStatusPatcher_def
  by (intro post_intros) (simp_all add: gate_simps)

lemma reconcileVirtualServer_honest:
  assumes "meta_conditions_ok (lib env)"
  shows "post (reconcileVirtualServer env nn) (\<lambda>out. honest (ready_in env))"
  unfolding reconcileVirtualServer_def reconcile_defs newStatusPatcher_def
  by (intro post_intros) (simp_all add: honest_simps meta_conditions_set [OF assms])

interpretation virtual_server: gated_reconciler KVirtualServer reconcileVirtualServer
  "[KVirtualServer, KInstance]" "[KInstance]"
  by unfold_locales
    (fact reconcileVirtualServer_discipline [THEN postD] reconcileVirtualServer_isolated [THEN postD]
      reconcileVirtualServer_gated [THEN postD]
      reconcileVirtualServer_entitled [THEN postD] reconcileVirtualServer_honest [THEN postD])+

section \<open>The patch converges\<close>

text \<open>The spec is met: no field it sets differs.\<close>

definition vs_in_sync :: "virtual_server_spec \<Rightarrow> virtual_server_dto \<Rightarrow> bool" where
  "vs_in_sync sp cur \<longleftrightarrow>
     \<not> wants (vs_display_name sp) (vsd_display_name cur) \<and>
     \<not> wants (vs_registration_enabled sp) (vsd_registration_enabled cur) \<and>
     \<not> wants (vs_require_2fa sp) (vsd_require_2fa cur) \<and>
     \<not> wants (vs_require_email_verification sp) (vsd_require_email_verification cur) \<and>
     \<not> wants (vs_primary_signing_algorithm sp) (vsd_primary_signing_algorithm cur) \<and>
     \<not> wants_slice (vs_additional_signing_algorithms sp) (vsd_additional_signing_algorithms cur)"

definition overwrite :: "'a option \<Rightarrow> 'a \<Rightarrow> 'a" where
  "overwrite p x = (case p of None \<Rightarrow> x | Some y \<Rightarrow> y)"

definition merge_vs_patch :: "patch_virtual_server_input \<Rightarrow> virtual_server_dto \<Rightarrow> virtual_server_dto" where
  "merge_vs_patch p cur =
     \<lparr>vsd_display_name = overwrite (pvs_display_name p) (vsd_display_name cur),
      vsd_registration_enabled = overwrite (pvs_enable_registration p) (vsd_registration_enabled cur),
      vsd_require_2fa = overwrite (pvs_require_2fa p) (vsd_require_2fa cur),
      vsd_require_email_verification =
        overwrite (pvs_require_email_verification p) (vsd_require_email_verification cur),
      vsd_primary_signing_algorithm =
        overwrite (pvs_primary_signing_algorithm p) (vsd_primary_signing_algorithm cur),
      vsd_additional_signing_algorithms =
        (case pvs_additional_signing_algorithms p of
           None \<Rightarrow> vsd_additional_signing_algorithms cur | Some l \<Rightarrow> Some l)\<rparr>"

definition only_if :: "bool \<Rightarrow> 'a option \<Rightarrow> 'a option" where
  "only_if b x = (if b then x else None)"

lemma overwrite_only_if:
  "\<not> wants d (overwrite (only_if (wants d x) d) x)"
  "\<not> wants_slice l (case only_if (wants_slice l y) l of None \<Rightarrow> y | Some z \<Rightarrow> Some z)"
  by (auto simp: wants_def wants_slice_def slices_Equal_def overwrite_def only_if_def split: option.split)

lemma only_if_None:
  "only_if (wants d x) d = None \<longleftrightarrow> \<not> wants d x"
  "only_if (wants_slice l y) l = None \<longleftrightarrow> \<not> wants_slice l y"
  by (auto simp: wants_def wants_slice_def only_if_def split: option.split)

lemma vs_patch_fields:
  "(if c then p\<lparr>pvs_display_name := v1\<rparr> else p) = p\<lparr>pvs_display_name := if c then v1 else pvs_display_name p\<rparr>"
  "(if c then p\<lparr>pvs_enable_registration := v2\<rparr> else p) =
     p\<lparr>pvs_enable_registration := if c then v2 else pvs_enable_registration p\<rparr>"
  "(if c then p\<lparr>pvs_require_2fa := v3\<rparr> else p) = p\<lparr>pvs_require_2fa := if c then v3 else pvs_require_2fa p\<rparr>"
  "(if c then p\<lparr>pvs_require_email_verification := v4\<rparr> else p) =
     p\<lparr>pvs_require_email_verification := if c then v4 else pvs_require_email_verification p\<rparr>"
  "(if c then p\<lparr>pvs_primary_signing_algorithm := v5\<rparr> else p) =
     p\<lparr>pvs_primary_signing_algorithm := if c then v5 else pvs_primary_signing_algorithm p\<rparr>"
  "(if c then p\<lparr>pvs_additional_signing_algorithms := v6\<rparr> else p) =
     p\<lparr>pvs_additional_signing_algorithms := if c then v6 else pvs_additional_signing_algorithms p\<rparr>"
  by simp_all

lemma build_vs_patch_fields:
  "build_vs_patch sp cur =
     (\<lparr>pvs_display_name = only_if (wants (vs_display_name sp) (vsd_display_name cur)) (vs_display_name sp),
       pvs_enable_registration =
         only_if (wants (vs_registration_enabled sp) (vsd_registration_enabled cur)) (vs_registration_enabled sp),
       pvs_require_2fa = only_if (wants (vs_require_2fa sp) (vsd_require_2fa cur)) (vs_require_2fa sp),
       pvs_require_email_verification =
         only_if (wants (vs_require_email_verification sp) (vsd_require_email_verification cur))
           (vs_require_email_verification sp),
       pvs_primary_signing_algorithm =
         only_if (wants (vs_primary_signing_algorithm sp) (vsd_primary_signing_algorithm cur))
           (vs_primary_signing_algorithm sp),
       pvs_additional_signing_algorithms =
         only_if (wants_slice (vs_additional_signing_algorithms sp) (vsd_additional_signing_algorithms cur))
           (vs_additional_signing_algorithms sp)\<rparr>,
      \<not> vs_in_sync sp cur)"
  by (simp add: build_vs_patch_def patch_step vs_patch_fields only_if_def vs_in_sync_def empty_vs_patch_def
      disj_ac cong: if_cong split del: if_split)

interpretation vs_patch: patch_builder build_vs_patch merge_vs_patch vs_in_sync empty_vs_patch
proof
  fix sp cur
  show "snd (build_vs_patch sp cur) \<longleftrightarrow> \<not> vs_in_sync sp cur"
    by (simp add: build_vs_patch_fields)
  show "fst (build_vs_patch sp cur) = empty_vs_patch" if "vs_in_sync sp cur"
    using that by (simp add: build_vs_patch_fields empty_vs_patch_def only_if_def vs_in_sync_def)
  show "vs_in_sync sp (merge_vs_patch (fst (build_vs_patch sp cur)) cur)"
    by (simp add: build_vs_patch_fields merge_vs_patch_def vs_in_sync_def overwrite_only_if)
  show "merge_vs_patch empty_vs_patch cur = cur"
    by (simp add: merge_vs_patch_def empty_vs_patch_def overwrite_def)
qed

text \<open>
  The patch the controller builds for a virtual server sets exactly the fields that the spec
  sets and that differ from the current value, each to the value of the spec, and the controller
  sends it exactly when there is such a field.
\<close>

theorem virtual_server_patch_exact:
  "case build_vs_patch sp cur of (p, needs) \<Rightarrow>
     pvs_display_name p = only_if (wants (vs_display_name sp) (vsd_display_name cur)) (vs_display_name sp) \<and>
     pvs_enable_registration p =
       only_if (wants (vs_registration_enabled sp) (vsd_registration_enabled cur)) (vs_registration_enabled sp) \<and>
     pvs_require_2fa p = only_if (wants (vs_require_2fa sp) (vsd_require_2fa cur)) (vs_require_2fa sp) \<and>
     pvs_require_email_verification p =
       only_if (wants (vs_require_email_verification sp) (vsd_require_email_verification cur))
         (vs_require_email_verification sp) \<and>
     pvs_primary_signing_algorithm p =
       only_if (wants (vs_primary_signing_algorithm sp) (vsd_primary_signing_algorithm cur))
         (vs_primary_signing_algorithm sp) \<and>
     pvs_additional_signing_algorithms p =
       only_if (wants_slice (vs_additional_signing_algorithms sp) (vsd_additional_signing_algorithms cur))
         (vs_additional_signing_algorithms sp) \<and>
     needs = (p \<noteq> empty_vs_patch)"
  by (simp add: build_vs_patch_fields empty_vs_patch_def vs_in_sync_def only_if_None)

text \<open>
  Convergence of the virtual server. Merging the patch into the state it was computed from
  leaves nothing to patch: the next reconcile finds the virtual server in sync with the spec
  and sends nothing.
\<close>

theorem virtual_server_patch_converges:
  "build_vs_patch sp (merge_vs_patch (fst (build_vs_patch sp cur)) cur) = (empty_vs_patch, False)"
  by (rule vs_patch.converges)

section \<open>What is written\<close>

text \<open>
  A write is a patch of the virtual server, directly after the read it was computed from, by the
  same client, and computed from the spec of the object under reconciliation.
\<close>

definition vs_write_ok :: "event list \<Rightarrow> event \<Rightarrow> bool" where
  "vs_write_ok seen e =
     (case e of
        EvVirtualServerPatch kc p err \<Rightarrow>
          (case seen of
             EvVirtualServerGet kc' (Inr cur) # _ \<Rightarrow>
               kc' = kc \<and>
               (case last seen of
                  EvGet k nn (Inr (ObjVirtualServer vs)) \<Rightarrow> build_vs_patch (vs_spec vs) cur = (p, True)
                | _ \<Rightarrow> False)
           | _ \<Rightarrow> False)
      | _ \<Rightarrow> False)"

lemma reconcileVirtualServer_writes: "post (reconcileVirtualServer env nn) (\<lambda>out. justified vs_write_ok [])"
  unfolding reconcileVirtualServer_def reconcile_defs newStatusPatcher_def
  by (intro post_intros) (simp_all add: vs_write_ok_def)

text \<open>
  The virtual-server controller writes to Keyline only the patch computed from the object's
  spec and from the state of the virtual server it has just read, and only when some field
  differs.
\<close>

theorem virtual_server_writes_justified:
  "case run_state (reconcileVirtualServer env nn) (start w) of (out, s) \<Rightarrow>
     justified vs_write_ok [] (st_trace s)"
  by (auto intro: postD [OF reconcileVirtualServer_writes] split: prod.splits)

end
