(* ===== verification/Project_Controller.thy ===== *)
theory Project_Controller
  imports Example_Env
begin

text \<open>
  \<^verbatim>\<open>internal/controller/keylineproject_controller.go\<close>: waits for the virtual server to be ready
  and creates the project in Keyline when a lookup by slug answers 404.
\<close>

definition proj_patcher :: "keyline_project \<Rightarrow> keyline_project status_patcher" where
  [reconcile_defs]: "proj_patcher proj =
     newStatusPatcher ObjProject proj
       (\<lambda>f x. x\<lparr>proj_status := proj_status x\<lparr>proj_conditions := f (proj_conditions (proj_status x))\<rparr>\<rparr>)"

text \<open>An optional description, as the empty string where it is not set.\<close>

definition description_or_empty :: "string option \<Rightarrow> string" where
  "description_or_empty d = (case d of None \<Rightarrow> [] | Some s \<Rightarrow> s)"

definition sync_project ::
    "'w env \<Rightarrow> keyline_client \<Rightarrow> keyline_project status_patcher \<Rightarrow> keyline_project \<Rightarrow> ('w, outcome) op" where
  [reconcile_defs]: "sync_project env kc sp proj = do {
     e \<leftarrow> project_get env kc (proj_slug (proj_spec proj));
     case e of
       Some err \<Rightarrow>
         if \<not> isApiNotFound err
         then setNotReady env sp proj ''GetFailed'' (error_text err)
         else do {
           ce \<leftarrow> project_create env kc
             \<lparr>cp_slug = proj_slug (proj_spec proj), cp_name = proj_name (proj_spec proj),
              cp_description = description_or_empty (proj_description (proj_spec proj))\<rparr>;
           case ce of
             Some createErr \<Rightarrow> setNotReady env sp proj ''CreateFailed'' (error_text createErr)
           | None \<Rightarrow> setReady env sp proj ''Synced'' ''Project exists in Keyline''
         }
     | None \<Rightarrow> setReady env sp proj ''Synced'' ''Project exists in Keyline''
   }"

definition reconcileProject :: "'w env \<Rightarrow> namespaced_name \<Rightarrow> ('w, outcome) op" where
  "reconcileProject env req = do {
     r \<leftarrow> get_project env req;
     case r of
       Inl err \<Rightarrow> State_Monad.return (ReconcileError (l_ignore_not_found (lib env) err))
     | Inr proj \<Rightarrow> do {
     let sp = proj_patcher proj;
     let ns = om_namespace (proj_meta proj);
     rv \<leftarrow> get_virtual_server env (nname ns (ref_name (proj_virtual_server_ref (proj_spec proj))));
     case rv of
       Inl err \<Rightarrow> setNotReady env sp proj ''VirtualServerNotFound'' (error_text err)
     | Inr vs \<Rightarrow>
     if \<not> l_is_status_condition_true (lib env) (vs_conditions (vs_status vs)) ConditionReady
     then setNotReady env sp proj ''VirtualServerNotReady'' ''KeylineVirtualServer is not ready''
     else do {
     ri \<leftarrow> get_instance env (nname ns (ref_name (vs_instance_ref (vs_spec vs))));
     case ri of
       Inl err \<Rightarrow> setNotReady env sp proj ''InstanceNotFound'' (error_text err)
     | Inr inst \<Rightarrow> do {
     rk \<leftarrow> newOperatorClient env ns inst (vs_name (vs_spec vs));
     case rk of
       Inl err \<Rightarrow> setNotReady env sp proj ''SecretNotFound'' (error_text err)
     | Inr kc \<Rightarrow> sync_project env kc sp proj
     }}}}"

section \<open>The contract\<close>

lemma reconcileProject_discipline:
  "post (reconcileProject env nn) (status_discipline KProject nn (l_ignore_not_found (lib env)))"
  unfolding reconcileProject_def reconcile_defs newStatusPatcher_def
  by (intro post_intros) (simp_all add: discipline_simps split: option.splits)

lemma reconcileProject_isolated: "post (reconcileProject env nn) (\<lambda>out. isolated)"
  unfolding reconcileProject_def reconcile_defs newStatusPatcher_def
  by (intro post_intros) (simp_all add: isolated_simps)

lemma reconcileProject_gated:
  "post (reconcileProject env nn) (\<lambda>out. gated (ready_in env) [KProject, KVirtualServer, KInstance] [KVirtualServer])"
  unfolding reconcileProject_def reconcile_defs newStatusPatcher_def
  by (intro post_intros) (simp_all add: gate_simps)

lemma reconcileProject_entitled: "post (reconcileProject env nn) (\<lambda>out. clients_entitled)"
  unfolding reconcileProject_def reconcile_defs newStatusPatcher_def
  by (intro post_intros) (simp_all add: gate_simps)

lemma reconcileProject_honest:
  assumes "meta_conditions_ok (lib env)"
  shows "post (reconcileProject env nn) (\<lambda>out. honest (ready_in env))"
  unfolding reconcileProject_def reconcile_defs newStatusPatcher_def
  by (intro post_intros) (simp_all add: honest_simps meta_conditions_set [OF assms])

interpretation project: gated_reconciler KProject reconcileProject
  "[KProject, KVirtualServer, KInstance]" "[KVirtualServer]"
  by unfold_locales
    (fact reconcileProject_discipline [THEN postD] reconcileProject_isolated [THEN postD]
      reconcileProject_gated [THEN postD]
      reconcileProject_entitled [THEN postD] reconcileProject_honest [THEN postD])+

section \<open>What is written\<close>

text \<open>
  A write is the creation of the project, directly after a lookup of its slug answered 404.
\<close>

definition project_write_ok :: "event list \<Rightarrow> event \<Rightarrow> bool" where
  "project_write_ok seen e =
     (case e of
        EvProjectCreate kc dto err \<Rightarrow>
          (case seen of
             EvProjectGet kc' slug (Some gerr) # _ \<Rightarrow>
               kc' = kc \<and> slug = cp_slug dto \<and> isApiNotFound gerr \<and>
               (case last seen of
                  EvGet k nn (Inr (ObjProject proj)) \<Rightarrow>
                    dto = \<lparr>cp_slug = proj_slug (proj_spec proj), cp_name = proj_name (proj_spec proj),
                           cp_description = description_or_empty (proj_description (proj_spec proj))\<rparr>
                | _ \<Rightarrow> False)
           | _ \<Rightarrow> False)
      | _ \<Rightarrow> False)"

lemma reconcileProject_writes: "post (reconcileProject env nn) (\<lambda>out. justified project_write_ok [])"
  unfolding reconcileProject_def reconcile_defs newStatusPatcher_def
  by (intro post_intros) (simp_all add: project_write_ok_def)

text \<open>
  The project controller writes to Keyline only to create the project of the spec, directly
  after a lookup of that slug answered 404; a project that exists is never changed.
\<close>

theorem project_writes_justified:
  "case run_state (reconcileProject env nn) (start w) of (out, s) \<Rightarrow>
     justified project_write_ok [] (st_trace s)"
  by (auto intro: postD [OF reconcileProject_writes] split: prod.splits)

end
