(* ===== verification/Application_Controller.thy ===== *)
theory Application_Controller
  imports VirtualServer_Controller
begin

text \<open>
  \<^verbatim>\<open>internal/controller/keylineapplication_controller.go\<close>: waits for the project and the virtual
  server, finds the application by the id in its status or by name in the first page of the
  project's applications, and patches or creates it.
\<close>

section \<open>The patch\<close>

definition empty_app_patch :: patch_application_dto where
  "empty_app_patch =
     \<lparr>pa_display_name = None, pa_device_flow_enabled = None, pa_claims_mapping_script = None,
      pa_redirect_uris = None, pa_post_logout_uris = None, pa_access_token_header_type = None,
      pa_signing_algorithm = None\<rparr>"

definition string_or_empty :: "string option \<Rightarrow> string" where
  "string_or_empty s = (case s of None \<Rightarrow> [] | Some v \<Rightarrow> v)"

definition wants_script :: "string option \<Rightarrow> string option \<Rightarrow> bool" where
  "wants_script desired existing =
     (case desired of
        None \<Rightarrow> False
      | Some d \<Rightarrow> (case existing of None \<Rightarrow> True | Some e \<Rightarrow> e \<noteq> d))"

definition buildApplicationPatch ::
    "application_dto \<Rightarrow> application_spec \<Rightarrow> patch_application_dto option" where
  "buildApplicationPatch existing sp =
     (let (patch, needsPatch) = (empty_app_patch, False);
          (patch, needsPatch) =
            (if ad_display_name existing \<noteq> app_display_name sp
             then (patch\<lparr>pa_display_name := Some (app_display_name sp)\<rparr>, True) else (patch, needsPatch));
          (patch, needsPatch) =
            (if ad_device_flow_enabled existing \<noteq> app_device_flow_enabled sp
             then (patch\<lparr>pa_device_flow_enabled := Some (app_device_flow_enabled sp)\<rparr>, True)
             else (patch, needsPatch));
          (patch, needsPatch) =
            (if wants_script (app_claims_mapping_script sp) (ad_claims_mapping_script existing)
             then (patch\<lparr>pa_claims_mapping_script := app_claims_mapping_script sp\<rparr>, True)
             else (patch, needsPatch));
          (patch, needsPatch) =
            (if \<not> slices_Equal (ad_redirect_uris existing) (app_redirect_uris sp)
             then (patch\<lparr>pa_redirect_uris := app_redirect_uris sp\<rparr>, True) else (patch, needsPatch));
          (patch, needsPatch) =
            (if \<not> slices_Equal (ad_post_logout_redirect_uris existing) (app_post_logout_uris sp)
             then (patch\<lparr>pa_post_logout_uris := app_post_logout_uris sp\<rparr>, True) else (patch, needsPatch));
          desiredATHT = string_or_empty (app_access_token_header_type sp);
          (patch, needsPatch) =
            (if desiredATHT \<noteq> [] \<and> ad_access_token_header_type existing \<noteq> desiredATHT
             then (patch\<lparr>pa_access_token_header_type := app_access_token_header_type sp\<rparr>, True)
             else (patch, needsPatch));
          existingAlg = string_or_empty (ad_signing_algorithm existing);
          desiredAlg = string_or_empty (app_signing_algorithm sp);
          (patch, needsPatch) =
            (if desiredAlg \<noteq> existingAlg
             then (patch\<lparr>pa_signing_algorithm := app_signing_algorithm sp\<rparr>, True) else (patch, needsPatch))
      in if \<not> needsPatch then None else Some patch)"

section \<open>Reconcile\<close>

definition app_patcher :: "keyline_application \<Rightarrow> keyline_application status_patcher" where
  [reconcile_defs]: "app_patcher app =
     newStatusPatcher ObjApplication app
       (\<lambda>f x. x\<lparr>app_status := app_status x\<lparr>app_conditions := f (app_conditions (app_status x))\<rparr>\<rparr>)"

definition set_application_id :: "string \<Rightarrow> keyline_application \<Rightarrow> keyline_application" where
  "set_application_id i app = app\<lparr>app_status := app_status app\<lparr>app_application_id := i\<rparr>\<rparr>"

lemma set_application_id_simps [simp]:
  "app_meta (set_application_id i a) = app_meta a" "app_spec (set_application_id i a) = app_spec a"
  by (simp_all add: set_application_id_def)

definition find_application :: "string \<Rightarrow> application_item list \<Rightarrow> application_item option" where
  "find_application name items = List.find (\<lambda>item. ai_name item = name) items"

definition create_application ::
    "'w env \<Rightarrow> keyline_client \<Rightarrow> string \<Rightarrow> keyline_application status_patcher \<Rightarrow> keyline_application \<Rightarrow> ('w, outcome) op" where
  [reconcile_defs]: "create_application env kc slug sp app = do {
     resp \<leftarrow> application_create env kc slug
       \<lparr>ca_name = app_name (app_spec app), ca_display_name = app_display_name (app_spec app),
        ca_type = app_type (app_spec app), ca_redirect_uris = app_redirect_uris (app_spec app),
        ca_post_logout_uris = app_post_logout_uris (app_spec app),
        ca_access_token_header_type = app_access_token_header_type (app_spec app),
        ca_device_flow_enabled = app_device_flow_enabled (app_spec app),
        ca_signing_algorithm = app_signing_algorithm (app_spec app)\<rparr>;
     case resp of
       Inl createErr \<Rightarrow> setNotReady env sp app ''CreateFailed'' (error_text createErr)
     | Inr i \<Rightarrow> setReady env sp (set_application_id (l_uuid_string (lib env) i) app)
                  ''Synced'' ''Application synced''
   }"

text \<open>From the point where the id, if any, is known (line 103 of the source on).\<close>

definition sync_application_by_id ::
    "'w env \<Rightarrow> keyline_client \<Rightarrow> string \<Rightarrow> keyline_application status_patcher \<Rightarrow> keyline_application \<Rightarrow> ('w, outcome) op" where
  [reconcile_defs]: "sync_application_by_id env kc slug sp app =
     (if app_application_id (app_status app) \<noteq> []
      then (case l_uuid_parse (lib env) (app_application_id (app_status app)) of
        Inl parseErr \<Rightarrow> create_application env kc slug sp app
      | Inr i \<Rightarrow> do {
          r \<leftarrow> application_get env kc slug i;
          case r of
            Inl getErr \<Rightarrow>
              if \<not> isApiNotFound getErr
              then setNotReady env sp app ''GetFailed'' (error_text getErr)
              else create_application env kc slug sp (set_application_id [] app)
          | Inr existing \<Rightarrow>
          (case buildApplicationPatch existing (app_spec app) of
             Some patch \<Rightarrow> do {
               e \<leftarrow> application_patch env kc slug i patch;
               case e of
                 Some patchErr \<Rightarrow> setNotReady env sp app ''PatchFailed'' (error_text patchErr)
               | None \<Rightarrow> setReady env sp app ''Synced'' ''Application synced''
             }
           | None \<Rightarrow> setReady env sp app ''Synced'' ''Application synced'')
        })
      else create_application env kc slug sp app)"

definition sync_application ::
    "'w env \<Rightarrow> keyline_client \<Rightarrow> string \<Rightarrow> keyline_application status_patcher \<Rightarrow> keyline_application \<Rightarrow> ('w, outcome) op" where
  [reconcile_defs]: "sync_application env kc slug sp app =
     (if app_application_id (app_status app) = []
      then do {
        r \<leftarrow> application_list env kc slug 0 1000;
        case r of
          Inl err \<Rightarrow> setNotReady env sp app ''ListFailed'' (error_text err)
        | Inr items \<Rightarrow>
            sync_application_by_id env kc slug sp
              (case find_application (app_name (app_spec app)) items of
                 None \<Rightarrow> app
               | Some item \<Rightarrow> set_application_id (l_uuid_string (lib env) (ai_id item)) app)
      }
      else sync_application_by_id env kc slug sp app)"

definition reconcileApplication :: "'w env \<Rightarrow> namespaced_name \<Rightarrow> ('w, outcome) op" where
  "reconcileApplication env req = do {
     r \<leftarrow> get_application env req;
     case r of
       Inl err \<Rightarrow> State_Monad.return (ReconcileError (l_ignore_not_found (lib env) err))
     | Inr app \<Rightarrow> do {
     let sp = app_patcher app;
     let ns = om_namespace (app_meta app);
     rp \<leftarrow> get_project env (nname ns (ref_name (app_project_ref (app_spec app))));
     case rp of
       Inl err \<Rightarrow> setNotReady env sp app ''ProjectNotFound'' (error_text err)
     | Inr proj \<Rightarrow>
     if \<not> l_is_status_condition_true (lib env) (proj_conditions (proj_status proj)) ConditionReady
     then setNotReady env sp app ''ProjectNotReady'' ''KeylineProject is not ready''
     else do {
     rv \<leftarrow> get_virtual_server env (nname ns (ref_name (proj_virtual_server_ref (proj_spec proj))));
     case rv of
       Inl err \<Rightarrow> setNotReady env sp app ''VirtualServerNotFound'' (error_text err)
     | Inr vs \<Rightarrow>
     if \<not> l_is_status_condition_true (lib env) (vs_conditions (vs_status vs)) ConditionReady
     then setNotReady env sp app ''VirtualServerNotReady'' ''KeylineVirtualServer is not ready''
     else do {
     ri \<leftarrow> get_instance env (nname ns (ref_name (vs_instance_ref (vs_spec vs))));
     case ri of
       Inl err \<Rightarrow> setNotReady env sp app ''InstanceNotFound'' (error_text err)
     | Inr inst \<Rightarrow> do {
     rk \<leftarrow> newOperatorClient env ns inst (vs_name (vs_spec vs));
     case rk of
       Inl err \<Rightarrow> setNotReady env sp app ''SecretNotFound'' (error_text err)
     | Inr kc \<Rightarrow> sync_application env kc (proj_slug (proj_spec proj)) sp app
     }}}}}"

section \<open>The contract\<close>

lemma reconcileApplication_discipline:
  "post (reconcileApplication env nn) (status_discipline KApplication nn (l_ignore_not_found (lib env)))"
  unfolding reconcileApplication_def reconcile_defs newStatusPatcher_def
  by (intro post_intros) (simp_all add: discipline_simps split: option.splits)

lemma reconcileApplication_isolated: "post (reconcileApplication env nn) (\<lambda>out. isolated)"
  unfolding reconcileApplication_def reconcile_defs newStatusPatcher_def
  by (intro post_intros) (simp_all add: isolated_simps)

lemma reconcileApplication_gated:
  "post (reconcileApplication env nn) (\<lambda>out. gated (ready_in env) [KApplication, KProject, KVirtualServer, KInstance] [KProject, KVirtualServer])"
  unfolding reconcileApplication_def reconcile_defs newStatusPatcher_def
  by (intro post_intros) (simp_all add: gate_simps)

lemma reconcileApplication_entitled: "post (reconcileApplication env nn) (\<lambda>out. clients_entitled)"
  unfolding reconcileApplication_def reconcile_defs newStatusPatcher_def
  by (intro post_intros) (simp_all add: gate_simps)

lemma reconcileApplication_honest:
  assumes "meta_conditions_ok (lib env)"
  shows "post (reconcileApplication env nn) (\<lambda>out. honest (ready_in env))"
  unfolding reconcileApplication_def reconcile_defs newStatusPatcher_def
  by (intro post_intros) (simp_all add: honest_simps meta_conditions_set [OF assms])

interpretation application: gated_reconciler KApplication reconcileApplication
  "[KApplication, KProject, KVirtualServer, KInstance]" "[KProject, KVirtualServer]"
  by unfold_locales
    (fact reconcileApplication_discipline [THEN postD] reconcileApplication_isolated [THEN postD]
      reconcileApplication_gated [THEN postD]
      reconcileApplication_entitled [THEN postD] reconcileApplication_honest [THEN postD])+

section \<open>The patch\<close>

text \<open>The spec is met: none of the seven comparisons finds a difference.\<close>

definition app_in_sync :: "application_spec \<Rightarrow> application_dto \<Rightarrow> bool" where
  "app_in_sync sp cur \<longleftrightarrow>
     ad_display_name cur = app_display_name sp \<and>
     ad_device_flow_enabled cur = app_device_flow_enabled sp \<and>
     \<not> wants_script (app_claims_mapping_script sp) (ad_claims_mapping_script cur) \<and>
     slices_Equal (ad_redirect_uris cur) (app_redirect_uris sp) \<and>
     slices_Equal (ad_post_logout_redirect_uris cur) (app_post_logout_uris sp) \<and>
     (string_or_empty (app_access_token_header_type sp) = [] \<or>
      ad_access_token_header_type cur = string_or_empty (app_access_token_header_type sp)) \<and>
     string_or_empty (app_signing_algorithm sp) = string_or_empty (ad_signing_algorithm cur)"

lemma app_patch_fields:
  "(if c then p\<lparr>pa_display_name := v1\<rparr> else p) = p\<lparr>pa_display_name := if c then v1 else pa_display_name p\<rparr>"
  "(if c then p\<lparr>pa_device_flow_enabled := v2\<rparr> else p) =
     p\<lparr>pa_device_flow_enabled := if c then v2 else pa_device_flow_enabled p\<rparr>"
  "(if c then p\<lparr>pa_claims_mapping_script := v3\<rparr> else p) =
     p\<lparr>pa_claims_mapping_script := if c then v3 else pa_claims_mapping_script p\<rparr>"
  "(if c then p\<lparr>pa_redirect_uris := v4\<rparr> else p) = p\<lparr>pa_redirect_uris := if c then v4 else pa_redirect_uris p\<rparr>"
  "(if c then p\<lparr>pa_post_logout_uris := v5\<rparr> else p) =
     p\<lparr>pa_post_logout_uris := if c then v5 else pa_post_logout_uris p\<rparr>"
  "(if c then p\<lparr>pa_access_token_header_type := v6\<rparr> else p) =
     p\<lparr>pa_access_token_header_type := if c then v6 else pa_access_token_header_type p\<rparr>"
  "(if c then p\<lparr>pa_signing_algorithm := v7\<rparr> else p) =
     p\<lparr>pa_signing_algorithm := if c then v7 else pa_signing_algorithm p\<rparr>"
  by simp_all

lemma app_patch_fold:
  "(let (patch, n) = (empty_app_patch, False);
        (patch, n) = (if c1 then (patch\<lparr>pa_display_name := v1\<rparr>, True) else (patch, n));
        (patch, n) = (if c2 then (patch\<lparr>pa_device_flow_enabled := v2\<rparr>, True) else (patch, n));
        (patch, n) = (if c3 then (patch\<lparr>pa_claims_mapping_script := v3\<rparr>, True) else (patch, n));
        (patch, n) = (if c4 then (patch\<lparr>pa_redirect_uris := v4\<rparr>, True) else (patch, n));
        (patch, n) = (if c5 then (patch\<lparr>pa_post_logout_uris := v5\<rparr>, True) else (patch, n));
        (patch, n) = (if c6 then (patch\<lparr>pa_access_token_header_type := v6\<rparr>, True) else (patch, n));
        (patch, n) = (if c7 then (patch\<lparr>pa_signing_algorithm := v7\<rparr>, True) else (patch, n))
    in if \<not> n then None else Some patch) =
   (if c1 \<or> c2 \<or> c3 \<or> c4 \<or> c5 \<or> c6 \<or> c7
    then Some \<lparr>pa_display_name = only_if c1 v1, pa_device_flow_enabled = only_if c2 v2,
               pa_claims_mapping_script = only_if c3 v3, pa_redirect_uris = only_if c4 v4,
               pa_post_logout_uris = only_if c5 v5, pa_access_token_header_type = only_if c6 v6,
               pa_signing_algorithm = only_if c7 v7\<rparr>
    else None)"
  by (cases c1; cases c2; cases c3; cases c4; cases c5; cases c6; cases c7)
    (simp_all add: empty_app_patch_def only_if_def)

text \<open>The patch, field by field.\<close>

definition app_patch_of :: "application_dto \<Rightarrow> application_spec \<Rightarrow> patch_application_dto" where
  "app_patch_of cur sp =
     \<lparr>pa_display_name = only_if (ad_display_name cur \<noteq> app_display_name sp) (Some (app_display_name sp)),
      pa_device_flow_enabled =
        only_if (ad_device_flow_enabled cur \<noteq> app_device_flow_enabled sp) (Some (app_device_flow_enabled sp)),
      pa_claims_mapping_script =
        only_if (wants_script (app_claims_mapping_script sp) (ad_claims_mapping_script cur))
          (app_claims_mapping_script sp),
      pa_redirect_uris =
        only_if (\<not> slices_Equal (ad_redirect_uris cur) (app_redirect_uris sp)) (app_redirect_uris sp),
      pa_post_logout_uris =
        only_if (\<not> slices_Equal (ad_post_logout_redirect_uris cur) (app_post_logout_uris sp))
          (app_post_logout_uris sp),
      pa_access_token_header_type =
        only_if (string_or_empty (app_access_token_header_type sp) \<noteq> [] \<and>
            ad_access_token_header_type cur \<noteq> string_or_empty (app_access_token_header_type sp))
          (app_access_token_header_type sp),
      pa_signing_algorithm =
        only_if (string_or_empty (app_signing_algorithm sp) \<noteq> string_or_empty (ad_signing_algorithm cur))
          (app_signing_algorithm sp)\<rparr>"

lemma buildApplicationPatch_fields:
  "buildApplicationPatch cur sp = (if app_in_sync sp cur then None else Some (app_patch_of cur sp))"
  unfolding buildApplicationPatch_def Let_def app_patch_fold [unfolded Let_def] app_in_sync_def app_patch_of_def
  by auto

text \<open>
  The application controller finds nothing to patch exactly when the display name, the device
  flow flag, both URI lists and the signing algorithm are those of the spec, and the claims
  script and the header type are where the spec sets them.
\<close>

theorem application_patch_exact:
  "(buildApplicationPatch cur sp = None) = app_in_sync sp cur"
  by (simp add: buildApplicationPatch_fields)

text \<open>What the patch denotes: a nil field keeps the value, a set one overwrites it.\<close>

definition merge_app_patch :: "patch_application_dto \<Rightarrow> application_dto \<Rightarrow> application_dto" where
  "merge_app_patch p cur =
     \<lparr>ad_display_name = overwrite (pa_display_name p) (ad_display_name cur),
      ad_device_flow_enabled = overwrite (pa_device_flow_enabled p) (ad_device_flow_enabled cur),
      ad_claims_mapping_script =
        (case pa_claims_mapping_script p of None \<Rightarrow> ad_claims_mapping_script cur | Some x \<Rightarrow> Some x),
      ad_redirect_uris = (case pa_redirect_uris p of None \<Rightarrow> ad_redirect_uris cur | Some x \<Rightarrow> Some x),
      ad_post_logout_redirect_uris =
        (case pa_post_logout_uris p of None \<Rightarrow> ad_post_logout_redirect_uris cur | Some x \<Rightarrow> Some x),
      ad_access_token_header_type = overwrite (pa_access_token_header_type p) (ad_access_token_header_type cur),
      ad_signing_algorithm =
        (case pa_signing_algorithm p of None \<Rightarrow> ad_signing_algorithm cur | Some x \<Rightarrow> Some x)\<rparr>"

lemma app_merged_fields:
  "overwrite (only_if (x \<noteq> d) (Some d)) x = d"
  "overwrite (only_if (flag = (\<not> f)) (Some f)) flag = f"
  "\<not> wants_script sc (case only_if (wants_script sc y) sc of None \<Rightarrow> y | Some z \<Rightarrow> Some z)"
  "l \<noteq> None \<Longrightarrow> slices_Equal (case only_if (\<not> slices_Equal m l) l of None \<Rightarrow> m | Some z \<Rightarrow> Some z) l"
  "string_or_empty t = [] \<or>
     overwrite (only_if (string_or_empty t \<noteq> [] \<and> h \<noteq> string_or_empty t) t) h = string_or_empty t"
  "a \<noteq> None \<Longrightarrow> string_or_empty a = string_or_empty
     (case only_if (string_or_empty a \<noteq> string_or_empty b) a of None \<Rightarrow> b | Some z \<Rightarrow> Some z)"
  by (auto simp: overwrite_def only_if_def wants_script_def slices_Equal_def string_or_empty_def split: option.split)

text \<open>
  Convergence of the application, for a spec that sets the redirect URIs, the post-logout URIs
  and the signing algorithm: after one patch is merged there is nothing left to patch.
\<close>

theorem application_patch_converges:
  assumes "app_redirect_uris sp \<noteq> None" and "app_post_logout_uris sp \<noteq> None" and "app_signing_algorithm sp \<noteq> None"
    and "buildApplicationPatch cur sp = Some p"
  shows "buildApplicationPatch (merge_app_patch p cur) sp = None"
proof -
  have p: "p = app_patch_of cur sp"
    using assms(4) by (simp add: buildApplicationPatch_fields split: if_splits)
  have "app_in_sync sp (merge_app_patch p cur)"
    unfolding p app_in_sync_def merge_app_patch_def app_patch_of_def
    by (simp add: app_merged_fields(1,2,3,5) app_merged_fields(4) [OF assms(1)]
        app_merged_fields(4) [OF assms(2)] app_merged_fields(6) [OF assms(3)])
  then show ?thesis by (simp add: buildApplicationPatch_fields)
qed

definition ex_app_current :: application_dto where
  "ex_app_current =
     \<lparr>ad_display_name = ''Old'', ad_device_flow_enabled = False, ad_claims_mapping_script = None,
      ad_redirect_uris = Some [''https://web''], ad_post_logout_redirect_uris = Some [''https://bye''],
      ad_access_token_header_type = ''at+jwt'', ad_signing_algorithm = Some ''EdDSA''\<rparr>"

definition ex_app_full_spec :: application_spec where
  "ex_app_full_spec =
     (app_spec ex_application_object)\<lparr>app_post_logout_uris := Some [], app_signing_algorithm := Some ''RS256''\<rparr>"

lemma application_patch_converges_witness:
  "buildApplicationPatch (merge_app_patch (app_patch_of ex_app_current ex_app_full_spec) ex_app_current)
     ex_app_full_spec = None"
  by (rule application_patch_converges) code_simp+

text \<open>
  C40: a spec that leaves the signing algorithm unset never settles once Keyline reports one. When
  everything else agrees, the controller still sends a patch, in which no field is set, and
  since it changes nothing the next reconcile builds it again.
\<close>

theorem application_unset_algorithm_never_settles:
  assumes "app_signing_algorithm sp = None"
    and "ad_signing_algorithm cur = Some alg" and "alg \<noteq> []"
    and "app_in_sync (sp\<lparr>app_signing_algorithm := Some alg\<rparr>) cur"
  shows "buildApplicationPatch cur sp = Some empty_app_patch \<and> merge_app_patch empty_app_patch cur = cur"
  using assms
  by (auto simp: buildApplicationPatch_fields app_in_sync_def app_patch_of_def empty_app_patch_def merge_app_patch_def
      only_if_def overwrite_def string_or_empty_def)

definition ex_app_settled :: application_dto where
  "ex_app_settled =
     \<lparr>ad_display_name = ''Web'', ad_device_flow_enabled = False, ad_claims_mapping_script = None,
      ad_redirect_uris = Some [''https://web''], ad_post_logout_redirect_uris = None,
      ad_access_token_header_type = ''at+jwt'', ad_signing_algorithm = Some ''EdDSA''\<rparr>"

lemma application_unset_algorithm_never_settles_witness:
  "buildApplicationPatch ex_app_settled (app_spec ex_application_object) = Some empty_app_patch \<and>
   merge_app_patch empty_app_patch ex_app_settled = ex_app_settled"
  by (rule application_unset_algorithm_never_settles [where alg = "''EdDSA''"]) code_simp+

section \<open>What is written\<close>

text \<open>
  A creation follows a listing without the spec's name, a 404 for the known id, or an id that
  does not parse; a patch follows the read it was computed from.
\<close>

definition app_write_ok :: "'w runtime_lib \<Rightarrow> event list \<Rightarrow> event \<Rightarrow> bool" where
  "app_write_ok l seen e =
     (case last seen of
        EvGet k nn (Inr (ObjApplication app)) \<Rightarrow>
          (case e of
             EvApplicationPatch kc slug i p err \<Rightarrow>
               (case seen of
                  EvApplicationGet kc' slug' i' (Inr existing) # _ \<Rightarrow>
                    kc' = kc \<and> slug' = slug \<and> i' = i \<and>
                    buildApplicationPatch existing (app_spec app) = Some p
                | _ \<Rightarrow> False)
           | EvApplicationCreate kc slug dto r \<Rightarrow>
               ca_name dto = app_name (app_spec app) \<and> ca_redirect_uris dto = app_redirect_uris (app_spec app) \<and>
               ca_signing_algorithm dto = app_signing_algorithm (app_spec app) \<and>
               (case seen of
                  EvApplicationList kc' slug' page sz (Inr items) # _ \<Rightarrow>
                    kc' = kc \<and> slug' = slug \<and>
                    (case find_application (app_name (app_spec app)) items of
                       None \<Rightarrow> True | Some item \<Rightarrow> isl (l_uuid_parse l (l_uuid_string l (ai_id item))))
                | EvApplicationGet kc' slug' i (Inl gerr) # _ \<Rightarrow> kc' = kc \<and> slug' = slug \<and> isApiNotFound gerr
                | _ \<Rightarrow> app_application_id (app_status app) \<noteq> [] \<and>
                       isl (l_uuid_parse l (app_application_id (app_status app))))
           | _ \<Rightarrow> False)
      | _ \<Rightarrow> False)"

lemma reconcileApplication_writes:
  assumes "uuid_ok (lib env)"
  shows "post (reconcileApplication env nn) (\<lambda>out. justified (app_write_ok (lib env)) [])"
  using assms unfolding reconcileApplication_def reconcile_defs newStatusPatcher_def uuid_ok_def
  by (intro post_intros) (simp_all add: app_write_ok_def set_application_id_def split: option.splits)

text \<open>
  C32: the application controller writes to Keyline only a patch computed from the spec and from the
  application it has just read by its id, or the creation of the spec's application: after a
  listing without that name, after a 404 for the id it had, or when the id in the status does
  not parse.
\<close>

theorem application_writes_justified:
  assumes "uuid_ok (lib env)"
  shows "case run_state (reconcileApplication env nn) (start w) of (out, s) \<Rightarrow>
     justified (app_write_ok (lib env)) [] (st_trace s)"
  by (auto intro: postD [OF reconcileApplication_writes [OF assms]] split: prod.splits)

lemma application_writes_justified_witness:
  "(case run_state (reconcileApplication ex_env (nname ''ns'' ''a'')) (start ex_world) of (out, s) \<Rightarrow>
     justified (app_write_ok (lib ex_env)) [] (st_trace s) \<and> list_ex is_api_write (st_trace s))"
proof -
  have "list_ex is_api_write
      (st_trace (snd (run_state (reconcileApplication ex_env (nname ''ns'' ''a'')) (start ex_world))))"
    by code_simp
  with application_writes_justified [OF ex_uuid_ok, of "nname ''ns'' ''a''" ex_world] show ?thesis
    by (auto split: prod.splits)
qed

end
