(* ===== verification/Role_Controller.thy ===== *)
theory Role_Controller
  imports Project_Controller
begin

text \<open>
  \<^verbatim>\<open>internal/controller/keylinerole_controller.go\<close>: waits for the project and the virtual server,
  then looks the role up by the id in its status, or by name in the first page of the project's
  roles, and patches or creates it.
\<close>

definition role_patcher :: "keyline_role \<Rightarrow> keyline_role status_patcher" where
  [reconcile_defs]: "role_patcher role =
     newStatusPatcher ObjRole role
       (\<lambda>f x. x\<lparr>role_status := role_status x\<lparr>role_conditions := f (role_conditions (role_status x))\<rparr>\<rparr>)"

definition set_role_id :: "string \<Rightarrow> keyline_role \<Rightarrow> keyline_role" where
  "set_role_id i role = role\<lparr>role_status := role_status role\<lparr>role_role_id := i\<rparr>\<rparr>"

lemma set_role_id_simps [simp]:
  "role_meta (set_role_id i r) = role_meta r" "role_spec (set_role_id i r) = role_spec r"
  by (simp_all add: set_role_id_def)

definition empty_role_patch :: patch_role_dto where
  "empty_role_patch = \<lparr>pr_name = None, pr_description = None\<rparr>"

definition build_role_patch :: "role_spec \<Rightarrow> role_dto \<Rightarrow> patch_role_dto \<times> bool" where
  "build_role_patch sp existing =
     (let (patch, needsPatch) = (empty_role_patch, False);
          (patch, needsPatch) =
            (if rd_name existing \<noteq> role_name sp
             then (patch\<lparr>pr_name := Some (role_name sp)\<rparr>, True) else (patch, needsPatch));
          description = description_or_empty (role_description sp);
          (patch, needsPatch) =
            (if rd_description existing \<noteq> description
             then (patch\<lparr>pr_description := Some description\<rparr>, True) else (patch, needsPatch))
      in (patch, needsPatch))"

text \<open>The lookup by name: the id of the first item of the page with the spec's name.\<close>

definition find_role :: "string \<Rightarrow> role_item list \<Rightarrow> role_item option" where
  "find_role name items = List.find (\<lambda>item. ri_name item = name) items"

definition find_or_create_role ::
    "'w env \<Rightarrow> keyline_client \<Rightarrow> string \<Rightarrow> keyline_role status_patcher \<Rightarrow> keyline_role \<Rightarrow> ('w, outcome) op" where
  [reconcile_defs]: "find_or_create_role env kc slug sp role = do {
     r \<leftarrow> role_list env kc slug 0 1000;
     case r of
       Inl err \<Rightarrow> setNotReady env sp role ''ListFailed'' (error_text err)
     | Inr items \<Rightarrow>
     (let role' = (case find_role (role_name (role_spec role)) items of
                     None \<Rightarrow> role | Some item \<Rightarrow> set_role_id (l_uuid_string (lib env) (ri_id item)) role) in
      if role_role_id (role_status role') = []
      then do {
        resp \<leftarrow> role_create env kc slug
          \<lparr>cr_name = role_name (role_spec role'),
           cr_description = description_or_empty (role_description (role_spec role'))\<rparr>;
        case resp of
          Inl createErr \<Rightarrow> setNotReady env sp role' ''CreateFailed'' (error_text createErr)
        | Inr i \<Rightarrow> setReady env sp (set_role_id (l_uuid_string (lib env) i) role') ''Synced'' ''Role synced''
      }
      else setReady env sp role' ''Synced'' ''Role synced'')
   }"

definition sync_role ::
    "'w env \<Rightarrow> keyline_client \<Rightarrow> string \<Rightarrow> keyline_role status_patcher \<Rightarrow> keyline_role \<Rightarrow> ('w, outcome) op" where
  [reconcile_defs]: "sync_role env kc slug sp role =
     (if role_role_id (role_status role) \<noteq> []
      then (case l_uuid_parse (lib env) (role_role_id (role_status role)) of
        Inl parseErr \<Rightarrow> find_or_create_role env kc slug sp role
      | Inr i \<Rightarrow> do {
          r \<leftarrow> role_get env kc slug i;
          case r of
            Inl getErr \<Rightarrow>
              if \<not> isApiNotFound getErr
              then setNotReady env sp role ''GetFailed'' (error_text getErr)
              else find_or_create_role env kc slug sp (set_role_id [] role)
          | Inr existing \<Rightarrow>
          (let (patch, needsPatch) = build_role_patch (role_spec role) existing in
           if needsPatch
           then do {
             e \<leftarrow> role_patch env kc slug i patch;
             case e of
               Some patchErr \<Rightarrow> setNotReady env sp role ''PatchFailed'' (error_text patchErr)
             | None \<Rightarrow> setReady env sp role ''Synced'' ''Role synced''
           }
           else setReady env sp role ''Synced'' ''Role synced'')
        })
      else find_or_create_role env kc slug sp role)"

definition reconcileRole :: "'w env \<Rightarrow> namespaced_name \<Rightarrow> ('w, outcome) op" where
  "reconcileRole env req = do {
     r \<leftarrow> get_role env req;
     case r of
       Inl err \<Rightarrow> State_Monad.return (ReconcileError (l_ignore_not_found (lib env) err))
     | Inr role \<Rightarrow> do {
     let sp = role_patcher role;
     let ns = om_namespace (role_meta role);
     rp \<leftarrow> get_project env (nname ns (ref_name (role_project_ref (role_spec role))));
     case rp of
       Inl err \<Rightarrow> setNotReady env sp role ''ProjectNotFound'' (error_text err)
     | Inr proj \<Rightarrow>
     if \<not> l_is_status_condition_true (lib env) (proj_conditions (proj_status proj)) ConditionReady
     then setNotReady env sp role ''ProjectNotReady'' ''KeylineProject is not ready''
     else do {
     rv \<leftarrow> get_virtual_server env (nname ns (ref_name (proj_virtual_server_ref (proj_spec proj))));
     case rv of
       Inl err \<Rightarrow> setNotReady env sp role ''VirtualServerNotFound'' (error_text err)
     | Inr vs \<Rightarrow>
     if \<not> l_is_status_condition_true (lib env) (vs_conditions (vs_status vs)) ConditionReady
     then setNotReady env sp role ''VirtualServerNotReady'' ''KeylineVirtualServer is not ready''
     else do {
     ri \<leftarrow> get_instance env (nname ns (ref_name (vs_instance_ref (vs_spec vs))));
     case ri of
       Inl err \<Rightarrow> setNotReady env sp role ''InstanceNotFound'' (error_text err)
     | Inr inst \<Rightarrow> do {
     rk \<leftarrow> newOperatorClient env ns inst (vs_name (vs_spec vs));
     case rk of
       Inl err \<Rightarrow> setNotReady env sp role ''SecretNotFound'' (error_text err)
     | Inr kc \<Rightarrow> sync_role env kc (proj_slug (proj_spec proj)) sp role
     }}}}}"

section \<open>The contract\<close>

lemma reconcileRole_discipline:
  "post (reconcileRole env nn) (status_discipline KRole nn (l_ignore_not_found (lib env)))"
  unfolding reconcileRole_def reconcile_defs newStatusPatcher_def
  by (intro post_intros) (simp_all add: discipline_simps split: option.splits)

lemma reconcileRole_isolated: "post (reconcileRole env nn) (\<lambda>out. isolated)"
  unfolding reconcileRole_def reconcile_defs newStatusPatcher_def
  by (intro post_intros) (simp_all add: isolated_simps)

lemma reconcileRole_gated:
  "post (reconcileRole env nn) (\<lambda>out. gated (ready_in env) [KRole, KProject, KVirtualServer, KInstance] [KProject, KVirtualServer])"
  unfolding reconcileRole_def reconcile_defs newStatusPatcher_def
  by (intro post_intros) (simp_all add: gate_simps)

lemma reconcileRole_entitled: "post (reconcileRole env nn) (\<lambda>out. clients_entitled)"
  unfolding reconcileRole_def reconcile_defs newStatusPatcher_def
  by (intro post_intros) (simp_all add: gate_simps)

lemma reconcileRole_honest:
  assumes "meta_conditions_ok (lib env)"
  shows "post (reconcileRole env nn) (\<lambda>out. honest (ready_in env))"
  unfolding reconcileRole_def reconcile_defs newStatusPatcher_def
  by (intro post_intros) (simp_all add: honest_simps meta_conditions_set [OF assms])

interpretation role: gated_reconciler KRole reconcileRole
  "[KRole, KProject, KVirtualServer, KInstance]" "[KProject, KVirtualServer]"
  by unfold_locales
    (fact reconcileRole_discipline [THEN postD] reconcileRole_isolated [THEN postD]
      reconcileRole_gated [THEN postD]
      reconcileRole_entitled [THEN postD] reconcileRole_honest [THEN postD])+

section \<open>The patch converges\<close>

definition role_in_sync :: "role_spec \<Rightarrow> role_dto \<Rightarrow> bool" where
  "role_in_sync sp cur \<longleftrightarrow>
     rd_name cur = role_name sp \<and> rd_description cur = description_or_empty (role_description sp)"

definition merge_role_patch :: "patch_role_dto \<Rightarrow> role_dto \<Rightarrow> role_dto" where
  "merge_role_patch p cur =
     \<lparr>rd_name = (case pr_name p of None \<Rightarrow> rd_name cur | Some n \<Rightarrow> n),
      rd_description = (case pr_description p of None \<Rightarrow> rd_description cur | Some d \<Rightarrow> d)\<rparr>"

interpretation role_patch: patch_builder build_role_patch merge_role_patch role_in_sync empty_role_patch
  by unfold_locales
    (auto simp: build_role_patch_def merge_role_patch_def role_in_sync_def empty_role_patch_def Let_def)

text \<open>
  Convergence of the role. The patch built for a role, merged into the role it was
  computed from, gives exactly the name and the description of the spec (the empty description
  when it is not set), and the next comparison finds nothing to patch.
\<close>

theorem role_patch_converges:
  "merge_role_patch (fst (build_role_patch sp cur)) cur =
     \<lparr>rd_name = role_name sp, rd_description = description_or_empty (role_description sp)\<rparr> \<and>
   build_role_patch sp (merge_role_patch (fst (build_role_patch sp cur)) cur) = (empty_role_patch, False)"
  using role_patch.merged [of sp cur] role_patch.converges [of sp cur]
  by (simp add: role_in_sync_def)

section \<open>What is written\<close>

definition role_write_ok :: "event list \<Rightarrow> event \<Rightarrow> bool" where
  "role_write_ok seen e =
     (case last seen of
        EvGet k nn (Inr (ObjRole role)) \<Rightarrow>
          (case e of
             EvRolePatch kc slug i p err \<Rightarrow>
               (case seen of
                  EvRoleGet kc' slug' i' (Inr existing) # _ \<Rightarrow>
                    kc' = kc \<and> slug' = slug \<and> i' = i \<and>
                    build_role_patch (role_spec role) existing = (p, True)
                | _ \<Rightarrow> False)
           | EvRoleCreate kc slug dto r \<Rightarrow>
               (case seen of
                  EvRoleList kc' slug' page sz (Inr items) # _ \<Rightarrow>
                    kc' = kc \<and> slug' = slug \<and> find_role (role_name (role_spec role)) items = None \<and>
                    dto = \<lparr>cr_name = role_name (role_spec role),
                           cr_description = description_or_empty (role_description (role_spec role))\<rparr>
                | _ \<Rightarrow> False)
           | _ \<Rightarrow> False)
      | _ \<Rightarrow> False)"

lemma reconcileRole_writes:
  assumes "uuid_ok (lib env)"
  shows "post (reconcileRole env nn) (\<lambda>out. justified role_write_ok [])"
  using assms unfolding reconcileRole_def reconcile_defs newStatusPatcher_def uuid_ok_def
  by (intro post_intros) (simp_all add: role_write_ok_def set_role_id_def split: option.splits)

text \<open>
  C31: the role controller writes to Keyline only a patch computed from the spec and from the role
  it has just read by its id, or the creation of the spec's role when the first page of the
  project's roles, listed just before, has none of that name.
\<close>

theorem role_writes_justified:
  assumes "uuid_ok (lib env)"
  shows "case run_state (reconcileRole env nn) (start w) of (out, s) \<Rightarrow>
     justified role_write_ok [] (st_trace s)"
  by (auto intro: postD [OF reconcileRole_writes [OF assms]] split: prod.splits)

lemma role_writes_justified_witness:
  "(case run_state (reconcileRole ex_env (nname ''ns'' ''r'')) (start ex_world) of (out, s) \<Rightarrow>
     justified role_write_ok [] (st_trace s) \<and> list_ex is_api_write (st_trace s))"
proof -
  have "list_ex is_api_write (st_trace (snd (run_state (reconcileRole ex_env (nname ''ns'' ''r'')) (start ex_world))))"
    by code_simp
  with role_writes_justified [OF ex_uuid_ok, of "nname ''ns'' ''r''" ex_world] show ?thesis
    by (auto split: prod.splits)
qed

section \<open>Ids\<close>

text \<open>
  The id a role is known by is recorded: when the reconcile created the role, the status patch
  that ends it carries the id the creation returned; when it found the role by name, that of the
  first item of that name.
\<close>

definition role_id_recorded :: "'w runtime_lib \<Rightarrow> event list \<Rightarrow> bool" where
  "role_id_recorded l evs =
     (case rev evs of
        EvStatusPatch (ObjRole role) base err # EvRoleCreate kc slug dto (Inr i) # _ \<Rightarrow>
          role_role_id (role_status role) = l_uuid_string l i
      | EvStatusPatch (ObjRole role) base err # EvRoleList kc slug page sz (Inr items) # _ \<Rightarrow>
          (case find_role (role_name (role_spec role)) items of
             None \<Rightarrow> role_role_id (role_status role) \<noteq> []
           | Some item \<Rightarrow> role_role_id (role_status role) = l_uuid_string l (ri_id item))
      | _ \<Rightarrow> True)"

lemma reconcileRole_records: "post (reconcileRole env nn) (\<lambda>out. role_id_recorded (lib env))"
  unfolding reconcileRole_def reconcile_defs newStatusPatcher_def
  by (intro post_intros) (simp_all add: role_id_recorded_def reported_def set_role_id_def split: option.splits)

text \<open>
  The status patch that ends a reconcile in which the role was created or found by name
  carries that role's id, so that the next reconcile and the role assignments look it up by id.
\<close>

theorem role_id_is_recorded:
  "case run_state (reconcileRole env nn) (start w) of (out, s) \<Rightarrow> role_id_recorded (lib env) (st_trace s)"
  by (auto intro: postD [OF reconcileRole_records] split: prod.splits)

text \<open>
  C37: an id in the status that does not parse is never repaired by creating the role. When no role
  of the spec's name is listed, the controller calls nothing more: it reports the role as synced,
  keeps the unusable id, and no role exists in Keyline.
\<close>

theorem role_unparsable_id_reported_synced:
  assumes "role_role_id (role_status role) \<noteq> []"
    and "l_uuid_parse (lib env) (role_role_id (role_status role)) = Inl perr"
    and "a_role_list (api env) kc slug 0 1000 w = (Inr items, w')"
    and "find_role (role_name (role_spec role)) items = None"
  shows "\<exists>t err. st_trace (snd (run_state (sync_role env kc slug (role_patcher role) role) (start w))) =
     [EvRoleList kc slug 0 1000 (Inr items),
      EvStatusPatch (reported env (role_patcher role) role ConditionTrue ''Synced'' ''Role synced'' t)
        (ObjRole role) err]"
  using assms
  by (auto simp: sync_role_def find_or_create_role_def role_list_def run_state_bind run_call run_setReady
      finish_def Let_def role_patcher_def newStatusPatcher_def split: prod.splits)

definition ex_broken_role :: keyline_role where
  "ex_broken_role = set_role_id ''not-a-uuid'' ex_role"

lemma role_unparsable_id_reported_synced_witness:
  "\<exists>t err. st_trace (snd (run_state (sync_role ex_env (operator_client ex_instance ''main'' ex_secret) ''p''
       (role_patcher ex_broken_role) ex_broken_role) (start ex_world))) =
     [EvRoleList (operator_client ex_instance ''main'' ex_secret) ''p'' 0 1000 (Inr []),
      EvStatusPatch (reported ex_env (role_patcher ex_broken_role) ex_broken_role ConditionTrue
        ''Synced'' ''Role synced'' t) (ObjRole ex_broken_role) err]"
  by (rule role_unparsable_id_reported_synced [where w' = ex_world and perr = "PlainError ''invalid UUID''"]) code_simp+

end
