(* ===== verification/User_Controller.thy ===== *)
theory User_Controller
  imports Example_Env
begin

text \<open>
  \<^verbatim>\<open>internal/controller/keylineuser_controller.go\<close>: waits for the virtual server, makes sure the
  service user exists in Keyline, pushes its display name, and keeps the public keys the
  operator manages in step with the spec.
\<close>

section \<open>State\<close>

definition user_patcher :: "keyline_user \<Rightarrow> keyline_user status_patcher" where
  [reconcile_defs]: "user_patcher user =
     newStatusPatcher ObjUser user
       (\<lambda>f x. x\<lparr>user_status := user_status x\<lparr>user_conditions := f (user_conditions (user_status x))\<rparr>\<rparr>)"

definition set_user_id :: "string \<Rightarrow> keyline_user \<Rightarrow> keyline_user" where
  "set_user_id i user = user\<lparr>user_status := user_status user\<lparr>user_user_id := i\<rparr>\<rparr>"

definition set_managed :: "string list \<Rightarrow> keyline_user \<Rightarrow> keyline_user" where
  "set_managed kids user = user\<lparr>user_status := user_status user\<lparr>user_managed_key_ids := kids\<rparr>\<rparr>"

lemma set_user_simps [simp]:
  "user_meta (set_user_id i u) = user_meta u" "user_spec (set_user_id i u) = user_spec u"
  "user_managed_key_ids (user_status (set_user_id i u)) = user_managed_key_ids (user_status u)"
  "user_user_id (user_status (set_user_id i u)) = i"
  "user_meta (set_managed kids u) = user_meta u" "user_spec (set_managed kids u) = user_spec u"
  "user_managed_key_ids (user_status (set_managed kids u)) = kids"
  "user_user_id (user_status (set_managed kids u)) = user_user_id (user_status u)"
  "set_managed kids (set_managed kids' u) = set_managed kids u"
  by (simp_all add: set_user_id_def set_managed_def)

abbreviation managed_of :: "keyline_user \<Rightarrow> string list" where
  "managed_of user \<equiv> user_managed_key_ids (user_status user)"

record key_reconcile_failure =
  kf_reason :: string

section \<open>The service user\<close>

definition find_service_user :: "string \<Rightarrow> user_item list \<Rightarrow> user_item option" where
  "find_service_user username items =
     List.find (\<lambda>item. ui_username item = username \<and> ui_is_service_user item) items"

text \<open>
  \<^verbatim>\<open>ensureServiceUser\<close> returns the id or a failure, and the user with its status as updated.
\<close>

definition find_or_create_user ::
    "'w env \<Rightarrow> keyline_client \<Rightarrow> keyline_user \<Rightarrow>
     ('w, keyline_user \<times> ((key_reconcile_failure \<times> goerr) + uuid)) op" where
  "find_or_create_user env kc user = do {
     r \<leftarrow> user_list env kc 0 1000;
     case r of
       Inl err \<Rightarrow> State_Monad.return (user, Inl (\<lparr>kf_reason = ''ListFailed''\<rparr>, err))
     | Inr items \<Rightarrow>
     (case find_service_user (user_username (user_spec user)) items of
       Some item \<Rightarrow> State_Monad.return
         (set_user_id (l_uuid_string (lib env) (ui_id item)) user, Inr (ui_id item))
     | None \<Rightarrow> do {
         created \<leftarrow> user_create_service_user env kc (user_username (user_spec user));
         State_Monad.return (case created of
           Inl createErr \<Rightarrow> (user, Inl (\<lparr>kf_reason = ''CreateFailed''\<rparr>, createErr))
         | Inr i \<Rightarrow> (set_user_id (l_uuid_string (lib env) i) user, Inr i))
       })
   }"

definition ensureServiceUser ::
    "'w env \<Rightarrow> keyline_client \<Rightarrow> keyline_user \<Rightarrow>
     ('w, keyline_user \<times> ((key_reconcile_failure \<times> goerr) + uuid)) op" where
  "ensureServiceUser env kc user =
     (if user_user_id (user_status user) \<noteq> []
      then (case l_uuid_parse (lib env) (user_user_id (user_status user)) of
        Inl parseErr \<Rightarrow> find_or_create_user env kc user
      | Inr i \<Rightarrow> do {
          e \<leftarrow> user_get env kc i;
          case e of
            None \<Rightarrow> State_Monad.return (user, Inr i)
          | Some getErr \<Rightarrow>
              if \<not> isApiNotFound getErr
              then State_Monad.return (user, Inl (\<lparr>kf_reason = ''GetFailed''\<rparr>, getErr))
              else find_or_create_user env kc (set_user_id [] user)
        })
      else find_or_create_user env kc user)"

section \<open>The public keys\<close>

text \<open>\<^verbatim>\<open>desired\<close>, the map from kid to key, later entries of the spec overwriting earlier ones.\<close>

definition desired_keys :: "keyline_user \<Rightarrow> (string \<times> service_user_public_key) list" where
  "desired_keys user = foldl (\<lambda>m k. AList.update (key_kid k) k m) [] (user_public_keys (user_spec user))"

text \<open>
  The loop over \<^verbatim>\<open>desired\<close> in its iteration order. It returns the user with the kids associated
  so far recorded in its status, and the failure at which it stopped, if any.
\<close>

fun associate_keys ::
    "'w env \<Rightarrow> keyline_client \<Rightarrow> uuid \<Rightarrow> (string \<times> service_user_public_key) list \<Rightarrow> string set \<Rightarrow> keyline_user \<Rightarrow>
     ('w, keyline_user \<times> (key_reconcile_failure \<times> goerr) option) op" where
  "associate_keys env kc i [] managed user = State_Monad.return (user, None)"
| "associate_keys env kc i ((kid, k) # rest) managed user =
     (if kid \<in> managed then associate_keys env kc i rest managed user
      else do {
        e \<leftarrow> user_associate_key env kc i \<lparr>ak_public_key = key_pem k, ak_kid = Some kid\<rparr>;
        case e of
          Some err \<Rightarrow> State_Monad.return (user, Some (\<lparr>kf_reason = ''AssociateKeyFailed''\<rparr>, err))
        | None \<Rightarrow> associate_keys env kc i rest (insert kid managed) (set_managed (managed_of user @ [kid]) user)
      })"

text \<open>The loop over \<^verbatim>\<open>ManagedKeyIds\<close>: the kids kept, or the failure at which it stopped.\<close>

fun remove_keys ::
    "'w env \<Rightarrow> keyline_client \<Rightarrow> uuid \<Rightarrow> (string \<times> service_user_public_key) list \<Rightarrow> string list \<Rightarrow> string list \<Rightarrow>
     ('w, (key_reconcile_failure \<times> goerr) + string list) op" where
  "remove_keys env kc i desired [] kept = State_Monad.return (Inr kept)"
| "remove_keys env kc i desired (kid # kids) kept =
     (if map_of desired kid \<noteq> None then remove_keys env kc i desired kids (kept @ [kid])
      else do {
        e \<leftarrow> user_remove_key env kc i kid;
        case e of
          None \<Rightarrow> remove_keys env kc i desired kids kept
        | Some err \<Rightarrow>
            if \<not> isApiNotFound err
            then State_Monad.return (Inl (\<lparr>kf_reason = ''RemoveKeyFailed''\<rparr>, err))
            else remove_keys env kc i desired kids kept
      })"

definition reconcileKeys ::
    "'w env \<Rightarrow> keyline_client \<Rightarrow> keyline_user \<Rightarrow> uuid \<Rightarrow>
     ('w, keyline_user \<times> (key_reconcile_failure \<times> goerr) option) op" where
  "reconcileKeys env kc user i = do {
     let desired = desired_keys user;
     choices \<leftarrow> silent (l_range_choices (lib env));
     (user1, failure) \<leftarrow> associate_keys env kc i (range_order choices desired) (set (managed_of user)) user;
     case failure of
       Some f \<Rightarrow> State_Monad.return (user1, Some f)
     | None \<Rightarrow> do {
         r \<leftarrow> remove_keys env kc i desired (managed_of user1) [];
         State_Monad.return (case r of
           Inl f \<Rightarrow> (user1, Some f)
         | Inr kept \<Rightarrow> (set_managed kept user1, None))
       }
   }"

section \<open>Reconcile\<close>

text \<open>The display name is pushed on every reconcile that has one.\<close>

definition push_display_name :: "'w env \<Rightarrow> keyline_client \<Rightarrow> uuid \<Rightarrow> keyline_user \<Rightarrow> ('w, goerr option) op" where
  "push_display_name env kc i user =
     (case user_display_name (user_spec user) of
        None \<Rightarrow> State_Monad.return None
      | Some n \<Rightarrow> user_patch env kc i \<lparr>pu_display_name = Some n\<rparr>)"

definition reconcileWithClient ::
    "'w env \<Rightarrow> keyline_client \<Rightarrow> keyline_user \<Rightarrow> keyline_user status_patcher \<Rightarrow> ('w, outcome) op" where
  [reconcile_defs]: "reconcileWithClient env kc user sp = do {
     (user1, r) \<leftarrow> ensureServiceUser env kc user;
     case r of
       Inl (failure, err) \<Rightarrow> setNotReady env sp user1 (kf_reason failure) (error_text err)
     | Inr i \<Rightarrow> do {
     pe \<leftarrow> push_display_name env kc i user1;
     case pe of
       Some patchErr \<Rightarrow> setNotReady env sp user1 ''PatchFailed'' (error_text patchErr)
     | None \<Rightarrow> do {
     (user2, kf) \<leftarrow> reconcileKeys env kc user1 i;
     case kf of
       Some (keyFailure, err) \<Rightarrow> setNotReady env sp user2 (kf_reason keyFailure) (error_text err)
     | None \<Rightarrow> setReady env sp user2 ''Synced'' ''User synced''
     }}}"

definition reconcileUser :: "'w env \<Rightarrow> namespaced_name \<Rightarrow> ('w, outcome) op" where
  "reconcileUser env req = do {
     r \<leftarrow> get_user env req;
     case r of
       Inl err \<Rightarrow> State_Monad.return (ReconcileError (l_ignore_not_found (lib env) err))
     | Inr user \<Rightarrow> do {
     let sp = user_patcher user;
     let ns = om_namespace (user_meta user);
     rv \<leftarrow> get_virtual_server env (nname ns (ref_name (user_virtual_server_ref (user_spec user))));
     case rv of
       Inl err \<Rightarrow> setNotReady env sp user ''VirtualServerNotFound'' (error_text err)
     | Inr vs \<Rightarrow>
     if \<not> l_is_status_condition_true (lib env) (vs_conditions (vs_status vs)) ConditionReady
     then setNotReady env sp user ''VirtualServerNotReady'' ''KeylineVirtualServer is not ready''
     else do {
     ri \<leftarrow> get_instance env (nname ns (ref_name (vs_instance_ref (vs_spec vs))));
     case ri of
       Inl err \<Rightarrow> setNotReady env sp user ''InstanceNotFound'' (error_text err)
     | Inr inst \<Rightarrow> do {
     rk \<leftarrow> newOperatorClient env ns inst (vs_name (vs_spec vs));
     case rk of
       Inl err \<Rightarrow> setNotReady env sp user ''SecretNotFound'' (error_text err)
     | Inr kc \<Rightarrow> reconcileWithClient env kc user sp
     }}}}"

section \<open>The contract\<close>

text \<open>
  What the two operations below \<^verbatim>\<open>reconcileWithClient\<close> keep: they call the API with the given
  client only, leave the metadata and the spec alone, and when they succeed every answer they
  got was one to tolerate.
\<close>

definition step_ok :: "keyline_client \<Rightarrow> keyline_user \<Rightarrow> keyline_user \<Rightarrow> bool \<Rightarrow> event list \<Rightarrow> bool" where
  "step_ok kc user user' success evs \<longleftrightarrow>
     api_segment kc evs \<and> user_meta user' = user_meta user \<and> user_spec user' = user_spec user \<and>
     (success \<longrightarrow> list_all tolerated evs)"

lemma find_or_create_user_step:
  "post (find_or_create_user env kc user)
     (\<lambda>(u, r) evs. evs \<noteq> [] \<and> step_ok kc user u (\<not> isl r) evs)"
  unfolding find_or_create_user_def reconcile_defs
  by (intro post_intros) (simp_all add: step_ok_def tolerated_def)

lemma ensureServiceUser_step:
  "post (ensureServiceUser env kc user)
     (\<lambda>(u, r) evs. evs \<noteq> [] \<and> step_ok kc user u (\<not> isl r) evs)"
  unfolding ensureServiceUser_def reconcile_defs
  apply (intro post_intros post_mono [OF find_or_create_user_step])
  apply (auto simp: step_ok_def tolerated_def)
  done

lemma associate_keys_step:
  "post (associate_keys env kc i ks managed user)
     (\<lambda>(u, f) evs. step_ok kc user u (f = None) evs)"
proof (induction ks arbitrary: managed user)
  case Nil
  then show ?case by (auto intro: post_return simp: step_ok_def)
next
  case (Cons k ks)
  show ?case
    by (cases k) (auto simp: step_ok_def tolerated_def reconcile_defs intro!: post_intros post_mono [OF Cons.IH])
qed

lemma remove_keys_step:
  "post (remove_keys env kc i desired kids kept) (\<lambda>r evs. step_ok kc user user (\<not> isl r) evs)"
proof (induction kids arbitrary: kept)
  case Nil
  then show ?case by (auto intro: post_return simp: step_ok_def)
next
  case (Cons k ks)
  show ?case
    by (auto simp: step_ok_def tolerated_def reconcile_defs intro!: post_intros post_mono [OF Cons.IH])
qed

lemma reconcileKeys_step:
  "post (reconcileKeys env kc user i) (\<lambda>(u, f) evs. step_ok kc user u (f = None) evs)"
  unfolding reconcileKeys_def
  apply (intro post_intros post_bind [OF associate_keys_step] post_bind [OF remove_keys_step [where user = user]])
  apply (auto simp: step_ok_def split: sum.splits)
  done

lemma push_display_name_step:
  "post (push_display_name env kc i user) (\<lambda>e evs. step_ok kc user user (e = None) evs)"
  unfolding push_display_name_def reconcile_defs
  by (intro post_intros) (simp_all add: step_ok_def tolerated_def)

lemmas user_steps =
  post_bind [OF ensureServiceUser_step] post_bind [OF push_display_name_step] post_bind [OF reconcileKeys_step]

lemma reconcileUser_discipline:
  "post (reconcileUser env nn) (status_discipline KUser nn (l_ignore_not_found (lib env)))"
  unfolding reconcileUser_def reconcile_defs newStatusPatcher_def
  by (intro post_intros user_steps)
    (auto simp: discipline_simps step_ok_def butlast_append dest: api_segment_no_patch
      split: option.splits)

lemma reconcileUser_isolated: "post (reconcileUser env nn) (\<lambda>out. isolated)"
  unfolding reconcileUser_def reconcile_defs newStatusPatcher_def
  by (intro post_intros user_steps)
    (auto simp: isolated_simps step_ok_def intro: api_segment_reads)

lemma reconcileUser_gated:
  "post (reconcileUser env nn)
     (\<lambda>out. gated (ready_in env) [KUser, KVirtualServer, KInstance] [KVirtualServer])"
  unfolding reconcileUser_def reconcile_defs newStatusPatcher_def
  by (intro post_intros user_steps) (auto simp: gate_simps step_ok_def api_segment_stops)

lemma reconcileUser_entitled: "post (reconcileUser env nn) (\<lambda>out. clients_entitled)"
  unfolding reconcileUser_def reconcile_defs newStatusPatcher_def
  by (intro post_intros user_steps)
    (auto simp: gate_simps step_ok_def api_segment_stops intro!: api_segment_clients)

lemma reconcileUser_honest:
  assumes "meta_conditions_ok (lib env)"
  shows "post (reconcileUser env nn) (\<lambda>out. honest (ready_in env))"
  unfolding reconcileUser_def reconcile_defs newStatusPatcher_def
  by (intro post_intros user_steps)
    (auto simp: honest_simps step_ok_def meta_conditions_set [OF assms])

interpretation user: gated_reconciler KUser reconcileUser
  "[KUser, KVirtualServer, KInstance]" "[KVirtualServer]"
  by unfold_locales
    (fact reconcileUser_discipline [THEN postD] reconcileUser_isolated [THEN postD]
      reconcileUser_gated [THEN postD]
      reconcileUser_entitled [THEN postD] reconcileUser_honest [THEN postD])+

section \<open>The key synchronisation\<close>

abbreviation desired_kids :: "keyline_user \<Rightarrow> string set" where
  "desired_kids user \<equiv> set (map key_kid (user_public_keys (user_spec user)))"

lemma desired_keys_keys: "fst ` set (desired_keys user) = desired_kids user"
  by (simp add: desired_keys_def keys_foldl_update)

lemma desired_keys_distinct: "distinct (map fst (desired_keys user))"
  unfolding desired_keys_def by (rule distinct_keys_foldl_update) simp

lemma desired_keys_Some: "map_of (desired_keys user) kid = Some k \<Longrightarrow> kid \<in> desired_kids user"
  by (metis desired_keys_keys map_of_SomeD fst_conv imageI)

lemma desired_keys_defined: "map_of (desired_keys user) kid = None \<longleftrightarrow> kid \<notin> desired_kids user"
  by (simp add: map_of_eq_None_iff desired_keys_keys)

lemma range_order_desired:
  "distinct (map fst (range_order choices (desired_keys user)))"
  "fst ` set (range_order choices (desired_keys user)) = desired_kids user"
proof -
  have "distinct (range_order choices (desired_keys user))"
    using desired_keys_distinct by (auto intro: distinct_range_order simp: distinct_map)
  moreover have "inj_on fst (set (range_order choices (desired_keys user)))"
    using desired_keys_distinct by (simp add: distinct_map)
  ultimately show "distinct (map fst (range_order choices (desired_keys user)))"
    by (simp add: distinct_map)
  show "fst ` set (range_order choices (desired_keys user)) = desired_kids user"
    by (simp add: desired_keys_keys)
qed

text \<open>
  The log of the association loop over the entries still to associate, with the user and the
  failure it returns, and the log of the removal loop over the kids to remove, with the error at
  which it stopped.
\<close>

definition associate_event ::
    "keyline_client \<Rightarrow> uuid \<Rightarrow> string \<times> service_user_public_key \<Rightarrow> goerr option \<Rightarrow> event" where
  "associate_event kc i p err =
     EvKeyAssociate kc i \<lparr>ak_public_key = key_pem (snd p), ak_kid = Some (fst p)\<rparr> err"

inductive associate_log ::
    "keyline_client \<Rightarrow> uuid \<Rightarrow> (string \<times> service_user_public_key) list \<Rightarrow> keyline_user \<Rightarrow>
     keyline_user \<times> (key_reconcile_failure \<times> goerr) option \<Rightarrow> event list \<Rightarrow> bool"
  for kc i where
  all_associated: "associate_log kc i [] user (user, None) []"
| associate_failed:
    "associate_log kc i (p # ps) user (user, Some (\<lparr>kf_reason = ''AssociateKeyFailed''\<rparr>, err))
       [associate_event kc i p (Some err)]"
| associated:
    "associate_log kc i ps (set_managed (managed_of user @ [fst p]) user) r evs \<Longrightarrow>
     associate_log kc i (p # ps) user r (associate_event kc i p None # evs)"

text \<open>The answers of a removal that leave the kid absent.\<close>

fun gone_or_ok :: "goerr option \<Rightarrow> bool" where
  "gone_or_ok None = True"
| "gone_or_ok (Some err) = isApiNotFound err"

inductive remove_log :: "keyline_client \<Rightarrow> uuid \<Rightarrow> string list \<Rightarrow> goerr option \<Rightarrow> event list \<Rightarrow> bool"
  for kc i where
  all_removed: "remove_log kc i [] None []"
| remove_failed: "\<not> isApiNotFound err \<Longrightarrow> remove_log kc i (kid # kids) (Some err) [EvKeyRemove kc i kid (Some err)]"
| removed:
    "gone_or_ok e \<Longrightarrow> remove_log kc i kids r evs \<Longrightarrow>
     remove_log kc i (kid # kids) r (EvKeyRemove kc i kid e # evs)"

lemma associate_keys_log:
  "distinct (map fst ks) \<Longrightarrow>
     post (associate_keys env kc i ks managed user)
       (associate_log kc i (filter (\<lambda>p. fst p \<notin> managed) ks) user)"
proof (induction ks arbitrary: managed user)
  case Nil
  then show ?case by (auto intro: post_return all_associated)
next
  case (Cons p ks)
  obtain kid k where p: "p = (kid, k)" by (cases p)
  have same: "filter (\<lambda>q. fst q \<notin> insert kid managed) ks = filter (\<lambda>q. fst q \<notin> managed) ks"
    using Cons.prems by (auto simp: p intro!: filter_cong)
  show ?case
    using Cons.prems Cons.IH [of managed user]
      Cons.IH [of "insert kid managed" "set_managed (managed_of user @ [kid]) user"]
    unfolding p associate_keys.simps reconcile_defs same
    by (intro post_intros)
      (auto simp: same associate_event_def [of kc i "(kid, k)", simplified, symmetric]
        intro: associate_failed associated [where p = "(kid, k)", simplified] elim!: post_mono)
qed

lemma associate_log_split:
  "associate_log kc i ps user r evs \<Longrightarrow>
     r = (set_managed (managed_of user @ map fst ps) user, None) \<and> evs = map (\<lambda>p. associate_event kc i p None) ps \<or>
     (\<exists>ok p rest err. ps = ok @ p # rest \<and>
        r = (set_managed (managed_of user @ map fst ok) user, Some (\<lparr>kf_reason = ''AssociateKeyFailed''\<rparr>, err)) \<and>
        evs = map (\<lambda>p. associate_event kc i p None) ok @ [associate_event kc i p (Some err)])"
proof (induction rule: associate_log.induct)
  case (all_associated user)
  then show ?case by (simp add: set_managed_def)
next
  case (associate_failed p ps user err)
  have "user = set_managed (managed_of user @ map fst []) user" by (simp add: set_managed_def)
  then show ?case by (metis append_Nil list.simps(8))
next
  case (associated ps user p r evs)
  from associated.IH show ?case
  proof
    assume "r = (set_managed (managed_of (set_managed (managed_of user @ [fst p]) user) @ map fst ps)
        (set_managed (managed_of user @ [fst p]) user), None) \<and> evs = map (\<lambda>p. associate_event kc i p None) ps"
    then show ?thesis by simp
  next
    assume "\<exists>ok q rest err. ps = ok @ q # rest \<and>
        r = (set_managed (managed_of (set_managed (managed_of user @ [fst p]) user) @ map fst ok)
          (set_managed (managed_of user @ [fst p]) user), Some (\<lparr>kf_reason = ''AssociateKeyFailed''\<rparr>, err)) \<and>
        evs = map (\<lambda>p. associate_event kc i p None) ok @ [associate_event kc i q (Some err)]"
    then obtain ok q rest err where "ps = ok @ q # rest"
      "r = (set_managed (managed_of user @ map fst (p # ok)) user, Some (\<lparr>kf_reason = ''AssociateKeyFailed''\<rparr>, err))"
      "evs = map (\<lambda>p. associate_event kc i p None) ok @ [associate_event kc i q (Some err)]"
      by auto
    then have "p # ps = (p # ok) @ q # rest \<and>
        r = (set_managed (managed_of user @ map fst (p # ok)) user, Some (\<lparr>kf_reason = ''AssociateKeyFailed''\<rparr>, err)) \<and>
        associate_event kc i p None # evs =
          map (\<lambda>p. associate_event kc i p None) (p # ok) @ [associate_event kc i q (Some err)]"
      by simp
    then show ?thesis by blast
  qed
qed

definition removal_result ::
    "string list \<Rightarrow> goerr option \<Rightarrow> (key_reconcile_failure \<times> goerr) + string list" where
  "removal_result kept r =
     (case r of None \<Rightarrow> Inr kept | Some err \<Rightarrow> Inl (\<lparr>kf_reason = ''RemoveKeyFailed''\<rparr>, err))"

lemma removal_result_simps [simp]:
  "removal_result kept None = Inr kept"
  "removal_result kept (Some err) = Inl (\<lparr>kf_reason = ''RemoveKeyFailed''\<rparr>, err)"
  by (simp_all add: removal_result_def)

definition removal_ok ::
    "keyline_client \<Rightarrow> uuid \<Rightarrow> (string \<times> service_user_public_key) list \<Rightarrow> string list \<Rightarrow> string list \<Rightarrow>
     (key_reconcile_failure \<times> goerr) + string list \<Rightarrow> event list \<Rightarrow> bool" where
  "removal_ok kc i desired kids kept res evs \<longleftrightarrow>
     (\<exists>r. remove_log kc i (filter (\<lambda>kid. map_of desired kid = None) kids) r evs \<and>
        res = removal_result (kept @ filter (\<lambda>kid. map_of desired kid \<noteq> None) kids) r)"

lemma removal_ok_intros:
  "removal_ok kc i desired [] kept (Inr kept) []"
  "map_of desired kid \<noteq> None \<Longrightarrow> removal_ok kc i desired kids (kept @ [kid]) res evs \<Longrightarrow>
     removal_ok kc i desired (kid # kids) kept res evs"
  "map_of desired kid = None \<Longrightarrow> gone_or_ok e \<Longrightarrow> removal_ok kc i desired kids kept res evs \<Longrightarrow>
     removal_ok kc i desired (kid # kids) kept res (EvKeyRemove kc i kid e # evs)"
  "map_of desired kid = None \<Longrightarrow> \<not> isApiNotFound err \<Longrightarrow>
     removal_ok kc i desired (kid # kids) kept (Inl (\<lparr>kf_reason = ''RemoveKeyFailed''\<rparr>, err))
       [EvKeyRemove kc i kid (Some err)]"
  unfolding removal_ok_def
  subgoal by (rule exI [of _ None]) (simp add: all_removed)
  subgoal by auto
  subgoal by (auto intro: removed)
  subgoal by (rule exI [of _ "Some err"]) (simp add: remove_failed)
  done

lemma remove_keys_log: "post (remove_keys env kc i desired kids kept) (removal_ok kc i desired kids kept)"
proof (induction kids arbitrary: kept)
  case Nil
  then show ?case by (auto intro: post_return removal_ok_intros)
next
  case (Cons kid kids)
  show ?case
    using Cons.IH [of kept] Cons.IH [of "kept @ [kid]"] unfolding remove_keys.simps reconcile_defs
    by (intro post_intros) (auto intro: removal_ok_intros elim!: post_mono)
qed

text \<open>The whole synchronisation.\<close>

definition key_order :: "keyline_user \<Rightarrow> (string \<times> service_user_public_key) list \<Rightarrow> bool" where
  "key_order user ks \<longleftrightarrow> distinct (map fst ks) \<and> set ks = set (desired_keys user)"

abbreviation missing_keys ::
    "keyline_user \<Rightarrow> (string \<times> service_user_public_key) list \<Rightarrow> (string \<times> service_user_public_key) list" where
  "missing_keys user ks \<equiv> filter (\<lambda>p. fst p \<notin> set (managed_of user)) ks"

abbreviation obsolete_kids :: "keyline_user \<Rightarrow> string list" where
  "obsolete_kids user \<equiv> filter (\<lambda>kid. kid \<notin> desired_kids user) (managed_of user)"

inductive keys_log ::
    "keyline_client \<Rightarrow> uuid \<Rightarrow> keyline_user \<Rightarrow>
     keyline_user \<times> (key_reconcile_failure \<times> goerr) option \<Rightarrow> event list \<Rightarrow> bool"
  for kc i user where
  keys_not_associated:
    "key_order user ks \<Longrightarrow> missing_keys user ks = ok @ p # rest \<Longrightarrow>
     keys_log kc i user
       (set_managed (managed_of user @ map fst ok) user, Some (\<lparr>kf_reason = ''AssociateKeyFailed''\<rparr>, err))
       (map (\<lambda>p. associate_event kc i p None) ok @ [associate_event kc i p (Some err)])"
| keys_not_removed:
    "key_order user ks \<Longrightarrow> remove_log kc i (obsolete_kids user) (Some err) evs \<Longrightarrow>
     keys_log kc i user
       (set_managed (managed_of user @ map fst (missing_keys user ks)) user,
        Some (\<lparr>kf_reason = ''RemoveKeyFailed''\<rparr>, err))
       (map (\<lambda>p. associate_event kc i p None) (missing_keys user ks) @ evs)"
| keys_synced:
    "key_order user ks \<Longrightarrow> remove_log kc i (obsolete_kids user) None evs \<Longrightarrow>
     keys_log kc i user
       (set_managed (filter (\<lambda>kid. kid \<in> desired_kids user) (managed_of user) @ map fst (missing_keys user ks)) user,
        None)
       (map (\<lambda>p. associate_event kc i p None) (missing_keys user ks) @ evs)"

lemma key_order_kids: "key_order user ks \<Longrightarrow> fst ` set ks = desired_kids user"
  by (simp add: key_order_def desired_keys_keys)

lemma missing_keys_desired:
  assumes "key_order user ks"
  shows "filter (\<lambda>kid. kid \<in> desired_kids user) (map fst (missing_keys user ks)) = map fst (missing_keys user ks)"
    and "filter (\<lambda>kid. kid \<notin> desired_kids user) (map fst (missing_keys user ks)) = []"
proof -
  have "fst p \<in> desired_kids user" if "p \<in> set ks" for p
    using imageI [OF that, of fst] by (simp only: key_order_kids [OF assms])
  then show "filter (\<lambda>kid. kid \<in> desired_kids user) (map fst (missing_keys user ks)) = map fst (missing_keys user ks)"
    and "filter (\<lambda>kid. kid \<notin> desired_kids user) (map fst (missing_keys user ks)) = []"
    by (auto simp: filter_id_conv filter_empty_conv)
qed

lemma reconcileKeys_log: "post (reconcileKeys env kc user i) (keys_log kc i user)"
  unfolding reconcileKeys_def Let_def
proof (intro post_intros)
  fix choices :: "nat list"
  define ks where "ks = range_order choices (desired_keys user)"
  have ks: "key_order user ks"
    using range_order_desired(1) [of choices user] by (simp add: key_order_def ks_def)
  note assoc = associate_keys_log [OF range_order_desired(1) [of choices user], of env kc i
      "set (managed_of user)" user, folded ks_def]
  show "post (State_Monad.bind (associate_keys env kc i (range_order choices (desired_keys user))
        (set (managed_of user)) user) (\<lambda>(user1, failure). case failure of
          None \<Rightarrow> State_Monad.bind (remove_keys env kc i (desired_keys user) (managed_of user1) [])
            (\<lambda>r. State_Monad.return (case r of Inl f \<Rightarrow> (user1, Some f) | Inr kept \<Rightarrow> (set_managed kept user1, None)))
        | Some f \<Rightarrow> State_Monad.return (user1, Some f))) (keys_log kc i user)"
    unfolding ks_def [symmetric]
  proof (rule post_bind [OF assoc])
    fix r evs
    assume "associate_log kc i (missing_keys user ks) user r evs"
    from associate_log_split [OF this]
    consider (ok) "r = (set_managed (managed_of user @ map fst (missing_keys user ks)) user, None)"
        "evs = map (\<lambda>p. associate_event kc i p None) (missing_keys user ks)"
      | (failed) ok p rest err where "missing_keys user ks = ok @ p # rest"
        "r = (set_managed (managed_of user @ map fst ok) user, Some (\<lparr>kf_reason = ''AssociateKeyFailed''\<rparr>, err))"
        "evs = map (\<lambda>p. associate_event kc i p None) ok @ [associate_event kc i p (Some err)]"
      by blast
    then show "post (case r of (user1, failure) \<Rightarrow> (case failure of
          None \<Rightarrow> State_Monad.bind (remove_keys env kc i (desired_keys user) (managed_of user1) [])
            (\<lambda>r. State_Monad.return (case r of Inl f \<Rightarrow> (user1, Some f) | Inr kept \<Rightarrow> (set_managed kept user1, None)))
        | Some f \<Rightarrow> State_Monad.return (user1, Some f))) (\<lambda>b evs'. keys_log kc i user b (evs @ evs'))"
    proof cases
      case failed
      then show ?thesis by (auto intro!: post_return keys_not_associated [OF ks])
    next
      case ok
      show ?thesis
        unfolding ok
        by (auto simp: removal_ok_def removal_result_def desired_keys_defined missing_keys_desired [OF ks, simplified]
            simp del: filter_map
            intro!: post_intros post_bind [OF remove_keys_log] keys_not_removed [OF ks, simplified]
              keys_synced [OF ks, simplified]
            split: option.splits)
    qed
  qed
qed

inductive_cases remove_log_nil: "remove_log kc i [] r evs"

section \<open>The effect on Keyline's keys\<close>

text \<open>
  What the answers in the log say of the set of kids Keyline holds for the user: an association
  without error adds the kid, a removal without error, or answered 404, leaves it absent.
\<close>

definition key_effect :: "uuid \<Rightarrow> event \<Rightarrow> string set \<Rightarrow> string set" where
  "key_effect i e K =
     (case e of
        EvKeyAssociate kc j dto err \<Rightarrow>
          (if j = i \<and> err = None then set_option (ak_kid dto) \<union> K else K)
      | EvKeyRemove kc j kid err \<Rightarrow> (if j = i \<and> gone_or_ok err then K - {kid} else K)
      | _ \<Rightarrow> K)"

primrec replay_keys :: "uuid \<Rightarrow> event list \<Rightarrow> string set \<Rightarrow> string set" where
  "replay_keys i [] K = K"
| "replay_keys i (e # evs) K = replay_keys i evs (key_effect i e K)"

lemma replay_keys_append [simp]: "replay_keys i (evs @ evs') K = replay_keys i evs' (replay_keys i evs K)"
  by (induction evs arbitrary: K) simp_all

lemma key_effect_associate [simp]:
  "key_effect i (associate_event kc i p None) K = insert (fst p) K"
  "key_effect i (associate_event kc i p (Some err)) K = K"
  by (simp_all add: key_effect_def associate_event_def)

lemma replay_associated [simp]:
  "replay_keys i (map (\<lambda>p. associate_event kc i p None) ps) K = fst ` set ps \<union> K"
  by (induction ps arbitrary: K) auto

lemma replay_removed: "remove_log kc i kids None evs \<Longrightarrow> replay_keys i evs K = K - set kids"
proof (induction kids "None :: goerr option" evs arbitrary: K rule: remove_log.induct)
  case (removed e kids evs kid)
  then show ?case by (auto simp: key_effect_def)
qed simp

lemma replay_removed_partly: "remove_log kc i kids r evs \<Longrightarrow> K - set kids \<subseteq> replay_keys i evs K \<and> replay_keys i evs K \<subseteq> K"
proof (induction arbitrary: K rule: remove_log.induct)
  case (removed e kids r evs kid)
  from removed.IH [of "K - {kid}"] removed.hyps(1) show ?case by (auto simp: key_effect_def)
qed (auto simp: key_effect_def)

lemma missing_kids:
  assumes "key_order user ks"
  shows "fst ` set (missing_keys user ks) = desired_kids user - set (managed_of user)"
  using key_order_kids [OF assms] by force

text \<open>
  C13: a key synchronisation that succeeds leaves the status and Keyline in step with the spec, in
  whatever order the desired keys are visited. The status records exactly the spec's kids, and
  Keyline has gained the kids that were not managed and lost the managed kids that the spec no
  longer has, and nothing else changed.
\<close>

theorem key_sync_success:
  "case run_state (reconcileKeys env kc user i) (start w) of ((u, failure), s) \<Rightarrow>
     (case failure of
        Some f \<Rightarrow> True
      | None \<Rightarrow>
          set (managed_of u) = desired_kids user \<and>
          replay_keys i (st_trace s) K =
            (K \<union> (desired_kids user - set (managed_of user))) - (set (managed_of user) - desired_kids user))"
proof -
  obtain u f s where run: "run_state (reconcileKeys env kc user i) (start w) = ((u, f), s)"
    by (metis prod.exhaust)
  have "set (managed_of u) = desired_kids user \<and> replay_keys i (st_trace s) K =
      (K \<union> (desired_kids user - set (managed_of user))) - (set (managed_of user) - desired_kids user)"
    if "f = None"
    using postD [OF reconcileKeys_log run] that
  proof cases
    case (keys_synced ks evs)
    then show ?thesis
      using missing_kids [OF keys_synced(4)] replay_removed [OF keys_synced(5)] by auto
  qed simp_all
  then show ?thesis by (simp add: run split: option.split)
qed

text \<open>Which key calls are allowed: associate a key of the spec that is not managed, remove a managed kid not in the spec.\<close>

definition key_call_ok :: "keyline_client \<Rightarrow> uuid \<Rightarrow> keyline_user \<Rightarrow> event \<Rightarrow> bool" where
  "key_call_ok kc i user e =
     (case e of
        EvKeyAssociate kc' j dto err \<Rightarrow>
          kc' = kc \<and> j = i \<and>
          (case ak_kid dto of
             None \<Rightarrow> False
           | Some kid \<Rightarrow>
               kid \<notin> set (managed_of user) \<and>
               map_option key_pem (map_of (desired_keys user) kid) = Some (ak_public_key dto))
      | EvKeyRemove kc' j kid err \<Rightarrow>
          kc' = kc \<and> j = i \<and> kid \<in> set (managed_of user) \<and> kid \<notin> desired_kids user
      | _ \<Rightarrow> False)"

lemma associate_event_ok:
  assumes "key_order user ks" and "p \<in> set (missing_keys user ks)"
  shows "key_call_ok kc i user (associate_event kc i p err)"
proof -
  obtain kid k where p: "p = (kid, k)" by (cases p)
  have "(kid, k) \<in> set (desired_keys user)" using assms by (simp add: key_order_def p)
  then have "map_of (desired_keys user) kid = Some k"
    using desired_keys_distinct by (simp add: map_of_is_SomeI)
  then show ?thesis using assms(2) by (simp add: key_call_ok_def associate_event_def p)
qed

lemma remove_log_ok:
  "remove_log kc i kids r evs \<Longrightarrow> set kids \<subseteq> set (obsolete_kids user) \<Longrightarrow> list_all (key_call_ok kc i user) evs"
  by (induction rule: remove_log.induct) (auto simp: key_call_ok_def)

lemma missing_keys_ok:
  "key_order user ks \<Longrightarrow> set ps \<subseteq> set (missing_keys user ks) \<Longrightarrow>
     list_all (key_call_ok kc i user) (map (\<lambda>p. associate_event kc i p None) ps)"
  by (auto simp: list_all_iff simp del: set_filter intro!: associate_event_ok)

lemma keys_log_ok: "keys_log kc i user r evs \<Longrightarrow> list_all (key_call_ok kc i user) evs"
proof (induction rule: keys_log.induct)
  case (keys_not_associated ks ok p rest err)
  from keys_not_associated(2) have "set ok \<subseteq> set (missing_keys user ks)" "p \<in> set (missing_keys user ks)"
    by (metis Un_upper1 set_append, metis in_set_conv_decomp)
  then show ?case
    using missing_keys_ok [OF keys_not_associated(1)] associate_event_ok [OF keys_not_associated(1)]
    by simp
next
  case (keys_not_removed ks err evs)
  then show ?case
    using missing_keys_ok [OF keys_not_removed(1)] remove_log_ok [OF keys_not_removed(2) subset_refl] by simp
next
  case (keys_synced ks evs)
  then show ?case
    using missing_keys_ok [OF keys_synced(1)] remove_log_ok [OF keys_synced(2) subset_refl] by simp
qed

text \<open>
  C14: the key synchronisation is additive. Whatever the outcome, it only associates keys that the
  spec has and the status does not manage, with the public key of the spec, and only removes
  managed kids that the spec no longer has; keys added to Keyline by others are not touched.
\<close>

theorem key_sync_calls:
  "case run_state (reconcileKeys env kc user i) (start w) of (r, s) \<Rightarrow>
     list_all (key_call_ok kc i user) (st_trace s)"
  by (auto intro: keys_log_ok postD [OF reconcileKeys_log] split: prod.splits)

text \<open>
  C17: an interrupted synchronisation is consistent. Whatever happens, if before it Keyline held every
  kid that is both managed and in the spec, it does so afterwards for the status the reconcile
  records, so that a key believed to be in place is in place.
\<close>

theorem key_sync_keeps_consistency:
  assumes "set (managed_of user) \<inter> desired_kids user \<subseteq> K"
    and "run_state (reconcileKeys env kc user i) (start w) = ((u, f), s)"
  shows "set (managed_of u) \<inter> desired_kids user \<subseteq> replay_keys i (st_trace s) K"
  using postD [OF reconcileKeys_log assms(2)]
proof cases
  case (keys_not_associated ks ok p rest err)
  with assms(1) show ?thesis by auto
next
  case (keys_not_removed ks err evs)
  define G where "G = fst ` set (missing_keys user ks)"
  have "(G \<union> K) - set (obsolete_kids user) \<subseteq> replay_keys i evs (G \<union> K)"
    using replay_removed_partly [OF keys_not_removed(5)] by blast
  moreover have "replay_keys i (st_trace s) K = replay_keys i evs (G \<union> K)"
    by (simp add: keys_not_removed(3) G_def)
  moreover have "set (managed_of u) = set (managed_of user) \<union> G"
    by (simp add: keys_not_removed(1) G_def)
  moreover have "set (obsolete_kids user) = set (managed_of user) - desired_kids user" by auto
  ultimately show ?thesis using assms(1) by blast
next
  case (keys_synced ks evs)
  then show ?thesis
    using assms(1) replay_removed [OF keys_synced(5)] by auto
qed

lemma key_sync_keeps_consistency_witness:
  "set (managed_of ex_user) \<inter> desired_kids ex_user \<subseteq> {''k1''} \<and>
   (case run_state (reconcileKeys ex_env (operator_client ex_instance ''main'' ex_secret) ex_user 1) (start ex_world) of
      ((u, f), s) \<Rightarrow> set (managed_of u) \<inter> desired_kids ex_user \<subseteq> replay_keys 1 (st_trace s) {''k1''})"
proof -
  have pre: "set (managed_of ex_user) \<inter> desired_kids ex_user \<subseteq> {''k1''}" by code_simp
  with key_sync_keeps_consistency [OF pre, of ex_env "operator_client ex_instance ''main'' ex_secret" 1 ex_world]
  show ?thesis by (auto split: prod.splits)
qed

lemma set_managed_same: "set_managed (managed_of user) user = user"
  by (simp add: set_managed_def)

lemma reconcileKeys_idle:
  assumes "set (managed_of user) = desired_kids user"
  shows "post (reconcileKeys env kc user i) (\<lambda>r evs. evs = [] \<and> r = (user, None))"
proof (rule post_mono [OF reconcileKeys_log])
  have none: "missing_keys user ks = []" if "key_order user ks" for ks
  proof -
    have "fst ` set (missing_keys user ks) = desired_kids user - set (managed_of user)"
      by (rule missing_kids [OF that])
    also have "\<dots> = {}" using assms by simp
    finally show ?thesis by (simp only: image_is_empty set_empty)
  qed
  have "obsolete_kids user = []" using assms by (simp add: filter_empty_conv)
  moreover have "filter (\<lambda>kid. kid \<in> desired_kids user) (managed_of user) = managed_of user"
    using assms by (simp add: filter_id_conv)
  ultimately have *: "obsolete_kids user = []"
    "filter (\<lambda>kid. kid \<in> desired_kids user) (managed_of user) = managed_of user" by auto
  fix r evs assume "keys_log kc i user r evs"
  then show "evs = [] \<and> r = (user, None)"
  proof cases
    case (keys_not_associated ks ok p rest err)
    with none show ?thesis by simp
  next
    case (keys_not_removed ks err evs)
    then show ?thesis unfolding *(1) by (auto elim: remove_log_nil)
  next
    case (keys_synced ks evs')
    from keys_synced(4) have "evs' = []" unfolding *(1) by (auto elim: remove_log_nil)
    then show ?thesis using keys_synced(1,2) none [OF keys_synced(3)] *(2) by (simp add: set_managed_same)
  qed
qed

text \<open>
  C18: once the status manages exactly the kids of the spec, the key synchronisation calls nothing
  and leaves the status as it is.
\<close>

theorem key_sync_idempotent:
  assumes "set (managed_of user) = desired_kids user"
    and "run_state (reconcileKeys env kc user i) (start w) = (r, s)"
  shows "st_trace s = [] \<and> r = (user, None)"
  by (rule postD [OF reconcileKeys_idle [OF assms(1)] assms(2)])

definition ex_synced_user :: keyline_user where
  "ex_synced_user = set_user_id ''ui'' (set_managed [''k2'', ''k1''] ex_user)"

lemma key_sync_idempotent_witness:
  "case run_state (reconcileKeys ex_env (operator_client ex_instance ''main'' ex_secret) ex_synced_user 1) (start ex_world) of
     (r, s) \<Rightarrow> st_trace s = [] \<and> r = (ex_synced_user, None)"
proof -
  have pre: "set (managed_of ex_synced_user) = desired_kids ex_synced_user" by code_simp
  from key_sync_idempotent [OF pre, of ex_env "operator_client ex_instance ''main'' ex_secret" 1 ex_world]
  show ?thesis by (auto split: prod.splits)
qed

text \<open>
  C39: progress is recorded for associations but not for removals. When a removal fails, the kids
  removed before it are gone from Keyline but still listed as managed in the status that the
  reconcile records, contrary to the comment of \<^verbatim>\<open>reconcileKeys\<close>.
\<close>

theorem key_removal_progress_not_recorded:
  assumes "run_state (reconcileKeys env kc user i) (start w) =
      ((u, Some (\<lparr>kf_reason = ''RemoveKeyFailed''\<rparr>, err)), s)"
    and "EvKeyRemove kc i kid None \<in> set (st_trace s)"
  shows "kid \<in> set (managed_of u)"
proof -
  have "kid \<in> set (managed_of user)"
    using keys_log_ok [OF postD [OF reconcileKeys_log assms(1)]] assms(2)
    by (auto simp: list_all_iff key_call_ok_def)
  with postD [OF reconcileKeys_log assms(1)] show ?thesis
    by (auto elim!: keys_log.cases)
qed

text \<open>An environment in which the removal of one kid fails, and a user with two kids to remove.\<close>

definition ex_failing_env :: "world env" where
  "ex_failing_env = ex_env\<lparr>api := ex_api\<lparr>a_user_remove_key := \<lambda>kc i kid w.
     (if kid = ''k9'' then Some (ApiError 500 ''down'') else None, w)\<rparr>\<rparr>"

definition ex_leaving_user :: keyline_user where
  "ex_leaving_user = set_managed [''k0'', ''k1'', ''k2'', ''k9''] ex_user"

lemma key_removal_progress_not_recorded_witness:
  "case run_state (reconcileKeys ex_failing_env (operator_client ex_instance ''main'' ex_secret) ex_leaving_user 1)
       (start ex_world) of
     ((u, failure), s) \<Rightarrow> ''k0'' \<in> set (managed_of u) \<and> ''k0'' \<notin> replay_keys 1 (st_trace s) {''k0'', ''k1''}"
proof -
  let ?run = "run_state (reconcileKeys ex_failing_env (operator_client ex_instance ''main'' ex_secret)
    ex_leaving_user 1) (start ex_world)"
  obtain u f s where run: "?run = ((u, f), s)" by (metis prod.exhaust)
  have "snd (fst ?run) = Some (\<lparr>kf_reason = ''RemoveKeyFailed''\<rparr>, ApiError 500 ''down'')"
    and "EvKeyRemove (operator_client ex_instance ''main'' ex_secret) 1 ''k0'' None \<in> set (st_trace (snd ?run))"
    and "''k0'' \<notin> replay_keys 1 (st_trace (snd ?run)) {''k0'', ''k1''}"
    by code_simp+
  with key_removal_progress_not_recorded [of ex_failing_env
      "operator_client ex_instance ''main'' ex_secret" ex_leaving_user 1 ex_world u "ApiError 500 ''down''" s "''k0''"]
  show ?thesis by (simp add: run)
qed

section \<open>The service user\<close>

text \<open>
  How \<^verbatim>\<open>ensureServiceUser\<close> may end: with the stored id after a lookup that found it; with the
  first service user of that name listed; with a user it created because none was listed; or
  with a failure.
\<close>

definition service_user_ok ::
    "'w runtime_lib \<Rightarrow> keyline_user \<Rightarrow> keyline_user \<times> ((key_reconcile_failure \<times> goerr) + uuid) \<Rightarrow> event list \<Rightarrow> bool" where
  "service_user_ok l user res evs =
     (case res of (u, r) \<Rightarrow>
        managed_of u = managed_of user \<and> user_spec u = user_spec user \<and>
        (case r of
           Inl f \<Rightarrow> list_all (\<lambda>e. case e of EvUserCreate kc n (Inr i) \<Rightarrow> False | _ \<Rightarrow> True) evs
         | Inr i \<Rightarrow>
             (case rev evs of
                EvUserGet kc j err # _ \<Rightarrow>
                  j = i \<and> err = None \<and> u = user \<and> l_uuid_parse l (user_user_id (user_status user)) = Inr i
              | EvUserList kc page sz (Inr items) # _ \<Rightarrow>
                  user_user_id (user_status u) = l_uuid_string l i \<and>
                  map_option ui_id (find_service_user (user_username (user_spec user)) items) = Some i
              | EvUserCreate kc name (Inr j) # EvUserList kc' page sz (Inr items) # _ \<Rightarrow>
                  j = i \<and> name = user_username (user_spec user) \<and>
                  user_user_id (user_status u) = l_uuid_string l i \<and>
                  find_service_user (user_username (user_spec user)) items = None
              | _ \<Rightarrow> False)))"

lemma ensureServiceUser_ok: "post (ensureServiceUser env kc user) (service_user_ok (lib env) user)"
  unfolding ensureServiceUser_def find_or_create_user_def reconcile_defs
  by (intro post_intros) (simp_all add: service_user_ok_def)

text \<open>
  \<^verbatim>\<open>ensureServiceUser\<close> creates a service user only when the listing just made has no service user
  of the spec's name. When it succeeds the id it returns is that of the user looked up by the
  stored id, of the first one listed, or of the one created, and in the last two cases it is
  recorded in the status; a failure creates nothing. The managed kids stay as they were.
\<close>

theorem service_user_ensured:
  "case run_state (ensureServiceUser env kc user) (start w) of (res, s) \<Rightarrow>
     service_user_ok (lib env) user res (st_trace s)"
  by (auto intro: postD [OF ensureServiceUser_ok] split: prod.splits)

text \<open>No key is associated in this part of the log.\<close>

definition associates :: "event \<Rightarrow> bool" where
  "associates e = (case e of EvKeyAssociate kc i dto err \<Rightarrow> True | _ \<Rightarrow> False)"

lemma ensureServiceUser_keys:
  "post (ensureServiceUser env kc user) (\<lambda>(u, r) evs. managed_of u = managed_of user \<and> user_spec u = user_spec user \<and>
     list_all (\<lambda>e. \<not> associates e) evs)"
  unfolding ensureServiceUser_def find_or_create_user_def reconcile_defs
  by (intro post_intros) (simp_all add: associates_def)

lemma push_display_name_keys: "post (push_display_name env kc i user) (\<lambda>e. list_all (\<lambda>e. \<not> associates e))"
  unfolding push_display_name_def reconcile_defs by (intro post_intros) (simp_all add: associates_def)

lemma reconcileKeys_managed:
  assumes "desired_kids user \<subseteq> set (managed_of user)"
  shows "post (reconcileKeys env kc user i) (\<lambda>r. list_all (\<lambda>e. \<not> associates e))"
proof (rule post_mono [OF reconcileKeys_log])
  fix r evs
  assume "keys_log kc i user r evs"
  from keys_log_ok [OF this] show "list_all (\<lambda>e. \<not> associates e) evs"
  proof (rule list.pred_mono_strong)
    fix e assume ok: "key_call_ok kc i user e"
    show "\<not> associates e"
    proof (cases e)
      case (EvKeyAssociate kc' j dto err)
      with ok obtain kid k where "kid \<notin> set (managed_of user)" "map_of (desired_keys user) kid = Some k"
        by (auto simp: key_call_ok_def split: option.splits)
      with assms desired_keys_Some show ?thesis by blast
    qed (simp_all add: associates_def)
  qed
qed

text \<open>
  C38: a user that was lost and created anew does not get its keys back. The kids recorded as managed
  for the old user are kept when the stored id turns out to be stale, so when they cover the
  kids of the spec no key is associated with the new user, whatever else happens.
\<close>

theorem recreated_user_gets_no_keys:
  assumes "desired_kids user \<subseteq> set (managed_of user)"
    and "run_state (reconcileWithClient env kc user (user_patcher user)) (start w) = (out, s)"
  shows "list_all (\<lambda>e. \<not> associates e) (st_trace s)"
proof -
  have "post (reconcileWithClient env kc user (user_patcher user)) (\<lambda>out. list_all (\<lambda>e. \<not> associates e))"
    unfolding reconcileWithClient_def user_patcher_def newStatusPatcher_def
    using assms(1)
    by (intro post_intros post_bind [OF ensureServiceUser_keys] post_bind [OF push_display_name_keys]
        post_bind [OF reconcileKeys_managed])
      (auto simp: associates_def)
  from postD [OF this assms(2)] show ?thesis .
qed

text \<open>The user of the example had been created before with both its keys, and is gone from Keyline.\<close>

definition ex_lost_user :: keyline_user where
  "ex_lost_user = set_user_id ''uiiiiiiiii'' (set_managed [''k1'', ''k2''] ex_user)"

lemma recreated_user_gets_no_keys_witness:
  "case run_state (reconcileWithClient ex_env (operator_client ex_instance ''main'' ex_secret) ex_lost_user
       (user_patcher ex_lost_user)) (start ex_world) of
     (out, s) \<Rightarrow> list_all (\<lambda>e. \<not> associates e) (st_trace s) \<and> reports_ready (ready_in ex_env) (st_trace s) \<and>
       w_users (st_world s) = [(1, ''bot'')]"
proof -
  let ?run = "run_state (reconcileWithClient ex_env (operator_client ex_instance ''main'' ex_secret) ex_lost_user
       (user_patcher ex_lost_user)) (start ex_world)"
  have pre: "desired_kids ex_lost_user \<subseteq> set (managed_of ex_lost_user)" by code_simp
  have "reports_ready (ready_in ex_env) (st_trace (snd ?run))" "w_users (st_world (snd ?run)) = [(1, ''bot'')]"
    by code_simp+
  with recreated_user_gets_no_keys [OF pre, of ex_env "operator_client ex_instance ''main'' ex_secret" ex_world]
  show ?thesis by (auto split: prod.splits)
qed

end
