(* ===== verification/RoleAssignment_Controller.thy ===== *)
theory RoleAssignment_Controller
  imports Example_Env
begin

text \<open>
  \<^verbatim>\<open>internal/controller/keylineroleassignment_controller.go\<close>: waits for the role, the user, the
  project and the virtual server, and assigns the user to the role unless the first page of the
  role's users already lists it.
\<close>

definition ra_patcher :: "keyline_role_assignment \<Rightarrow> keyline_role_assignment status_patcher" where
  [reconcile_defs]: "ra_patcher ra =
     newStatusPatcher ObjRoleAssignment ra
       (\<lambda>f x. x\<lparr>ra_status := ra_status x\<lparr>ra_conditions := f (ra_conditions (ra_status x))\<rparr>\<rparr>)"

definition sync_assignment ::
    "'w env \<Rightarrow> keyline_client \<Rightarrow> string \<Rightarrow> keyline_role_assignment status_patcher \<Rightarrow> keyline_role_assignment \<Rightarrow>
     uuid \<Rightarrow> uuid \<Rightarrow> ('w, outcome) op" where
  [reconcile_defs]: "sync_assignment env kc slug sp ra roleId userId = do {
     r \<leftarrow> role_list_users env kc slug roleId 0 1000;
     case r of
       Inl err \<Rightarrow> setNotReady env sp ra ''ListFailed'' (error_text err)
     | Inr ids \<Rightarrow>
     (let assigned = list_ex (\<lambda>u. u = userId) ids in
      if \<not> assigned
      then do {
        e \<leftarrow> role_assign env kc slug roleId userId;
        case e of
          Some err \<Rightarrow> setNotReady env sp ra ''AssignFailed'' (error_text err)
        | None \<Rightarrow> setReady env sp ra ''Synced'' ''Role assignment synced''
      }
      else setReady env sp ra ''Synced'' ''Role assignment synced'')
   }"

definition reconcileRoleAssignment :: "'w env \<Rightarrow> namespaced_name \<Rightarrow> ('w, outcome) op" where
  "reconcileRoleAssignment env req = do {
     r \<leftarrow> get_role_assignment env req;
     case r of
       Inl err \<Rightarrow> State_Monad.return (ReconcileError (l_ignore_not_found (lib env) err))
     | Inr ra \<Rightarrow> do {
     let sp = ra_patcher ra;
     let ns = om_namespace (ra_meta ra);
     rr \<leftarrow> get_role env (nname ns (ref_name (ra_role_ref (ra_spec ra))));
     case rr of
       Inl err \<Rightarrow> setNotReady env sp ra ''RoleNotFound'' (error_text err)
     | Inr role \<Rightarrow>
     if \<not> l_is_status_condition_true (lib env) (role_conditions (role_status role)) ConditionReady
     then setNotReady env sp ra ''RoleNotReady'' ''KeylineRole is not ready''
     else do {
     ru \<leftarrow> get_user env (nname ns (ref_name (ra_user_ref (ra_spec ra))));
     case ru of
       Inl err \<Rightarrow> setNotReady env sp ra ''UserNotFound'' (error_text err)
     | Inr user \<Rightarrow>
     if \<not> l_is_status_condition_true (lib env) (user_conditions (user_status user)) ConditionReady
     then setNotReady env sp ra ''UserNotReady'' ''KeylineUser is not ready''
     else do {
     rp \<leftarrow> get_project env (nname ns (ref_name (role_project_ref (role_spec role))));
     case rp of
       Inl err \<Rightarrow> setNotReady env sp ra ''ProjectNotFound'' (error_text err)
     | Inr proj \<Rightarrow>
     if \<not> l_is_status_condition_true (lib env) (proj_conditions (proj_status proj)) ConditionReady
     then setNotReady env sp ra ''ProjectNotReady'' ''KeylineProject is not ready''
     else do {
     rv \<leftarrow> get_virtual_server env (nname ns (ref_name (proj_virtual_server_ref (proj_spec proj))));
     case rv of
       Inl err \<Rightarrow> setNotReady env sp ra ''VirtualServerNotFound'' (error_text err)
     | Inr vs \<Rightarrow>
     if \<not> l_is_status_condition_true (lib env) (vs_conditions (vs_status vs)) ConditionReady
     then setNotReady env sp ra ''VirtualServerNotReady'' ''KeylineVirtualServer is not ready''
     else do {
     ri \<leftarrow> get_instance env (nname ns (ref_name (vs_instance_ref (vs_spec vs))));
     case ri of
       Inl err \<Rightarrow> setNotReady env sp ra ''InstanceNotFound'' (error_text err)
     | Inr inst \<Rightarrow> do {
     rk \<leftarrow> newOperatorClient env ns inst (vs_name (vs_spec vs));
     case rk of
       Inl err \<Rightarrow> setNotReady env sp ra ''SecretNotFound'' (error_text err)
     | Inr kc \<Rightarrow>
     (case l_uuid_parse (lib env) (role_role_id (role_status role)) of
       Inl err \<Rightarrow> setNotReady env sp ra ''RoleNotReady'' ''KeylineRole has no valid RoleId''
     | Inr roleId \<Rightarrow>
     (case l_uuid_parse (lib env) (user_user_id (user_status user)) of
       Inl err \<Rightarrow> setNotReady env sp ra ''UserNotReady'' ''KeylineUser has no valid UserId''
     | Inr userId \<Rightarrow> sync_assignment env kc (proj_slug (proj_spec proj)) sp ra roleId userId))
     }}}}}}}"

section \<open>The contract\<close>

lemma reconcileRoleAssignment_discipline:
  "post (reconcileRoleAssignment env nn) (status_discipline KRoleAssignment nn (l_ignore_not_found (lib env)))"
  unfolding reconcileRoleAssignment_def reconcile_defs newStatusPatcher_def
  by (intro post_intros) (simp_all add: discipline_simps split: option.splits)

lemma reconcileRoleAssignment_isolated: "post (reconcileRoleAssignment env nn) (\<lambda>out. isolated)"
  unfolding reconcileRoleAssignment_def reconcile_defs newStatusPatcher_def
  by (intro post_intros) (simp_all add: isolated_simps)

lemma reconcileRoleAssignment_gated:
  "post (reconcileRoleAssignment env nn) (\<lambda>out. gated (ready_in env) [KRoleAssignment, KRole, KProject, KVirtualServer, KInstance] [KRole, KUser, KProject, KVirtualServer])"
  unfolding reconcileRoleAssignment_def reconcile_defs newStatusPatcher_def
  by (intro post_intros) (simp_all add: gate_simps)

lemma reconcileRoleAssignment_entitled: "post (reconcileRoleAssignment env nn) (\<lambda>out. clients_entitled)"
  unfolding reconcileRoleAssignment_def reconcile_defs newStatusPatcher_def
  by (intro post_intros) (simp_all add: gate_simps)

lemma reconcileRoleAssignment_honest:
  assumes "meta_conditions_ok (lib env)"
  shows "post (reconcileRoleAssignment env nn) (\<lambda>out. honest (ready_in env))"
  unfolding reconcileRoleAssignment_def reconcile_defs newStatusPatcher_def
  by (intro post_intros) (simp_all add: honest_simps meta_conditions_set [OF assms])

interpretation role_assignment: gated_reconciler KRoleAssignment reconcileRoleAssignment
  "[KRoleAssignment, KRole, KProject, KVirtualServer, KInstance]" "[KRole, KUser, KProject, KVirtualServer]"
  by unfold_locales
    (fact reconcileRoleAssignment_discipline [THEN postD] reconcileRoleAssignment_isolated [THEN postD]
      reconcileRoleAssignment_gated [THEN postD]
      reconcileRoleAssignment_entitled [THEN postD] reconcileRoleAssignment_honest [THEN postD])+

section \<open>What is written\<close>

text \<open>
  \<open>assignment_ids seen slug rid uid\<close>: the role, the user and the project were read, and these are
  the ids in their statuses and the slug in the project's spec.
\<close>

definition assignment_ids :: "'w runtime_lib \<Rightarrow> event list \<Rightarrow> string \<Rightarrow> uuid \<Rightarrow> uuid \<Rightarrow> bool" where
  "assignment_ids l seen slug rid uid \<longleftrightarrow>
     list_ex (\<lambda>e. case e of
         EvGet KRole nn (Inr (ObjRole role)) \<Rightarrow> l_uuid_parse l (role_role_id (role_status role)) = Inr rid
       | _ \<Rightarrow> False) seen \<and>
     list_ex (\<lambda>e. case e of
         EvGet KUser nn (Inr (ObjUser user)) \<Rightarrow> l_uuid_parse l (user_user_id (user_status user)) = Inr uid
       | _ \<Rightarrow> False) seen \<and>
     list_ex (\<lambda>e. case e of
         EvGet KProject nn (Inr (ObjProject proj)) \<Rightarrow> proj_slug (proj_spec proj) = slug
       | _ \<Rightarrow> False) seen"

definition assign_ok :: "'w runtime_lib \<Rightarrow> event list \<Rightarrow> event \<Rightarrow> bool" where
  "assign_ok l seen e =
     (case e of
        EvRoleAssign kc slug rid uid err \<Rightarrow>
          assignment_ids l seen slug rid uid \<and>
          (case seen of
             EvRoleListUsers kc' slug' rid' page sz (Inr ids) # _ \<Rightarrow>
               kc' = kc \<and> slug' = slug \<and> rid' = rid \<and> uid \<notin> set ids
           | _ \<Rightarrow> False)
      | _ \<Rightarrow> False)"

lemma reconcileRoleAssignment_writes:
  "post (reconcileRoleAssignment env nn) (\<lambda>out. justified (assign_ok (lib env)) [])"
  unfolding reconcileRoleAssignment_def reconcile_defs newStatusPatcher_def
  by (intro post_intros) (simp_all add: assign_ok_def assignment_ids_def list_ex_iff)

text \<open>
  The role-assignment controller writes to Keyline only to assign the user to the role, with
  the ids read from the statuses of the two objects and the slug of the role's project, and only
  directly after a listing of that role's users that does not have the user.
\<close>

theorem assignment_writes_justified:
  "case run_state (reconcileRoleAssignment env nn) (start w) of (out, s) \<Rightarrow>
     justified (assign_ok (lib env)) [] (st_trace s)"
  by (auto intro: postD [OF reconcileRoleAssignment_writes] split: prod.splits)

end
