(* ===== verification/Manager.thy ===== *)
theory Manager
  imports Instance_Controller VirtualServer_Controller Project_Controller Application_Controller
    Role_Controller User_Controller RoleAssignment_Controller
begin

text \<open>
  The controllers as \<^verbatim>\<open>cmd/main.go\<close> registers them with the manager and as each
  \<^verbatim>\<open>SetupWithManager\<close> configures its watch: the kind it reconciles and the kinds of the objects it
  owns, and the order in which kinds depend on each other.
\<close>

section \<open>The registered controllers\<close>

record 'w controller =
  ctl_name :: string
  ctl_kind :: kind
  ctl_owns :: "kind list"
  ctl_reconcile :: "namespaced_name \<Rightarrow> ('w, outcome) op"

definition controllers :: "'w env \<Rightarrow> 'w controller list" where
  "controllers env =
     [\<lparr>ctl_name = ''KeylineInstance'', ctl_kind = KInstance,
       ctl_owns = [KDeployment, KService, KSecret, KPersistentVolumeClaim],
       ctl_reconcile = reconcileInstance env\<rparr>,
      \<lparr>ctl_name = ''KeylineVirtualServer'', ctl_kind = KVirtualServer, ctl_owns = [],
       ctl_reconcile = reconcileVirtualServer env\<rparr>,
      \<lparr>ctl_name = ''KeylineProject'', ctl_kind = KProject, ctl_owns = [],
       ctl_reconcile = reconcileProject env\<rparr>,
      \<lparr>ctl_name = ''KeylineApplication'', ctl_kind = KApplication, ctl_owns = [],
       ctl_reconcile = reconcileApplication env\<rparr>,
      \<lparr>ctl_name = ''KeylineRole'', ctl_kind = KRole, ctl_owns = [],
       ctl_reconcile = reconcileRole env\<rparr>,
      \<lparr>ctl_name = ''KeylineUser'', ctl_kind = KUser, ctl_owns = [],
       ctl_reconcile = reconcileUser env\<rparr>,
      \<lparr>ctl_name = ''KeylineRoleAssignment'', ctl_kind = KRoleAssignment, ctl_owns = [],
       ctl_reconcile = reconcileRoleAssignment env\<rparr>]"

section \<open>The order of dependency\<close>

text \<open>
  Kinds are ordered by how far they are from the instance: what an object refers to comes before
  it. The rank numbers the kinds along this order.
\<close>

fun kind_rank :: "kind \<Rightarrow> nat" where
  "kind_rank KSecret = 0"
| "kind_rank KPersistentVolumeClaim = 1"
| "kind_rank KService = 2"
| "kind_rank KDeployment = 3"
| "kind_rank KInstance = 4"
| "kind_rank KVirtualServer = 5"
| "kind_rank KProject = 6"
| "kind_rank KUser = 7"
| "kind_rank KRole = 8"
| "kind_rank KApplication = 9"
| "kind_rank KRoleAssignment = 10"

lemma kind_rank_inject: "kind_rank k = kind_rank k' \<longleftrightarrow> k = k'"
  by (cases k; cases k'; simp)

instantiation kind :: linorder
begin

definition less_eq_kind :: "kind \<Rightarrow> kind \<Rightarrow> bool" where
  "less_eq_kind k k' \<longleftrightarrow> kind_rank k \<le> kind_rank k'"

definition less_kind :: "kind \<Rightarrow> kind \<Rightarrow> bool" where
  "less_kind k k' \<longleftrightarrow> kind_rank k < kind_rank k'"

instance
  by standard (auto simp: less_eq_kind_def less_kind_def kind_rank_inject)

end

lemma refs_of_less: "list_all (\<lambda>(k, nn). k < object_kind obj) (refs_of ns obj)"
  by (cases obj) (simp_all add: less_kind_def)

lemma refs_wf: "wf {((k, nn), (k', nn')) | (k :: kind) (nn :: namespaced_name) k' nn'. k < k'}"
proof -
  have "{((k, nn), (k', nn')) | (k :: kind) (nn :: namespaced_name) k' nn'. k < k'} =
      inv_image less_than (\<lambda>(k, nn). kind_rank k)"
    by (auto simp: less_kind_def inv_image_def)
  then show ?thesis by (simp add: wf_inv_image)
qed

end
