(* ===== verification/Execution.thy ===== *)
theory Execution
  imports Manager
begin

text \<open>
  What a log says about the world. A log is an observation of a reconcile; here it is shown to be
  the whole story: the world at the end is the one at the start after exactly the calls in the log,
  each with the answer in the log, and in between nothing but the calls that are not logged
  (the clock, random numbers, the order of a \<^verbatim>\<open>range\<close>). So whatever each call does to some part of
  the world, the log determines for the reconcile.
\<close>

section \<open>Calls as steps of the world\<close>

definition got :: "(namespaced_name \<Rightarrow> 'w \<Rightarrow> (goerr + 'a) \<times> 'w) \<Rightarrow> ('a \<Rightarrow> k8s_object) \<Rightarrow>
    namespaced_name \<Rightarrow> goerr + k8s_object \<Rightarrow> 'w \<Rightarrow> 'w \<Rightarrow> bool" where
  "got get mk nn r w w' \<longleftrightarrow> r = map_sum id mk (fst (get nn w)) \<and> w' = snd (get nn w)"

lemma got_simps:
  "got get mk nn (Inl e) w w' \<longleftrightarrow> get nn w = (Inl e, w')"
  "got get mk nn (Inr obj) w w' \<longleftrightarrow> (\<exists>x. obj = mk x \<and> get nn w = (Inr x, w'))"
  by (cases "get nn w"; cases "fst (get nn w)"; auto simp: got_def)+

fun made :: "'w env \<Rightarrow> event \<Rightarrow> 'w \<Rightarrow> 'w \<Rightarrow> bool" where
  "made env (EvGet KInstance nn r) w w' = got (k_get_instance (kube env)) ObjInstance nn r w w'"
| "made env (EvGet KVirtualServer nn r) w w' = got (k_get_virtual_server (kube env)) ObjVirtualServer nn r w w'"
| "made env (EvGet KProject nn r) w w' = got (k_get_project (kube env)) ObjProject nn r w w'"
| "made env (EvGet KApplication nn r) w w' = got (k_get_application (kube env)) ObjApplication nn r w w'"
| "made env (EvGet KRole nn r) w w' = got (k_get_role (kube env)) ObjRole nn r w w'"
| "made env (EvGet KUser nn r) w w' = got (k_get_user (kube env)) ObjUser nn r w w'"
| "made env (EvGet KRoleAssignment nn r) w w' =
     got (k_get_role_assignment (kube env)) ObjRoleAssignment nn r w w'"
| "made env (EvGet KSecret nn r) w w' = got (k_get_secret (kube env)) ObjSecret nn r w w'"
| "made env (EvGet KPersistentVolumeClaim nn r) w w' =
     got (k_get_pvc (kube env)) ObjPersistentVolumeClaim nn r w w'"
| "made env (EvGet KDeployment nn r) w w' = got (k_get_deployment (kube env)) ObjDeployment nn r w w'"
| "made env (EvGet KService nn r) w w' = False"
| "made env (EvCreate obj err) w w' =
     ((\<exists>x. obj = ObjSecret x \<and> k_create_secret (kube env) x w = (err, w')) \<or>
      (\<exists>x. obj = ObjPersistentVolumeClaim x \<and> k_create_pvc (kube env) x w = (err, w')))"
| "made env (EvCreateOrUpdate obj err) w w' =
     ((\<exists>x f. obj = map_sum id ObjSecret (f x) \<and> k_create_or_update_secret (kube env) x f w = (err, w')) \<or>
      (\<exists>x f. obj = map_sum id ObjService (f x) \<and> k_create_or_update_service (kube env) x f w = (err, w')) \<or>
      (\<exists>x f. obj = map_sum id ObjDeployment (f x) \<and> k_create_or_update_deployment (kube env) x f w = (err, w')))"
| "made env (EvStatusPatch obj base err) w w' = (k_patch_status (kube env) obj base w = (err, w'))"
| "made env (EvToken ts r) w w' = (a_token (api env) ts w = (r, w'))"
| "made env (EvVirtualServerGet kc r) w w' = (a_virtual_server_get (api env) kc w = (r, w'))"
| "made env (EvVirtualServerPatch kc vp err) w w' = (a_virtual_server_patch (api env) kc vp w = (err, w'))"
| "made env (EvProjectGet kc slug err) w w' = (a_project_get (api env) kc slug w = (err, w'))"
| "made env (EvProjectCreate kc pd err) w w' = (a_project_create (api env) kc pd w = (err, w'))"
| "made env (EvRoleGet kc slug i r) w w' = (a_role_get (api env) kc slug i w = (r, w'))"
| "made env (EvRolePatch kc slug i rp err) w w' = (a_role_patch (api env) kc slug i rp w = (err, w'))"
| "made env (EvRoleList kc slug pg sz r) w w' = (a_role_list (api env) kc slug pg sz w = (r, w'))"
| "made env (EvRoleCreate kc slug rd r) w w' = (a_role_create (api env) kc slug rd w = (r, w'))"
| "made env (EvRoleListUsers kc slug i pg sz r) w w' = (a_role_list_users (api env) kc slug i pg sz w = (r, w'))"
| "made env (EvRoleAssign kc slug i u err) w w' = (a_role_assign (api env) kc slug i u w = (err, w'))"
| "made env (EvApplicationGet kc slug i r) w w' = (a_application_get (api env) kc slug i w = (r, w'))"
| "made env (EvApplicationPatch kc slug i ap err) w w' = (a_application_patch (api env) kc slug i ap w = (err, w'))"
| "made env (EvApplicationList kc slug pg sz r) w w' = (a_application_list (api env) kc slug pg sz w = (r, w'))"
| "made env (EvApplicationCreate kc slug ad r) w w' = (a_application_create (api env) kc slug ad w = (r, w'))"
| "made env (EvUserGet kc i err) w w' = (a_user_get (api env) kc i w = (err, w'))"
| "made env (EvUserList kc pg sz r) w w' = (a_user_list (api env) kc pg sz w = (r, w'))"
| "made env (EvUserCreate kc name r) w w' = (a_user_create_service_user (api env) kc name w = (r, w'))"
| "made env (EvUserPatch kc i up err) w w' = (a_user_patch (api env) kc i up w = (err, w'))"
| "made env (EvKeyAssociate kc i ak err) w w' = (a_user_associate_key (api env) kc i ak w = (err, w'))"
| "made env (EvKeyRemove kc i kid err) w w' = (a_user_remove_key (api env) kc i kid w = (err, w'))"

text \<open>The calls that are not logged.\<close>

inductive silently :: "'w env \<Rightarrow> 'w \<Rightarrow> 'w \<Rightarrow> bool" for env w where
  clock: "l_now (lib env) w = (t, w') \<Longrightarrow> silently env w w'"
| range_order: "l_range_choices (lib env) w = (cs, w') \<Longrightarrow> silently env w w'"
| key_generated: "l_ed25519_generate_key (lib env) w = (k, w') \<Longrightarrow> silently env w w'"
| uuid_generated: "l_uuid_new (lib env) w = (u, w') \<Longrightarrow> silently env w w'"

inductive runs :: "'w env \<Rightarrow> event list \<Rightarrow> 'w \<Rightarrow> 'w \<Rightarrow> bool" for env where
  no_call: "runs env [] w w"
| unlogged: "silently env w w1 \<Longrightarrow> runs env evs w1 w2 \<Longrightarrow> runs env evs w w2"
| logged: "made env e w w1 \<Longrightarrow> runs env evs w1 w2 \<Longrightarrow> runs env (e # evs) w w2"

lemma runs_append: "runs env evs w w1 \<Longrightarrow> runs env evs' w1 w2 \<Longrightarrow> runs env (evs @ evs') w w2"
  by (induction rule: runs.induct) (auto intro: runs.intros)

section \<open>Actions explained by their log\<close>

definition explained :: "'w env \<Rightarrow> ('w, 'a) op \<Rightarrow> bool" where
  "explained env m \<longleftrightarrow>
     (\<forall>s. \<exists>evs. st_trace (snd (run_state m s)) = st_trace s @ evs \<and>
        runs env evs (st_world s) (st_world (snd (run_state m s))))"

named_theorems explained_rules \<open>actions explained by their log\<close>

lemma explainedD: "explained env m \<Longrightarrow> run_state m (start w) = (a, s') \<Longrightarrow> runs env (st_trace s') w (st_world s')"
  unfolding explained_def by (metis append_Nil snd_conv start_simps)

lemma explained_return [explained_rules]: "explained env (State_Monad.return a)"
  by (simp add: explained_def no_call)

lemma explained_bind [explained_rules]:
  assumes "explained env m" and "\<And>a. explained env (f a)"
  shows "explained env (State_Monad.bind m f)"
  unfolding explained_def
proof
  fix s
  obtain a s1 where 1: "run_state m s = (a, s1)" by (cases "run_state m s")
  obtain b s2 where 2: "run_state (f a) s1 = (b, s2)" by (cases "run_state (f a) s1")
  from assms(1) 1 obtain evs where e1: "st_trace s1 = st_trace s @ evs" "runs env evs (st_world s) (st_world s1)"
    unfolding explained_def by (metis snd_conv)
  from assms(2) [of a] 2 obtain evs' where e2: "st_trace s2 = st_trace s1 @ evs'"
    "runs env evs' (st_world s1) (st_world s2)"
    unfolding explained_def by (metis snd_conv)
  from e1 e2 1 2 show "\<exists>evs. st_trace (snd (run_state (State_Monad.bind m f) s)) = st_trace s @ evs \<and>
      runs env evs (st_world s) (st_world (snd (run_state (State_Monad.bind m f) s)))"
    by (intro exI [of _ "evs @ evs'"]) (simp add: run_state_bind runs_append)
qed

lemma explained_case_sum [explained_rules]:
  "(\<And>e. explained env (f e)) \<Longrightarrow> (\<And>x. explained env (g x)) \<Longrightarrow> explained env (case_sum f g r)"
  by (cases r) auto

lemma explained_case_option [explained_rules]:
  "explained env g \<Longrightarrow> (\<And>x. explained env (f x)) \<Longrightarrow> explained env (case_option g f r)"
  by (cases r) auto

lemma explained_case_prod [explained_rules]: "(\<And>x y. explained env (f x y)) \<Longrightarrow> explained env (case_prod f p)"
  by (cases p) auto

lemma explained_case_go [explained_rules]:
  "explained env m \<Longrightarrow> (\<And>x. explained env (f x)) \<Longrightarrow> explained env (case_go m f r)"
  by (cases r) auto

lemma explained_if [explained_rules]:
  "explained env m \<Longrightarrow> explained env n \<Longrightarrow> explained env (if c then m else n)"
  by simp

lemma explained_Let [explained_rules]: "(\<And>x. explained env (f x)) \<Longrightarrow> explained env (Let a f)"
  by simp

lemma explained_silent:
  "(\<And>w a w'. f w = (a, w') \<Longrightarrow> silently env w w') \<Longrightarrow> explained env (silent f)"
  by (auto simp: explained_def run_silent split: prod.splits intro!: unlogged [OF _ no_call])

lemma explained_call:
  "(\<And>w a w'. f w = (a, w') \<Longrightarrow> made env (ev a) w w') \<Longrightarrow> explained env (call ev f)"
  by (auto simp: explained_def run_call split: prod.splits intro!: logged no_call)

lemma explained_silents [explained_rules]:
  "explained env (silent (l_now (lib env)))" "explained env (silent (l_range_choices (lib env)))"
  "explained env (silent (l_ed25519_generate_key (lib env)))" "explained env (silent (l_uuid_new (lib env)))"
  by (auto intro!: explained_silent intro: silently.intros)

lemma explained_gets [explained_rules]:
  "explained env (get_instance env nn)" "explained env (get_virtual_server env nn)"
  "explained env (get_project env nn)" "explained env (get_application env nn)" "explained env (get_role env nn)"
  "explained env (get_user env nn)" "explained env (get_role_assignment env nn)" "explained env (get_secret env nn)"
  "explained env (get_pvc env nn)" "explained env (get_deployment env nn)"
  by (auto simp: reconcile_defs got_def intro!: explained_call)

lemma explained_writes [explained_rules]:
  "explained env (create_secret env sec)" "explained env (create_pvc env pvc)"
  "explained env (create_or_update_secret env sec fs)" "explained env (create_or_update_service env svc fv)"
  "explained env (create_or_update_deployment env dep fd)" "explained env (patch_status env obj base)"
  unfolding reconcile_defs by (rule explained_call; fastforce)+

lemma explained_api [explained_rules]:
  "explained env (ts_Token env ts)"
  "explained env (virtual_server_get env kc)" "explained env (virtual_server_patch env kc vp)"
  "explained env (project_get env kc slug)" "explained env (project_create env kc pd)"
  "explained env (role_get env kc slug i)" "explained env (role_patch env kc slug i rp)"
  "explained env (role_list env kc slug pg sz)" "explained env (role_create env kc slug rd)"
  "explained env (role_list_users env kc slug i pg sz)" "explained env (role_assign env kc slug i u)"
  "explained env (application_get env kc slug i)" "explained env (application_patch env kc slug i ap)"
  "explained env (application_list env kc slug pg sz)" "explained env (application_create env kc slug ad)"
  "explained env (user_get env kc i)" "explained env (user_list env kc pg sz)"
  "explained env (user_create_service_user env kc name)" "explained env (user_patch env kc i up)"
  "explained env (user_associate_key env kc i ak)" "explained env (user_remove_key env kc i kid)"
  by (auto simp: reconcile_defs intro!: explained_call)

lemma explained_setters [explained_rules]:
  "explained env (setNotReady env sp obj reason msg)" "explained env (setReady env sp obj reason msg)"
  unfolding setNotReady_def setReady_def setNotReadyCondition_def setReadyCondition_def metav1_Now_def
  by (intro explained_rules)+

lemma explained_newOperatorClient [explained_rules]: "explained env (newOperatorClient env ns inst vsName)"
  unfolding newOperatorClient_def by (intro explained_rules)

section \<open>The controllers\<close>

lemma explained_reconcileInstance: "explained env (reconcileInstance env nn)"
  unfolding reconcileInstance_def ensureCredentials_def database_credentials_def vault_token_def resolveSecret_def
    ensure_resources_def ensure_key_storage_def ensureConfigSecret_def ensurePVC_def ensureService_def
    ensureDeployment_def check_ready_def isDeploymentAvailable_def
  by (intro explained_rules)

lemma explained_reconcileVirtualServer: "explained env (reconcileVirtualServer env nn)"
  unfolding reconcileVirtualServer_def sync_virtual_server_def by (intro explained_rules)

lemma explained_reconcileProject: "explained env (reconcileProject env nn)"
  unfolding reconcileProject_def sync_project_def by (intro explained_rules)

lemma explained_reconcileApplication: "explained env (reconcileApplication env nn)"
  unfolding reconcileApplication_def sync_application_def sync_application_by_id_def create_application_def
  by (intro explained_rules)

lemma explained_reconcileRole: "explained env (reconcileRole env nn)"
  unfolding reconcileRole_def sync_role_def find_or_create_role_def by (intro explained_rules)

lemma explained_associate_keys [explained_rules]: "explained env (associate_keys env kc i ks managed user)"
proof (induction ks arbitrary: managed user)
  case (Cons k ks)
  then show ?case by (cases k) (auto intro!: explained_rules)
qed (simp add: explained_return)

lemma explained_remove_keys [explained_rules]: "explained env (remove_keys env kc i desired kids kept)"
proof (induction kids arbitrary: kept)
  case (Cons k ks)
  then show ?case by (auto intro!: explained_rules)
qed (simp add: explained_return)

lemma explained_reconcileUser: "explained env (reconcileUser env nn)"
  unfolding reconcileUser_def reconcileWithClient_def ensureServiceUser_def find_or_create_user_def
    push_display_name_def reconcileKeys_def
  by (intro explained_rules)

lemma explained_reconcileRoleAssignment: "explained env (reconcileRoleAssignment env nn)"
  unfolding reconcileRoleAssignment_def sync_assignment_def by (intro explained_rules)

lemmas explained_controllers =
  explained_reconcileInstance explained_reconcileVirtualServer explained_reconcileProject
  explained_reconcileApplication explained_reconcileRole explained_reconcileUser explained_reconcileRoleAssignment

section \<open>Observations\<close>

text \<open>
  A part of the world, seen through a function \<open>obs\<close>, together with a relation \<open>R\<close> that says what a
  call with an answer may do to it. If every call obeys \<open>R\<close> and the calls that are not logged leave
  the part alone, the log of a reconcile relates the part before to the part after.
\<close>

primrec follow_log :: "(event \<Rightarrow> 's \<Rightarrow> 's \<Rightarrow> bool) \<Rightarrow> event list \<Rightarrow> 's \<Rightarrow> 's \<Rightarrow> bool" where
  "follow_log R [] s s' = (s' = s)"
| "follow_log R (e # evs) s s' = (\<exists>s1. R e s s1 \<and> follow_log R evs s1 s')"

lemma follow_log_append:
  "follow_log R (evs @ evs') s s' = (\<exists>s1. follow_log R evs s s1 \<and> follow_log R evs' s1 s')"
  by (induction evs arbitrary: s) auto

definition observes :: "'w env \<Rightarrow> ('w \<Rightarrow> 's) \<Rightarrow> (event \<Rightarrow> 's \<Rightarrow> 's \<Rightarrow> bool) \<Rightarrow> bool" where
  "observes env obs R \<longleftrightarrow>
     (\<forall>e w w'. made env e w w' \<longrightarrow> R e (obs w) (obs w')) \<and>
     (\<forall>w w'. silently env w w' \<longrightarrow> obs w' = obs w)"

lemma runs_follow:
  assumes "observes env obs R"
  shows "runs env evs w w' \<Longrightarrow> follow_log R evs (obs w) (obs w')"
proof (induction rule: runs.induct)
  case (unlogged w w1 evs w2)
  with assms have "obs w1 = obs w" unfolding observes_def by blast
  with unlogged.IH show ?case by simp
next
  case (logged e w w1 evs w2)
  with assms have "R e (obs w) (obs w1)" unfolding observes_def by blast
  with logged.IH show ?case by auto
qed simp

lemma explained_follow:
  "observes env obs R \<Longrightarrow> explained env m \<Longrightarrow> run_state m (start w) = (a, s') \<Longrightarrow>
     follow_log R (st_trace s') (obs w) (obs (st_world s'))"
  by (rule runs_follow [OF _ explainedD])

end
