(* ===== verification/Progress.thy ===== *)
theory Progress
  imports Execution
begin

text \<open>
  When a reconcile makes progress: the exact condition under which a controller of what lives
  inside Keyline reports its object ready, what it reads on the way, how it may change its
  object, and that it never panics. The locale \<open>tracked_reconciler\<close> collects these as the contract
  that the theory \<^verbatim>\<open>Cluster\<close> builds on.
\<close>

section \<open>When an object becomes ready\<close>

text \<open>
  An object is settled when it is ready and the Keyline id in its status, for the kinds whose id others
  use, parses. An answer is favourable when a read found its object, settled if its kind is one
  of the gates, and when a call succeeded or was refused with a tolerated 404.
\<close>

definition id_parses :: "'w env \<Rightarrow> k8s_object \<Rightarrow> bool" where
  "id_parses env obj =
     (case obj of
        ObjRole r \<Rightarrow> \<not> isl (l_uuid_parse (lib env) (role_role_id (role_status r)))
      | ObjUser u \<Rightarrow> \<not> isl (l_uuid_parse (lib env) (user_user_id (user_status u)))
      | _ \<Rightarrow> True)"

definition settled :: "'w env \<Rightarrow> k8s_object \<Rightarrow> bool" where
  "settled env obj \<longleftrightarrow> ready_in env (conditions_of obj) \<and> id_parses env obj"

definition favourable :: "'w env \<Rightarrow> kind list \<Rightarrow> event \<Rightarrow> bool" where
  "favourable env gates e =
     (case e of
        EvGet k nn r \<Rightarrow>
          (case r of Inl err \<Rightarrow> False | Inr obj \<Rightarrow> if k \<in> set gates then settled env obj else True)
      | _ \<Rightarrow> tolerated e)"

definition ready_exactly :: "'w env \<Rightarrow> kind list \<Rightarrow> event list \<Rightarrow> bool" where
  "ready_exactly env gates evs =
     (case evs of
        EvGet k nn (Inr obj) # rest \<Rightarrow>
          reports_ready (ready_in env) evs = list_all (favourable env gates) rest
      | _ \<Rightarrow> \<not> reports_ready (ready_in env) evs)"

lemmas exact_simps = ready_exactly_def favourable_def tolerated_def reported_def settled_def id_parses_def

lemma reconcileProject_exact:
  assumes "meta_conditions_ok (lib env)"
  shows "post (reconcileProject env nn) (\<lambda>out. ready_exactly env [KVirtualServer])"
  unfolding reconcileProject_def reconcile_defs newStatusPatcher_def
  by (intro post_intros) (simp_all add: exact_simps meta_conditions_set [OF assms])

lemma reconcileVirtualServer_exact:
  assumes "meta_conditions_ok (lib env)"
  shows "post (reconcileVirtualServer env nn) (\<lambda>out. ready_exactly env [KInstance])"
  unfolding reconcileVirtualServer_def reconcile_defs newStatusPatcher_def
  by (intro post_intros) (simp_all add: exact_simps meta_conditions_set [OF assms])

lemma reconcileRole_exact:
  assumes "meta_conditions_ok (lib env)"
  shows "post (reconcileRole env nn) (\<lambda>out. ready_exactly env [KProject, KVirtualServer])"
  unfolding reconcileRole_def reconcile_defs newStatusPatcher_def
  by (intro post_intros) (simp_all add: exact_simps meta_conditions_set [OF assms])

lemma reconcileApplication_exact:
  assumes "meta_conditions_ok (lib env)"
  shows "post (reconcileApplication env nn) (\<lambda>out. ready_exactly env [KProject, KVirtualServer])"
  unfolding reconcileApplication_def reconcile_defs newStatusPatcher_def
  by (intro post_intros) (simp_all add: exact_simps meta_conditions_set [OF assms])

lemma reconcileRoleAssignment_exact:
  assumes "meta_conditions_ok (lib env)"
  shows "post (reconcileRoleAssignment env nn) (\<lambda>out. ready_exactly env [KRole, KUser, KProject, KVirtualServer])"
  unfolding reconcileRoleAssignment_def reconcile_defs newStatusPatcher_def
  by (intro post_intros) (simp_all add: exact_simps meta_conditions_set [OF assms])

text \<open>The steps of the user controller succeed exactly when every answer was tolerated.\<close>

definition exact_step :: "keyline_client \<Rightarrow> bool \<Rightarrow> event list \<Rightarrow> bool" where
  "exact_step kc success evs \<longleftrightarrow> api_segment kc evs \<and> success = list_all tolerated evs"

lemma favourable_segment:
  "api_segment kc evs \<Longrightarrow> list_all (favourable env gates) evs = list_all tolerated evs"
proof (induction evs)
  case (Cons e evs)
  then show ?case by (cases e) (simp_all add: favourable_def)
qed simp

lemma find_or_create_user_exact:
  "post (find_or_create_user env kc user) (\<lambda>(u, r) evs. exact_step kc (\<not> isl r) evs)"
  unfolding find_or_create_user_def reconcile_defs
  by (intro post_intros) (simp_all add: exact_step_def tolerated_def)

lemma ensureServiceUser_exact:
  "post (ensureServiceUser env kc user) (\<lambda>(u, r) evs. exact_step kc (\<not> isl r) evs)"
  unfolding ensureServiceUser_def reconcile_defs
  by (intro post_intros post_mono [OF find_or_create_user_exact])
    (auto simp: exact_step_def tolerated_def)

lemma associate_keys_exact:
  "post (associate_keys env kc i ks managed user) (\<lambda>(u, f) evs. exact_step kc (f = None) evs)"
proof (induction ks arbitrary: managed user)
  case Nil
  then show ?case by (auto intro: post_return simp: exact_step_def)
next
  case (Cons k ks)
  show ?case
    by (cases k) (auto simp: exact_step_def tolerated_def reconcile_defs intro!: post_intros post_mono [OF Cons.IH])
qed

lemma remove_keys_exact:
  "post (remove_keys env kc i desired kids kept) (\<lambda>r evs. exact_step kc (\<not> isl r) evs)"
proof (induction kids arbitrary: kept)
  case Nil
  then show ?case by (auto intro: post_return simp: exact_step_def)
next
  case (Cons k ks)
  show ?case
    by (auto simp: exact_step_def tolerated_def reconcile_defs intro!: post_intros post_mono [OF Cons.IH])
qed

lemma reconcileKeys_exact:
  "post (reconcileKeys env kc user i) (\<lambda>(u, f) evs. exact_step kc (f = None) evs)"
  unfolding reconcileKeys_def
  by (intro post_intros post_bind [OF associate_keys_exact] post_bind [OF remove_keys_exact])
    (auto simp: exact_step_def split: sum.splits)

lemma push_display_name_exact:
  "post (push_display_name env kc i user) (\<lambda>e evs. exact_step kc (e = None) evs)"
  unfolding push_display_name_def reconcile_defs
  by (intro post_intros) (auto simp: exact_step_def tolerated_def split: option.split)

lemmas user_exact_steps =
  post_bind [OF ensureServiceUser_exact] post_bind [OF push_display_name_exact] post_bind [OF reconcileKeys_exact]

lemma reconcileUser_exact:
  assumes "meta_conditions_ok (lib env)"
  shows "post (reconcileUser env nn) (\<lambda>out. ready_exactly env [KVirtualServer])"
  unfolding reconcileUser_def reconcile_defs newStatusPatcher_def
  by (intro post_intros user_exact_steps)
    (auto simp: exact_simps exact_step_def favourable_segment
      meta_conditions_set [OF assms])

section \<open>Reading along references\<close>

text \<open>What a reconcile may go on to read after an object: what it refers to, and an instance's credentials.\<close>

definition needs :: "string \<Rightarrow> k8s_object \<Rightarrow> (kind \<times> namespaced_name) list" where
  "needs ns obj = refs_of ns obj @ (case obj of ObjInstance inst \<Rightarrow> [(KSecret, client_secret_name ns inst)] | _ \<Rightarrow> [])"

definition read_refs :: "string \<Rightarrow> event \<Rightarrow> (kind \<times> namespaced_name) list" where
  "read_refs ns e = (case e of EvGet k nn r \<Rightarrow> (case r of Inl err \<Rightarrow> [] | Inr obj \<Rightarrow> needs ns obj) | _ \<Rightarrow> [])"

primrec follows :: "string \<Rightarrow> event list \<Rightarrow> event list \<Rightarrow> bool" where
  "follows ns seen [] = True"
| "follows ns seen (e # evs) =
     ((case e of EvGet k nn r \<Rightarrow> list_ex (\<lambda>e'. (k, nn) \<in> set (read_refs ns e')) seen | _ \<Rightarrow> True) \<and>
      follows ns (e # seen) evs)"

definition follows_refs :: "event list \<Rightarrow> bool" where
  "follows_refs evs =
     (case evs of
        [] \<Rightarrow> True
      | e # rest \<Rightarrow>
          (case e of
             EvGet k nn (Inr obj) \<Rightarrow> follows (om_namespace (object_meta_of obj)) [e] rest
           | _ \<Rightarrow> list_all (\<lambda>e. case e of EvGet k nn r \<Rightarrow> False | _ \<Rightarrow> True) rest))"

lemma follows_segment:
  "api_segment kc evs \<Longrightarrow> follows ns seen (evs @ evs') = follows ns (rev evs @ seen) evs'"
proof (induction evs arbitrary: seen)
  case (Cons e evs)
  then show ?case by (cases e) simp_all
qed simp

lemmas follows_simps = follows_refs_def read_refs_def needs_def

section \<open>What a status patch may change\<close>

fun erase_status :: "k8s_object \<Rightarrow> k8s_object" where
  "erase_status (ObjInstance x) = ObjInstance (x\<lparr>inst_status := \<lparr>inst_url = [], inst_conditions = []\<rparr>\<rparr>)"
| "erase_status (ObjVirtualServer x) = ObjVirtualServer (x\<lparr>vs_status := \<lparr>vs_conditions = []\<rparr>\<rparr>)"
| "erase_status (ObjProject x) = ObjProject (x\<lparr>proj_status := \<lparr>proj_conditions = []\<rparr>\<rparr>)"
| "erase_status (ObjApplication x) =
     ObjApplication (x\<lparr>app_status := \<lparr>app_application_id = [], app_conditions = []\<rparr>\<rparr>)"
| "erase_status (ObjRole x) = ObjRole (x\<lparr>role_status := \<lparr>role_role_id = [], role_conditions = []\<rparr>\<rparr>)"
| "erase_status (ObjUser x) =
     ObjUser (x\<lparr>user_status := \<lparr>user_user_id = [], user_managed_key_ids = [], user_conditions = []\<rparr>\<rparr>)"
| "erase_status (ObjRoleAssignment x) = ObjRoleAssignment (x\<lparr>ra_status := \<lparr>ra_conditions = []\<rparr>\<rparr>)"
| "erase_status (ObjSecret x) = ObjSecret x"
| "erase_status (ObjPersistentVolumeClaim x) = ObjPersistentVolumeClaim x"
| "erase_status (ObjService x) = ObjService x"
| "erase_status (ObjDeployment x) = ObjDeployment x"

definition same_spec :: "k8s_object \<Rightarrow> k8s_object \<Rightarrow> bool" where
  "same_spec x y \<longleftrightarrow> erase_status y = erase_status x"

lemma same_spec_simps [simp]:
  "same_spec (ObjInstance x) (ObjInstance y) \<longleftrightarrow> inst_meta y = inst_meta x \<and> inst_spec y = inst_spec x"
  "same_spec (ObjVirtualServer x') (ObjVirtualServer y') \<longleftrightarrow> vs_meta y' = vs_meta x' \<and> vs_spec y' = vs_spec x'"
  "same_spec (ObjProject p) (ObjProject q) \<longleftrightarrow> proj_meta q = proj_meta p \<and> proj_spec q = proj_spec p"
  "same_spec (ObjApplication a) (ObjApplication b) \<longleftrightarrow> app_meta b = app_meta a \<and> app_spec b = app_spec a"
  "same_spec (ObjRole r) (ObjRole r') \<longleftrightarrow> role_meta r' = role_meta r \<and> role_spec r' = role_spec r"
  "same_spec (ObjUser u) (ObjUser u') \<longleftrightarrow> user_meta u' = user_meta u \<and> user_spec u' = user_spec u"
  "same_spec (ObjRoleAssignment c) (ObjRoleAssignment d) \<longleftrightarrow> ra_meta d = ra_meta c \<and> ra_spec d = ra_spec c"
  by (cases x; cases y; simp add: same_spec_def; blast)
    (cases x'; cases y'; cases p; cases q; cases a; cases b; cases r; cases r'; cases u; cases u'; cases c; cases d;
      simp add: same_spec_def; blast)+

text \<open>The id in Keyline that a status records, for the kinds that have one.\<close>

fun id_of :: "k8s_object \<Rightarrow> string option" where
  "id_of (ObjApplication x) = Some (app_application_id (app_status x))"
| "id_of (ObjRole x) = Some (role_role_id (role_status x))"
| "id_of (ObjUser x) = Some (user_user_id (user_status x))"
| "id_of _ = None"

definition id_update_ok :: "'w env \<Rightarrow> bool \<Rightarrow> string \<Rightarrow> string \<Rightarrow> bool" where
  "id_update_ok env ready i i' \<longleftrightarrow>
     (i' = i \<or> i' = [] \<or> i' \<in> range (l_uuid_string (lib env))) \<and> (ready \<longrightarrow> i' \<noteq> [])"

definition update_ok :: "'w env \<Rightarrow> k8s_object \<Rightarrow> k8s_object \<Rightarrow> bool" where
  "update_ok env obj obj' \<longleftrightarrow>
     same_spec obj obj' \<and>
     (case id_of obj of
        None \<Rightarrow> True
      | Some i \<Rightarrow> (case id_of obj' of None \<Rightarrow> False
          | Some i' \<Rightarrow> id_update_ok env (ready_in env (conditions_of obj')) i i'))"

definition patch_update_ok :: "'w env \<Rightarrow> k8s_object \<Rightarrow> event \<Rightarrow> bool" where
  "patch_update_ok env obj e = (case e of EvStatusPatch obj' base err \<Rightarrow> update_ok env obj obj' | _ \<Rightarrow> True)"

definition updates_ok :: "'w env \<Rightarrow> event list \<Rightarrow> bool" where
  "updates_ok env evs =
     (case evs of
        EvGet k nn (Inr obj) # rest \<Rightarrow>
          list_all (patch_update_ok env obj) rest
      | _ \<Rightarrow> True)"

text \<open>The calls that create or replace an object; the controllers of what lives inside Keyline make none.\<close>

fun makes_object :: "event \<Rightarrow> bool" where
  "makes_object (EvCreate obj err) = True"
| "makes_object (EvCreateOrUpdate r err) = True"
| "makes_object _ = False"

definition patches_only :: "event list \<Rightarrow> bool" where
  "patches_only evs \<longleftrightarrow> list_all (\<lambda>e. \<not> makes_object e) evs"

lemma patches_only_simps [simp]:
  "patches_only []" "patches_only (e # evs) \<longleftrightarrow> \<not> makes_object e \<and> patches_only evs"
  "patches_only (evs @ evs') \<longleftrightarrow> patches_only evs \<and> patches_only evs'"
  by (simp_all add: patches_only_def)

lemma patches_only_segment: "api_segment kc evs \<Longrightarrow> patches_only evs"
proof (induction evs)
  case (Cons e evs)
  then show ?case by (cases e) simp_all
qed simp

lemmas update_simps = updates_ok_def patch_update_ok_def update_ok_def id_update_ok_def reported_def

lemma updates_segment: "api_segment kc evs \<Longrightarrow> list_all (patch_update_ok env obj) evs"
proof (induction evs)
  case (Cons e evs)
  then show ?case by (cases e) (simp_all add: patch_update_ok_def)
qed simp

lemma uuid_string_nonempty: "uuid_ok l \<Longrightarrow> l_uuid_string l u \<noteq> []"
  by (simp add: uuid_ok_def)

lemma reconcileVirtualServer_refs: "post (reconcileVirtualServer env nn) (\<lambda>out evs. follows_refs evs \<and> updates_ok env evs \<and> patches_only evs)"
  unfolding reconcileVirtualServer_def reconcile_defs newStatusPatcher_def
  by (intro post_intros) (simp_all add: follows_simps update_simps)

lemma reconcileProject_refs: "post (reconcileProject env nn) (\<lambda>out evs. follows_refs evs \<and> updates_ok env evs \<and> patches_only evs)"
  unfolding reconcileProject_def reconcile_defs newStatusPatcher_def
  by (intro post_intros) (simp_all add: follows_simps update_simps)

lemma reconcileRoleAssignment_refs: "post (reconcileRoleAssignment env nn) (\<lambda>out evs. follows_refs evs \<and> updates_ok env evs \<and> patches_only evs)"
  unfolding reconcileRoleAssignment_def reconcile_defs newStatusPatcher_def
  by (intro post_intros) (simp_all add: follows_simps update_simps)

lemma reconcileRole_refs:
  assumes "meta_conditions_ok (lib env)" "uuid_ok (lib env)"
  shows "post (reconcileRole env nn) (\<lambda>out evs. follows_refs evs \<and> updates_ok env evs \<and> patches_only evs)"
  unfolding reconcileRole_def reconcile_defs newStatusPatcher_def
  by (intro post_intros)
    (simp_all add: follows_simps update_simps meta_conditions_set [OF assms(1)] uuid_string_nonempty [OF assms(2)]
      set_role_id_def split: option.splits)

lemma reconcileApplication_refs:
  assumes "meta_conditions_ok (lib env)" "uuid_ok (lib env)"
  shows "post (reconcileApplication env nn) (\<lambda>out evs. follows_refs evs \<and> updates_ok env evs \<and> patches_only evs)"
  unfolding reconcileApplication_def reconcile_defs newStatusPatcher_def
  by (intro post_intros)
    (simp_all add: follows_simps update_simps meta_conditions_set [OF assms(1)] uuid_string_nonempty [OF assms(2)]
      set_application_id_def split: option.splits)

text \<open>What the steps of the user controller do to the user.\<close>

definition user_step :: "'w env \<Rightarrow> keyline_client \<Rightarrow> keyline_user \<Rightarrow> keyline_user \<Rightarrow> event list \<Rightarrow> bool" where
  "user_step env kc u u' evs \<longleftrightarrow>
     api_segment kc evs \<and> user_meta u' = user_meta u \<and> user_spec u' = user_spec u \<and>
     user_user_id (user_status u') = user_user_id (user_status u)"

lemma find_or_create_user_ids:
  assumes "uuid_ok (lib env)"
  shows "post (find_or_create_user env kc user) (\<lambda>(u, r) evs.
     api_segment kc evs \<and> user_meta u = user_meta user \<and> user_spec u = user_spec user \<and>
     id_update_ok env (\<not> isl r) (user_user_id (user_status user)) (user_user_id (user_status u)))"
  unfolding find_or_create_user_def reconcile_defs
  by (intro post_intros) (simp_all add: id_update_ok_def uuid_string_nonempty [OF assms])

lemma ensureServiceUser_ids:
  assumes "uuid_ok (lib env)"
  shows "post (ensureServiceUser env kc user) (\<lambda>(u, r) evs.
     api_segment kc evs \<and> user_meta u = user_meta user \<and> user_spec u = user_spec user \<and>
     id_update_ok env (\<not> isl r) (user_user_id (user_status user)) (user_user_id (user_status u)))"
  unfolding ensureServiceUser_def reconcile_defs
  by (intro post_intros post_mono [OF find_or_create_user_ids [OF assms]]) (auto simp: id_update_ok_def)

lemma associate_keys_ids:
  "post (associate_keys env kc i ks managed user) (\<lambda>(u, f) evs. user_step env kc user u evs)"
proof (induction ks arbitrary: managed user)
  case Nil
  then show ?case by (auto intro: post_return simp: user_step_def)
next
  case (Cons k ks)
  show ?case
    by (cases k) (auto simp: user_step_def reconcile_defs intro!: post_intros post_mono [OF Cons.IH])
qed

lemma reconcileKeys_ids:
  "post (reconcileKeys env kc user i) (\<lambda>(u, f) evs. user_step env kc user u evs)"
  unfolding reconcileKeys_def
  by (intro post_intros post_bind [OF associate_keys_ids] post_bind [OF remove_keys_exact])
    (auto simp: user_step_def exact_step_def split: sum.splits)

lemma reconcileUser_refs:
  assumes "meta_conditions_ok (lib env)" "uuid_ok (lib env)"
  shows "post (reconcileUser env nn) (\<lambda>out evs. follows_refs evs \<and> updates_ok env evs \<and> patches_only evs)"
  unfolding reconcileUser_def reconcile_defs newStatusPatcher_def
  by (intro post_intros post_bind [OF ensureServiceUser_ids [OF assms(2)]]
      post_bind [OF push_display_name_exact] post_bind [OF reconcileKeys_ids])
    (auto simp: follows_simps update_simps user_step_def exact_step_def meta_conditions_set [OF assms(1)]
      follows_segment updates_segment patches_only_segment)

section \<open>No panic\<close>

lemma patch_outcome_returns [simp]: "patch_outcome err \<noteq> Panicked"
  by (simp add: patch_outcome_def split: option.split)

lemma result_returns [simp]: "ReconcileError err \<noteq> Panicked" "ReconcileSuccess \<noteq> Panicked"
  by (simp_all add: result_defs)

lemma reconcileVirtualServer_returns: "post (reconcileVirtualServer env nn) (\<lambda>out evs. out \<noteq> Panicked)"
  unfolding reconcileVirtualServer_def reconcile_defs by (intro post_intros) simp_all

lemma reconcileProject_returns: "post (reconcileProject env nn) (\<lambda>out evs. out \<noteq> Panicked)"
  unfolding reconcileProject_def reconcile_defs by (intro post_intros) simp_all

lemma reconcileApplication_returns: "post (reconcileApplication env nn) (\<lambda>out evs. out \<noteq> Panicked)"
  unfolding reconcileApplication_def reconcile_defs by (intro post_intros) simp_all

lemma reconcileRole_returns: "post (reconcileRole env nn) (\<lambda>out evs. out \<noteq> Panicked)"
  unfolding reconcileRole_def reconcile_defs by (intro post_intros) simp_all

lemma reconcileUser_returns: "post (reconcileUser env nn) (\<lambda>out evs. out \<noteq> Panicked)"
  unfolding reconcileUser_def reconcile_defs by (intro post_intros user_exact_steps) simp_all

lemma reconcileRoleAssignment_returns: "post (reconcileRoleAssignment env nn) (\<lambda>out evs. out \<noteq> Panicked)"
  unfolding reconcileRoleAssignment_def reconcile_defs by (intro post_intros) simp_all

section \<open>The extended contract\<close>

locale tracked_reconciler = gated_reconciler kd reconcile follow gates
  for kd :: kind
    and reconcile :: "'w env \<Rightarrow> namespaced_name \<Rightarrow> ('w, outcome) op"
    and follow :: "kind list"
    and gates :: "kind list" +
  assumes exact:
    "meta_conditions_ok (lib env) \<Longrightarrow> run_state (reconcile env nn) (start w) = (out, s') \<Longrightarrow>
       ready_exactly env gates (st_trace s')"
  assumes along_refs:
    "meta_conditions_ok (lib env) \<Longrightarrow> uuid_ok (lib env) \<Longrightarrow>
       run_state (reconcile env nn) (start w) = (out, s') \<Longrightarrow>
       follows_refs (st_trace s') \<and> updates_ok env (st_trace s') \<and> patches_only (st_trace s')"
  assumes logged: "explained env (reconcile env nn)"
  assumes returns:
    "run_state (reconcile env nn) (start w) = (out, s') \<Longrightarrow> out \<noteq> Panicked"
begin

text \<open>The log of a reconcile that found its object.\<close>

lemma log_shape:
  assumes "meta_conditions_ok (lib env)" "uuid_ok (lib env)"
    and run: "run_state (reconcile env nn) (start w) = (out, s')"
  obtains e where "st_trace s' = [EvGet kd nn (Inl e)]"
  | obj mid obj' err where "st_trace s' = EvGet kd nn (Inr obj) # mid @ [EvStatusPatch obj' obj err]"
      "list_all (\<lambda>e. \<not> is_status_patch e) mid"
      "follows (om_namespace (object_meta_of obj)) [EvGet kd nn (Inr obj)] mid" "patches_only mid"
      "update_ok env obj obj'" "object_kind obj' = object_kind obj"
      "ready_in env (conditions_of obj') = list_all (favourable env gates) (mid @ [EvStatusPatch obj' obj err])"
proof -
  obtain r evs where tr: "st_trace s' = EvGet kd nn r # evs" using first_reads_itself [OF run] by blast
  obtain res oerr where out: "out = Returned res oerr" using returns [OF run] by (cases out) auto
  show thesis
  proof (cases r)
    case (Inl e)
    then show ?thesis using that(1) discipline [OF run] tr by simp
  next
    case (Inr obj)
    from one_status_patch [OF run [unfolded out] tr [unfolded Inr]] obtain mid obj' perr where
      evs: "evs = mid @ [EvStatusPatch obj' obj perr]" and mid: "list_all (\<lambda>e. \<not> is_status_patch e) mid" by blast
    have up: "follows (om_namespace (object_meta_of obj)) [EvGet kd nn (Inr obj)] evs" "update_ok env obj obj'"
        "patches_only mid"
      using along_refs [OF assms] by (simp_all add: tr Inr evs follows_refs_def updates_ok_def patch_update_ok_def)
    have "follows ns seen (xs @ ys) \<Longrightarrow> follows ns seen xs" for ns seen xs ys
      by (induction xs arbitrary: seen) auto
    note f = this [OF up(1) [unfolded evs]]
    have "ready_in env (conditions_of obj') = list_all (favourable env gates) (mid @ [EvStatusPatch obj' obj perr])"
      using exact [OF assms(1) run] by (simp add: tr Inr evs ready_exactly_def)
    moreover have "object_kind obj' = object_kind obj"
      using discipline [OF run] by (simp add: tr Inr evs out ends_with_patch_def)
    ultimately show ?thesis using that(2) tr Inr evs mid f up(2,3) by simp
  qed
qed

end

interpretation virtual_server: tracked_reconciler KVirtualServer reconcileVirtualServer
  "[KVirtualServer, KInstance]" "[KInstance]"
  by unfold_locales
    (rule reconcileVirtualServer_exact [THEN postD]
      reconcileVirtualServer_refs [THEN postD] explained_reconcileVirtualServer reconcileVirtualServer_returns [THEN postD]; assumption)+

interpretation project: tracked_reconciler KProject reconcileProject
  "[KProject, KVirtualServer, KInstance]" "[KVirtualServer]"
  by unfold_locales
    (rule reconcileProject_exact [THEN postD]
      reconcileProject_refs [THEN postD] explained_reconcileProject reconcileProject_returns [THEN postD]; assumption)+

interpretation application: tracked_reconciler KApplication reconcileApplication
  "[KApplication, KProject, KVirtualServer, KInstance]" "[KProject, KVirtualServer]"
  by unfold_locales
    (rule reconcileApplication_exact [THEN postD]
      reconcileApplication_refs [THEN postD] explained_reconcileApplication reconcileApplication_returns [THEN postD]; assumption)+

interpretation role: tracked_reconciler KRole reconcileRole
  "[KRole, KProject, KVirtualServer, KInstance]" "[KProject, KVirtualServer]"
  by unfold_locales
    (rule reconcileRole_exact [THEN postD]
      reconcileRole_refs [THEN postD] explained_reconcileRole reconcileRole_returns [THEN postD]; assumption)+

interpretation user: tracked_reconciler KUser reconcileUser
  "[KUser, KVirtualServer, KInstance]" "[KVirtualServer]"
  by unfold_locales
    (rule reconcileUser_exact [THEN postD]
      reconcileUser_refs [THEN postD] explained_reconcileUser reconcileUser_returns [THEN postD]; assumption)+

interpretation role_assignment: tracked_reconciler KRoleAssignment reconcileRoleAssignment
  "[KRoleAssignment, KRole, KProject, KVirtualServer, KInstance]" "[KRole, KUser, KProject, KVirtualServer]"
  by unfold_locales
    (rule reconcileRoleAssignment_exact [THEN postD]
      reconcileRoleAssignment_refs [THEN postD] explained_reconcileRoleAssignment reconcileRoleAssignment_returns [THEN postD]; assumption)+

end
