(* ===== verification/Rounds.thy ===== *)
theory Rounds
  imports Prelude
begin

text \<open>
  Rounds of activities: a list in which everything concerned has its turn, in any order and as often
  as one likes. If a turn at stage \<open>n\<close> of everything brings what it is about to stage \<open>n + 1\<close>, and no
  activity undoes a stage, then \<open>n\<close> rounds bring everything to stage \<open>n\<close>. The locale states this
  once; the laws are under a hypothesis on an environment, so that it has models for each.
\<close>

locale staged =
  fixes hyp :: "'e \<Rightarrow> bool"
    and step :: "'e \<Rightarrow> 'a \<Rightarrow> 'w \<Rightarrow> 'w"
    and allowed :: "'e \<Rightarrow> 'a \<Rightarrow> bool"
    and inv :: "'e \<Rightarrow> 'w \<Rightarrow> bool"
    and concerned :: "'e \<Rightarrow> 'w \<Rightarrow> 'k set"
    and about :: "'a \<Rightarrow> 'k option"
    and stage :: "'e \<Rightarrow> nat \<Rightarrow> 'k \<Rightarrow> 'w \<Rightarrow> bool"
  assumes inv_kept: "hyp e \<Longrightarrow> allowed e a \<Longrightarrow> inv e w \<Longrightarrow> inv e (step e a w) \<and> concerned e (step e a w) = concerned e w"
    and stage_kept:
      "hyp e \<Longrightarrow> allowed e a \<Longrightarrow> inv e w \<Longrightarrow> (\<And>k. stage e n k w) \<Longrightarrow> m \<le> Suc n \<Longrightarrow> stage e m k w \<Longrightarrow>
         stage e m k (step e a w)"
    and stage_won:
      "hyp e \<Longrightarrow> allowed e a \<Longrightarrow> inv e w \<Longrightarrow> (\<And>k. stage e n k w) \<Longrightarrow> about a = Some k \<Longrightarrow>
         stage e (Suc n) k (step e a w)"
    and unconcerned: "inv e w \<Longrightarrow> k \<notin> concerned e w \<Longrightarrow> stage e n k w"
begin

definition round_covers :: "'e \<Rightarrow> 'w \<Rightarrow> 'a list \<Rightarrow> bool" where
  "round_covers e w acts \<longleftrightarrow> list_all (allowed e) acts \<and> concerned e w \<subseteq> {k. Some k \<in> about ` set acts}"

lemma many:
  assumes "hyp e"
  shows "list_all (allowed e) acts \<Longrightarrow> inv e w \<Longrightarrow> (\<And>k. stage e n k w) \<Longrightarrow>
     inv e (fold (step e) acts w) \<and> concerned e (fold (step e) acts w) = concerned e w \<and>
     (\<forall>k. stage e n k (fold (step e) acts w) \<and>
        (stage e (Suc n) k w \<or> Some k \<in> about ` set acts \<longrightarrow> stage e (Suc n) k (fold (step e) acts w)))"
proof (induction acts arbitrary: w)
  case (Cons a acts)
  then have a: "allowed e a" "list_all (allowed e) acts" by simp_all
  note one = inv_kept [OF assms a(1) Cons.prems(2)]
  have "stage e n k (step e a w)" for k
    by (rule stage_kept [OF assms a(1) Cons.prems(2,3) le_SucI [OF le_refl] Cons.prems(3)])
  from Cons.IH [OF a(2) conjunct1 [OF one] this] one
  have rest: "inv e (fold (step e) (a # acts) w)" "concerned e (fold (step e) (a # acts) w) = concerned e w"
    "stage e n k (fold (step e) (a # acts) w)"
    "stage e (Suc n) k (step e a w) \<or> Some k \<in> about ` set acts \<Longrightarrow> stage e (Suc n) k (fold (step e) (a # acts) w)" for k
    by auto
  have "stage e (Suc n) k (step e a w)" if "stage e (Suc n) k w \<or> about a = Some k" for k
    using that stage_kept [OF assms a(1) Cons.prems(2,3) le_refl] stage_won [OF assms a(1) Cons.prems(2,3)] by blast
  with rest show ?case by (auto simp del: fold.simps)
qed simp

lemma round:
  assumes "hyp e" "inv e w" "\<And>k. stage e n k w" "round_covers e w acts"
  shows "stage e (Suc n) k (fold (step e) acts w)"
proof -
  have acts: "list_all (allowed e) acts" using assms(4) by (simp add: round_covers_def)
  note after = many [OF assms(1) acts assms(2,3)]
  show ?thesis
  proof (cases "k \<in> concerned e w")
    case True
    then have "Some k \<in> about ` set acts" using assms(4) by (auto simp: round_covers_def)
    with after show ?thesis by blast
  next
    case False
    with after show ?thesis using unconcerned by blast
  qed
qed

lemma rounds:
  assumes "hyp e"
  shows "inv e w \<Longrightarrow> (\<And>k. stage e n k w) \<Longrightarrow> list_all (round_covers e w) rounds \<Longrightarrow>
     inv e (fold (step e) (concat rounds) w) \<and> stage e (n + length rounds) k (fold (step e) (concat rounds) w)"
proof (induction rounds arbitrary: w n)
  case (Cons acts rounds)
  let ?w = "fold (step e) acts w"
  from Cons.prems(3) have c: "round_covers e w acts" and acts: "list_all (allowed e) acts" by (simp_all add: round_covers_def)
  note after = many [OF assms acts Cons.prems(1,2)]
  have "list_all (round_covers e ?w) rounds" using Cons.prems(3) after by (simp add: round_covers_def list_all_iff)
  with Cons.IH [of ?w "Suc n", OF _ round [OF assms Cons.prems(1,2) c]] after show ?case by simp
qed simp

end

end
