(* ===== verification/Cluster.thy ===== *)
theory Cluster
  imports Progress Rounds
begin

text \<open>
  A cluster: the objects that the controllers share, the calls that read and patch them, and the
  reconciles of six controllers in any order. In an environment whose calls succeed and
  answer what the objects say, a reconcile changes the objects as its log says, so the contract of
  \<^verbatim>\<open>Progress\<close>, stated on logs, becomes a contract on objects (\<open>cluster_reconciler\<close>); from it follow
  what any sequence of reconciles keeps and that rounds of them converge.
\<close>

section \<open>The objects of a cluster\<close>

type_synonym objects = "kind \<times> namespaced_name \<Rightarrow> k8s_object option"

definition key_of :: "k8s_object \<Rightarrow> kind \<times> namespaced_name" where
  "key_of obj = (object_kind obj, nn_of (object_meta_of obj))"

text \<open>
  What a call does to the objects when nothing fails. A read answers what is there, or an error that says
  there is nothing. A status patch stores the object; a creation does if there was none. Every call of
  Keyline succeeds, or is refused with a 404 where that is an answer. What
  \<^verbatim>\<open>CreateOrUpdate\<close> does depends on a closure that the log does not have; theory \<^verbatim>\<open>Instance_Step\<close> adds its law.
\<close>

fun cluster_law :: "'w env \<Rightarrow> event \<Rightarrow> objects \<Rightarrow> objects \<Rightarrow> bool" where
  "cluster_law env (EvGet k nn r) cl cl' \<longleftrightarrow> cl' = cl \<and>
     (case r of Inl err \<Rightarrow> cl (k, nn) = None \<and> l_is_not_found (lib env) err | Inr obj \<Rightarrow> cl (k, nn) = Some obj)"
| "cluster_law env (EvStatusPatch obj base err) cl cl' \<longleftrightarrow> err = None \<and> cl' = cl(key_of obj \<mapsto> obj)"
| "cluster_law env (EvCreate obj err) cl cl' \<longleftrightarrow>
     (if cl (key_of obj) = None then err = None \<and> cl' = cl(key_of obj \<mapsto> obj) else cl' = cl)"
| "cluster_law env (EvCreateOrUpdate r err) cl cl' \<longleftrightarrow> True"
| "cluster_law env e cl cl' \<longleftrightarrow> cl' = cl \<and> tolerated e"

definition reliable :: "'w env \<Rightarrow> ('w \<Rightarrow> objects) \<Rightarrow> bool" where
  "reliable env objs \<longleftrightarrow>
     meta_conditions_ok (lib env) \<and> uuid_ok (lib env) \<and> observes env objs (cluster_law env)"

lemma reliable_libD:
  assumes "reliable env objs"
  shows "meta_conditions_ok (lib env)" "uuid_ok (lib env)"
  using assms by (simp_all add: reliable_def)

lemma law_unpatched:
  "cluster_law env e cl cl' \<Longrightarrow> \<not> is_status_patch e \<Longrightarrow> \<not> makes_object e \<Longrightarrow>
     cl' = cl \<and> (case e of EvGet k nn r \<Rightarrow> (case r of Inl err \<Rightarrow> cl (k, nn) = None | Inr obj \<Rightarrow> cl (k, nn) = Some obj)
       | _ \<Rightarrow> tolerated e)"
  by (cases e) (auto split: sum.splits)

lemma follow_unpatched:
  "follow_log (cluster_law env) evs cl cl' \<Longrightarrow> list_all (\<lambda>e. \<not> is_status_patch e) evs \<Longrightarrow> patches_only evs \<Longrightarrow> cl' = cl"
proof (induction evs arbitrary: cl)
  case (Cons e evs)
  then show ?case by (auto dest!: law_unpatched)
qed simp

section \<open>The order of dependency, as a depth\<close>

text \<open>
  How many rounds after the instance an object of a kind can become ready. The kinds that the
  gated controllers reconcile have a positive depth.
\<close>

fun depth :: "kind \<Rightarrow> nat" where
  "depth KVirtualServer = 1"
| "depth KProject = 2"
| "depth KUser = 2"
| "depth KApplication = 3"
| "depth KRole = 3"
| "depth KRoleAssignment = 4"
| "depth KInstance = 0"
| "depth KSecret = 0"
| "depth KPersistentVolumeClaim = 0"
| "depth KService = 0"
| "depth KDeployment = 0"

definition managed :: "kind \<Rightarrow> bool" where
  "managed k \<longleftrightarrow> 0 < depth k"

lemma depth_le: "depth k \<le> 4"
  by (cases k) simp_all

lemma needs_depth:
  "(k, nn) \<in> set (needs ns obj) \<Longrightarrow>
     nn_namespace nn = ns \<and> depth k \<le> depth (object_kind obj) \<and>
     (managed (object_kind obj) \<longrightarrow> depth k < depth (object_kind obj))"
  by (cases obj) (auto simp: needs_def managed_def client_secret_name_def)

section \<open>A complete cluster\<close>

definition id_good :: "'w env \<Rightarrow> k8s_object \<Rightarrow> bool" where
  "id_good env obj = (case id_of obj of None \<Rightarrow> True | Some i \<Rightarrow> i = [] \<or> \<not> isl (l_uuid_parse (lib env) i))"

text \<open>
  Objects are stored under their own keys, everything an object needs exists, and a recorded id
  is empty or one that parses.
\<close>

definition cluster_ok :: "'w env \<Rightarrow> objects \<Rightarrow> bool" where
  "cluster_ok env cl \<longleftrightarrow>
     (\<forall>k nn obj. cl (k, nn) = Some obj \<longrightarrow>
        key_of obj = (k, nn) \<and> list_all (\<lambda>r. cl r \<noteq> None) (needs (nn_namespace nn) obj) \<and> id_good env obj)"

lemma cluster_okD:
  assumes "cluster_ok env cl" "cl (k, nn) = Some obj"
  shows "object_kind obj = k" "nn_of (object_meta_of obj) = nn" "om_namespace (object_meta_of obj) = nn_namespace nn"
    "r \<in> set (needs (nn_namespace nn) obj) \<Longrightarrow> cl r \<noteq> None" "id_good env obj"
proof -
  from assms have ok: "key_of obj = (k, nn)" "list_all (\<lambda>r. cl r \<noteq> None) (needs (nn_namespace nn) obj)" "id_good env obj"
    unfolding cluster_ok_def by blast+
  from ok(1) show "object_kind obj = k" "nn_of (object_meta_of obj) = nn" by (simp_all add: key_of_def)
  then show "om_namespace (object_meta_of obj) = nn_namespace nn" by (metis namespaced_name.select_convs(1))
  from ok(2,3) show "r \<in> set (needs (nn_namespace nn) obj) \<Longrightarrow> cl r \<noteq> None" "id_good env obj"
    by (auto simp: list_all_iff)
qed

lemma same_spec_facts:
  assumes "same_spec obj obj'"
  shows "object_kind obj' = object_kind obj" "object_meta_of obj' = object_meta_of obj"
    "needs ns obj' = needs ns obj"
proof -
  have k: "object_kind (erase_status o1) = object_kind o1" for o1 by (cases o1) simp_all
  have m: "object_meta_of (erase_status o1) = object_meta_of o1" for o1 by (cases o1) simp_all
  have n: "needs ns (erase_status o1) = needs ns o1" for o1
    by (cases o1) (simp_all add: needs_def client_secret_name_def)
  from assms show "object_kind obj' = object_kind obj" "object_meta_of obj' = object_meta_of obj"
    "needs ns obj' = needs ns obj"
    unfolding same_spec_def by (metis k, metis m, metis n)
qed

lemma id_good_update:
  assumes "uuid_ok (lib env)" "update_ok env obj obj'" "id_good env obj"
  shows "id_good env obj'" and "ready_in env (conditions_of obj') \<Longrightarrow> settled env obj'"
proof -
  have p: "\<not> isl (l_uuid_parse (lib env) (l_uuid_string (lib env) u))" for u
    using assms(1) by (simp add: uuid_ok_def)
  have k: "object_kind obj' = object_kind obj"
    using assms(2) by (auto simp: update_ok_def dest: same_spec_facts(1))
  have n: "id_of obj = None \<longleftrightarrow> id_of obj' = None"
    using k by (cases obj; cases obj') simp_all
  show "id_good env obj'"
    using assms(2,3) p n
    by (auto simp: update_ok_def id_update_ok_def id_good_def split: option.splits)
  show "ready_in env (conditions_of obj') \<Longrightarrow> settled env obj'"
    using assms(2,3) p n
    by (cases obj') (auto simp: settled_def id_parses_def update_ok_def id_update_ok_def id_good_def split: option.splits)
qed

lemma cluster_ok_update:
  assumes cl: "cluster_ok env cl" "cl (k, nn) = Some obj"
    and up: "uuid_ok (lib env)" "update_ok env obj obj'"
  shows "cluster_ok env (cl((k, nn) \<mapsto> obj'))"
  unfolding cluster_ok_def
proof (intro allI impI)
  fix k1 nn1 o1
  assume o1: "(cl((k, nn) \<mapsto> obj')) (k1, nn1) = Some o1"
  have s: "same_spec obj obj'" using up(2) by (simp add: update_ok_def)
  note old = cluster_okD [OF cl]
  show "key_of o1 = (k1, nn1) \<and>
      list_all (\<lambda>r. (cl((k, nn) \<mapsto> obj')) r \<noteq> None) (needs (nn_namespace nn1) o1) \<and> id_good env o1"
  proof (cases "(k1, nn1) = (k, nn)")
    case True
    then have "o1 = obj'" "k1 = k" "nn1 = nn" using o1 by auto
    then show ?thesis
      using old(1,2,4) same_spec_facts [OF s] id_good_update(1) [OF up old(5)]
      by (auto simp: key_of_def list_all_iff)
  next
    case False
    then have "cl (k1, nn1) = Some o1" using o1 by (auto split: if_splits)
    from cluster_okD [OF cl(1) this] show ?thesis by (auto simp: key_of_def list_all_iff)
  qed
qed

section \<open>One reconcile in a cluster\<close>

text \<open>The kinds whose readiness is waited for.\<close>

definition waited_for :: "kind \<Rightarrow> bool" where
  "waited_for k \<longleftrightarrow> k = KInstance \<or> managed k"

definition settled_upto :: "'w env \<Rightarrow> nat \<Rightarrow> objects \<Rightarrow> bool" where
  "settled_upto env d cl \<longleftrightarrow>
     (\<forall>k nn obj. cl (k, nn) = Some obj \<longrightarrow> waited_for k \<longrightarrow> depth k \<le> d \<longrightarrow> settled env obj)"

text \<open>What a log that follows references reads in a complete cluster: objects that are there.\<close>

definition reads_present :: "string \<Rightarrow> (nat \<Rightarrow> bool) \<Rightarrow> objects \<Rightarrow> event \<Rightarrow> bool" where
  "reads_present ns D cl e =
     (case e of
        EvGet k nn r \<Rightarrow> nn_namespace nn = ns \<and> D (depth k) \<and> (case r of Inl err \<Rightarrow> False | Inr obj \<Rightarrow> cl (k, nn) = Some obj)
      | _ \<Rightarrow> True)"

lemma reads_present_step:
  assumes cl: "cluster_ok env cl" and d: "0 < d"
    and e: "cluster_law env e cl cl'" "\<not> is_status_patch e" "\<not> makes_object e"
    and seen: "\<forall>e' \<in> set seen. reads_present ns (\<lambda>n. n \<le> d) cl e'"
    and from_seen: "case e of EvGet k nn r \<Rightarrow> list_ex (\<lambda>e'. (k, nn) \<in> set (read_refs ns e')) seen | _ \<Rightarrow> True"
  shows "reads_present ns (\<lambda>n. n < d) cl e"
proof (cases e)
  case (EvGet k nn r)
  with from_seen obtain e' where e': "e' \<in> set seen" "(k, nn) \<in> set (read_refs ns e')" by (auto simp: list_ex_iff)
  then obtain k' nn' obj' where g: "e' = EvGet k' nn' (Inr obj')" "(k, nn) \<in> set (needs ns obj')"
    by (auto simp: read_refs_def split: event.splits sum.splits)
  with seen e'(1) have p: "nn_namespace nn' = ns" "depth k' \<le> d" "cl (k', nn') = Some obj'"
    by (auto simp: reads_present_def)
  note o = cluster_okD [OF cl p(3)]
  have "cl (k, nn) \<noteq> None" using o(4) g(2) p(1) by blast
  moreover have "nn_namespace nn = ns" "depth k < d"
    using needs_depth [OF g(2)] p(2) d o(1) by (auto simp: managed_def)
  ultimately show ?thesis
    using law_unpatched [OF e] by (auto simp: EvGet reads_present_def split: sum.splits)
qed (simp_all add: reads_present_def)

lemma follows_present:
  assumes cl: "cluster_ok env cl" and d: "0 < d"
  shows "follows ns seen evs \<Longrightarrow> list_all (\<lambda>e. \<not> is_status_patch e) evs \<Longrightarrow> patches_only evs \<Longrightarrow>
     follow_log (cluster_law env) evs cl cl' \<Longrightarrow>
     \<forall>e' \<in> set seen. reads_present ns (\<lambda>n. n \<le> d) cl e' \<Longrightarrow>
     \<forall>e \<in> set evs. reads_present ns (\<lambda>n. n < d) cl e \<and>
       (case e of EvGet k nn r \<Rightarrow> True | _ \<Rightarrow> tolerated e)"
proof (induction evs arbitrary: seen)
  case (Cons e evs)
  obtain cl1 where 1: "cluster_law env e cl cl1" "follow_log (cluster_law env) evs cl1 cl'"
    using Cons.prems(4) by auto
  have np: "\<not> is_status_patch e" "\<not> makes_object e" using Cons.prems(2,3) by simp_all
  note u = law_unpatched [OF 1(1) np]
  have p: "reads_present ns (\<lambda>n. n < d) cl e"
    using reads_present_step [OF cl d 1(1) np Cons.prems(5)] Cons.prems(1) by simp
  then have "reads_present ns (\<lambda>n. n \<le> d) cl e" by (auto simp: reads_present_def split: event.splits)
  with Cons.IH [of "e # seen"] Cons.prems 1 u have
    "\<forall>e \<in> set evs. reads_present ns (\<lambda>n. n < d) cl e \<and> (case e of EvGet k nn r \<Rightarrow> True | _ \<Rightarrow> tolerated e)"
    by simp
  moreover have "case e of EvGet k nn r \<Rightarrow> True | _ \<Rightarrow> tolerated e" using u by (cases e) simp_all
  ultimately show ?case using p by simp
qed simp

text \<open>How one reconcile may change the objects, and when it leaves its object settled.\<close>

definition step_result :: "'w env \<Rightarrow> kind \<Rightarrow> namespaced_name \<Rightarrow> objects \<Rightarrow> objects \<Rightarrow> bool" where
  "step_result env k nn cl cl' \<longleftrightarrow>
     (case cl (k, nn) of
        None \<Rightarrow> cl' = cl
      | Some obj \<Rightarrow>
          (\<exists>obj'. cl' = cl((k, nn) \<mapsto> obj') \<and> update_ok env obj obj' \<and>
             (settled_upto env (depth k - 1) cl \<longrightarrow> settled env obj')))"

locale cluster_reconciler = tracked_reconciler kd reconcile follow gates
  for kd :: kind
    and reconcile :: "'w env \<Rightarrow> namespaced_name \<Rightarrow> ('w, outcome) op"
    and follow :: "kind list"
    and gates :: "kind list" +
  assumes kind_managed: "managed kd"
    and gates_waited_for: "list_all waited_for gates"
begin

lemma follows_law:
  assumes "reliable env objs" "run_state (reconcile env nn) (start w) = (out, s')"
  shows "follow_log (cluster_law env) (st_trace s') (objs w) (objs (st_world s'))"
  using assms(1) explained_follow [OF _ logged assms(2), of objs] by (simp add: reliable_def)

text \<open>A reconcile reads its object, and what it changes is the object's status.\<close>

lemma changes_status:
  assumes "reliable env objs" "run_state (reconcile env nn) (start w) = (out, s')"
  shows "case objs w (kd, nn) of
      None \<Rightarrow> objs (st_world s') = objs w
    | Some obj \<Rightarrow> (\<exists>obj'. objs (st_world s') = (objs w)(key_of obj' \<mapsto> obj') \<and> update_ok env obj obj')"
proof -
  note l = reliable_libD [OF assms(1)]
  note law = follows_law [OF assms]
  from log_shape [OF l assms(2)] show ?thesis
  proof cases
    case (1 e)
    with law show ?thesis by simp
  next
    case (2 obj mid obj' err)
    from law obtain cl where "objs w (kd, nn) = Some obj" "follow_log (cluster_law env) mid (objs w) cl"
      "objs (st_world s') = cl(key_of obj' \<mapsto> obj')"
      by (auto simp: 2(1) follow_log_append)
    moreover from follow_unpatched [OF this(2) 2(2,4)] have "cl = objs w" .
    ultimately show ?thesis using 2(5) by auto
  qed
qed

lemma present:
  assumes rel: "reliable env objs" and run: "run_state (reconcile env nn) (start w) = (out, s')"
    and cl: "cluster_ok env (objs w)" and obj: "objs w (kd, nn) = Some obj"
  shows "\<exists>obj'. objs (st_world s') = (objs w)((kd, nn) \<mapsto> obj') \<and> update_ok env obj obj' \<and>
     (settled_upto env (depth kd - 1) (objs w) \<longrightarrow> settled env obj')"
proof -
  note l = reliable_libD [OF rel]
  note law = follows_law [OF rel run]
  from log_shape [OF l(1,2) run] show ?thesis
  proof cases
    case (1 e)
    with law obj show ?thesis by simp
  next
    case (2 o1 mid obj' err)
    have o1: "o1 = obj" using law obj by (simp add: 2(1))
    obtain cl1 where cl1: "follow_log (cluster_law env) mid (objs w) cl1"
      "cluster_law env (EvStatusPatch obj' obj err) cl1 (objs (st_world s'))"
      using law by (auto simp: 2(1) o1 follow_log_append)
    note own = cluster_okD [OF cl obj]
    have d: "0 < depth kd" using kind_managed by (simp add: managed_def)
    have seen: "\<forall>e' \<in> set [EvGet kd nn (Inr obj)]. reads_present (nn_namespace nn) (\<lambda>n. n \<le> depth kd) (objs w) e'"
      using obj by (simp add: reads_present_def)
    have mid: "\<forall>e \<in> set mid. reads_present (nn_namespace nn) (\<lambda>n. n < depth kd) (objs w) e \<and>
        (case e of EvGet k nn r \<Rightarrow> True | _ \<Rightarrow> tolerated e)"
      using follows_present [OF cl d _ 2(2,4) cl1(1) seen] 2(3) o1 own(3) by simp
    have spec: "same_spec obj obj'" using 2(5) o1 by (simp add: update_ok_def)
    have "key_of obj' = (kd, nn)" using same_spec_facts [OF spec] own(1,2) by (simp add: key_of_def)
    with cl1(2) follow_unpatched [OF cl1(1) 2(2,4)]
    have st: "err = None" "objs (st_world s') = (objs w)((kd, nn) \<mapsto> obj')" by simp_all
    have "settled env obj'" if deps: "settled_upto env (depth kd - 1) (objs w)"
    proof -
      have "favourable env gates e" if e: "e \<in> set mid" for e
      proof (cases e)
        case (EvGet k nn' r)
        have "reads_present (nn_namespace nn) (\<lambda>n. n < depth kd) (objs w) e" using mid e by blast
        then obtain o2 where r: "r = Inr o2" "objs w (k, nn') = Some o2" "depth k < depth kd"
          by (cases r) (auto simp: EvGet reads_present_def)
        have "settled env o2" if "k \<in> set gates"
          using deps r that gates_waited_for by (auto simp: settled_upto_def list_all_iff)
        then show ?thesis by (simp add: EvGet r favourable_def)
      qed (use bspec [OF mid e] in \<open>simp_all add: favourable_def\<close>)
      then have "ready_in env (conditions_of obj')"
        using 2(7) by (simp add: list_all_iff st(1) favourable_def tolerated_def)
      from id_good_update(2) [OF l(2) _ own(5) this] show ?thesis using 2(5) o1 by simp
    qed
    with st(2) 2(5) o1 show ?thesis by blast
  qed
qed

lemma steps:
  assumes "reliable env objs" "cluster_ok env (objs w)"
  shows "step_result env kd nn (objs w) (objs (st_world (snd (run_state (reconcile env nn) (start w)))))"
proof -
  obtain out s' where run: "run_state (reconcile env nn) (start w) = (out, s')"
    by (cases "run_state (reconcile env nn) (start w)")
  show ?thesis
    using changes_status [OF assms(1) run] present [OF assms(1) run assms(2)]
    by (auto simp: step_result_def run split: option.splits)
qed

end

interpretation virtual_server: cluster_reconciler KVirtualServer reconcileVirtualServer
  "[KVirtualServer, KInstance]" "[KInstance]"
  by unfold_locales (simp_all add: managed_def waited_for_def)

interpretation project: cluster_reconciler KProject reconcileProject
  "[KProject, KVirtualServer, KInstance]" "[KVirtualServer]"
  by unfold_locales (simp_all add: managed_def waited_for_def)

interpretation application: cluster_reconciler KApplication reconcileApplication
  "[KApplication, KProject, KVirtualServer, KInstance]" "[KProject, KVirtualServer]"
  by unfold_locales (simp_all add: managed_def waited_for_def)

interpretation role: cluster_reconciler KRole reconcileRole
  "[KRole, KProject, KVirtualServer, KInstance]" "[KProject, KVirtualServer]"
  by unfold_locales (simp_all add: managed_def waited_for_def)

interpretation user: cluster_reconciler KUser reconcileUser
  "[KUser, KVirtualServer, KInstance]" "[KVirtualServer]"
  by unfold_locales (simp_all add: managed_def waited_for_def)

interpretation role_assignment: cluster_reconciler KRoleAssignment reconcileRoleAssignment
  "[KRoleAssignment, KRole, KProject, KVirtualServer, KInstance]" "[KRole, KUser, KProject, KVirtualServer]"
  by unfold_locales (simp_all add: managed_def waited_for_def)

section \<open>Many reconciles\<close>

text \<open>
  The manager runs the reconcile that is registered for the kind of a request; between reconciles
  something else may happen that leaves the objects alone (time passes, Keyline works).
\<close>

datatype 'w activity = Reconcile kind namespaced_name | Elsewhere "'w \<Rightarrow> 'w"

definition reconciler_for :: "'w env \<Rightarrow> kind \<Rightarrow> namespaced_name \<Rightarrow> ('w, outcome) op" where
  "reconciler_for env k =
     (case find (\<lambda>c. ctl_kind c = k) (controllers env) of
        None \<Rightarrow> (\<lambda>nn. State_Monad.return ReconcileSuccess)
      | Some c \<Rightarrow> ctl_reconcile c)"

fun perform :: "'w env \<Rightarrow> 'w activity \<Rightarrow> 'w \<Rightarrow> 'w" where
  "perform env (Reconcile k nn) w = st_world (snd (run_state (reconciler_for env k nn) (start w)))"
| "perform env (Elsewhere f) w = f w"

definition allowed :: "('w \<Rightarrow> objects) \<Rightarrow> 'w activity \<Rightarrow> bool" where
  "allowed objs act = (case act of Reconcile k nn \<Rightarrow> managed k | Elsewhere f \<Rightarrow> \<forall>w. objs (f w) = objs w)"

lemma reconciler_for_managed:
  "reconciler_for env KVirtualServer = reconcileVirtualServer env"
  "reconciler_for env KProject = reconcileProject env"
  "reconciler_for env KApplication = reconcileApplication env"
  "reconciler_for env KRole = reconcileRole env"
  "reconciler_for env KUser = reconcileUser env"
  "reconciler_for env KRoleAssignment = reconcileRoleAssignment env"
  by (simp_all add: reconciler_for_def controllers_def)

text \<open>One step of a cluster: how the objects may change.\<close>

lemma perform_reconcile:
  assumes rel: "reliable env objs" and cl: "cluster_ok env (objs w)" and k: "managed k"
  shows "step_result env k nn (objs w) (objs (perform env (Reconcile k nn) w))"
  using k virtual_server.steps [OF rel cl, of nn] project.steps [OF rel cl, of nn]
    application.steps [OF rel cl, of nn] role.steps [OF rel cl, of nn]
    user.steps [OF rel cl, of nn] role_assignment.steps [OF rel cl, of nn]
  by (cases k) (simp_all add: reconciler_for_managed managed_def)

lemma perform_absent:
  assumes "reliable env objs" "cluster_ok env (objs w)" "managed k" "objs w (k, nn) = None"
  shows "objs (perform env (Reconcile k nn) w) = objs w"
  using perform_reconcile [OF assms(1-3), of nn] assms(4) by (simp add: step_result_def)

lemma perform_present:
  assumes "reliable env objs" "cluster_ok env (objs w)" "managed k" "objs w (k, nn) = Some obj"
  obtains obj' where "objs (perform env (Reconcile k nn) w) = (objs w)((k, nn) \<mapsto> obj')"
    "update_ok env obj obj'" "settled_upto env (depth k - 1) (objs w) \<Longrightarrow> settled env obj'"
proof -
  have "\<exists>obj'. objs (perform env (Reconcile k nn) w) = (objs w)((k, nn) \<mapsto> obj') \<and> update_ok env obj obj' \<and>
      (settled_upto env (depth k - 1) (objs w) \<longrightarrow> settled env obj')"
    using perform_reconcile [OF assms(1-3), of nn] unfolding step_result_def assms(4) option.case .
  then show thesis using that by blast
qed

text \<open>What every allowed activity keeps, whatever is ready.\<close>

definition same_objects :: "objects \<Rightarrow> objects \<Rightarrow> bool" where
  "same_objects cl cl' \<longleftrightarrow>
     dom cl' = dom cl \<and> (\<forall>key obj obj'. cl key = Some obj \<longrightarrow> cl' key = Some obj' \<longrightarrow> same_spec obj obj')"

lemma same_objects_refl: "same_objects cl cl"
  by (simp add: same_objects_def same_spec_def)

lemma same_objects_trans:
  assumes "same_objects cl cl'" "same_objects cl' cl''"
  shows "same_objects cl cl''"
  unfolding same_objects_def
proof (intro conjI allI impI)
  show "dom cl'' = dom cl" using assms by (simp add: same_objects_def)
  fix key obj obj''
  assume o: "cl key = Some obj" "cl'' key = Some obj''"
  have "key \<in> dom cl'" using o(1) assms(1) by (auto simp: same_objects_def)
  then obtain obj' where o': "cl' key = Some obj'" by blast
  have "same_spec obj obj'" using assms(1) o(1) o' unfolding same_objects_def by blast
  moreover have "same_spec obj' obj''" using assms(2) o(2) o' unfolding same_objects_def by blast
  ultimately show "same_spec obj obj''" by (simp add: same_spec_def)
qed

lemma same_objects_update: "cl key = Some obj \<Longrightarrow> same_spec obj obj' \<Longrightarrow> same_objects cl (cl(key \<mapsto> obj'))"
  by (auto simp: same_objects_def same_spec_def)

lemma perform_keeps:
  assumes rel: "reliable env objs" and act: "allowed objs act" and cl: "cluster_ok env (objs w)"
  shows "cluster_ok env (objs (perform env act w)) \<and> same_objects (objs w) (objs (perform env act w))"
proof (cases act)
  case (Reconcile k nn)
  with act have k: "managed k" by (simp add: allowed_def)
  show ?thesis
  proof (cases "objs w (k, nn)")
    case None
    from perform_absent [OF rel cl k None] cl show ?thesis unfolding Reconcile by (simp only: same_objects_refl)
  next
    case (Some obj)
    from perform_present [OF rel cl k Some] obtain obj' where
      o: "objs (perform env act w) = (objs w)((k, nn) \<mapsto> obj')" "update_ok env obj obj'"
      unfolding Reconcile by blast
    have "same_spec obj obj'" using o(2) by (simp add: update_ok_def)
    with cluster_ok_update [OF cl Some reliable_libD(2) [OF rel] o(2)] same_objects_update [of "objs w" "(k, nn)" obj obj', OF Some]
    show ?thesis unfolding o(1) by blast
  qed
next
  case (Elsewhere f)
  with act cl show ?thesis by (simp add: allowed_def same_objects_refl)
qed

text \<open>
  Reachable worlds: any number of reconciles of any objects in any order, with anything in between
  that leaves the objects alone.
\<close>

inductive reaches :: "'w env \<Rightarrow> ('w \<Rightarrow> objects) \<Rightarrow> 'w \<Rightarrow> 'w \<Rightarrow> bool" for env objs w where
  reaches_here: "reaches env objs w w"
| reaches_step: "reaches env objs w w1 \<Longrightarrow> allowed objs act \<Longrightarrow> reaches env objs w (perform env act w1)"

inductive_cases reachesE: "reaches env objs w w'"

lemma reaches_fold:
  "reaches env objs w w1 \<Longrightarrow> list_all (allowed objs) acts \<Longrightarrow> reaches env objs w (fold (perform env) acts w1)"
  by (induction acts arbitrary: w1) (auto intro: reaches_step)

lemma reaches_keeps:
  assumes "reliable env objs" and "cluster_ok env (objs w)"
  shows "reaches env objs w w' \<Longrightarrow> cluster_ok env (objs w') \<and> same_objects (objs w) (objs w')"
proof (induction rule: reaches.induct)
  case reaches_here
  with assms(2) show ?case by (simp add: same_objects_refl)
next
  case (reaches_step w1 act)
  then show ?case using perform_keeps [OF assms(1)] same_objects_trans by blast
qed

section \<open>Rounds\<close>

definition covers :: "objects \<Rightarrow> 'w activity list \<Rightarrow> bool" where
  "covers cl acts \<longleftrightarrow> (\<forall>k nn. managed k \<longrightarrow> cl (k, nn) \<noteq> None \<longrightarrow> Reconcile k nn \<in> set acts)"

lemma settled_upto_mono: "settled_upto env d cl \<Longrightarrow> e \<le> d \<Longrightarrow> settled_upto env e cl"
  unfolding settled_upto_def by (meson le_trans)

text \<open>The stages of an object: at its depth it is settled.\<close>

definition at_stage :: "'w env \<Rightarrow> nat \<Rightarrow> kind \<times> namespaced_name \<Rightarrow> objects \<Rightarrow> bool" where
  "at_stage env n key cl \<longleftrightarrow>
     (case cl key of None \<Rightarrow> True | Some obj \<Rightarrow> waited_for (fst key) \<longrightarrow> depth (fst key) \<le> n \<longrightarrow> settled env obj)"

lemma at_stage_all: "(\<forall>key. at_stage env n key cl) \<longleftrightarrow> settled_upto env n cl"
  by (auto simp: at_stage_def settled_upto_def split: option.splits)

lemma at_stageI: "settled_upto env n cl \<Longrightarrow> at_stage env n key cl"
  using at_stage_all by blast

lemma settled_uptoI: "(\<And>key. at_stage env n key cl) \<Longrightarrow> settled_upto env n cl"
  using at_stage_all by blast

fun turn_of :: "'w activity \<Rightarrow> (kind \<times> namespaced_name) option" where
  "turn_of (Reconcile k nn) = Some (k, nn)"
| "turn_of (Elsewhere f) = None"

lemma turn_of_Some: "turn_of act = Some (k, nn) \<longleftrightarrow> act = Reconcile k nn"
  by (cases act) auto

lemma stage_after:
  assumes rel: "reliable env objs" and act: "allowed objs act" and cl: "cluster_ok env (objs w)"
    and up: "settled_upto env n (objs w)" and m: "m \<le> Suc n" and key: "at_stage env m key (objs w) \<or> turn_of act = Some key"
  shows "at_stage env m key (objs (perform env act w))"
proof (cases act)
  case (Reconcile k nn)
  then have k: "managed k" using act by (simp add: allowed_def)
  show ?thesis
  proof (cases "objs w (k, nn)")
    case None
    with perform_absent [OF rel cl k None] key show ?thesis
      by (auto simp: Reconcile at_stage_def simp del: perform.simps)
  next
    case (Some obj)
    from perform_present [OF rel cl k Some] obtain obj' where
      o: "objs (perform env act w) = (objs w)((k, nn) \<mapsto> obj')"
      "settled_upto env (depth k - 1) (objs w) \<Longrightarrow> settled env obj'"
      unfolding Reconcile by blast
    show ?thesis
    proof (cases "key = (k, nn)")
      case True
      show ?thesis
        unfolding at_stage_def o(1) True using settled_upto_mono [OF up, of "depth k - 1"] o(2) m by auto
    next
      case False
      with key show ?thesis unfolding o(1) by (auto simp: at_stage_def Reconcile)
    qed
  qed
next
  case (Elsewhere f)
  with act key show ?thesis by (simp add: allowed_def)
qed

interpretation six_controllers: staged
  "\<lambda>e. reliable (fst e) (snd e)" "\<lambda>e. perform (fst e)" "\<lambda>e. allowed (snd e)"
  "\<lambda>e w. cluster_ok (fst e) (snd e w) \<and> settled_upto (fst e) 0 (snd e w)"
  "\<lambda>e w. {key. managed (fst key) \<and> snd e w key \<noteq> None}" turn_of
  "\<lambda>e n key w. at_stage (fst e) n key (snd e w)"
proof unfold_locales
  fix e :: "'a env \<times> ('a \<Rightarrow> objects)" and act w
  assume rel: "reliable (fst e) (snd e)" "allowed (snd e) act" and inv: "cluster_ok (fst e) (snd e w) \<and> settled_upto (fst e) 0 (snd e w)"
  note keeps = perform_keeps [OF rel conjunct1 [OF inv]]
  have "settled_upto (fst e) 0 (snd e (perform (fst e) act w))"
    by (rule settled_uptoI, rule stage_after [OF rel conjunct1 [OF inv] conjunct2 [OF inv] le_SucI [OF le_refl]
          disjI1 [OF at_stageI [OF conjunct2 [OF inv]]]])
  moreover have same: "dom (snd e (perform (fst e) act w)) = dom (snd e w)"
    using keeps unfolding same_objects_def by blast
  have "snd e (perform (fst e) act w) key = None \<longleftrightarrow> snd e w key = None" for key
    using same by (metis domIff)
  ultimately show "(cluster_ok (fst e) (snd e (perform (fst e) act w)) \<and> settled_upto (fst e) 0 (snd e (perform (fst e) act w))) \<and>
      {key. managed (fst key) \<and> snd e (perform (fst e) act w) key \<noteq> None} = {key. managed (fst key) \<and> snd e w key \<noteq> None}"
    using conjunct1 [OF keeps] by (simp only: simp_thms)
next
  fix e :: "'a env \<times> ('a \<Rightarrow> objects)" and act w n m key
  assume rel: "reliable (fst e) (snd e)" "allowed (snd e) act" and inv: "cluster_ok (fst e) (snd e w) \<and> settled_upto (fst e) 0 (snd e w)"
    and all: "\<And>key. at_stage (fst e) n key (snd e w)" and m: "m \<le> Suc n" and key: "at_stage (fst e) m key (snd e w)"
  have up: "settled_upto (fst e) n (snd e w)" by (rule settled_uptoI) (rule all)
  show "at_stage (fst e) m key (snd e (perform (fst e) act w))"
    by (rule stage_after [OF rel conjunct1 [OF inv] up m disjI1 [OF key]])
next
  fix e :: "'a env \<times> ('a \<Rightarrow> objects)" and act w n key
  assume rel: "reliable (fst e) (snd e)" "allowed (snd e) act" and inv: "cluster_ok (fst e) (snd e w) \<and> settled_upto (fst e) 0 (snd e w)"
    and all: "\<And>key. at_stage (fst e) n key (snd e w)" and key: "turn_of act = Some key"
  have up: "settled_upto (fst e) n (snd e w)" by (rule settled_uptoI) (rule all)
  show "at_stage (fst e) (Suc n) key (snd e (perform (fst e) act w))"
    by (rule stage_after [OF rel conjunct1 [OF inv] up le_refl disjI2 [OF key]])
next
  fix e :: "'a env \<times> ('a \<Rightarrow> objects)" and w n key
  assume "cluster_ok (fst e) (snd e w) \<and> settled_upto (fst e) 0 (snd e w)" "key \<notin> {key. managed (fst key) \<and> snd e w key \<noteq> None}"
  then show "at_stage (fst e) n key (snd e w)"
    by (cases key) (auto simp: at_stage_def settled_upto_def managed_def split: option.split)
qed

lemma rounds_settle:
  assumes "reliable env objs" "cluster_ok env (objs w)" "settled_upto env 0 (objs w)"
    and "list_all (\<lambda>acts. list_all (allowed objs) acts \<and> covers (objs w) acts) rounds"
  shows "settled_upto env (length rounds) (objs (fold (perform env) (concat rounds) w))"
proof -
  have turns: "Some (k, nn) \<in> turn_of ` set acts" if "Reconcile k nn \<in> set acts" for k nn and acts :: "'a activity list"
    using imageI [OF that, of turn_of] by simp
  have "six_controllers.round_covers (env, objs) w acts" if "list_all (allowed objs) acts \<and> covers (objs w) acts" for acts
    using that turns unfolding six_controllers.round_covers_def covers_def by auto
  with assms(4) have "list_all (six_controllers.round_covers (env, objs) w) rounds"
    by (simp add: list_all_iff)
  from six_controllers.rounds [of "(env, objs)" w 0 rounds, OF _ _ _ this] assms(1-3)
  show ?thesis by (auto intro!: settled_uptoI dest: at_stageI)
qed

section \<open>An example\<close>

text \<open>The objects of the example environment, which is reliable, and a cluster in which only the instance is ready.\<close>

definition ex_objects :: "world \<Rightarrow> objects" where
  "ex_objects w key =
     (case map_of (w_objects w) key of
        None \<Rightarrow> None
      | Some obj \<Rightarrow> if object_kind obj = fst key then Some obj else None)"

lemma ex_objects_cong: "w_objects w' = w_objects w \<Longrightarrow> ex_objects w' = ex_objects w"
  by (simp add: ex_objects_def fun_eq_iff)

lemma ex_as_key:
  "as_instance o1 = Some a1 \<Longrightarrow> o1 = ObjInstance a1" "as_virtual_server o1 = Some a2 \<Longrightarrow> o1 = ObjVirtualServer a2"
  "as_project o1 = Some a3 \<Longrightarrow> o1 = ObjProject a3" "as_application o1 = Some a4 \<Longrightarrow> o1 = ObjApplication a4"
  "as_role o1 = Some a5 \<Longrightarrow> o1 = ObjRole a5" "as_user o1 = Some a6 \<Longrightarrow> o1 = ObjUser a6"
  "as_role_assignment o1 = Some a7 \<Longrightarrow> o1 = ObjRoleAssignment a7" "as_secret o1 = Some a8 \<Longrightarrow> o1 = ObjSecret a8"
  "as_pvc o1 = Some a9 \<Longrightarrow> o1 = ObjPersistentVolumeClaim a9" "as_service o1 = Some a10 \<Longrightarrow> o1 = ObjService a10"
  "as_deployment o1 = Some a11 \<Longrightarrow> o1 = ObjDeployment a11"
  by (cases o1; simp)+

lemma ex_as_None:
  "as_instance o1 = None \<longleftrightarrow> object_kind o1 \<noteq> KInstance"
  "as_virtual_server o1 = None \<longleftrightarrow> object_kind o1 \<noteq> KVirtualServer"
  "as_project o1 = None \<longleftrightarrow> object_kind o1 \<noteq> KProject"
  "as_application o1 = None \<longleftrightarrow> object_kind o1 \<noteq> KApplication"
  "as_role o1 = None \<longleftrightarrow> object_kind o1 \<noteq> KRole"
  "as_user o1 = None \<longleftrightarrow> object_kind o1 \<noteq> KUser"
  "as_role_assignment o1 = None \<longleftrightarrow> object_kind o1 \<noteq> KRoleAssignment"
  "as_secret o1 = None \<longleftrightarrow> object_kind o1 \<noteq> KSecret"
  "as_pvc o1 = None \<longleftrightarrow> object_kind o1 \<noteq> KPersistentVolumeClaim"
  "as_service o1 = None \<longleftrightarrow> object_kind o1 \<noteq> KService"
  "as_deployment o1 = None \<longleftrightarrow> object_kind o1 \<noteq> KDeployment"
  by (cases o1; simp)+

lemma ex_lookup_law:
  assumes "got (ex_lookup k sel) mk nn r w w'" "\<And>obj x. sel obj = Some x \<Longrightarrow> obj = mk x"
    "\<And>obj. sel obj = None \<longleftrightarrow> object_kind obj \<noteq> k"
  shows "cluster_law ex_env (EvGet k nn r) (ex_objects w) (ex_objects w')"
proof -
  have "object_kind obj = k" if "sel obj = Some x" for obj x using assms(3) that by (metis option.distinct(1))
  with assms show ?thesis
    by (auto simp: got_def ex_lookup_def ex_objects_def ex_env_def ex_lib_def split: option.splits)
qed

lemmas ex_lookup_laws =
  ex_lookup_law [OF _ ex_as_key(1) ex_as_None(1)] ex_lookup_law [OF _ ex_as_key(2) ex_as_None(2)]
  ex_lookup_law [OF _ ex_as_key(3) ex_as_None(3)] ex_lookup_law [OF _ ex_as_key(4) ex_as_None(4)]
  ex_lookup_law [OF _ ex_as_key(5) ex_as_None(5)] ex_lookup_law [OF _ ex_as_key(6) ex_as_None(6)]
  ex_lookup_law [OF _ ex_as_key(7) ex_as_None(7)] ex_lookup_law [OF _ ex_as_key(8) ex_as_None(8)]
  ex_lookup_law [OF _ ex_as_key(9) ex_as_None(9)] ex_lookup_law [OF _ ex_as_key(11) ex_as_None(11)]

lemma ex_store_objects: "ex_objects (snd (ex_store obj w)) = (ex_objects w)(key_of obj \<mapsto> obj)"
  by (auto simp: ex_objects_def ex_store_def key_of_def fun_eq_iff update_conv')

lemma ex_store_result: "ex_store obj w = (err, w') \<Longrightarrow> err = None \<and> ex_objects w' = (ex_objects w)(key_of obj \<mapsto> obj)"
  using ex_store_objects [of obj w] by (auto simp: ex_store_def)

lemma ex_create_law:
  assumes "ex_create obj w = (err, w')"
  shows "cluster_law env (EvCreate obj err) (ex_objects w) (ex_objects w')"
proof (cases "ex_objects w (key_of obj)")
  case None
  then have "ex_create obj w = ex_store obj w"
    by (auto simp: ex_create_def ex_objects_def key_of_def split: option.splits if_splits)
  with assms have "err = None" "w' = snd (ex_store obj w)" by (auto simp: ex_store_def)
  then show ?thesis using None by (simp add: ex_store_objects)
next
  case (Some obj')
  then have "map_of (w_objects w) (key_of obj) = Some obj'" "object_kind obj' = object_kind obj"
    by (auto simp: ex_objects_def key_of_def split: option.splits if_splits)
  with assms Some show ?thesis by (auto simp: ex_create_def key_of_def)
qed

lemma ex_gets:
  "k_get_instance (kube ex_env) = ex_lookup KInstance as_instance"
  "k_get_virtual_server (kube ex_env) = ex_lookup KVirtualServer as_virtual_server"
  "k_get_project (kube ex_env) = ex_lookup KProject as_project"
  "k_get_application (kube ex_env) = ex_lookup KApplication as_application"
  "k_get_role (kube ex_env) = ex_lookup KRole as_role"
  "k_get_user (kube ex_env) = ex_lookup KUser as_user"
  "k_get_role_assignment (kube ex_env) = ex_lookup KRoleAssignment as_role_assignment"
  "k_get_secret (kube ex_env) = ex_lookup KSecret as_secret"
  "k_get_pvc (kube ex_env) = ex_lookup KPersistentVolumeClaim as_pvc"
  "k_get_deployment (kube ex_env) = ex_lookup KDeployment as_deployment"
  by (simp_all add: ex_env_def ex_kube_def)

lemma ex_made: "made ex_env e w w' \<Longrightarrow> cluster_law ex_env e (ex_objects w) (ex_objects w')"
proof (cases e)
  case (EvGet k nn r)
  assume "made ex_env e w w'"
  then show ?thesis
    unfolding EvGet
    by (cases k; simp only: made.simps ex_gets) (rule ex_lookup_laws; assumption)+
next
  case (EvCreate obj err)
  assume "made ex_env e w w'"
  then show ?thesis
    unfolding EvCreate by (auto simp: ex_env_def ex_kube_def simp del: cluster_law.simps intro: ex_create_law)
qed (auto simp: ex_env_def ex_kube_def ex_api_def ex_new_id_def tolerated_def api_not_found_def
    isApiNotFound_def split: option.splits if_splits intro!: ex_objects_cong dest: ex_store_result)

lemma ex_silently: "silently ex_env w w' \<Longrightarrow> ex_objects w' = ex_objects w"
  by (erule silently.cases) (auto simp: ex_env_def ex_lib_def ex_new_id_def intro!: ex_objects_cong)

lemma ex_reliable: "reliable ex_env ex_objects"
  by (simp add: reliable_def observes_def ex_meta_conditions_ok ex_uuid_ok ex_made ex_silently)

definition ex_role_assignment :: keyline_role_assignment where
  "ex_role_assignment =
     \<lparr>ra_meta = ex_meta ''ra'',
      ra_spec = \<lparr>ra_role_ref = \<lparr>ref_name = ''r''\<rparr>, ra_user_ref = \<lparr>ref_name = ''u''\<rparr>\<rparr>,
      ra_status = \<lparr>ra_conditions = []\<rparr>\<rparr>"

definition ex_cluster :: world where
  "ex_cluster = ex_world\<lparr>w_objects := map ex_object
     [ObjInstance ex_instance, ObjVirtualServer (ex_virtual_server\<lparr>vs_status := \<lparr>vs_conditions = []\<rparr>\<rparr>),
      ObjProject (ex_project\<lparr>proj_status := \<lparr>proj_conditions = []\<rparr>\<rparr>), ObjRole ex_role,
      ObjApplication ex_application_object, ObjUser ex_user, ObjRoleAssignment ex_role_assignment,
      ObjSecret ex_secret]\<rparr>"

text \<open>A round in the least favourable order.\<close>

definition ex_round :: "world activity list" where
  "ex_round =
     [Reconcile KRoleAssignment (nname ''ns'' ''ra''), Reconcile KApplication (nname ''ns'' ''a''),
      Reconcile KRole (nname ''ns'' ''r''), Reconcile KUser (nname ''ns'' ''u''),
      Reconcile KProject (nname ''ns'' ''p''), Reconcile KVirtualServer (nname ''ns'' ''vs'')]"

definition ex_rounds :: "world activity list list" where
  "ex_rounds = [ex_round, ex_round, ex_round, ex_round]"

lemma ex_objects_member: "ex_objects w key = Some obj \<Longrightarrow> (key, obj) \<in> set (w_objects w)"
  by (auto simp: ex_objects_def split: option.splits if_splits dest: map_of_SomeD)

lemma ex_cluster_check:
  "list_all (\<lambda>((k, nn), obj). key_of obj = (k, nn) \<and>
      list_all (\<lambda>r. ex_objects ex_cluster r \<noteq> None) (needs (nn_namespace nn) obj) \<and> id_good ex_env obj)
    (w_objects ex_cluster)"
  by code_simp

lemma ex_cluster_ok: "cluster_ok ex_env (ex_objects ex_cluster)"
  unfolding cluster_ok_def
  using ex_cluster_check by (auto simp: list_all_iff dest!: ex_objects_member)

lemma ex_rounds_ok:
  "list_all (\<lambda>acts. list_all (allowed ex_objects) acts \<and> covers (ex_objects ex_cluster) acts) ex_rounds"
proof -
  have "list_all (allowed ex_objects) ex_round"
    by (simp add: ex_round_def allowed_def managed_def)
  moreover have "covers (ex_objects ex_cluster) ex_round"
    unfolding covers_def
  proof (intro allI impI)
    have c: "list_all (\<lambda>((k, nn), obj). if managed k then (k, nn) \<in> set
        [(KRoleAssignment, nname ''ns'' ''ra''), (KApplication, nname ''ns'' ''a''), (KRole, nname ''ns'' ''r''),
         (KUser, nname ''ns'' ''u''), (KProject, nname ''ns'' ''p''), (KVirtualServer, nname ''ns'' ''vs'')]
        else True) (w_objects ex_cluster)"
      by code_simp
    fix k nn assume k: "managed k" "ex_objects ex_cluster (k, nn) \<noteq> None"
    then obtain obj where "((k, nn), obj) \<in> set (w_objects ex_cluster)" by (auto dest: ex_objects_member)
    with c k(1) show "Reconcile k nn \<in> set ex_round" by (auto simp: list_all_iff ex_round_def)
  qed
  ultimately show ?thesis by (simp add: ex_rounds_def)
qed

section \<open>What holds of a cluster\<close>

text \<open>
  C9: convergence. In a cluster where every reference exists, recorded ids parse, the instances are
  ready and calls succeed, four rounds are enough to make every virtual server, project,
  application, role, user and role assignment ready, and further rounds keep them ready. A round
  reconciles each object at least once, in any order and as often as it likes, and between
  reconciles anything may happen that leaves the objects alone. The controllers requeue every
  object after 30 seconds, so this is two minutes.
\<close>

theorem cluster_converges:
  assumes "reliable env objs" and "cluster_ok env (objs w)"
    and "\<And>nn obj. objs w (KInstance, nn) = Some obj \<Longrightarrow> ready_in env (conditions_of obj)"
    and "list_all (\<lambda>acts. list_all (allowed objs) acts \<and> covers (objs w) acts) rounds"
    and "4 \<le> length rounds"
    and "objs (fold (perform env) (concat rounds) w) (k, nn) = Some obj" and "managed k"
  shows "ready_in env (conditions_of obj)"
proof -
  have inst: "settled env obj'" if "objs w (KInstance, nn') = Some obj'" for nn' obj'
  proof -
    have "object_kind obj' = KInstance" using cluster_okD(1) [OF assms(2) that] .
    then show ?thesis using assms(3) [OF that] by (cases obj') (simp_all add: settled_def id_parses_def)
  qed
  have "settled_upto env 0 (objs w)"
    using inst by (auto simp: settled_upto_def waited_for_def managed_def)
  from rounds_settle [OF assms(1,2) this assms(4)]
  have "settled_upto env (length rounds) (objs (fold (perform env) (concat rounds) w))" .
  moreover have "depth k \<le> length rounds" using depth_le [of k] assms(5) by simp
  ultimately show ?thesis using assms(6,7) by (auto simp: settled_upto_def settled_def waited_for_def)
qed

lemma cluster_converges_witness:
  "\<exists>obj. ex_objects (fold (perform ex_env) (concat ex_rounds) ex_cluster) (KRoleAssignment, nname ''ns'' ''ra'') = Some obj \<and>
     ready_in ex_env (conditions_of obj)"
proof -
  let ?w = "fold (perform ex_env) (concat ex_rounds) ex_cluster" and ?nn = "nname ''ns'' ''ra''"
  have "list_all (allowed ex_objects) (concat ex_rounds)" using ex_rounds_ok by (simp add: list_all_iff)
  from reaches_keeps [OF ex_reliable ex_cluster_ok reaches_fold [OF reaches_here this]]
  have "dom (ex_objects ?w) = dom (ex_objects ex_cluster)" by (simp add: same_objects_def)
  moreover have "ex_objects ex_cluster (KRoleAssignment, ?nn) \<noteq> None" by code_simp
  ultimately obtain obj where obj: "ex_objects ?w (KRoleAssignment, ?nn) = Some obj" by blast
  have i: "list_all (\<lambda>((k, nn), obj). if k = KInstance then ready_in ex_env (conditions_of obj) else True)
      (w_objects ex_cluster)" by code_simp
  have inst: "ready_in ex_env (conditions_of obj')" if "ex_objects ex_cluster (KInstance, nn') = Some obj'" for nn' obj'
    using i ex_objects_member [OF that] by (auto simp: list_all_iff)
  have len: "4 \<le> length ex_rounds" and man: "managed KRoleAssignment" by (simp_all add: ex_rounds_def managed_def)
  have "ready_in ex_env (conditions_of obj)"
    by (rule cluster_converges [OF ex_reliable ex_cluster_ok _ ex_rounds_ok len obj man]) (rule inst)
  with obj show ?thesis by blast
qed

text \<open>
  The operator keeps its hands off. Whatever objects are reconciled, in whatever order and how
  often, no object appears or disappears and no metadata and no spec changes: a controller of
  what lives inside Keyline writes statuses only. References stay complete, and a recorded
  Keyline id is always empty or parses.
\<close>

theorem cluster_specs_unchanged:
  assumes "reliable env objs" and "cluster_ok env (objs w)" and "reaches env objs w w'"
  shows "cluster_ok env (objs w') \<and> dom (objs w') = dom (objs w) \<and>
     (\<forall>key obj. objs w key = Some obj \<longrightarrow>
        (\<exists>obj'. objs w' key = Some obj' \<and> erase_status obj' = erase_status obj))"
proof -
  have k: "cluster_ok env (objs w')" "same_objects (objs w) (objs w')"
    using reaches_keeps [OF assms] by simp_all
  have "\<exists>obj'. objs w' key = Some obj' \<and> erase_status obj' = erase_status obj" if "objs w key = Some obj" for key obj
  proof -
    from k(2) that have "key \<in> dom (objs w')" by (auto simp: same_objects_def)
    then obtain obj' where "objs w' key = Some obj'" by blast
    with k(2) that show ?thesis unfolding same_objects_def same_spec_def by blast
  qed
  with k show ?thesis by (simp add: same_objects_def)
qed

lemma cluster_specs_unchanged_witness:
  "\<exists>obj'. ex_objects (fold (perform ex_env) ex_round ex_cluster) (KUser, nname ''ns'' ''u'') = Some obj' \<and>
     erase_status obj' = erase_status (ObjUser ex_user) \<and> obj' \<noteq> ObjUser ex_user"
proof -
  let ?w = "fold (perform ex_env) ex_round ex_cluster" and ?key = "(KUser, nname ''ns'' ''u'')"
  have "list_all (allowed ex_objects) ex_round" using ex_rounds_ok by (simp add: ex_rounds_def)
  note r = cluster_specs_unchanged [OF ex_reliable ex_cluster_ok reaches_fold [OF reaches_here this]]
  have "ex_objects ex_cluster ?key = Some (ObjUser ex_user)" by code_simp
  with r obtain obj' where obj': "ex_objects ?w ?key = Some obj'" "erase_status obj' = erase_status (ObjUser ex_user)"
    by blast
  have "ex_objects ?w ?key \<noteq> Some (ObjUser ex_user)" by code_simp
  with obj' show ?thesis by auto
qed

end
