(* ===== verification/Instance_Step.thy ===== *)
theory Instance_Step
  imports Cluster
begin

text \<open>
  What one reconcile of an instance makes of the objects of a cluster. A calculus of actions on objects
  (\<open>leads\<close>), for an environment whose calls succeed where they should (\<open>working\<close>), gives the effect of
  each \<^verbatim>\<open>ensure\<close> function of \<^verbatim>\<open>keylineinstance_controller.go\<close> and of the reconcile as a whole
  (\<open>instance_step\<close>): the credentials are generated at most once, the configuration, the Service and the
  Deployment are written, nothing else changes, and the instance is ready exactly when its Deployment was
  available.
\<close>

section \<open>A working environment\<close>

text \<open>
  \<^verbatim>\<open>CreateOrUpdate\<close>: a closure that succeeds on the object in the cluster, or on the one passed where
  there is none, and keeps its name, has its result stored.
\<close>

definition upserts_ok ::
    "('w \<Rightarrow> objects) \<Rightarrow> ('a \<Rightarrow> k8s_object) \<Rightarrow> ('a \<Rightarrow> ('a \<Rightarrow> goerr + 'a) \<Rightarrow> 'w \<Rightarrow> goerr option \<times> 'w) \<Rightarrow> bool" where
  "upserts_ok objs mk upsert \<longleftrightarrow>
     (\<forall>x f w cur y. (case objs w (key_of (mk x)) of None \<Rightarrow> cur = x | Some obj \<Rightarrow> obj = mk cur) \<longrightarrow>
        f cur = Inr y \<longrightarrow> key_of (mk y) = key_of (mk x) \<longrightarrow>
        (case upsert x f w of (err, w') \<Rightarrow> err = None \<and> objs w' = (objs w)(key_of (mk x) \<mapsto> mk y)))"

text \<open>
  A controller reference can be set on metadata that no other object controls, and then is there: the instance
  owns the object.
\<close>

definition no_other_controller :: "keyline_instance \<Rightarrow> object_meta \<Rightarrow> bool" where
  "no_other_controller inst m \<longleftrightarrow>
     list_all (\<lambda>r. own_controller r \<longrightarrow> own_uid r = om_uid (inst_meta inst)) (om_owner_refs m)"

definition owned_by :: "keyline_instance \<Rightarrow> object_meta \<Rightarrow> bool" where
  "owned_by inst m \<longleftrightarrow> no_other_controller inst m \<and>
     list_ex (\<lambda>r. own_controller r \<and> own_uid r = om_uid (inst_meta inst)) (om_owner_refs m)"

definition working_lib :: "'w runtime_lib \<Rightarrow> bool" where
  "working_lib l \<longleftrightarrow>
     (\<forall>w. \<not> isl (fst (l_ed25519_generate_key l w))) \<and>
     (\<forall>k. \<not> isl (l_marshal_pkcs8 l k)) \<and> (\<forall>k. \<not> isl (l_marshal_pkix l k)) \<and>
     (\<forall>c. \<not> isl (l_yaml_marshal l c)) \<and>
     (\<forall>inst m. no_other_controller inst m \<longrightarrow>
        (\<exists>m'. l_set_controller_reference l inst m = Inr m' \<and> nn_of m' = nn_of m \<and> owned_by inst m'))"

definition working :: "'w env \<Rightarrow> ('w \<Rightarrow> objects) \<Rightarrow> bool" where
  "working env objs \<longleftrightarrow>
     reliable env objs \<and> working_lib (lib env) \<and>
     upserts_ok objs ObjSecret (k_create_or_update_secret (kube env)) \<and>
     upserts_ok objs ObjService (k_create_or_update_service (kube env)) \<and>
     upserts_ok objs ObjDeployment (k_create_or_update_deployment (kube env))"

lemma workingD:
  assumes "working env objs"
  shows "reliable env objs" "observes env objs (cluster_law env)" "working_lib (lib env)"
  using assms by (simp_all add: working_def reliable_def)

lemma no_controller_new [simp]: "no_other_controller inst (new_meta name ns)"
  by (simp add: no_other_controller_def new_meta_def)

lemma set_reference:
  assumes "working env objs" "no_other_controller inst m"
  obtains m' where "l_set_controller_reference (lib env) inst m = Inr m'" "nn_of m' = nn_of m" "owned_by inst m'"
  using assms unfolding working_def working_lib_def by blast

section \<open>Where an action leads the objects\<close>

definition leads :: "('w \<Rightarrow> objects) \<Rightarrow> ('w, 'a) op \<Rightarrow> objects \<Rightarrow> ('a \<Rightarrow> objects \<Rightarrow> bool) \<Rightarrow> bool" where
  "leads objs m cl Q \<longleftrightarrow>
     (\<forall>s. objs (st_world s) = cl \<longrightarrow> (case run_state m s of (a, s') \<Rightarrow> Q a (objs (st_world s'))))"

named_theorems leads_rules \<open>where an action leads the objects\<close>

lemma leads_mono: "leads objs m cl R \<Longrightarrow> (\<And>a cl'. R a cl' \<Longrightarrow> Q a cl') \<Longrightarrow> leads objs m cl Q"
  unfolding leads_def by (auto split: prod.splits)

lemma leads_return [leads_rules]: "Q a cl \<Longrightarrow> leads objs (State_Monad.return a) cl Q"
  by (simp add: leads_def)

lemma leads_bind [leads_rules]:
  "leads objs m cl (\<lambda>a cl'. leads objs (f a) cl' Q) \<Longrightarrow> leads objs (State_Monad.bind m f) cl Q"
  by (auto simp: leads_def run_state_bind split: prod.splits)

text \<open>Steps that succeed, so that the early return is not taken.\<close>

lemma leads_bind_None:
  "leads objs m cl (\<lambda>r cl'. r = None \<and> R cl') \<Longrightarrow> (\<And>cl'. R cl' \<Longrightarrow> leads objs g cl' Q) \<Longrightarrow>
     leads objs (State_Monad.bind m (case_option g f)) cl Q"
  by (rule leads_bind, erule leads_mono) auto

lemma leads_bind_Inr:
  "leads objs m cl (\<lambda>r cl'. \<exists>x. r = Inr x \<and> R x cl') \<Longrightarrow> (\<And>x cl'. R x cl' \<Longrightarrow> leads objs (g x) cl' Q) \<Longrightarrow>
     leads objs (State_Monad.bind m (case_sum f g)) cl Q"
  by (rule leads_bind, erule leads_mono) (auto split: sum.split)

lemma leads_case_sum [leads_rules]:
  "(\<And>e. r = Inl e \<Longrightarrow> leads objs (f e) cl Q) \<Longrightarrow> (\<And>x. r = Inr x \<Longrightarrow> leads objs (g x) cl Q) \<Longrightarrow>
     leads objs (case_sum f g r) cl Q"
  by (cases r) auto

lemma leads_case_option [leads_rules]:
  "(r = None \<Longrightarrow> leads objs g cl Q) \<Longrightarrow> (\<And>x. r = Some x \<Longrightarrow> leads objs (f x) cl Q) \<Longrightarrow>
     leads objs (case_option g f r) cl Q"
  by (cases r) auto

lemma leads_case_prod [leads_rules]: "(\<And>x y. p = (x, y) \<Longrightarrow> leads objs (f x y) cl Q) \<Longrightarrow> leads objs (case_prod f p) cl Q"
  by (cases p) auto

lemma leads_if [leads_rules]:
  "(c \<Longrightarrow> leads objs m cl Q) \<Longrightarrow> (\<not> c \<Longrightarrow> leads objs n cl Q) \<Longrightarrow> leads objs (if c then m else n) cl Q"
  by simp

lemma leads_Let [leads_rules]: "(\<And>x. x = a \<Longrightarrow> leads objs (f x) cl Q) \<Longrightarrow> leads objs (Let a f) cl Q"
  by simp

lemma leads_silent:
  assumes "observes env objs R" "\<And>w a w'. f w = (a, w') \<Longrightarrow> silently env w w'" "\<And>w. Q (fst (f w)) cl"
  shows "leads objs (silent f) cl Q"
  using assms unfolding leads_def observes_def run_silent
  by (auto split: prod.splits) (metis fst_conv)

lemma leads_call:
  assumes "observes env objs R" "\<And>w a w'. f w = (a, w') \<Longrightarrow> made env (ev a) w w'" "\<And>a cl'. R (ev a) cl cl' \<Longrightarrow> Q a cl'"
  shows "leads objs (call ev f) cl Q"
  using assms unfolding leads_def observes_def run_call by (fastforce split: prod.splits)

text \<open>The calls of the instance controller.\<close>

lemma leads_get:
  assumes "observes env objs (cluster_law env)"
    and "\<And>w a w'. get nn w = (a, w') \<Longrightarrow> made env (EvGet k nn (map_sum id mk a)) w w'"
    and "\<And>e. cl (k, nn) = None \<Longrightarrow> l_is_not_found (lib env) e \<Longrightarrow> Q (Inl e) cl"
    and "\<And>x. cl (k, nn) = Some (mk x) \<Longrightarrow> Q (Inr x) cl"
  shows "leads objs (call (\<lambda>r. EvGet k nn (map_sum id mk r)) (get nn)) cl Q"
proof (rule leads_call [OF assms(1,2)])
  fix a cl' assume "cluster_law env (EvGet k nn (map_sum id mk a)) cl cl'"
  with assms(3,4) show "Q a cl'" by (cases a) simp_all
qed

lemma leads_gets [leads_rules]:
  assumes "working env objs"
  shows "(\<And>e. cl (KInstance, nn) = None \<Longrightarrow> l_is_not_found (lib env) e \<Longrightarrow> Q1 (Inl e) cl) \<Longrightarrow>
     (\<And>x. cl (KInstance, nn) = Some (ObjInstance x) \<Longrightarrow> Q1 (Inr x) cl) \<Longrightarrow> leads objs (get_instance env nn) cl Q1"
    and "(\<And>e. cl (KSecret, nn) = None \<Longrightarrow> l_is_not_found (lib env) e \<Longrightarrow> Q2 (Inl e) cl) \<Longrightarrow>
     (\<And>x. cl (KSecret, nn) = Some (ObjSecret x) \<Longrightarrow> Q2 (Inr x) cl) \<Longrightarrow> leads objs (get_secret env nn) cl Q2"
    and "(\<And>e. cl (KPersistentVolumeClaim, nn) = None \<Longrightarrow> l_is_not_found (lib env) e \<Longrightarrow> Q3 (Inl e) cl) \<Longrightarrow>
     (\<And>x. cl (KPersistentVolumeClaim, nn) = Some (ObjPersistentVolumeClaim x) \<Longrightarrow> Q3 (Inr x) cl) \<Longrightarrow>
     leads objs (get_pvc env nn) cl Q3"
    and "(\<And>e. cl (KDeployment, nn) = None \<Longrightarrow> l_is_not_found (lib env) e \<Longrightarrow> Q4 (Inl e) cl) \<Longrightarrow>
     (\<And>x. cl (KDeployment, nn) = Some (ObjDeployment x) \<Longrightarrow> Q4 (Inr x) cl) \<Longrightarrow> leads objs (get_deployment env nn) cl Q4"
  unfolding get_instance_def get_secret_def get_pvc_def get_deployment_def
  by (rule leads_get [OF workingD(2) [OF assms]]; auto simp: got_def)+

lemma leads_creates [leads_rules]:
  assumes "working env objs"
  shows "cl (key_of (ObjSecret sec)) = None \<Longrightarrow> Q None (cl(key_of (ObjSecret sec) \<mapsto> ObjSecret sec)) \<Longrightarrow>
      leads objs (create_secret env sec) cl Q"
    and "cl (key_of (ObjPersistentVolumeClaim pvc)) = None \<Longrightarrow>
      Q None (cl(key_of (ObjPersistentVolumeClaim pvc) \<mapsto> ObjPersistentVolumeClaim pvc)) \<Longrightarrow>
      leads objs (create_pvc env pvc) cl Q"
  unfolding create_secret_def create_pvc_def
  by (rule leads_call [OF workingD(2) [OF assms]]; auto)+

lemma leads_token [leads_rules]:
  assumes "working env objs" "\<And>t. Q (Inr t) cl"
  shows "leads objs (ts_Token env ts) cl Q"
  unfolding ts_Token_def
proof (rule leads_call [OF workingD(2) [OF assms(1)]])
  fix a cl' assume "cluster_law env (EvToken ts a) cl cl'"
  with assms(2) show "Q a cl'" by (cases a) (simp_all add: tolerated_def)
qed simp

lemma leads_upsert:
  fixes objs :: "'w \<Rightarrow> objects"
  assumes "upserts_ok objs mk upsert"
    and "case cl (key_of (mk x)) of None \<Rightarrow> cur = x | Some obj \<Rightarrow> obj = mk cur"
    and "f cur = Inr y" "key_of (mk y) = key_of (mk x)" "Q None (cl(key_of (mk x) \<mapsto> mk y))"
  shows "leads objs (call ev (upsert x f)) cl Q"
  unfolding leads_def
proof (intro allI impI)
  fix s :: "'w st" assume s: "objs (st_world s) = cl"
  note law = assms(1) [unfolded upserts_ok_def, THEN spec [of _ x], THEN spec [of _ f], THEN spec [of _ "st_world s"],
      THEN spec [of _ cur], THEN spec [of _ y], unfolded s]
  have "case upsert x f (st_world s) of (err, w') \<Rightarrow> err = None \<and> objs w' = cl(key_of (mk x) \<mapsto> mk y)"
    by (rule law [THEN mp, OF assms(2), THEN mp, OF assms(3), THEN mp, OF assms(4)])
  then show "case run_state (call ev (upsert x f)) s of (a, s') \<Rightarrow> Q a (objs (st_world s'))"
    using assms(5) by (auto simp: run_call split: prod.splits)
qed

lemma leads_finish:
  fixes env :: "'w env"
  assumes "working env objs" "\<And>t. let o1 = reported env sp obj st reason msg t in Q (patch_outcome None) (cl(key_of o1 \<mapsto> o1))"
  shows "leads objs (State (finish env sp obj st reason msg)) cl Q"
  unfolding leads_def
proof (intro allI impI)
  fix s :: "'w st" assume s: "objs (st_world s) = cl"
  note obs = workingD(2) [OF assms(1), unfolded observes_def]
  obtain t w where t: "l_now (lib env) (st_world s) = (t, w)" by (cases "l_now (lib env) (st_world s)")
  have w: "objs w = cl" using obs silently.clock [OF t] s by blast
  let ?o = "reported env sp obj st reason msg t" and ?b = "sp_inject sp (sp_base sp)"
  obtain err w' where p: "k_patch_status (kube env) ?o ?b w = (err, w')"
    by (cases "k_patch_status (kube env) ?o ?b w")
  have "made env (EvStatusPatch ?o ?b err) w w'" using p by simp
  with obs have "cluster_law env (EvStatusPatch ?o ?b err) (objs w) (objs w')" by blast
  with w t p assms(2) [of t] show "case run_state (State (finish env sp obj st reason msg)) s of (a, s') \<Rightarrow> Q a (objs (st_world s'))"
    by (simp add: finish_def Let_def)
qed

lemma leads_setters:
  assumes "working env objs"
  shows "(\<And>t. let o1 = reported env sp obj ConditionFalse reason msg t in Q (patch_outcome None) (cl(key_of o1 \<mapsto> o1))) \<Longrightarrow>
      leads objs (setNotReady env sp obj reason msg) cl Q"
    and "(\<And>t. let o1 = reported env sp obj ConditionTrue reason msg t in Q (patch_outcome None) (cl(key_of o1 \<mapsto> o1))) \<Longrightarrow>
      leads objs (setReady env sp obj reason msg) cl Q"
proof -
  have eqs: "leads objs (setNotReady env sp obj reason msg) = leads objs (State (finish env sp obj ConditionFalse reason msg))"
    "leads objs (setReady env sp obj reason msg) = leads objs (State (finish env sp obj ConditionTrue reason msg))"
    by (simp_all add: leads_def run_setNotReady run_setReady fun_eq_iff)
  show "(\<And>t. let o1 = reported env sp obj ConditionFalse reason msg t in Q (patch_outcome None) (cl(key_of o1 \<mapsto> o1))) \<Longrightarrow>
      leads objs (setNotReady env sp obj reason msg) cl Q"
    and "(\<And>t. let o1 = reported env sp obj ConditionTrue reason msg t in Q (patch_outcome None) (cl(key_of o1 \<mapsto> o1))) \<Longrightarrow>
      leads objs (setReady env sp obj reason msg) cl Q"
    unfolding eqs by (rule leads_finish [OF assms], assumption)+
qed

section \<open>One reconcile of an instance\<close>

text \<open>The objects that belong to an instance.\<close>

abbreviation inst_key :: "keyline_instance \<Rightarrow> kind \<times> namespaced_name" where
  "inst_key inst \<equiv> (KInstance, nn_of (inst_meta inst))"

abbreviation cred_key :: "keyline_instance \<Rightarrow> kind \<times> namespaced_name" where
  "cred_key inst \<equiv> (KSecret, credentials_secret_name inst)"

abbreviation conf_key :: "keyline_instance \<Rightarrow> kind \<times> namespaced_name" where
  "conf_key inst \<equiv> (KSecret, nname (inst_namespace inst) (inst_name inst @ configSecret))"

abbreviation claim_key :: "keyline_instance \<Rightarrow> kind \<times> namespaced_name" where
  "claim_key inst \<equiv> (KPersistentVolumeClaim, nname (inst_namespace inst) (inst_name inst @ keysPVC))"

abbreviation serv_key :: "keyline_instance \<Rightarrow> kind \<times> namespaced_name" where
  "serv_key inst \<equiv> (KService, nn_of (inst_meta inst))"

abbreviation depl_key :: "keyline_instance \<Rightarrow> kind \<times> namespaced_name" where
  "depl_key inst \<equiv> (KDeployment, nn_of (inst_meta inst))"

text \<open>The Secrets that an instance refers to are there, with the keys that are read.\<close>

definition secret_has :: "objects \<Rightarrow> string \<Rightarrow> string \<Rightarrow> string list \<Rightarrow> bool" where
  "secret_has cl ns name keys \<longleftrightarrow>
     (case cl (KSecret, nname ns name) of
        Some (ObjSecret sec) \<Rightarrow> list_all (\<lambda>k. map_of (sec_data sec) k \<noteq> None) keys
      | _ \<Rightarrow> False)"

definition database_ready :: "objects \<Rightarrow> keyline_instance \<Rightarrow> bool" where
  "database_ready cl inst \<longleftrightarrow>
     (case db_postgres (inst_database (inst_spec inst)) of
        None \<Rightarrow> db_mode (inst_database (inst_spec inst)) = ''memory''
      | Some pg \<Rightarrow> db_mode (inst_database (inst_spec inst)) = ''postgres'' \<longrightarrow>
          secret_has cl (inst_namespace inst) (ref_name (pg_credentials_secret_ref pg)) [''username'', ''password''])"

definition vault_ready :: "objects \<Rightarrow> keyline_instance \<Rightarrow> bool" where
  "vault_ready cl inst \<longleftrightarrow>
     (ks_mode (inst_key_store (inst_spec inst)) = ''vault'' \<longrightarrow>
        (case ks_vault (inst_key_store (inst_spec inst)) of
           None \<Rightarrow> False
         | Some v \<Rightarrow> secret_has cl (inst_namespace inst) (ref_name (vault_token_secret_ref v)) [''token'']))"

text \<open>A resource that the operator writes is not there yet, or is its own.\<close>

definition own_or_free :: "keyline_instance \<Rightarrow> objects \<Rightarrow> kind \<times> namespaced_name \<Rightarrow> bool" where
  "own_or_free inst cl key \<longleftrightarrow>
     (case cl key of None \<Rightarrow> True | Some obj \<Rightarrow> key_of obj = key \<and> no_other_controller inst (object_meta_of obj))"

text \<open>A resource as the operator leaves it: under its name, and owned by the instance.\<close>

definition own_object :: "keyline_instance \<Rightarrow> kind \<times> namespaced_name \<Rightarrow> k8s_object \<Rightarrow> bool" where
  "own_object inst key obj \<longleftrightarrow> key_of obj = key \<and> owned_by inst (object_meta_of obj)"

lemma own_object_free: "own_object inst key obj \<Longrightarrow> key_of obj = key \<and> no_other_controller inst (object_meta_of obj)"
  by (simp add: own_object_def owned_by_def)

lemma own_or_free_cases:
  assumes "own_or_free inst cl key" "key_of (mk x) = key \<and> no_other_controller inst (object_meta_of (mk x))"
    and "\<And>obj. object_kind obj = fst key \<Longrightarrow> \<exists>y. obj = mk y"
  obtains cur where "case cl key of None \<Rightarrow> cur = x | Some obj \<Rightarrow> obj = mk cur"
    "key_of (mk cur) = key" "no_other_controller inst (object_meta_of (mk cur))"
proof (cases "cl key")
  case None
  with assms(2) that show ?thesis by simp
next
  case (Some obj)
  with assms(1) have own: "key_of obj = key" "no_other_controller inst (object_meta_of obj)"
    by (simp_all add: own_or_free_def)
  then have "object_kind obj = fst key" by (auto simp: key_of_def)
  with assms(3) obtain y where "obj = mk y" by blast
  with that Some own show ?thesis by simp
qed

lemma kind_of_object:
  "object_kind obj = KSecret \<Longrightarrow> \<exists>y. obj = ObjSecret y" "object_kind obj = KService \<Longrightarrow> \<exists>y. obj = ObjService y"
  "object_kind obj = KDeployment \<Longrightarrow> \<exists>y. obj = ObjDeployment y" "object_kind obj = KInstance \<Longrightarrow> \<exists>y. obj = ObjInstance y"
  by (cases obj; simp)+

lemma never_fails:
  assumes "working env objs"
  shows "fst (l_ed25519_generate_key (lib env) w) \<noteq> Inl e" "l_marshal_pkcs8 (lib env) k \<noteq> Inl e"
    "l_marshal_pkix (lib env) k \<noteq> Inl e" "l_yaml_marshal (lib env) c \<noteq> Inl e"
  using workingD(3) [OF assms] unfolding working_lib_def by (metis sum.disc(1))+

text \<open>
  The credentials: the Secret that is there, unchanged, or else a new one that the instance owns, with one
  generated key.
\<close>

definition credentials_kept_or_made ::
    "'w env \<Rightarrow> keyline_instance \<Rightarrow> objects \<Rightarrow> secret \<Rightarrow> objects \<Rightarrow> bool" where
  "credentials_kept_or_made env inst cl sec cl' \<longleftrightarrow>
     cl' = cl(cred_key inst \<mapsto> ObjSecret sec) \<and>
     (case cl (cred_key inst) of
        None \<Rightarrow> own_object inst (cred_key inst) (ObjSecret sec) \<and> made_credentials env inst sec
      | Some obj \<Rightarrow> obj = ObjSecret sec)"

lemma credentials_kept:
  assumes "credentials_kept_or_made env inst cl sec cl'"
  shows "key \<noteq> cred_key inst \<Longrightarrow> cl' key = cl key" "cl key = Some obj \<Longrightarrow> cl' key = Some obj"
    "cl' (cred_key inst) = Some (ObjSecret sec)"
    "cl (cred_key inst) = None \<Longrightarrow> own_object inst (cred_key inst) (ObjSecret sec)"
  using assms by (auto simp: credentials_kept_or_made_def split: option.splits)

lemma ensureCredentials_leads:
  assumes w: "working env objs"
  shows "leads objs (ensureCredentials env inst) cl (\<lambda>r cl'. \<exists>x. r = Inr x \<and>
     (\<exists>sec. x = credentials_of sec \<and> credentials_kept_or_made env inst cl sec cl'))"
proof -
  let ?new = "new_meta (inst_name inst @ credentialsSecret) (inst_namespace inst)"
  obtain m where m: "l_set_controller_reference (lib env) inst ?new = Inr m" "nn_of m = nn_of ?new" "owned_by inst m"
    by (rule set_reference [OF w no_controller_new])
  have own: "own_object inst (cred_key inst) (ObjSecret (credentials_secret m a b k))" for a b k
    using m(2,3) by (simp add: own_object_def key_of_def credentials_secret_def new_meta_def)
  note key = own_object_def [THEN iffD1, OF own, THEN conjunct1]
  have new: "\<exists>sec. (l_pem_encode (lib env) ''PRIVATE KEY'' a, l_pem_encode (lib env) ''PUBLIC KEY'' b, l_uuid_string (lib env) u) =
        credentials_of sec \<and>
      credentials_kept_or_made env inst cl sec (cl(cred_key inst \<mapsto> ObjSecret (credentials_secret m
        (l_pem_encode (lib env) ''PRIVATE KEY'' a) (l_pem_encode (lib env) ''PUBLIC KEY'' b) (l_uuid_string (lib env) u))))"
    if "cl (cred_key inst) = None" "l_marshal_pkcs8 (lib env) k = Inr a" "l_marshal_pkix (lib env) (l_public_key (lib env) k) = Inr b"
    for a b k u
    using made_credentials_secret [OF m(1) that(2,3)] own that(1)
    by (intro exI [of _ "credentials_secret m (l_pem_encode (lib env) ''PRIVATE KEY'' a)
        (l_pem_encode (lib env) ''PUBLIC KEY'' b) (l_uuid_string (lib env) u)"]) (simp add: credentials_kept_or_made_def)
  have found: "\<exists>sec. (sec_get s ''private-key'', sec_get s ''public-key'', sec_get s ''key-id'') = credentials_of sec \<and>
      credentials_kept_or_made env inst cl sec cl" if "cl (cred_key inst) = Some (ObjSecret s)" for s
    using that by (intro exI [of _ s]) (simp add: credentials_of_def credentials_kept_or_made_def fun_upd_idem)
  show ?thesis
    unfolding ensureCredentials_def
    by (intro leads_rules leads_silent [OF workingD(2) [OF w]] w)
      (auto simp: m(1) key never_fails [OF w] intro: silently.intros new found)
qed

text \<open>The values of the Secrets that the specification refers to.\<close>

definition read_secret :: "objects \<Rightarrow> string \<Rightarrow> string \<Rightarrow> string \<Rightarrow> string" where
  "read_secret cl ns name key =
     (case cl (KSecret, nname ns name) of Some (ObjSecret sec) \<Rightarrow> sec_get sec key | _ \<Rightarrow> [])"

definition database_login :: "objects \<Rightarrow> keyline_instance \<Rightarrow> string \<times> string" where
  "database_login cl inst =
     (case db_postgres (inst_database (inst_spec inst)) of
        Some pg \<Rightarrow>
          if db_mode (inst_database (inst_spec inst)) = ''postgres''
          then (read_secret cl (inst_namespace inst) (ref_name (pg_credentials_secret_ref pg)) ''username'',
                read_secret cl (inst_namespace inst) (ref_name (pg_credentials_secret_ref pg)) ''password'')
          else ([], [])
      | None \<Rightarrow> ([], []))"

definition vault_token_in :: "objects \<Rightarrow> keyline_instance \<Rightarrow> string" where
  "vault_token_in cl inst =
     (case ks_vault (inst_key_store (inst_spec inst)) of
        Some v \<Rightarrow>
          if ks_mode (inst_key_store (inst_spec inst)) = ''vault''
          then read_secret cl (inst_namespace inst) (ref_name (vault_token_secret_ref v)) ''token'' else []
      | None \<Rightarrow> [])"

lemma resolveSecret_leads:
  assumes w: "working env objs" and has: "secret_has cl ns name keys"
  shows "leads objs (resolveSecret env ns name keys) cl (\<lambda>r cl'. r = Inr (map (read_secret cl ns name) keys) \<and> cl' = cl)"
proof -
  obtain sec where sec: "cl (KSecret, nname ns name) = Some (ObjSecret sec)" "list_all (\<lambda>k. map_of (sec_data sec) k \<noteq> None) keys"
    using has by (auto simp: secret_has_def split: option.splits k8s_object.splits)
  have "secret_values sec name keys = Inr (map (sec_get sec) keys)"
    using sec(2) by (induction keys) (auto simp: sec_get_def)
  then show ?thesis
    unfolding resolveSecret_def
    by (intro leads_rules w) (use sec(1) in \<open>auto simp: read_secret_def\<close>)
qed

lemma database_credentials_leads:
  assumes w: "working env objs" and db: "database_ready cl inst"
  shows "leads objs (database_credentials env inst) cl (\<lambda>r cl'. \<exists>x. r = Inr x \<and> x = database_login cl inst \<and> cl' = cl)"
  unfolding database_credentials_def
  by (intro leads_rules leads_mono [OF resolveSecret_leads [OF w]])
    (use db in \<open>auto simp: database_ready_def database_login_def split: option.splits\<close>)

lemma vault_token_leads:
  assumes w: "working env objs" and vault: "vault_ready cl inst"
  shows "leads objs (vault_token env inst) cl (\<lambda>r cl'. \<exists>x. r = Inr x \<and> x = vault_token_in cl inst \<and> cl' = cl)"
  unfolding vault_token_def
  by (intro leads_rules leads_mono [OF resolveSecret_leads [OF w]])
    (use vault in \<open>auto simp: vault_ready_def vault_token_in_def split: option.splits\<close>)

lemma buildKeylineConfig_builds:
  assumes "working env objs" "database_ready cl inst" "vault_ready cl inst"
  obtains data h where "buildKeylineConfig env inst pub kid u p t = Ret (Inr (data, h))"
proof -
  have "\<not> derefs_nil (inst_spec inst)"
    using assms(2,3) by (auto simp: derefs_nil_def database_ready_def vault_ready_def split: option.splits)
  then obtain cfg where cfg: "build_config inst pub kid u p t = Ret cfg"
    using build_config_Panic_iff by (metis go.exhaust)
  obtain data where "l_yaml_marshal (lib env) cfg = Inr data"
    using never_fails(4) [OF assms(1)] by (metis sum.exhaust)
  with cfg that show thesis by (simp add: buildKeylineConfig_def)
qed

text \<open>
  What the instance asks of its resources, in absolute terms: a claim of the size and class it names (1Gi where it
  names none), a Service that leads to its pods, and a Deployment whose one container runs the image asked for on
  the configuration Secret, whose hash it carries, with the claim mounted where the keys are in a directory.
\<close>

definition claim_asked :: "'w env \<Rightarrow> keyline_instance \<Rightarrow> persistent_volume_claim \<Rightarrow> bool" where
  "claim_asked env inst p \<longleftrightarrow>
     (let dir = ks_directory (inst_key_store (inst_spec inst)) in
      pvc_access_modes p = [ReadWriteOnce] \<and>
      pvc_storage p = (case Option.bind dir dir_storage_size of Some q \<Rightarrow> q | None \<Rightarrow> l_must_parse_quantity (lib env) ''1Gi'') \<and>
      pvc_storage_class p = Option.bind dir dir_storage_class_name)"

definition service_asked :: "keyline_instance \<Rightarrow> service \<Rightarrow> bool" where
  "service_asked inst v \<longleftrightarrow>
     svc_selector v = instanceLabels inst \<and> svc_type v = ServiceTypeClusterIP \<and>
     svc_ports v = [\<lparr>port_name = ''http'', port_port = 8080, port_protocol = ProtocolTCP\<rparr>]"

definition deployment_asked :: "keyline_instance \<Rightarrow> string \<Rightarrow> deployment \<Rightarrow> bool" where
  "deployment_asked inst h d \<longleftrightarrow>
     (case dep_spec d of None \<Rightarrow> False | Some ds \<Rightarrow>
        dep_selector ds = instanceLabels inst \<and> pt_labels (dep_template ds) = instanceLabels inst \<and>
        dep_strategy ds = RecreateDeploymentStrategyType \<and>
        map_of (pt_annotations (dep_template ds)) ''keyline.keyline.dev/config-hash'' = Some h \<and>
        map ctr_image (pt_containers (dep_template ds)) = [inst_image (inst_spec inst)] \<and>
        map ctr_resources (pt_containers (dep_template ds)) = [inst_resources (inst_spec inst)] \<and>
        map vol_source (pt_volumes (dep_template ds)) =
          SecretVolume (inst_name inst @ ''-config'') #
          (if ks_mode (inst_key_store (inst_spec inst)) = ''directory''
           then [PersistentVolumeClaimVolume (inst_name inst @ ''-keys'')] else []))"

lemma claim_for_asked: "claim_asked env inst (claim_for env inst m)"
  by (simp add: claim_asked_def claim_for_def pvc_storage_size_def Let_def split: option.split)

lemma deployment_spec_asked: "dep_spec d = Some (deployment_spec_for inst h) \<Longrightarrow> deployment_asked inst h d"
  by (simp add: deployment_asked_def deployment_spec_for_def deployment_volumes_def configHashAnno_def configSecret_def
      keysPVC_def keyStoreModeDirectory_def)

lemma ensureConfigSecret_leads:
  assumes w: "working env objs" and own: "own_or_free inst cl (conf_key inst)"
  shows "leads objs (ensureConfigSecret env inst data) cl (\<lambda>r cl'. r = None \<and>
     (\<exists>s. own_object inst (conf_key inst) (ObjSecret s) \<and> sec_data s = [(''config.yaml'', data)] \<and>
        cl' = cl(conf_key inst \<mapsto> ObjSecret s)))"
proof -
  let ?x = "\<lparr>sec_meta = new_meta (inst_name inst @ configSecret) (inst_namespace inst), sec_data = []\<rparr>"
  have key: "key_of (ObjSecret ?x) = conf_key inst" by (simp add: key_of_def new_meta_def)
  obtain cur where cur: "case cl (conf_key inst) of None \<Rightarrow> cur = ?x | Some obj \<Rightarrow> obj = ObjSecret cur"
    "key_of (ObjSecret cur) = conf_key inst" "no_other_controller inst (object_meta_of (ObjSecret cur))"
    by (rule own_or_free_cases [where mk = ObjSecret, OF own]) (use key in \<open>auto simp: kind_of_object\<close>)
  then obtain m where m: "l_set_controller_reference (lib env) inst (sec_meta cur) = Inr m" "nn_of m = nn_of (sec_meta cur)"
    "owned_by inst m"
    using set_reference [OF w, of inst "sec_meta cur"] by auto
  let ?y = "cur\<lparr>sec_data := [(''config.yaml'', data)], sec_meta := m\<rparr>"
  have y: "own_object inst (conf_key inst) (ObjSecret ?y)" using cur(2) m(2,3) by (simp add: own_object_def key_of_def)
  show ?thesis
    unfolding ensureConfigSecret_def create_or_update_secret_def
    by (rule leads_upsert [where mk = ObjSecret and cur = cur and y = ?y])
      (use w cur(1) m(1) y key in \<open>auto simp: working_def config_secret_mutate_def own_object_def\<close>)
qed

lemma ensureService_leads:
  assumes w: "working env objs" and own: "own_or_free inst cl (serv_key inst)"
  shows "leads objs (ensureService env inst) cl (\<lambda>r cl'. r = None \<and>
     (\<exists>v. own_object inst (serv_key inst) (ObjService v) \<and> service_asked inst v \<and> cl' = cl(serv_key inst \<mapsto> ObjService v)))"
proof -
  let ?x = "\<lparr>svc_meta = new_meta (inst_name inst) (inst_namespace inst), svc_selector = [], svc_ports = [],
      svc_type = ServiceTypeClusterIP, svc_cluster_ip = []\<rparr>"
  have key: "key_of (ObjService ?x) = serv_key inst" by (simp add: key_of_def new_meta_def)
  obtain cur where cur: "case cl (serv_key inst) of None \<Rightarrow> cur = ?x | Some obj \<Rightarrow> obj = ObjService cur"
    "key_of (ObjService cur) = serv_key inst" "no_other_controller inst (object_meta_of (ObjService cur))"
    by (rule own_or_free_cases [where mk = ObjService, OF own]) (use key in \<open>auto simp: kind_of_object\<close>)
  then obtain m where m: "l_set_controller_reference (lib env) inst (svc_meta cur) = Inr m" "nn_of m = nn_of (svc_meta cur)"
    "owned_by inst m"
    using set_reference [OF w, of inst "svc_meta cur"] by auto
  let ?y = "the_service inst cur\<lparr>svc_meta := m\<rparr>"
  have y: "own_object inst (serv_key inst) (ObjService ?y) \<and> service_asked inst ?y"
    using cur(2) m(2,3) by (simp add: own_object_def key_of_def service_asked_def the_service_def keylinePort_def)
  show ?thesis
    unfolding ensureService_def create_or_update_service_def
    by (rule leads_upsert [where mk = ObjService and cur = cur and y = ?y])
      (use w cur(1) m(1) y key in \<open>auto simp: working_def service_mutate_def the_service_def own_object_def\<close>)
qed

text \<open>How far Kubernetes has rolled out the Deployment of an instance: not at all where there is none.\<close>

definition rollout_of :: "objects \<Rightarrow> namespaced_name \<Rightarrow> deployment_condition list" where
  "rollout_of cl nn = (case cl (KDeployment, nn) of Some (ObjDeployment d) \<Rightarrow> dep_conditions d | _ \<Rightarrow> [])"

definition available :: "objects \<Rightarrow> namespaced_name \<Rightarrow> bool" where
  "available cl nn \<longleftrightarrow> (\<exists>d. cl (KDeployment, nn) = Some (ObjDeployment d) \<and> deployment_available d)"

lemma rollout_of_upd [simp]: "key \<noteq> (KDeployment, nn) \<Longrightarrow> rollout_of (cl(key \<mapsto> obj)) nn = rollout_of cl nn"
  by (simp add: rollout_of_def)

lemma rollout_of_cong: "cl' (KDeployment, nn) = cl (KDeployment, nn) \<Longrightarrow> rollout_of cl' nn = rollout_of cl nn"
  by (simp add: rollout_of_def)

lemma rollout_available: "dep_conditions d = rollout_of cl nn \<Longrightarrow> deployment_available d \<longleftrightarrow> available cl nn"
  by (auto simp: rollout_of_def available_def deployment_available_def split: option.splits k8s_object.splits)

lemma ensureDeployment_leads:
  assumes w: "working env objs" and own: "own_or_free inst cl (depl_key inst)"
  shows "leads objs (ensureDeployment env inst h) cl (\<lambda>r cl'. r = None \<and>
     (\<exists>d. own_object inst (depl_key inst) (ObjDeployment d) \<and> deployment_asked inst h d \<and>
        dep_conditions d = rollout_of cl (nn_of (inst_meta inst)) \<and> cl' = cl(depl_key inst \<mapsto> ObjDeployment d)))"
proof -
  let ?x = "\<lparr>dep_meta = new_meta (inst_name inst) (inst_namespace inst), dep_spec = None, dep_conditions = []\<rparr>"
  have key: "key_of (ObjDeployment ?x) = depl_key inst" by (simp add: key_of_def new_meta_def)
  obtain cur where cur: "case cl (depl_key inst) of None \<Rightarrow> cur = ?x | Some obj \<Rightarrow> obj = ObjDeployment cur"
    "key_of (ObjDeployment cur) = depl_key inst" "no_other_controller inst (object_meta_of (ObjDeployment cur))"
    by (rule own_or_free_cases [where mk = ObjDeployment, OF own]) (use key in \<open>auto simp: kind_of_object\<close>)
  then obtain m where m: "l_set_controller_reference (lib env) inst (dep_meta cur) = Inr m" "nn_of m = nn_of (dep_meta cur)"
    "owned_by inst m"
    using set_reference [OF w, of inst "dep_meta cur"] by auto
  let ?y = "cur\<lparr>dep_spec := Some (deployment_spec_for inst h), dep_meta := m\<rparr>"
  have y: "own_object inst (depl_key inst) (ObjDeployment ?y)" using cur(2) m(2,3) by (simp add: own_object_def key_of_def)
  have "dep_conditions cur = rollout_of cl (nn_of (inst_meta inst))"
    using cur(1) by (auto simp: rollout_of_def split: option.splits)
  with y have res: "\<exists>d. own_object inst (depl_key inst) (ObjDeployment d) \<and> deployment_asked inst h d \<and>
      dep_conditions d = rollout_of cl (nn_of (inst_meta inst)) \<and>
      cl(depl_key inst \<mapsto> ObjDeployment ?y) = cl(depl_key inst \<mapsto> ObjDeployment d)"
    by (intro exI [of _ ?y]) (simp add: deployment_spec_asked)
  show ?thesis
    unfolding ensureDeployment_def create_or_update_deployment_def
    by (rule leads_upsert [where mk = ObjDeployment and cur = cur and y = ?y])
      (use w cur(1) m(1) y key res in \<open>simp_all add: working_def deployment_mutate_def own_object_def\<close>)
qed

text \<open>The claim: where keys are kept in a directory it is there afterwards, and one that was there is left alone.\<close>

definition claim_there :: "'w env \<Rightarrow> keyline_instance \<Rightarrow> k8s_object option \<Rightarrow> k8s_object option \<Rightarrow> bool" where
  "claim_there env inst before after \<longleftrightarrow>
     (if ks_mode (inst_key_store (inst_spec inst)) = ''directory'' \<and> before = None
      then \<exists>p. after = Some (ObjPersistentVolumeClaim p) \<and>
        own_object inst (claim_key inst) (ObjPersistentVolumeClaim p) \<and> claim_asked env inst p
      else after = before)"

lemma ensure_key_storage_leads:
  assumes w: "working env objs"
  shows "leads objs (ensure_key_storage env inst) cl (\<lambda>r cl'. r = None \<and>
     cl' = cl(claim_key inst := cl' (claim_key inst)) \<and> claim_there env inst (cl (claim_key inst)) (cl' (claim_key inst)))"
proof -
  let ?new = "new_meta (inst_name inst @ keysPVC) (inst_namespace inst)"
  obtain m where m: "l_set_controller_reference (lib env) inst ?new = Inr m" "nn_of m = nn_of ?new" "owned_by inst m"
    by (rule set_reference [OF w no_controller_new])
  have own: "own_object inst (claim_key inst) (ObjPersistentVolumeClaim (claim_for env inst m))"
    using m(2,3) by (simp add: own_object_def key_of_def claim_for_def new_meta_def)
  then have key: "key_of (ObjPersistentVolumeClaim (claim_for env inst m)) = claim_key inst" by (simp add: own_object_def)
  show ?thesis
    unfolding ensure_key_storage_def ensurePVC_def
    by (intro leads_rules w)
      (use m(1) key own in \<open>auto simp: claim_there_def keyStoreModeDirectory_def claim_for_asked\<close>)
qed

text \<open>
  The resources: the configuration with the data rendered, the claim, the Service, and the Deployment with the hash of
  that data, rolled out as far as before; nothing else changes.
\<close>

definition resources_written ::
    "'w env \<Rightarrow> keyline_instance \<Rightarrow> string \<Rightarrow> string \<Rightarrow> objects \<Rightarrow> objects \<Rightarrow> bool" where
  "resources_written env inst data h cl cl' \<longleftrightarrow>
     (\<forall>key. key \<notin> {conf_key inst, claim_key inst, serv_key inst, depl_key inst} \<longrightarrow> cl' key = cl key) \<and>
     (\<exists>s. cl' (conf_key inst) = Some (ObjSecret s) \<and> own_object inst (conf_key inst) (ObjSecret s) \<and>
        sec_data s = [(''config.yaml'', data)]) \<and>
     claim_there env inst (cl (claim_key inst)) (cl' (claim_key inst)) \<and>
     (\<exists>v. cl' (serv_key inst) = Some (ObjService v) \<and> own_object inst (serv_key inst) (ObjService v) \<and> service_asked inst v) \<and>
     (\<exists>d. cl' (depl_key inst) = Some (ObjDeployment d) \<and> own_object inst (depl_key inst) (ObjDeployment d) \<and>
        deployment_asked inst h d \<and> dep_conditions d = rollout_of cl (nn_of (inst_meta inst)))"

lemma own_or_free_upd [simp]: "key' \<noteq> key \<Longrightarrow> own_or_free inst (cl(key' \<mapsto> obj)) key = own_or_free inst cl key"
  by (simp add: own_or_free_def)

lemma ensure_resources_leads:
  assumes w: "working env objs" and own: "list_all (own_or_free inst cl) [conf_key inst, serv_key inst, depl_key inst]"
  shows "leads objs (ensure_resources env inst data h) cl (\<lambda>r cl'. r = None \<and> resources_written env inst data h cl cl')"
  unfolding ensure_resources_def
proof (rule leads_bind_None [OF ensureConfigSecret_leads [OF w]])
  show "own_or_free inst cl (conf_key inst)" using own by simp
next
  fix cl1 assume "\<exists>s. own_object inst (conf_key inst) (ObjSecret s) \<and> sec_data s = [(''config.yaml'', data)] \<and>
      cl1 = cl(conf_key inst \<mapsto> ObjSecret s)"
  then obtain s where 1: "own_object inst (conf_key inst) (ObjSecret s)" "sec_data s = [(''config.yaml'', data)]"
    "cl1 = cl(conf_key inst \<mapsto> ObjSecret s)" by blast
  show "leads objs (State_Monad.bind (ensure_key_storage env inst) (case_option
      (State_Monad.bind (ensureService env inst) (case_option
        (State_Monad.bind (ensureDeployment env inst h) (\<lambda>e. State_Monad.return
          (case_option None (\<lambda>err. Some (''DeploymentError'', error_text err)) e)))
        (\<lambda>err. State_Monad.return (Some (''ServiceError'', error_text err)))))
      (\<lambda>err. State_Monad.return (Some (''PVCError'', error_text err))))) cl1
    (\<lambda>r cl'. r = None \<and> resources_written env inst data h cl cl')"
  proof (rule leads_bind_None [OF ensure_key_storage_leads [OF w]], rule leads_bind_None [OF ensureService_leads [OF w]])
    fix cl2
    assume "cl2 = cl1(claim_key inst := cl2 (claim_key inst)) \<and>
      claim_there env inst (cl1 (claim_key inst)) (cl2 (claim_key inst))"
    then have 2: "\<And>key. key \<noteq> claim_key inst \<Longrightarrow> cl2 key = cl1 key"
      "claim_there env inst (cl (claim_key inst)) (cl2 (claim_key inst))"
      by (metis fun_upd_other, simp add: 1(3))
    from own show "own_or_free inst cl2 (serv_key inst)" by (simp add: own_or_free_def 2(1) 1(3))
    fix cl3 assume "\<exists>v. own_object inst (serv_key inst) (ObjService v) \<and> service_asked inst v \<and>
      cl3 = cl2(serv_key inst \<mapsto> ObjService v)"
    then obtain v where 3: "own_object inst (serv_key inst) (ObjService v)" "service_asked inst v"
      "cl3 = cl2(serv_key inst \<mapsto> ObjService v)" by blast
    have "own_or_free inst cl3 (depl_key inst)" using own by (simp add: own_or_free_def 3(3) 2(1) 1(3))
    note last = ensureDeployment_leads [OF w this]
    have all: "resources_written env inst data h cl (cl3(depl_key inst \<mapsto> ObjDeployment d))"
      if "own_object inst (depl_key inst) (ObjDeployment d)" "deployment_asked inst h d"
        "dep_conditions d = rollout_of cl3 (nn_of (inst_meta inst))" for d
    proof -
      have "rollout_of cl3 (nn_of (inst_meta inst)) = rollout_of cl (nn_of (inst_meta inst))"
        by (rule rollout_of_cong) (simp add: 3(3) 2(1) 1(3))
      then show ?thesis using 1(1,2) 2(2) 3(1,2) that by (simp add: resources_written_def 3(3) 2(1) 1(3))
    qed
    show "leads objs (State_Monad.bind (ensureDeployment env inst h) (\<lambda>e. State_Monad.return
          (case_option None (\<lambda>err. Some (''DeploymentError'', error_text err)) e))) cl3
        (\<lambda>r cl'. r = None \<and> resources_written env inst data h cl cl')"
      by (rule leads_bind, rule leads_mono [OF last], rule leads_return) (auto intro: all)
  qed
qed

lemma reported_instance:
  "reported env (instance_patcher inst0) inst st reason msg t =
     ObjInstance (inst\<lparr>inst_status := inst_status inst\<lparr>inst_conditions :=
       l_set_status_condition (lib env) (inst_conditions (inst_status inst)) (condition_with st reason msg t)\<rparr>\<rparr>)"
  by (simp add: reported_def instance_patcher_def newStatusPatcher_def)

text \<open>The instance with new conditions.\<close>

abbreviation with_conditions :: "keyline_instance \<Rightarrow> condition list \<Rightarrow> keyline_instance" where
  "with_conditions inst cs \<equiv> inst\<lparr>inst_status := inst_status inst\<lparr>inst_conditions := cs\<rparr>\<rparr>"

lemma leads_reported:
  assumes w: "working env objs"
  shows "leads objs (setNotReady env (instance_patcher inst0) inst reason msg) cl (\<lambda>r cl'. \<exists>cs.
      cl' = cl(inst_key inst \<mapsto> ObjInstance (with_conditions inst cs)) \<and> \<not> ready_in env cs)"
    and "leads objs (setReady env (instance_patcher inst0) inst reason msg) cl (\<lambda>r cl'. \<exists>cs.
      cl' = cl(inst_key inst \<mapsto> ObjInstance (with_conditions inst cs)) \<and> ready_in env cs)"
proof -
  note meta = reliable_libD(1) [OF workingD(1) [OF w]]
  show "leads objs (setNotReady env (instance_patcher inst0) inst reason msg) cl (\<lambda>r cl'. \<exists>cs.
      cl' = cl(inst_key inst \<mapsto> ObjInstance (with_conditions inst cs)) \<and> \<not> ready_in env cs)"
    and "leads objs (setReady env (instance_patcher inst0) inst reason msg) cl (\<lambda>r cl'. \<exists>cs.
      cl' = cl(inst_key inst \<mapsto> ObjInstance (with_conditions inst cs)) \<and> ready_in env cs)"
    by (rule leads_setters [OF w]; force simp: Let_def key_of_def reported_instance meta_conditions_set [OF meta])+
qed

lemma check_ready_leads:
  assumes w: "working env objs" and d: "cl (depl_key inst) = Some (ObjDeployment d)"
  shows "leads objs (check_ready env (instance_patcher inst0) inst priv kid) cl (\<lambda>r cl'. \<exists>cs.
      cl' = cl(inst_key inst \<mapsto> ObjInstance (with_conditions inst cs)) \<and> (ready_in env cs \<longleftrightarrow> deployment_available d))"
  unfolding check_ready_def isDeploymentAvailable_def
  by (intro leads_rules w leads_mono [OF leads_reported(1) [OF w]] leads_mono [OF leads_reported(2) [OF w]])
    (use d in auto)

text \<open>
  The abstract step. The credentials are kept or made; from their public half and key id and from what the Secrets
  hold that the specification refers to, the configuration is rendered; the resources are written with it; and the
  status gets the URL of the Service and says ready exactly when the Deployment was available.
\<close>

definition instance_step :: "'w env \<Rightarrow> keyline_instance \<Rightarrow> objects \<Rightarrow> objects \<Rightarrow> bool" where
  "instance_step env inst cl cl' \<longleftrightarrow>
     (\<exists>sec data h cl1 cl2 cs.
        credentials_kept_or_made env inst cl sec cl1 \<and>
        buildKeylineConfig env inst (sec_get sec ''public-key'') (sec_get sec ''key-id'')
          (fst (database_login cl inst)) (snd (database_login cl inst)) (vault_token_in cl inst) = Ret (Inr (data, h)) \<and>
        resources_written env inst data h cl1 cl2 \<and>
        cl' = cl2(inst_key inst \<mapsto> ObjInstance (with_conditions (set_url (service_url inst) inst) cs)) \<and>
        (ready_in env cs \<longleftrightarrow> available cl (nn_of (inst_meta inst))))"

lemma instance_stepI:
  assumes "credentials_kept_or_made env inst cl sec cl1"
    and "buildKeylineConfig env inst (sec_get sec ''public-key'') (sec_get sec ''key-id'')
      (fst (database_login cl inst)) (snd (database_login cl inst)) (vault_token_in cl inst) = Ret (Inr (data, h))"
    and "resources_written env inst data h cl1 cl2"
    and "ready_in env cs \<longleftrightarrow> available cl (nn_of (inst_meta inst))"
  shows "instance_step env inst cl
      (cl2(inst_key inst \<mapsto> ObjInstance (with_conditions (set_url (service_url inst) inst) cs)))"
  unfolding instance_step_def
  by (rule exI [of _ sec], rule exI [of _ data], rule exI [of _ h], rule exI [of _ cl1], rule exI [of _ cl2], rule exI [of _ cs])
    (simp only: assms simp_thms)

text \<open>What is referred to reads the same once the credentials are there.\<close>

lemma secrets_kept:
  assumes made: "credentials_kept_or_made env inst cl sec cl1"
  shows "secret_has cl ns name ks \<Longrightarrow> secret_has cl1 ns name ks"
    and "secret_has cl ns name ks \<Longrightarrow> read_secret cl1 ns name key = read_secret cl ns name key"
  using credentials_kept(2) [OF made, of "(KSecret, nname ns name)"]
  by (auto simp: secret_has_def read_secret_def split: option.splits)

lemma references_kept:
  assumes made: "credentials_kept_or_made env inst cl sec cl1" and db: "database_ready cl inst" and vault: "vault_ready cl inst"
  shows "database_ready cl1 inst" "vault_ready cl1 inst"
    "database_login cl1 inst = database_login cl inst" "vault_token_in cl1 inst = vault_token_in cl inst"
  using db vault secrets_kept [OF made]
  by (auto simp: database_ready_def vault_ready_def database_login_def vault_token_in_def split: option.splits)

lemma set_url_simps [simp]:
  "inst_meta (set_url url inst) = inst_meta inst" "inst_spec (set_url url inst) = inst_spec inst"
  by (simp_all add: set_url_def)

lemma reconcileInstance_leads:
  assumes w: "working env objs" and inst: "cl (KInstance, nn) = Some (ObjInstance inst)"
    and own: "list_all (own_or_free inst cl) [conf_key inst, serv_key inst, depl_key inst]"
    and db: "database_ready cl inst" and vault: "vault_ready cl inst"
  shows "leads objs (reconcileInstance env nn) cl (\<lambda>out cl'. instance_step env inst cl cl')"
  unfolding reconcileInstance_def
proof (intro leads_bind leads_gets [OF w], goal_cases)
  case 1
  with inst show ?case by simp
next
  case (2 x)
  then have x: "x = inst" using inst by simp
  show ?case
    unfolding x sum.case Let_def
  proof (rule leads_bind_Inr [OF ensureCredentials_leads [OF w]], rule leads_case_prod, rule leads_case_prod, goal_cases)
    case (1 creds cl1 priv rest pub kid)
    then obtain sec where sec: "(priv, pub, kid) = credentials_of sec" and made: "credentials_kept_or_made env inst cl sec cl1"
      by auto
    then have pub: "pub = sec_get sec ''public-key''" "kid = sec_get sec ''key-id''" by (simp_all add: credentials_of_def)
    note refs = references_kept [OF made db vault]
    have other: "cl1 key = cl key" if "key \<in> {conf_key inst, serv_key inst, depl_key inst}" for key
      using credentials_kept(1) [OF made, of key] that by (auto simp: credentialsSecret_def configSecret_def)
    then have own1: "list_all (own_or_free inst cl1) [conf_key inst, serv_key inst, depl_key inst]"
      using own by (simp add: own_or_free_def)
    obtain data h where built: "buildKeylineConfig env inst pub kid (fst (database_login cl inst)) (snd (database_login cl inst))
        (vault_token_in cl inst) = Ret (Inr (data, h))"
      by (rule buildKeylineConfig_builds [OF w db vault])
    have ends: "leads objs (check_ready env (instance_patcher inst) (set_url (service_url inst) inst) priv kid) cl2
        (\<lambda>out cl'. instance_step env inst cl cl')" if res: "resources_written env inst data h cl1 cl2" for cl2
    proof -
      from res obtain d where d: "cl2 (depl_key inst) = Some (ObjDeployment d)"
        "dep_conditions d = rollout_of cl1 (nn_of (inst_meta inst))" unfolding resources_written_def by blast
      have "rollout_of cl1 (nn_of (inst_meta inst)) = rollout_of cl (nn_of (inst_meta inst))"
        by (rule rollout_of_cong) (simp add: other)
      with d(2) have av: "deployment_available d \<longleftrightarrow> available cl (nn_of (inst_meta inst))" by (intro rollout_available) simp
      have "cl2 (depl_key (set_url (service_url inst) inst)) = Some (ObjDeployment d)" using d(1) by simp
      from check_ready_leads [where inst = "set_url (service_url inst) inst" and cl = cl2, OF w this] show ?thesis
        by (rule leads_mono) (use av in \<open>auto intro!: instance_stepI [OF made built [unfolded pub] res]\<close>)
    qed
    show ?case
    proof (rule leads_bind_Inr [OF database_credentials_leads [OF w refs(1)]], rule leads_case_prod,
        rule leads_bind_Inr, rule vault_token_leads [OF w], goal_cases)
      case (1 x2 cl2 u p)
      then show ?case using refs(2) by simp
    next
      case (2 x2 cl2 u p t cl3)
      then have args: "u = fst (database_login cl inst)" "p = snd (database_login cl inst)" "t = vault_token_in cl inst"
        "cl3 = cl1" by (auto simp: refs(3,4)) (metis fst_conv, metis snd_conv)
      show ?case
        unfolding args built go.case sum.case prod.case
        by (rule leads_bind_None [OF ensure_resources_leads [OF w own1] ends])
    qed
  qed
qed

section \<open>What a reconcile of an instance changes\<close>

lemma not_configuration: "last s \<noteq> CHR ''g'' \<Longrightarrow> s \<noteq> n @ configSecret"
  by (auto simp: configSecret_def)

lemma last_differs: "x @ configSecret \<noteq> y @ credentialsSecret"
  using not_configuration [of "y @ credentialsSecret" x] by (auto simp: credentialsSecret_def)

lemma instance_step_facts:
  assumes "instance_step env inst cl cl'"
  shows "key \<notin> {cred_key inst, conf_key inst, claim_key inst, serv_key inst, depl_key inst, inst_key inst} \<Longrightarrow> cl' key = cl key"
    and "cl (cred_key inst) \<noteq> None \<Longrightarrow> cl' (cred_key inst) = cl (cred_key inst)"
    and "\<exists>sec. cl' (cred_key inst) = Some sec \<and> (cl (cred_key inst) = None \<longrightarrow> (\<exists>s. sec = ObjSecret s) \<and> key_of sec = cred_key inst)"
    and "\<exists>s. cl' (conf_key inst) = Some (ObjSecret s) \<and> own_object inst (conf_key inst) (ObjSecret s)"
    and "cl' (claim_key inst) \<noteq> cl (claim_key inst) \<Longrightarrow>
      \<exists>p. key_of (ObjPersistentVolumeClaim p) = claim_key inst \<and> cl' (claim_key inst) = Some (ObjPersistentVolumeClaim p)"
    and "cl (claim_key inst) \<noteq> None \<Longrightarrow> cl' (claim_key inst) = cl (claim_key inst)"
    and "\<exists>v. cl' (serv_key inst) = Some (ObjService v) \<and> own_object inst (serv_key inst) (ObjService v)"
    and "\<exists>d. cl' (depl_key inst) = Some (ObjDeployment d) \<and> own_object inst (depl_key inst) (ObjDeployment d) \<and>
      dep_conditions d = rollout_of cl (nn_of (inst_meta inst))"
    and "\<exists>inst'. cl' (inst_key inst) = Some (ObjInstance inst') \<and> inst_meta inst' = inst_meta inst \<and> inst_spec inst' = inst_spec inst \<and>
      (ready_in env (inst_conditions (inst_status inst')) \<longleftrightarrow> available cl (nn_of (inst_meta inst)))"
proof -
  from assms obtain sec data h cl1 cl2 cs where
    1: "credentials_kept_or_made env inst cl sec cl1"
    and 2: "resources_written env inst data h cl1 cl2"
    and 3: "cl' = cl2(inst_key inst \<mapsto> ObjInstance (with_conditions (set_url (service_url inst) inst) cs))"
      "ready_in env cs \<longleftrightarrow> available cl (nn_of (inst_meta inst))"
    unfolding instance_step_def by blast
  note frame1 = credentials_kept(1) [OF 1]
  have cred1: "cl (cred_key inst) \<noteq> None \<Longrightarrow> cl1 (cred_key inst) = cl (cred_key inst)"
    "\<exists>sec. cl1 (cred_key inst) = Some sec \<and> (cl (cred_key inst) = None \<longrightarrow> (\<exists>s. sec = ObjSecret s) \<and> key_of sec = cred_key inst)"
    using credentials_kept(2-4) [OF 1] by (auto simp: own_object_def)
  have diff: "cred_key inst \<noteq> conf_key inst" by (simp add: credentialsSecret_def configSecret_def)
  from 2 have r: "\<forall>key. key \<notin> {conf_key inst, claim_key inst, serv_key inst, depl_key inst} \<longrightarrow> cl2 key = cl1 key"
    "\<exists>s. own_object inst (conf_key inst) (ObjSecret s) \<and> cl2 (conf_key inst) = Some (ObjSecret s)"
    "claim_there env inst (cl1 (claim_key inst)) (cl2 (claim_key inst))"
    "\<exists>v. own_object inst (serv_key inst) (ObjService v) \<and> cl2 (serv_key inst) = Some (ObjService v)"
    "\<exists>d. own_object inst (depl_key inst) (ObjDeployment d) \<and> cl2 (depl_key inst) = Some (ObjDeployment d) \<and>
       dep_conditions d = rollout_of cl1 (nn_of (inst_meta inst))"
    unfolding resources_written_def by blast+
  have frame2: "key \<notin> {conf_key inst, claim_key inst, serv_key inst, depl_key inst} \<Longrightarrow> cl2 key = cl1 key" for key
    using r(1) by blast
  have cred2: "cl2 (cred_key inst) = cl1 (cred_key inst)" using frame2 [of "cred_key inst"] diff by simp
  show "key \<notin> {cred_key inst, conf_key inst, claim_key inst, serv_key inst, depl_key inst, inst_key inst} \<Longrightarrow> cl' key = cl key"
    using frame1 frame2 by (simp add: 3(1))
  show "cl (cred_key inst) \<noteq> None \<Longrightarrow> cl' (cred_key inst) = cl (cred_key inst)"
    and "\<exists>sec. cl' (cred_key inst) = Some sec \<and> (cl (cred_key inst) = None \<longrightarrow> (\<exists>s. sec = ObjSecret s) \<and> key_of sec = cred_key inst)"
    using cred1 cred2 by (simp_all add: 3(1))
  show "\<exists>s. cl' (conf_key inst) = Some (ObjSecret s) \<and> own_object inst (conf_key inst) (ObjSecret s)"
    and "\<exists>v. cl' (serv_key inst) = Some (ObjService v) \<and> own_object inst (serv_key inst) (ObjService v)"
    using r(2,4) by (auto simp: 3(1))
  show "cl' (claim_key inst) \<noteq> cl (claim_key inst) \<Longrightarrow>
      \<exists>p. key_of (ObjPersistentVolumeClaim p) = claim_key inst \<and> cl' (claim_key inst) = Some (ObjPersistentVolumeClaim p)"
    and "cl (claim_key inst) \<noteq> None \<Longrightarrow> cl' (claim_key inst) = cl (claim_key inst)"
    using r(3) frame1 [of "claim_key inst"]
    by (auto simp: 3(1) claim_there_def credentialsSecret_def keysPVC_def own_object_def split: if_splits)
  show dep: "\<exists>d. cl' (depl_key inst) = Some (ObjDeployment d) \<and> own_object inst (depl_key inst) (ObjDeployment d) \<and>
      dep_conditions d = rollout_of cl (nn_of (inst_meta inst))"
  proof -
    have same: "rollout_of cl1 (nn_of (inst_meta inst)) = rollout_of cl (nn_of (inst_meta inst))"
      by (rule rollout_of_cong) (simp add: frame1)
    from r(5) obtain d where "own_object inst (depl_key inst) (ObjDeployment d)" "cl2 (depl_key inst) = Some (ObjDeployment d)"
      "dep_conditions d = rollout_of cl1 (nn_of (inst_meta inst))" by blast
    then show ?thesis by (intro exI [of _ d]) (simp add: 3(1) same)
  qed
  show "\<exists>inst'. cl' (inst_key inst) = Some (ObjInstance inst') \<and> inst_meta inst' = inst_meta inst \<and> inst_spec inst' = inst_spec inst \<and>
      (ready_in env (inst_conditions (inst_status inst')) \<longleftrightarrow> available cl (nn_of (inst_meta inst)))"
    by (rule exI [of _ "with_conditions (set_url (service_url inst) inst) cs"]) (simp add: 3)
qed

text \<open>A claim that was missing is there afterwards.\<close>

lemma instance_step_claim:
  assumes "instance_step env inst cl cl'" "cl (claim_key inst) = None" "ks_mode (inst_key_store (inst_spec inst)) = ''directory''"
  shows "\<exists>p. cl' (claim_key inst) = Some (ObjPersistentVolumeClaim p) \<and>
    own_object inst (claim_key inst) (ObjPersistentVolumeClaim p) \<and> claim_asked env inst p"
proof -
  from assms(1) obtain sec data h cl1 cl2 cs where
    1: "credentials_kept_or_made env inst cl sec cl1" "resources_written env inst data h cl1 cl2"
      "cl' = cl2(inst_key inst \<mapsto> ObjInstance (with_conditions (set_url (service_url inst) inst) cs))"
    unfolding instance_step_def by blast
  have "cl1 (claim_key inst) = None"
    using credentials_kept(1) [OF 1(1), of "claim_key inst"] assms(2) by (simp add: credentialsSecret_def keysPVC_def)
  moreover have "claim_there env inst (cl1 (claim_key inst)) (cl2 (claim_key inst))"
    using 1(2) unfolding resources_written_def by blast
  ultimately show ?thesis using assms(3) by (simp add: 1(3) claim_there_def)
qed

lemma instance_step_object:
  assumes step: "instance_step env inst cl cl'" and obj: "cl' key = Some obj"
  shows "cl key = Some obj \<or> key_of obj = key \<and> refs_of ns obj = [] \<and> id_of obj = None"
proof (cases "key \<in> {cred_key inst, conf_key inst, claim_key inst, serv_key inst, depl_key inst, inst_key inst}")
  case True
  note f = instance_step_facts [OF step]
  from True consider "key = cred_key inst" | "key = conf_key inst" | "key = claim_key inst" | "key = serv_key inst"
    | "key = depl_key inst" | "key = inst_key inst" by blast
  then show ?thesis
  proof cases
    case 1
    show ?thesis using f(2,3) obj unfolding 1 by auto
  next
    case 2
    show ?thesis using f(4) obj unfolding 2 by (auto simp: own_object_def)
  next
    case 3
    show ?thesis using f(5) obj unfolding 3 by auto
  next
    case 4
    show ?thesis using f(7) obj unfolding 4 by (auto simp: own_object_def)
  next
    case 5
    show ?thesis using f(8) obj unfolding 5 by (auto simp: own_object_def)
  next
    case 6
    show ?thesis using f(9) obj unfolding 6 by (auto simp: key_of_def)
  qed
next
  case False
  with instance_step_facts(1) [OF step this] obj show ?thesis by simp
qed

lemma instance_step_present:
  assumes step: "instance_step env inst cl cl'" and "cl key \<noteq> None"
  shows "cl' key \<noteq> None"
proof (cases "key \<in> {cred_key inst, conf_key inst, claim_key inst, serv_key inst, depl_key inst, inst_key inst}")
  case True
  note f = instance_step_facts [OF step]
  have "cl' (claim_key inst) \<noteq> None" if "cl (claim_key inst) \<noteq> None" using f(6) that by simp
  with True f(3,4,7,8,9) assms(2) show ?thesis by (elim insertE emptyE; metis option.distinct(1))
next
  case False
  with instance_step_facts(1) [OF step this] assms(2) show ?thesis by simp
qed

end
