(* ===== verification/Rollout.thy ===== *)
theory Rollout
  imports Instance_Step
begin

text \<open>
  The whole operator on a cluster: all seven controllers, and the Deployment controller of Kubernetes
  that rolls out what the instance controller writes. With the step of an instance of theory
  \<^verbatim>\<open>Instance_Step\<close>, the six controllers of theory \<^verbatim>\<open>Cluster\<close> and the locale of theory
  \<^verbatim>\<open>Rounds\<close> it follows that rounds bring a new cluster to readiness, from the instance to the role
  assignments.
\<close>

section \<open>A cluster that can be operated\<close>

text \<open>
  As \<open>cluster_ok\<close>, but for the operator's credentials, which need not be there yet.
\<close>

definition kept_ok :: "'w env \<Rightarrow> objects \<Rightarrow> bool" where
  "kept_ok env cl \<longleftrightarrow>
     (\<forall>k nn obj. cl (k, nn) = Some obj \<longrightarrow>
        key_of obj = (k, nn) \<and> list_all (\<lambda>r. cl r \<noteq> None) (refs_of (nn_namespace nn) obj) \<and> id_good env obj)"

definition secret_refs :: "keyline_instance \<Rightarrow> string list" where
  "secret_refs inst =
     (case db_postgres (inst_database (inst_spec inst)) of None \<Rightarrow> [] | Some pg \<Rightarrow> [ref_name (pg_credentials_secret_ref pg)]) @
     (case ks_vault (inst_key_store (inst_spec inst)) of None \<Rightarrow> [] | Some v \<Rightarrow> [ref_name (vault_token_secret_ref v)])"

text \<open>
  An instance can be deployed: what its spec refers to is there, no Secret it refers to is one that the
  operator writes for an instance, and the names it needs are free or its own.
\<close>

definition deployable :: "objects \<Rightarrow> keyline_instance \<Rightarrow> bool" where
  "deployable cl inst \<longleftrightarrow>
     database_ready cl inst \<and> vault_ready cl inst \<and>
     (\<forall>n. n @ configSecret \<in> set (secret_refs inst) \<longrightarrow> cl (KInstance, nname (inst_namespace inst) n) = None) \<and>
     list_all (own_or_free inst cl) [conf_key inst, serv_key inst, depl_key inst]"

definition operable :: "'w env \<Rightarrow> objects \<Rightarrow> bool" where
  "operable env cl \<longleftrightarrow>
     kept_ok env cl \<and> (\<forall>nn inst. cl (KInstance, nn) = Some (ObjInstance inst) \<longrightarrow> deployable cl inst)"

lemma kept_okD:
  assumes "kept_ok env cl" "cl (k, nn) = Some obj"
  shows "key_of obj = (k, nn)" "object_kind obj = k" "nn_of (object_meta_of obj) = nn"
    "r \<in> set (refs_of (nn_namespace nn) obj) \<Longrightarrow> cl r \<noteq> None" "id_good env obj"
  using assms unfolding kept_ok_def by (auto simp: key_of_def list_all_iff)

lemma operable_instance:
  assumes "operable env cl" "cl (KInstance, nn) = Some obj"
  obtains inst where "obj = ObjInstance inst" "nn = nn_of (inst_meta inst)" "deployable cl inst"
proof -
  have k: "kept_ok env cl" using assms(1) by (simp add: operable_def)
  obtain inst where inst: "obj = ObjInstance inst"
    using kind_of_object(4) kept_okD(2) [OF k assms(2)] by blast
  with kept_okD(3) [OF k assms(2)] assms that show ?thesis by (auto simp: operable_def)
qed

text \<open>With the credentials there, it is a complete cluster.\<close>

lemma kept_cluster_ok:
  assumes "operable env cl" "\<And>nn inst. cl (KInstance, nn) = Some (ObjInstance inst) \<Longrightarrow> cl (cred_key inst) \<noteq> None"
  shows "cluster_ok env cl"
  unfolding cluster_ok_def
proof (intro allI impI)
  fix k nn obj assume obj: "cl (k, nn) = Some obj"
  have k: "kept_ok env cl" using assms(1) by (simp add: operable_def)
  note o = kept_okD [OF k obj]
  have "list_all (\<lambda>r. cl r \<noteq> None) (case obj of ObjInstance inst \<Rightarrow> [(KSecret, client_secret_name (nn_namespace nn) inst)] | _ \<Rightarrow> [])"
  proof (cases obj)
    case (ObjInstance inst)
    with o(2,3) obj assms(2) show ?thesis by (auto simp: client_secret_name_def)
  qed simp_all
  with o show "key_of obj = (k, nn) \<and> list_all (\<lambda>r. cl r \<noteq> None) (needs (nn_namespace nn) obj) \<and> id_good env obj"
    by (auto simp: needs_def list_all_iff)
qed

section \<open>Activities\<close>

text \<open>
  What happens in a cluster: the reconcile of an object; the Deployment controller of Kubernetes, which makes a
  Deployment available and changes nothing else; and anything that leaves the objects alone.
\<close>

datatype 'w happening = Reconciled kind namespaced_name | RolledOut namespaced_name "'w \<Rightarrow> 'w" | Meanwhile "'w \<Rightarrow> 'w"

fun happen :: "'w env \<Rightarrow> 'w happening \<Rightarrow> 'w \<Rightarrow> 'w" where
  "happen env (Reconciled k nn) w = perform env (Reconcile k nn) w"
| "happen env (RolledOut nn f) w = f w"
| "happen env (Meanwhile f) w = f w"

definition rolled_out :: "namespaced_name \<Rightarrow> objects \<Rightarrow> objects \<Rightarrow> bool" where
  "rolled_out nn cl cl' \<longleftrightarrow>
     (case cl (KDeployment, nn) of
        Some (ObjDeployment d) \<Rightarrow>
          (\<exists>d'. cl' = cl((KDeployment, nn) \<mapsto> ObjDeployment d') \<and> dep_meta d' = dep_meta d \<and> deployment_available d')
      | _ \<Rightarrow> cl' = cl)"

definition possible :: "('w \<Rightarrow> objects) \<Rightarrow> 'w happening \<Rightarrow> bool" where
  "possible objs h =
     (case h of
        Reconciled k nn \<Rightarrow> waited_for k
      | RolledOut nn f \<Rightarrow> \<forall>w. rolled_out nn (objs w) (objs (f w))
      | Meanwhile f \<Rightarrow> \<forall>w. objs (f w) = objs w)"

text \<open>How one of them may change the objects.\<close>

inductive change :: "'w env \<Rightarrow> objects \<Rightarrow> objects \<Rightarrow> bool" for env cl where
  unchanged: "change env cl cl"
| status_patched:
    "managed k \<Longrightarrow> cl (k, nn) = Some obj \<Longrightarrow> update_ok env obj obj' \<Longrightarrow> change env cl (cl((k, nn) \<mapsto> obj'))"
| instance_deployed: "cl (inst_key inst) = Some (ObjInstance inst) \<Longrightarrow> instance_step env inst cl cl' \<Longrightarrow> change env cl cl'"
| made_available:
    "cl (KDeployment, nn) = Some (ObjDeployment d) \<Longrightarrow> dep_meta d' = dep_meta d \<Longrightarrow> deployment_available d' \<Longrightarrow>
     change env cl (cl((KDeployment, nn) \<mapsto> ObjDeployment d'))"

lemma perform_changes:
  assumes "reliable env objs" "managed k"
  shows "case objs w (k, nn) of
      None \<Rightarrow> objs (perform env (Reconcile k nn) w) = objs w
    | Some obj \<Rightarrow> (\<exists>obj'. objs (perform env (Reconcile k nn) w) = (objs w)(key_of obj' \<mapsto> obj') \<and> update_ok env obj obj')"
proof -
  obtain out s' where run: "run_state (reconciler_for env k nn) (start w) = (out, s')"
    by (cases "run_state (reconciler_for env k nn) (start w)")
  note changes = virtual_server.changes_status [OF assms(1)] project.changes_status [OF assms(1)]
    application.changes_status [OF assms(1)] role.changes_status [OF assms(1)] user.changes_status [OF assms(1)]
    role_assignment.changes_status [OF assms(1)]
  have after: "perform env (Reconcile k nn) w = st_world s'" using run by simp
  show ?thesis
    unfolding after using assms(2) run changes [of nn w out s'] by (cases k) (simp_all add: reconciler_for_managed managed_def)
qed

lemma leads_perform:
  assumes "leads objs (reconciler_for env k nn) (objs w) (\<lambda>out cl'. P cl')"
  shows "P (objs (perform env (Reconcile k nn) w))"
proof -
  obtain out s' where "run_state (reconciler_for env k nn) (start w) = (out, s')"
    by (cases "run_state (reconciler_for env k nn) (start w)")
  with assms show ?thesis unfolding leads_def by (auto dest!: spec [of _ "start w"])
qed

lemma reconciler_for_instance: "reconciler_for env KInstance = reconcileInstance env"
  by (simp add: reconciler_for_def controllers_def)

lemma perform_instance:
  assumes "working env objs" "operable env (objs w)"
  shows "case objs w (KInstance, nn) of
      None \<Rightarrow> objs (perform env (Reconcile KInstance nn) w) = objs w
    | Some obj \<Rightarrow> (\<exists>inst. obj = ObjInstance inst \<and> nn = nn_of (inst_meta inst) \<and>
        instance_step env inst (objs w) (objs (perform env (Reconcile KInstance nn) w)))"
proof (cases "objs w (KInstance, nn)")
  case None
  have "leads objs (reconcileInstance env nn) (objs w) (\<lambda>out cl'. cl' = objs w)"
    unfolding reconcileInstance_def by (intro leads_bind leads_gets [OF assms(1)]) (auto simp: None intro: leads_return)
  then have "objs (perform env (Reconcile KInstance nn) w) = objs w"
    by (intro leads_perform [where P = "\<lambda>cl'. cl' = objs w"]) (simp add: reconciler_for_instance)
  with None show ?thesis by (simp del: perform.simps)
next
  case (Some obj)
  obtain inst where inst: "obj = ObjInstance inst" "nn = nn_of (inst_meta inst)" "deployable (objs w) inst"
    by (rule operable_instance [OF assms(2) Some])
  have "leads objs (reconcileInstance env nn) (objs w) (\<lambda>out cl'. instance_step env inst (objs w) cl')"
    by (rule reconcileInstance_leads [OF assms(1)]) (use Some inst in \<open>simp_all add: deployable_def\<close>)
  then have "instance_step env inst (objs w) (objs (perform env (Reconcile KInstance nn) w))"
    by (intro leads_perform [where P = "instance_step env inst (objs w)"]) (simp add: reconciler_for_instance)
  with Some inst show ?thesis by (simp del: perform.simps)
qed

lemma happen_changes:
  assumes w: "working env objs" and op: "operable env (objs w)" and h: "possible objs h"
  shows "change env (objs w) (objs (happen env h w))"
proof (cases h)
  case (Reconciled k nn)
  show ?thesis
  proof (cases "objs w (k, nn)")
    case None
    with h perform_changes [OF workingD(1) [OF w], of k nn w] perform_instance [OF w op, of nn]
    have "objs (happen env h w) = objs w"
      by (cases "k = KInstance") (auto simp: Reconciled possible_def waited_for_def simp del: perform.simps)
    then show ?thesis by (simp add: unchanged)
  next
    case (Some obj)
    show ?thesis
    proof (cases "k = KInstance")
      case True
      with perform_instance [OF w op, of nn] Some show ?thesis
        by (auto simp: Reconciled simp del: perform.simps intro: instance_deployed)
    next
      case False
      then have k: "managed k" using h by (simp add: Reconciled possible_def waited_for_def)
      from perform_changes [OF workingD(1) [OF w] k, of nn w] Some obtain obj' where
        o: "objs (happen env h w) = (objs w)(key_of obj' \<mapsto> obj')" "update_ok env obj obj'"
        by (auto simp: Reconciled simp del: perform.simps)
      have "kept_ok env (objs w)" using op by (simp add: operable_def)
      from kept_okD(1) [OF this Some] o(2) have "key_of obj' = (k, nn)"
        using same_spec_facts [of obj obj'] by (simp add: update_ok_def key_of_def)
      with status_patched [where cl = "objs w", OF k Some o(2)] show ?thesis by (simp add: o(1))
    qed
  qed
next
  case (RolledOut nn f)
  with h have "rolled_out nn (objs w) (objs (happen env h w))" by (simp add: possible_def)
  then show ?thesis
    by (auto simp: rolled_out_def intro: change.intros split: option.splits k8s_object.splits)
next
  case (Meanwhile f)
  with h show ?thesis by (simp add: possible_def unchanged)
qed

section \<open>What every change keeps\<close>

lemma change_present: "change env cl cl' \<Longrightarrow> cl key \<noteq> None \<Longrightarrow> cl' key \<noteq> None"
  by (erule change.cases) (auto simp: instance_step_present)

lemma same_spec_refl [simp]: "same_spec obj obj"
  by (simp add: same_spec_def)

text \<open>An object that a controller reconciles keeps its metadata and spec, and none appears.\<close>

lemma change_waited:
  assumes "change env cl cl'" "waited_for k"
  shows "case cl (k, nn) of None \<Rightarrow> cl' (k, nn) = None | Some obj \<Rightarrow> (\<exists>obj'. cl' (k, nn) = Some obj' \<and> same_spec obj obj')"
  using assms(1)
proof cases
  case (instance_deployed inst)
  note f = instance_step_facts [OF instance_deployed(2)]
  show ?thesis
  proof (cases "(k, nn) = inst_key inst")
    case True
    then show ?thesis using f(9) instance_deployed(1) by auto
  next
    case False
    have "(k, nn) \<notin> {cred_key inst, conf_key inst, claim_key inst, serv_key inst, depl_key inst, inst_key inst}"
      using assms(2) False by (auto simp: waited_for_def managed_def)
    then show ?thesis using f(1) by (simp split: option.split)
  qed
next
  case (made_available nn1 d d')
  then show ?thesis using assms(2) by (auto simp: waited_for_def managed_def split: option.split)
qed (auto simp: update_ok_def split: option.split)

text \<open>A Secret changes only as the configuration of an instance.\<close>

lemma change_secret:
  assumes "change env cl cl'" "cl (KSecret, nn) \<noteq> None"
    and "\<And>inst. cl (inst_key inst) = Some (ObjInstance inst) \<Longrightarrow> (KSecret, nn) \<noteq> conf_key inst"
  shows "cl' (KSecret, nn) = cl (KSecret, nn)"
  using assms(1)
proof cases
  case (instance_deployed inst)
  note f = instance_step_facts [OF instance_deployed(2)]
  show ?thesis
  proof (cases "(KSecret, nn) = cred_key inst")
    case True
    with f(2) assms(2) show ?thesis by simp
  next
    case False
    with f(1) assms(3) [OF instance_deployed(1)] show ?thesis by simp
  qed
qed (auto simp: managed_def)

lemma own_or_free_kept: "cl' key = cl key \<Longrightarrow> own_or_free inst cl key \<Longrightarrow> own_or_free inst cl' key"
  by (simp add: own_or_free_def)

lemma own_or_free_own: "cl' key = Some obj \<Longrightarrow> own_object inst key obj \<Longrightarrow> own_or_free inst cl' key"
  by (simp add: own_or_free_def own_object_free)

lemma change_own:
  assumes ch: "change env cl cl'" and inst: "cl (inst_key inst) = Some (ObjInstance inst)"
    and key: "key \<in> {conf_key inst, serv_key inst, depl_key inst}" and own: "own_or_free inst cl key"
  shows "own_or_free inst cl' key"
  using ch
proof cases
  case unchanged
  with own show ?thesis by simp
next
  case (status_patched k nn obj obj')
  then have "(k, nn) \<noteq> key" using key by (auto simp: managed_def)
  with own status_patched(1) show ?thesis by simp
next
  case (made_available nn d d')
  with key own show ?thesis by (auto simp: own_or_free_def key_of_def)
next
  case (instance_deployed inst0)
  note f = instance_step_facts [OF instance_deployed(2)]
  show ?thesis
  proof (cases "nn_of (inst_meta inst0) = nn_of (inst_meta inst)")
    case True
    with inst instance_deployed(1) have "inst0 = inst" by simp
    with f(4,7,8) key show ?thesis by (auto intro: own_or_free_own)
  next
    case False
    then have "key \<notin> {cred_key inst0, conf_key inst0, claim_key inst0, serv_key inst0, depl_key inst0, inst_key inst0}"
      using key last_differs by auto
    from own_or_free_kept [where cl' = cl', OF f(1) [OF this] own] show ?thesis .
  qed
qed

lemma kept_okI:
  assumes "kept_ok env cl" "\<And>key. cl key \<noteq> None \<Longrightarrow> cl' key \<noteq> None"
    and "\<And>k nn obj. cl' (k, nn) = Some obj \<Longrightarrow> cl (k, nn) = Some obj \<or>
      key_of obj = (k, nn) \<and> (\<forall>r \<in> set (refs_of (nn_namespace nn) obj). cl r \<noteq> None) \<and> id_good env obj"
  shows "kept_ok env cl'"
  unfolding kept_ok_def
proof (intro allI impI)
  fix k nn obj assume "cl' (k, nn) = Some obj"
  from assms(3) [OF this] have "key_of obj = (k, nn) \<and> (\<forall>r \<in> set (refs_of (nn_namespace nn) obj). cl r \<noteq> None) \<and> id_good env obj"
    using kept_okD [OF assms(1), of k nn obj] by blast
  with assms(2) show "key_of obj = (k, nn) \<and> list_all (\<lambda>r. cl' r \<noteq> None) (refs_of (nn_namespace nn) obj) \<and> id_good env obj"
    by (auto simp: list_all_iff)
qed

lemma same_spec_refs: "same_spec obj obj' \<Longrightarrow> refs_of ns obj' = refs_of ns obj"
  using same_spec_facts(3) [of obj obj' ns] by (cases obj; cases obj') (auto simp: needs_def)

lemma change_kept_ok:
  assumes ch: "change env cl cl'" and ok: "kept_ok env cl" and l: "uuid_ok (lib env)"
  shows "kept_ok env cl'"
  using ch
proof cases
  case unchanged
  with ok show ?thesis by simp
next
  case (status_patched k nn obj obj')
  have s: "same_spec obj obj'" using status_patched(4) by (simp add: update_ok_def)
  have "key_of obj' = (k, nn)" "\<forall>r \<in> set (refs_of (nn_namespace nn) obj'). cl r \<noteq> None" "id_good env obj'"
    using kept_okD [OF ok status_patched(3)] same_spec_facts(1,2) [OF s] id_good_update(1) [OF l status_patched(4)]
    by (auto simp: key_of_def same_spec_refs [OF s])
  then show ?thesis
    unfolding status_patched(1) by (intro kept_okI [OF ok]) (auto split: if_splits)
next
  case (made_available nn d d')
  have "key_of (ObjDeployment d') = (KDeployment, nn)"
    using kept_okD(3) [OF ok made_available(2)] made_available(3) by (simp add: key_of_def)
  then show ?thesis
    unfolding made_available(1) by (intro kept_okI [OF ok]) (auto simp: id_good_def split: if_splits)
next
  case (instance_deployed inst)
  show ?thesis
  proof (rule kept_okI [OF ok instance_step_present [OF instance_deployed(2)]])
    fix k nn obj assume "cl' (k, nn) = Some obj"
    from instance_step_object [OF instance_deployed(2) this, of "nn_namespace nn"]
    show "cl (k, nn) = Some obj \<or>
        key_of obj = (k, nn) \<and> (\<forall>r \<in> set (refs_of (nn_namespace nn) obj). cl r \<noteq> None) \<and> id_good env obj"
      by (auto simp: id_good_def)
  qed
qed

lemma deployable_cong:
  assumes meta: "inst_meta inst' = inst_meta inst" and spec: "inst_spec inst' = inst_spec inst"
  shows "deployable cl inst' = deployable cl inst"
proof -
  have own: "own_or_free inst' = own_or_free inst"
    unfolding fun_eq_iff own_or_free_def no_other_controller_def meta by simp
  show ?thesis
    unfolding deployable_def database_ready_def vault_ready_def secret_refs_def meta spec own ..
qed

lemma secret_has_kept:
  assumes "secret_has cl ns name ks" "cl (KSecret, nname ns name) \<noteq> None \<Longrightarrow> cl' (KSecret, nname ns name) = cl (KSecret, nname ns name)"
  shows "secret_has cl' ns name ks"
  using assms by (auto simp: secret_has_def split: option.splits)

lemma change_operable:
  assumes ch: "change env cl cl'" and op: "operable env cl" and l: "uuid_ok (lib env)"
  shows "operable env cl'"
  unfolding operable_def
proof (intro conjI allI impI)
  have ok: "kept_ok env cl" using op by (simp add: operable_def)
  show "kept_ok env cl'" by (rule change_kept_ok [OF ch ok l])
  fix nn inst' assume inst': "cl' (KInstance, nn) = Some (ObjInstance inst')"
  have "waited_for KInstance" by (simp add: waited_for_def)
  from change_waited [OF ch this, of nn] inst' obtain obj where obj: "cl (KInstance, nn) = Some obj" "same_spec obj (ObjInstance inst')"
    by (auto split: option.splits)
  from operable_instance [OF op obj(1)] obtain inst where
    inst: "obj = ObjInstance inst" "nn = nn_of (inst_meta inst)" and dep: "deployable cl inst" by blast
  have same: "inst_meta inst' = inst_meta inst" "inst_spec inst' = inst_spec inst" using obj(2) inst(1) by simp_all
  have key: "cl (inst_key inst) = Some (ObjInstance inst)" using obj(1) inst by simp
  have kept: "secret_has cl' (inst_namespace inst) name ks"
    if "secret_has cl (inst_namespace inst) name ks" "name \<in> set (secret_refs inst)" for name ks
  proof (rule secret_has_kept [OF that(1)])
    assume there: "cl (KSecret, nname (inst_namespace inst) name) \<noteq> None"
    show "cl' (KSecret, nname (inst_namespace inst) name) = cl (KSecret, nname (inst_namespace inst) name)"
    proof (rule change_secret [OF ch there])
      fix inst1 assume "cl (inst_key inst1) = Some (ObjInstance inst1)"
      with dep that(2) show "(KSecret, nname (inst_namespace inst) name) \<noteq> conf_key inst1"
        by (auto simp: deployable_def)
    qed
  qed
  have "database_ready cl' inst" "vault_ready cl' inst"
    using dep kept by (auto simp: deployable_def database_ready_def vault_ready_def secret_refs_def split: option.splits)
  moreover have "cl' (KInstance, nn1) = None" if "cl (KInstance, nn1) = None" for nn1
    using change_waited [OF ch \<open>waited_for KInstance\<close>, of nn1] that by simp
  moreover have "list_all (own_or_free inst cl') [conf_key inst, serv_key inst, depl_key inst]"
    using dep change_own [OF ch key] by (simp add: deployable_def)
  ultimately have "deployable cl' inst" using dep by (auto simp: deployable_def)
  then show "deployable cl' inst'" by (simp add: deployable_cong [OF same])
qed

text \<open>An object that a controller reconciles changes in its own turn only.\<close>

lemma happen_other:
  assumes w: "working env objs" and op: "operable env (objs w)" and h: "possible objs h"
    and k: "waited_for k" and other: "h \<noteq> Reconciled k nn"
  shows "objs (happen env h w) (k, nn) = objs w (k, nn)"
proof (cases h)
  case (Reconciled k1 nn1)
  show ?thesis
  proof (cases "objs w (k1, nn1)")
    case None
    with h perform_changes [OF workingD(1) [OF w], of k1 nn1 w] perform_instance [OF w op, of nn1] show ?thesis
      by (cases "k1 = KInstance") (auto simp: Reconciled possible_def waited_for_def simp del: perform.simps)
  next
    case (Some obj)
    show ?thesis
    proof (cases "k1 = KInstance")
      case True
      with perform_instance [OF w op, of nn1] Some obtain inst where inst: "nn1 = nn_of (inst_meta inst)"
        "instance_step env inst (objs w) (objs (happen env h w))"
        by (auto simp: Reconciled simp del: perform.simps)
      have "(k, nn) \<notin> {cred_key inst, conf_key inst, claim_key inst, serv_key inst, depl_key inst, inst_key inst}"
        using k other inst(1) True by (auto simp: Reconciled waited_for_def managed_def)
      from instance_step_facts(1) [OF inst(2) this] show ?thesis .
    next
      case False
      then have m: "managed k1" using h by (simp add: Reconciled possible_def waited_for_def)
      from perform_changes [OF workingD(1) [OF w] m, of nn1 w] Some obtain obj' where
        o: "objs (happen env h w) = (objs w)(key_of obj' \<mapsto> obj')" "update_ok env obj obj'"
        by (auto simp: Reconciled simp del: perform.simps)
      have "kept_ok env (objs w)" using op by (simp add: operable_def)
      from kept_okD(1) [OF this Some] o(2) have "key_of obj' = (k1, nn1)"
        using same_spec_facts [of obj obj'] by (simp add: update_ok_def key_of_def)
      with o(1) other show ?thesis by (auto simp: Reconciled)
    qed
  qed
next
  case (RolledOut nn1 f)
  with h have "rolled_out nn1 (objs w) (objs (happen env h w))" by (simp add: possible_def)
  then show ?thesis
    using k by (auto simp: rolled_out_def waited_for_def managed_def split: option.splits k8s_object.splits)
next
  case (Meanwhile f)
  with h show ?thesis by (simp add: possible_def)
qed

text \<open>A Deployment that is available stays so.\<close>

lemma change_available:
  assumes "change env cl cl'" "cl (KDeployment, nn) = Some (ObjDeployment d)" "deployment_available d"
  shows "\<exists>d'. cl' (KDeployment, nn) = Some (ObjDeployment d') \<and> deployment_available d'"
  using assms(1)
proof cases
  case (instance_deployed inst)
  note f = instance_step_facts [OF instance_deployed(2)]
  show ?thesis
  proof (cases "nn = nn_of (inst_meta inst)")
    case True
    from f(8) obtain d' where d': "cl' (KDeployment, nn) = Some (ObjDeployment d')" "dep_conditions d' = rollout_of cl nn"
      using True by auto
    with rollout_available [OF d'(2)] assms(2,3) show ?thesis by (auto simp: available_def)
  next
    case False
    then have "(KDeployment, nn) \<notin> {cred_key inst, conf_key inst, claim_key inst, serv_key inst, depl_key inst, inst_key inst}"
      by auto
    from f(1) [OF this] assms(2,3) show ?thesis by simp
  qed
next
  case (made_available nn1 d1 d1')
  with assms show ?thesis by (cases "nn1 = nn") auto
qed (use assms in \<open>auto simp: managed_def\<close>)

section \<open>The stages of a roll-out\<close>

text \<open>
  At stage 1 an instance has its credentials and its Deployment, at stage 2 the Deployment is available, at
  stage 3 the instance is ready, and what lives inside Keyline follows at its depth.
\<close>

definition deployed :: "objects \<Rightarrow> keyline_instance \<Rightarrow> bool" where
  "deployed cl inst \<longleftrightarrow> cl (cred_key inst) \<noteq> None \<and> cl (depl_key inst) \<noteq> None"

definition stage_at :: "'w env \<Rightarrow> nat \<Rightarrow> kind \<times> namespaced_name \<Rightarrow> objects \<Rightarrow> bool" where
  "stage_at env n key cl \<longleftrightarrow>
     (case key of (k, nn) \<Rightarrow>
        (k = KInstance \<longrightarrow> (\<forall>inst. cl (k, nn) = Some (ObjInstance inst) \<longrightarrow>
           (1 \<le> n \<longrightarrow> deployed cl inst) \<and> (3 \<le> n \<longrightarrow> ready_in env (inst_conditions (inst_status inst))))) \<and>
        (k = KDeployment \<longrightarrow> 2 \<le> n \<longrightarrow> cl (KInstance, nn) \<noteq> None \<longrightarrow> available cl nn) \<and>
        (managed k \<longrightarrow> 3 + depth k \<le> n \<longrightarrow> (\<forall>obj. cl (k, nn) = Some obj \<longrightarrow> settled env obj)))"

fun turn :: "'w happening \<Rightarrow> (kind \<times> namespaced_name) option" where
  "turn (Reconciled k nn) = Some (k, nn)"
| "turn (RolledOut nn f) = Some (KDeployment, nn)"
| "turn (Meanwhile f) = None"

lemma stage_instance:
  assumes w: "working env objs" and op: "operable env (objs w)" and h: "possible objs h"
    and all: "\<And>key. stage_at env n key (objs w)" and m: "m \<le> Suc n"
    and key: "stage_at env m (KInstance, nn) (objs w) \<or> turn h = Some (KInstance, nn)"
  shows "stage_at env m (KInstance, nn) (objs (happen env h w))"
proof -
  let ?cl = "objs w" and ?cl' = "objs (happen env h w)"
  note ch = happen_changes [OF w op h]
  have wf: "waited_for KInstance" by (simp add: waited_for_def)
  have "(1 \<le> m \<longrightarrow> deployed ?cl' inst') \<and> (3 \<le> m \<longrightarrow> ready_in env (inst_conditions (inst_status inst')))"
    if inst': "?cl' (KInstance, nn) = Some (ObjInstance inst')" for inst'
  proof (cases "h = Reconciled KInstance nn")
    case True
    obtain obj where obj: "?cl (KInstance, nn) = Some obj"
      using change_waited [OF ch wf, of nn] inst' by (auto split: option.splits)
    with perform_instance [OF w op, of nn] obtain inst where inst: "obj = ObjInstance inst" "nn = nn_of (inst_meta inst)"
      "instance_step env inst ?cl ?cl'" by (auto simp: True simp del: perform.simps)
    note f = instance_step_facts [OF inst(3)]
    have same: "inst_meta inst' = inst_meta inst" using f(9) inst' inst(2) by auto
    have "deployed ?cl' inst'" using f(3,8) by (auto simp: deployed_def same)
    moreover have "ready_in env (inst_conditions (inst_status inst'))" if "3 \<le> m"
    proof -
      have "available ?cl nn" using all [of "(KDeployment, nn)"] obj that m by (simp add: stage_at_def)
      with f(9) inst' inst(2) show ?thesis by (auto simp: available_def)
    qed
    ultimately show ?thesis by blast
  next
    case False
    then have stage: "stage_at env m (KInstance, nn) ?cl" using key by (cases h) auto
    have "?cl (KInstance, nn) = Some (ObjInstance inst')" using happen_other [OF w op h wf False] inst' by simp
    with stage show ?thesis using change_present [OF ch] by (auto simp: stage_at_def deployed_def)
  qed
  then show ?thesis by (simp add: stage_at_def managed_def)
qed

lemma stage_deployment:
  assumes w: "working env objs" and op: "operable env (objs w)" and h: "possible objs h"
    and all: "\<And>key. stage_at env n key (objs w)" and m: "m \<le> Suc n"
    and key: "stage_at env m (KDeployment, nn) (objs w) \<or> turn h = Some (KDeployment, nn)"
  shows "stage_at env m (KDeployment, nn) (objs (happen env h w))"
proof -
  let ?cl = "objs w" and ?cl' = "objs (happen env h w)"
  note ch = happen_changes [OF w op h]
  have "available ?cl' nn" if m2: "2 \<le> m" and inst': "?cl' (KInstance, nn) \<noteq> None"
  proof -
    have "waited_for KInstance" by (simp add: waited_for_def)
    from change_waited [OF ch this, of nn] inst' obtain obj where obj: "?cl (KInstance, nn) = Some obj"
      by (auto split: option.splits)
    obtain inst where inst: "obj = ObjInstance inst" "nn = nn_of (inst_meta inst)"
      by (rule operable_instance [OF op obj])
    show ?thesis
    proof (cases "stage_at env m (KDeployment, nn) ?cl")
      case True
      with m2 obj have "available ?cl nn" by (simp add: stage_at_def)
      then show ?thesis using change_available [OF ch] by (auto simp: available_def)
    next
      case False
      with key h obtain f where hf: "h = RolledOut nn f" by (cases h) (auto simp: possible_def waited_for_def managed_def)
      have "deployed ?cl inst" using all [of "(KInstance, nn)"] obj inst m m2 by (simp add: stage_at_def)
      then obtain o1 where o1: "?cl (KDeployment, nn) = Some o1" using inst(2) by (auto simp: deployed_def)
      have "kept_ok env ?cl" using op by (simp add: operable_def)
      from kind_of_object(3) [OF kept_okD(2) [OF this o1]] obtain d where "o1 = ObjDeployment d" by blast
      moreover have "rolled_out nn ?cl ?cl'" using h by (simp add: hf possible_def)
      ultimately show ?thesis using o1 by (auto simp: rolled_out_def available_def)
    qed
  qed
  then show ?thesis by (simp add: stage_at_def managed_def)
qed

lemma stages_complete:
  assumes op: "operable env cl" and all: "\<And>key. stage_at env n key cl" and n: "3 + d \<le> n"
  shows "cluster_ok env cl" and "settled_upto env d cl"
proof -
  show "cluster_ok env cl"
  proof (rule kept_cluster_ok [OF op])
    fix nn inst assume "cl (KInstance, nn) = Some (ObjInstance inst)"
    with all [of "(KInstance, nn)"] n show "cl (cred_key inst) \<noteq> None" by (simp add: stage_at_def deployed_def)
  qed
  show "settled_upto env d cl"
    unfolding settled_upto_def
  proof (intro allI impI)
    fix k nn obj assume o: "cl (k, nn) = Some obj" "waited_for k" "depth k \<le> d"
    show "settled env obj"
    proof (cases "k = KInstance")
      case True
      with o(1) obtain inst where "obj = ObjInstance inst" using operable_instance [OF op] by blast
      with all [of "(KInstance, nn)"] o(1) True n show ?thesis by (simp add: stage_at_def settled_def id_parses_def)
    next
      case False
      with all [of "(k, nn)"] o n show ?thesis by (auto simp: stage_at_def waited_for_def)
    qed
  qed
qed

lemma stage_managed:
  assumes w: "working env objs" and op: "operable env (objs w)" and h: "possible objs h"
    and all: "\<And>key. stage_at env n key (objs w)" and m: "m \<le> Suc n" and k: "managed k"
    and key: "stage_at env m (k, nn) (objs w) \<or> turn h = Some (k, nn)"
  shows "stage_at env m (k, nn) (objs (happen env h w))"
proof -
  have kinds: "k \<noteq> KInstance" "k \<noteq> KDeployment" "waited_for k" "0 < depth k"
    using k by (auto simp: managed_def waited_for_def)
  have "settled env obj'" if m3: "3 + depth k \<le> m" and obj': "objs (happen env h w) (k, nn) = Some obj'" for obj'
  proof (cases "h = Reconciled k nn")
    case True
    have n: "3 + (depth k - 1) \<le> n" using m3 m kinds(4) by simp
    note cl = stages_complete [OF op all n]
    obtain obj where obj: "objs w (k, nn) = Some obj"
      using change_waited [OF happen_changes [OF w op h] kinds(3), of nn] obj' by (auto split: option.splits)
    from perform_present [OF workingD(1) [OF w] cl(1) k obj] obtain obj1 where
      "objs (perform env (Reconcile k nn) w) = (objs w)((k, nn) \<mapsto> obj1)" "settled env obj1"
      using cl(2) by metis
    with obj' show ?thesis by (simp add: True del: perform.simps)
  next
    case False
    with key kinds have "stage_at env m (k, nn) (objs w)" by (cases h) auto
    with happen_other [OF w op h kinds(3) False] obj' k m3 show ?thesis by (auto simp: stage_at_def)
  qed
  with kinds show ?thesis by (simp add: stage_at_def)
qed

lemma stage_after_happening:
  assumes "working env objs" "operable env (objs w)" "possible objs h"
    and "\<And>key. stage_at env n key (objs w)" "m \<le> Suc n" "stage_at env m key (objs w) \<or> turn h = Some key"
  shows "stage_at env m key (objs (happen env h w))"
proof -
  obtain k nn where key: "key = (k, nn)" by (cases key)
  consider "k = KInstance" | "k = KDeployment" | "managed k" | "k \<noteq> KInstance" "k \<noteq> KDeployment" "\<not> managed k" by blast
  then show ?thesis
  proof cases
    case 1
    with assms stage_instance [OF assms(1-5)] show ?thesis by (simp add: key)
  next
    case 2
    with assms stage_deployment [OF assms(1-5)] show ?thesis by (simp add: key)
  next
    case 3
    with assms stage_managed [OF assms(1-5)] show ?thesis by (simp add: key)
  next
    case 4
    then show ?thesis by (simp add: key stage_at_def)
  qed
qed

text \<open>What has a turn in a round: the objects that controllers reconcile, and the Deployment of each instance.\<close>

definition turns_due :: "objects \<Rightarrow> (kind \<times> namespaced_name) set" where
  "turns_due cl = {(k, nn). waited_for k \<and> cl (k, nn) \<noteq> None \<or> k = KDeployment \<and> cl (KInstance, nn) \<noteq> None}"

lemma turns_due_kept:
  assumes ch: "change env cl cl'"
  shows "turns_due cl' = turns_due cl"
proof -
  have eq: "cl' (k, nn) = None \<longleftrightarrow> cl (k, nn) = None" if "waited_for k" for k nn
    using change_waited [OF ch that, of nn] by (auto split: option.splits)
  have "waited_for KInstance" by (simp add: waited_for_def)
  then have "(k, nn) \<in> turns_due cl' \<longleftrightarrow> (k, nn) \<in> turns_due cl" for k nn
    using eq [of k nn] eq [of KInstance nn] unfolding turns_due_def mem_Collect_eq prod.case by argo
  then show ?thesis by auto
qed

interpretation operator: staged
  "\<lambda>e. working (fst e) (snd e)" "\<lambda>e. happen (fst e)" "\<lambda>e. possible (snd e)"
  "\<lambda>e w. operable (fst e) (snd e w)" "\<lambda>e w. turns_due (snd e w)" turn
  "\<lambda>e n key w. stage_at (fst e) n key (snd e w)"
proof unfold_locales
  fix e :: "'a env \<times> ('a \<Rightarrow> objects)" and h w
  assume hyp: "working (fst e) (snd e)" "possible (snd e) h" "operable (fst e) (snd e w)"
  note ch = happen_changes [OF hyp(1,3,2)]
  show "operable (fst e) (snd e (happen (fst e) h w)) \<and> turns_due (snd e (happen (fst e) h w)) = turns_due (snd e w)"
    using change_operable [OF ch hyp(3) reliable_libD(2) [OF workingD(1) [OF hyp(1)]]] turns_due_kept [OF ch] ..
next
  fix e :: "'a env \<times> ('a \<Rightarrow> objects)" and h w n m key
  assume hyp: "working (fst e) (snd e)" "possible (snd e) h" "operable (fst e) (snd e w)"
    "\<And>key. stage_at (fst e) n key (snd e w)" "m \<le> Suc n" and key: "stage_at (fst e) m key (snd e w)"
  show "stage_at (fst e) m key (snd e (happen (fst e) h w))"
    by (rule stage_after_happening [OF hyp(1,3,2,4,5) disjI1 [OF key]])
next
  fix e :: "'a env \<times> ('a \<Rightarrow> objects)" and h w n key
  assume hyp: "working (fst e) (snd e)" "possible (snd e) h" "operable (fst e) (snd e w)"
    "\<And>key. stage_at (fst e) n key (snd e w)" and key: "turn h = Some key"
  show "stage_at (fst e) (Suc n) key (snd e (happen (fst e) h w))"
    by (rule stage_after_happening [OF hyp(1,3,2,4) le_refl disjI2 [OF key]])
next
  fix e :: "'a env \<times> ('a \<Rightarrow> objects)" and w key n
  assume "operable (fst e) (snd e w)" "key \<notin> turns_due (snd e w)"
  then show "stage_at (fst e) n key (snd e w)"
    by (cases key) (auto simp: stage_at_def turns_due_def waited_for_def)
qed

text \<open>A full round: everything that is due has its turn.\<close>

definition full_round :: "('w \<Rightarrow> objects) \<Rightarrow> 'w \<Rightarrow> 'w happening list \<Rightarrow> bool" where
  "full_round objs w hs \<longleftrightarrow> list_all (possible objs) hs \<and> turns_due (objs w) \<subseteq> {key. Some key \<in> turn ` set hs}"

lemma rounds_operate:
  assumes "working env objs" "operable env (objs w)" "list_all (full_round objs w) rounds"
  shows "operable env (objs (fold (happen env) (concat rounds) w)) \<and>
     stage_at env (length rounds) key (objs (fold (happen env) (concat rounds) w))"
proof -
  have "list_all (operator.round_covers (env, objs) w) rounds"
    using assms(3) unfolding list_all_iff operator.round_covers_def full_round_def by simp
  moreover have "stage_at env 0 key (objs w)" for key
    by (cases key) (simp add: stage_at_def)
  ultimately show ?thesis
    using operator.rounds [of "(env, objs)" w 0 rounds key] assms(1,2) by simp
qed

section \<open>Any number of happenings\<close>

text \<open>
  What no happening disturbs: every object stays, the objects that controllers reconcile keep metadata and
  spec and none appears, and a Secret that is not the configuration of an instance keeps its contents.
\<close>

definition foreign :: "objects \<Rightarrow> namespaced_name \<Rightarrow> bool" where
  "foreign cl nn \<longleftrightarrow> (\<forall>n. nn_name nn = n @ configSecret \<longrightarrow> cl (KInstance, nname (nn_namespace nn) n) = None)"

definition undisturbed :: "objects \<Rightarrow> objects \<Rightarrow> bool" where
  "undisturbed cl cl' \<longleftrightarrow>
     (\<forall>key. cl key \<noteq> None \<longrightarrow> cl' key \<noteq> None) \<and>
     (\<forall>k nn. waited_for k \<longrightarrow> (case cl (k, nn) of None \<Rightarrow> cl' (k, nn) = None
        | Some obj \<Rightarrow> (\<exists>obj'. cl' (k, nn) = Some obj' \<and> erase_status obj' = erase_status obj))) \<and>
     (\<forall>nn. foreign cl nn \<longrightarrow> cl (KSecret, nn) \<noteq> None \<longrightarrow> cl' (KSecret, nn) = cl (KSecret, nn))"

lemma change_undisturbed:
  assumes "change env cl cl'"
  shows "undisturbed cl cl'"
proof -
  have "(KSecret, nn) \<noteq> conf_key inst" if "foreign cl nn" "cl (inst_key inst) = Some (ObjInstance inst)" for nn inst
    using that by (auto simp: foreign_def)
  with change_secret [OF assms] have "foreign cl nn \<Longrightarrow> cl (KSecret, nn) \<noteq> None \<Longrightarrow> cl' (KSecret, nn) = cl (KSecret, nn)" for nn
    by blast
  with change_present [OF assms] change_waited [OF assms] show ?thesis
    unfolding undisturbed_def same_spec_def by blast
qed

lemma undisturbed_waited:
  assumes "undisturbed cl cl'" "waited_for k"
  shows "cl (k, nn) = None \<Longrightarrow> cl' (k, nn) = None"
    and "cl (k, nn) = Some obj \<Longrightarrow> \<exists>obj'. cl' (k, nn) = Some obj' \<and> erase_status obj' = erase_status obj"
  using assms unfolding undisturbed_def by (force split: option.splits)+

lemma undisturbed_refl: "undisturbed cl cl"
  by (auto simp: undisturbed_def split: option.split)

lemma undisturbed_trans:
  assumes "undisturbed cl cl1" "undisturbed cl1 cl2"
  shows "undisturbed cl cl2"
proof -
  note one = undisturbed_waited [OF assms(1)] and two = undisturbed_waited [OF assms(2)]
  have "waited_for KInstance" by (simp add: waited_for_def)
  from one(1) [OF this] have "foreign cl1 nn" if "foreign cl nn" for nn using that by (simp add: foreign_def)
  with assms have "foreign cl nn \<Longrightarrow> cl (KSecret, nn) \<noteq> None \<Longrightarrow> cl2 (KSecret, nn) = cl (KSecret, nn)" for nn
    unfolding undisturbed_def by metis
  moreover have "case cl (k, nn) of None \<Rightarrow> cl2 (k, nn) = None
      | Some obj \<Rightarrow> (\<exists>obj'. cl2 (k, nn) = Some obj' \<and> erase_status obj' = erase_status obj)" if k: "waited_for k" for k nn
  proof (cases "cl (k, nn)")
    case None
    with one(1) [OF k] two(1) [OF k] show ?thesis by simp
  next
    case (Some obj)
    from one(2) [OF k this] obtain o1 where o1: "cl1 (k, nn) = Some o1" "erase_status o1 = erase_status obj" by blast
    with two(2) [OF k o1(1)] Some show ?thesis by auto
  qed
  moreover have "cl key \<noteq> None \<Longrightarrow> cl2 key \<noteq> None" for key using assms unfolding undisturbed_def by blast
  ultimately show ?thesis unfolding undisturbed_def by blast
qed

lemma happenings_keep:
  assumes w: "working env objs"
  shows "operable env (objs w) \<Longrightarrow> list_all (possible objs) hs \<Longrightarrow>
     operable env (objs (fold (happen env) hs w)) \<and> undisturbed (objs w) (objs (fold (happen env) hs w))"
proof (induction hs arbitrary: w)
  case Nil
  then show ?case by (simp add: undisturbed_refl)
next
  case (Cons h hs)
  then have h: "possible objs h" "list_all (possible objs) hs" by simp_all
  note ch = happen_changes [OF w Cons.prems(1) h(1)]
  note op = change_operable [OF ch Cons.prems(1) reliable_libD(2) [OF workingD(1) [OF w]]]
  from Cons.IH [OF op h(2)] undisturbed_trans [OF change_undisturbed [OF ch]] show ?case by simp
qed

end
