(* ===== verification/Whole_Operator.thy ===== *)
theory Whole_Operator
  imports Rollout
begin

text \<open>
  The theorems about the operator as a whole, from a cluster that holds nothing but what its users
  wrote, and an example cluster on which they are applied.
\<close>

section \<open>An example\<close>

text \<open>The example environment is a working one.\<close>

lemma ex_upserts_ok:
  fixes mk :: "'a \<Rightarrow> k8s_object"
  assumes sel: "\<And>x. sel (mk x) = Some x" "\<And>obj. sel obj = None \<longleftrightarrow> object_kind obj \<noteq> k"
    and mk: "\<And>x. object_kind (mk x) = k"
  shows "upserts_ok ex_objects mk (ex_create_or_update sel mk)"
  unfolding upserts_ok_def
proof (intro allI impI)
  fix x cur y and f :: "'a \<Rightarrow> goerr + 'a" and w
  assume cur: "case ex_objects w (key_of (mk x)) of None \<Rightarrow> cur = x | Some obj \<Rightarrow> obj = mk cur"
    and f: "f cur = Inr y" and key: "key_of (mk y) = key_of (mk x)"
  have "(case map_of (w_objects w) (key_of (mk x)) of None \<Rightarrow> x
      | Some obj \<Rightarrow> (case sel obj of None \<Rightarrow> x | Some z \<Rightarrow> z)) = cur"
  proof (cases "map_of (w_objects w) (key_of (mk x))")
    case None
    with cur show ?thesis by (simp add: ex_objects_def)
  next
    case (Some obj)
    show ?thesis
    proof (cases "object_kind obj = k")
      case True
      with cur Some mk have "obj = mk cur" by (simp add: ex_objects_def key_of_def)
      with Some sel(1) show ?thesis by simp
    next
      case False
      then have "sel obj = None" using sel(2) by simp
      with cur Some mk False show ?thesis by (simp add: ex_objects_def key_of_def)
    qed
  qed
  with f have "ex_create_or_update sel mk x f w = ex_store (mk y) w"
    by (simp add: ex_create_or_update_def key_of_def Let_def)
  then show "case ex_create_or_update sel mk x f w of
      (err, w') \<Rightarrow> err = None \<and> ex_objects w' = (ex_objects w)(key_of (mk x) \<mapsto> mk y)"
    using ex_store_result [of "mk y" w] key by (auto split: prod.split)
qed

lemma ex_working: "working ex_env ex_objects"
proof -
  have "upserts_ok ex_objects ObjSecret (ex_create_or_update as_secret ObjSecret)"
    by (rule ex_upserts_ok [where k = KSecret]) (simp_all add: ex_as_None)
  moreover have "upserts_ok ex_objects ObjService (ex_create_or_update as_service ObjService)"
    by (rule ex_upserts_ok [where k = KService]) (simp_all add: ex_as_None)
  moreover have "upserts_ok ex_objects ObjDeployment (ex_create_or_update as_deployment ObjDeployment)"
    by (rule ex_upserts_ok [where k = KDeployment]) (simp_all add: ex_as_None)
  moreover have "working_lib (lib ex_env)"
    by (simp add: working_lib_def ex_env_def ex_lib_def owned_by_def no_other_controller_def)
  ultimately show ?thesis using ex_reliable by (simp add: working_def ex_env_def ex_kube_def)
qed

text \<open>
  What a user of the operator writes: an instance on a PostgreSQL database, the Secret with the database's
  credentials, and one object of each other kind. Nothing has a status.
\<close>

definition new_instance :: keyline_instance where
  "new_instance = ex_instance
     \<lparr>inst_meta := (ex_meta ''kl'')\<lparr>om_uid := ''uid-1''\<rparr>,
      inst_spec := (inst_spec ex_instance)\<lparr>inst_database := \<lparr>db_mode = ''postgres'',
        db_postgres = Some \<lparr>pg_host = ''db'', pg_port = 5432, pg_database = ''keyline'', pg_ssl_mode = ''require'',
          pg_credentials_secret_ref = \<lparr>ref_name = ''db-login''\<rparr>\<rparr>\<rparr>\<rparr>,
      inst_status := \<lparr>inst_url = [], inst_conditions = []\<rparr>\<rparr>"

definition db_login :: secret where
  "db_login = \<lparr>sec_meta = ex_meta ''db-login'', sec_data = [(''username'', ''keyline''), (''password'', ''hunter2'')]\<rparr>"

definition new_cluster :: world where
  "new_cluster = ex_world\<lparr>w_objects := map ex_object
     [ObjInstance new_instance, ObjVirtualServer (ex_virtual_server\<lparr>vs_status := \<lparr>vs_conditions = []\<rparr>\<rparr>),
      ObjProject (ex_project\<lparr>proj_status := \<lparr>proj_conditions = []\<rparr>\<rparr>), ObjRole ex_role,
      ObjApplication ex_application_object, ObjUser ex_user, ObjRoleAssignment ex_role_assignment,
      ObjSecret db_login]\<rparr>"

lemma new_cluster_check:
  "list_all (\<lambda>((k, nn), obj). key_of obj = (k, nn) \<and>
      list_all (\<lambda>r. ex_objects new_cluster r \<noteq> None) (refs_of (nn_namespace nn) obj) \<and> id_good ex_env obj)
    (w_objects new_cluster)"
  by code_simp

lemma new_cluster_instance:
  "ex_objects new_cluster (KInstance, nn) = (if nn = nname ''ns'' ''kl'' then Some (ObjInstance new_instance) else None)"
  by (simp add: ex_objects_def new_cluster_def ex_object_def new_instance_def ex_meta_def new_meta_def)

lemma new_cluster_resources:
  "list_all (own_or_free new_instance (ex_objects new_cluster))
     [conf_key new_instance, serv_key new_instance, depl_key new_instance]"
  by code_simp

lemma new_cluster_database: "database_ready (ex_objects new_cluster) new_instance"
  by code_simp

lemma new_cluster_operable: "operable ex_env (ex_objects new_cluster)"
proof -
  have "kept_ok ex_env (ex_objects new_cluster)"
    unfolding kept_ok_def
    using new_cluster_check by (auto simp: list_all_iff dest!: ex_objects_member)
  moreover have "deployable (ex_objects new_cluster) new_instance"
  proof -
    have "vault_ready (ex_objects new_cluster) new_instance"
      by (simp add: vault_ready_def new_instance_def ex_instance_def)
    moreover have "ex_objects new_cluster (KInstance, nname (inst_namespace new_instance) n) = None"
      if "n @ configSecret \<in> set (secret_refs new_instance)" for n
    proof -
      have "n @ configSecret = ''db-login''"
        using that by (simp add: secret_refs_def new_instance_def ex_instance_def)
      with not_configuration [of "''db-login''" n] show ?thesis by simp
    qed
    ultimately show ?thesis using new_cluster_resources new_cluster_database by (simp add: deployable_def)
  qed
  ultimately show ?thesis by (simp add: operable_def new_cluster_instance)
qed

text \<open>The Deployment controller of the example, and a round in the least favourable order.\<close>

definition ex_roll_out :: "namespaced_name \<Rightarrow> world \<Rightarrow> world" where
  "ex_roll_out nn w =
     (case ex_objects w (KDeployment, nn) of
        Some (ObjDeployment d) \<Rightarrow>
          w\<lparr>w_objects := AList.update (KDeployment, nn)
              (ObjDeployment (d\<lparr>dep_conditions := [\<lparr>dc_type = ''Available'', dc_status = ConditionTrue\<rparr>]\<rparr>)) (w_objects w)\<rparr>
      | _ \<Rightarrow> w)"

lemma ex_roll_out_possible: "possible ex_objects (RolledOut nn (ex_roll_out nn))"
proof -
  have "rolled_out nn (ex_objects w) (ex_objects (ex_roll_out nn w))" for w
  proof (cases "\<exists>d. ex_objects w (KDeployment, nn) = Some (ObjDeployment d)")
    case True
    then obtain d where d: "ex_objects w (KDeployment, nn) = Some (ObjDeployment d)" by blast
    let ?d = "d\<lparr>dep_conditions := [\<lparr>dc_type = ''Available'', dc_status = ConditionTrue\<rparr>]\<rparr>"
    have "ex_objects (ex_roll_out nn w) = (ex_objects w)((KDeployment, nn) \<mapsto> ObjDeployment ?d)"
      unfolding ex_roll_out_def d option.case k8s_object.case by (auto simp: ex_objects_def fun_eq_iff update_conv')
    then show ?thesis unfolding rolled_out_def d option.case k8s_object.case
      by (intro exI [of _ ?d]) (simp add: deployment_available_def)
  next
    case False
    then have "ex_roll_out nn w = w" by (auto simp: ex_roll_out_def split: option.split k8s_object.split)
    with False show ?thesis by (auto simp: rolled_out_def split: option.split k8s_object.split)
  qed
  then show ?thesis by (simp add: possible_def)
qed

definition operator_round :: "world happening list" where
  "operator_round =
     [Reconciled KRoleAssignment (nname ''ns'' ''ra''), Reconciled KApplication (nname ''ns'' ''a''),
      Reconciled KRole (nname ''ns'' ''r''), Reconciled KUser (nname ''ns'' ''u''),
      Reconciled KProject (nname ''ns'' ''p''), Reconciled KVirtualServer (nname ''ns'' ''vs''),
      RolledOut (nname ''ns'' ''kl'') (ex_roll_out (nname ''ns'' ''kl'')),
      Reconciled KInstance (nname ''ns'' ''kl'')]"

lemma operator_round_possible: "list_all (possible ex_objects) operator_round"
  using ex_roll_out_possible by (simp add: operator_round_def) (simp add: possible_def waited_for_def managed_def)

lemma operator_round_full: "full_round ex_objects new_cluster operator_round"
proof -
  let ?keys = "[(KRoleAssignment, nname ''ns'' ''ra''), (KApplication, nname ''ns'' ''a''), (KRole, nname ''ns'' ''r''),
     (KUser, nname ''ns'' ''u''), (KProject, nname ''ns'' ''p''), (KVirtualServer, nname ''ns'' ''vs''),
     (KDeployment, nname ''ns'' ''kl''), (KInstance, nname ''ns'' ''kl'')]"
  have c: "list_all (\<lambda>((k, nn), obj). waited_for k \<longrightarrow> (k, nn) \<in> set ?keys) (w_objects new_cluster)" by code_simp
  have "key \<in> set ?keys" if due: "key \<in> turns_due (ex_objects new_cluster)" for key
  proof (cases "fst key = KDeployment")
    case True
    with due show ?thesis
      by (cases key) (auto simp: turns_due_def waited_for_def managed_def new_cluster_instance split: if_splits)
  next
    case False
    with due obtain obj where "(key, obj) \<in> set (w_objects new_cluster)" "waited_for (fst key)"
      by (auto simp: turns_due_def dest: ex_objects_member)
    with bspec [OF c [unfolded list_all_iff], of "(key, obj)"] show ?thesis by (simp only: prod.case_eq_if fst_conv snd_conv prod.collapse)
  qed
  then have sub: "turns_due (ex_objects new_cluster) \<subseteq> set ?keys" by (rule subsetI)
  have turns: "map turn operator_round = map Some ?keys" by (simp add: operator_round_def)
  have "set ?keys \<subseteq> {key. Some key \<in> turn ` set operator_round}"
    unfolding set_map [symmetric] turns unfolding set_map by (intro subsetI CollectI imageI)
  from subset_trans [OF sub this] operator_round_possible show ?thesis by (simp only: full_round_def)
qed

lemma new_credentials:
  "ex_objects (fold (happen ex_env) operator_round new_cluster) (cred_key new_instance) \<noteq> None"
proof -
  let ?cl = "ex_objects (fold (happen ex_env) operator_round new_cluster)"
  have rounds: "list_all (full_round ex_objects new_cluster) [operator_round]" using operator_round_full by simp
  note after = rounds_operate [OF ex_working new_cluster_operable rounds, of "(KInstance, nname ''ns'' ''kl'')"]
  have stage: "stage_at ex_env 1 (KInstance, nname ''ns'' ''kl'') ?cl" using after by simp
  from happenings_keep [OF ex_working new_cluster_operable operator_round_possible] have "undisturbed (ex_objects new_cluster) ?cl" ..
  from undisturbed_waited(2) [OF this, of KInstance "nname ''ns'' ''kl''" "ObjInstance new_instance"] obtain obj' where
    obj': "?cl (KInstance, nname ''ns'' ''kl'') = Some obj'" "same_spec (ObjInstance new_instance) obj'"
    by (auto simp: new_cluster_instance waited_for_def same_spec_def)
  from same_spec_facts(1) [OF obj'(2)] have "object_kind obj' = KInstance" by simp
  with obj'(2) obtain inst where inst: "obj' = ObjInstance inst" "inst_meta inst = inst_meta new_instance"
    using kind_of_object(4) [of obj'] by auto
  with stage obj'(1) have "deployed ?cl inst" by (simp add: stage_at_def)
  with inst(2) show ?thesis by (simp add: deployed_def)
qed

section \<open>What holds of the operator\<close>

text \<open>
  C2: the operator delivers. Start from any cluster in which the custom resources' references and the
  Secrets they name are there and no stranger holds the names the operator needs: no
  credentials, no Deployment and no status need exist. Then after seven rounds every instance, virtual server,
  project, application, role, user and role assignment is ready, with the metadata and the spec its
  user gave it, and it stays so in further rounds. In a round every custom resource is reconciled and
  Kubernetes rolls out the Deployment of each instance, at least once each, in any order and with anything
  in between that leaves the objects alone: one round to write the Deployment, one to
  roll it out, one to see it, and one for each of the four levels from virtual server to role assignment.
\<close>

theorem operator_converges:
  assumes "working env objs" and "operable env (objs w)"
    and "list_all (full_round objs w) rounds" and "7 \<le> length rounds"
    and "objs w (k, nn) = Some obj" and "waited_for k"
  shows "\<exists>obj'. objs (fold (happen env) (concat rounds) w) (k, nn) = Some obj' \<and>
     erase_status obj' = erase_status obj \<and> ready_in env (conditions_of obj')"
proof -
  let ?cl = "objs (fold (happen env) (concat rounds) w)"
  note after = rounds_operate [OF assms(1-3)]
  have "list_all (possible objs) (concat rounds)"
    using assms(3) by (auto simp: full_round_def list_all_iff)
  from happenings_keep [OF assms(1,2) this] have "undisturbed (objs w) ?cl" ..
  from undisturbed_waited(2) [where cl = "objs w", OF this assms(6,5)]
  obtain obj' where obj': "?cl (k, nn) = Some obj'" "erase_status obj' = erase_status obj" by blast
  have stage: "stage_at env (length rounds) (k, nn) ?cl" using after ..
  have "ready_in env (conditions_of obj')"
  proof (cases "k = KInstance")
    case True
    with obj'(1) obtain inst where "obj' = ObjInstance inst" using operable_instance [OF conjunct1 [OF after]] by blast
    with stage True obj'(1) assms(4) show ?thesis by (simp add: stage_at_def)
  next
    case False
    with assms(6) have k: "managed k" by (simp add: waited_for_def)
    then have "3 + depth k \<le> length rounds" using assms(4) depth_le [of k] by simp
    with stage k obj'(1) show ?thesis by (simp add: stage_at_def settled_def)
  qed
  with obj' show ?thesis by blast
qed

lemma operator_converges_witness:
  "\<exists>obj'. ex_objects (fold (happen ex_env) (concat (replicate 7 operator_round)) new_cluster)
      (KInstance, nname ''ns'' ''kl'') = Some obj' \<and>
     erase_status obj' = erase_status (ObjInstance new_instance) \<and> ready_in ex_env (conditions_of obj')"
proof -
  have rounds: "list_all (full_round ex_objects new_cluster) (replicate 7 operator_round)"
    using operator_round_full by (simp add: list_all_iff)
  have obj: "ex_objects new_cluster (KInstance, nname ''ns'' ''kl'') = Some (ObjInstance new_instance)"
    by (simp add: new_cluster_instance)
  have len: "7 \<le> length (replicate 7 operator_round)" by simp
  have k: "waited_for KInstance" by (simp add: waited_for_def)
  show ?thesis by (rule operator_converges [where objs = ex_objects, OF ex_working new_cluster_operable rounds len obj k])
qed

text \<open>
  C7: one reconcile of an instance implements the abstract step \<open>instance_step\<close> on the objects of the
  cluster. A credentials Secret that is there stays as it is; otherwise one is made, owned by the instance, that
  holds the two halves of one generated key under the names from which they are read. From its public key and key
  id, and from the database login and Vault token that the Secrets of the specification hold, the configuration is
  rendered. Afterwards the configuration Secret holds exactly that configuration; where keys are
  kept in a directory the claim for them is there, of the size and class asked for if it is new and untouched if it
  is not; the Service leads to the pods by its selector, port and type; and the Deployment runs the image asked for
  on these volumes, with the hash of the configuration, rolled out as far as before. The credentials, where new, the claim, where new,
  the configuration Secret, the Service and the Deployment have the instance as their controlling owner.
  No other object changes except the instance's status, which has the URL of the Service and says ready exactly
  when the Deployment was available when the reconcile began. Assumed are an environment whose calls
  succeed, and that what the instance refers to is there and no stranger holds the names it needs (\<open>deployable\<close>).
\<close>

theorem instance_reconcile_implements_step:
  assumes "working env objs" and "objs (st_world s) (KInstance, nn) = Some (ObjInstance inst)"
    and "deployable (objs (st_world s)) inst"
    and "run_state (reconcileInstance env nn) s = (out, s')"
  shows "instance_step env inst (objs (st_world s)) (objs (st_world s'))"
proof -
  have "leads objs (reconcileInstance env nn) (objs (st_world s)) (\<lambda>out cl'. instance_step env inst (objs (st_world s)) cl')"
    by (rule reconcileInstance_leads [where cl = "objs (st_world s)", OF assms(1,2)]) (use assms(3) in \<open>simp_all add: deployable_def\<close>)
  with assms(4) show ?thesis unfolding leads_def by (auto dest!: spec [of _ s])
qed

lemma instance_reconcile_implements_step_witness:
  "let cl' = ex_objects (st_world (snd (run_state (reconcileInstance ex_env (nname ''ns'' ''kl'')) (start new_cluster))))
   in (\<exists>d. cl' (depl_key new_instance) = Some (ObjDeployment d) \<and> owned_by new_instance (dep_meta d)) \<and>
      (\<exists>p. cl' (claim_key new_instance) = Some (ObjPersistentVolumeClaim p) \<and> owned_by new_instance (pvc_meta p)) \<and>
      (\<exists>inst'. cl' (inst_key new_instance) = Some (ObjInstance inst') \<and> \<not> ready_in ex_env (inst_conditions (inst_status inst')))"
proof -
  obtain out s' where run: "run_state (reconcileInstance ex_env (nname ''ns'' ''kl'')) (start new_cluster) = (out, s')"
    by (cases "run_state (reconcileInstance ex_env (nname ''ns'' ''kl'')) (start new_cluster)")
  have inst: "ex_objects (st_world (start new_cluster)) (KInstance, nname ''ns'' ''kl'') = Some (ObjInstance new_instance)"
    by (simp add: new_cluster_instance start_def)
  have "deployable (ex_objects (st_world (start new_cluster))) new_instance"
    using new_cluster_operable by (simp add: operable_def new_cluster_instance start_def)
  from instance_reconcile_implements_step [OF ex_working inst this run]
  have step: "instance_step ex_env new_instance (ex_objects new_cluster) (ex_objects (st_world s'))" by (simp add: start_def)
  have "ex_objects new_cluster (depl_key new_instance) = None" by code_simp
  then have "\<not> available (ex_objects new_cluster) (nn_of (inst_meta new_instance))" by (simp add: available_def)
  with instance_step_facts(8,9) [OF step] have 1:
    "\<exists>d. ex_objects (st_world s') (depl_key new_instance) = Some (ObjDeployment d) \<and> owned_by new_instance (dep_meta d)"
    "\<exists>inst'. ex_objects (st_world s') (inst_key new_instance) = Some (ObjInstance inst') \<and>
      \<not> ready_in ex_env (inst_conditions (inst_status inst'))" by (auto simp: own_object_def)
  have new: "ex_objects new_cluster (claim_key new_instance) = None"
    "ks_mode (inst_key_store (inst_spec new_instance)) = ''directory''" by code_simp+
  have 2: "\<exists>p. ex_objects (st_world s') (claim_key new_instance) = Some (ObjPersistentVolumeClaim p) \<and>
      owned_by new_instance (pvc_meta p)"
    using instance_step_claim [OF step new] by (auto simp: own_object_def)
  show ?thesis unfolding run Let_def snd_conv using 1 2 by blast
qed

text \<open>
  C6: the operator does no harm. Whatever is reconciled and rolled out, in whatever order and how often: no object
  disappears, no custom resource appears or loses its metadata or spec, and every Secret keeps its contents
  unless it is the configuration that the operator itself writes for an instance. That covers
  the users' Secrets and the operator's own credentials, whose key pair is thus generated once: a Keyline that
  trusts the first public key is never locked out. The cluster stays one that can be operated.
\<close>

theorem operator_undisturbing:
  assumes "working env objs" and "operable env (objs w)" and "list_all (possible objs) hs"
  shows "operable env (objs (fold (happen env) hs w)) \<and> undisturbed (objs w) (objs (fold (happen env) hs w))"
  using assms by (rule happenings_keep)

lemma operator_undisturbing_witness:
  "ex_objects (fold (happen ex_env) operator_round new_cluster) (KSecret, nname ''ns'' ''db-login'') = Some (ObjSecret db_login) \<and>
   ex_objects (fold (happen ex_env) (operator_round @ operator_round) new_cluster) (cred_key new_instance) =
   ex_objects (fold (happen ex_env) operator_round new_cluster) (cred_key new_instance)"
proof -
  let ?w = "fold (happen ex_env) operator_round new_cluster"
  note once = operator_undisturbing [OF ex_working new_cluster_operable operator_round_possible]
  note again = operator_undisturbing [OF ex_working conjunct1 [OF once] operator_round_possible]
  have db: "ex_objects new_cluster (KSecret, nname ''ns'' ''db-login'') = Some (ObjSecret db_login)" by code_simp
  have "foreign (ex_objects new_cluster) (nname ''ns'' ''db-login'')"
    using not_configuration [of "''db-login''"] by (simp add: foreign_def)
  with once db have 1: "ex_objects ?w (KSecret, nname ''ns'' ''db-login'') = Some (ObjSecret db_login)"
    unfolding undisturbed_def by auto
  have c: "ex_objects ?w (cred_key new_instance) \<noteq> None" by (rule new_credentials)
  have "foreign (ex_objects ?w) (credentials_secret_name new_instance)"
    using last_differs [THEN not_sym] by (simp add: foreign_def)
  with again c have 2: "ex_objects (fold (happen ex_env) operator_round ?w) (cred_key new_instance) = ex_objects ?w (cred_key new_instance)"
    unfolding undisturbed_def by blast
  show ?thesis using 1 2 by simp
qed

end
