(* ===== verification/Go_Memory.thy ===== *)
theory Go_Memory
  imports Main "HOL-Library.Sublist"
begin

text \<open>
  The part of Go's memory the operator's own code depends on: variables that are allocated,
  pointers to them, slices that share a backing array, maps, and structs copied by value. The
  memory is the list of what was allocated, so an address is an index and allocation appends.
\<close>

section \<open>Memory and slices\<close>

type_synonym 'a memory = "'a list list"

text \<open>The header of a slice: its array, where it starts in it, its length and its capacity.\<close>

record slice =
  sl_array :: nat
  sl_off :: nat
  sl_len :: nat
  sl_cap :: nat

definition slice_ok :: "'a memory \<Rightarrow> slice \<Rightarrow> bool" where
  "slice_ok h s \<longleftrightarrow> sl_array s < length h \<and> sl_len s \<le> sl_cap s \<and>
     sl_off s + sl_cap s \<le> length (h ! sl_array s)"

definition slice_items :: "'a memory \<Rightarrow> slice \<Rightarrow> 'a list" where
  "slice_items h s = take (sl_len s) (drop (sl_off s) (h ! sl_array s))"

definition alloc :: "'a list \<Rightarrow> 'a memory \<Rightarrow> nat \<times> 'a memory" where
  "alloc c h = (length h, h @ [c])"

definition store_at :: "nat \<Rightarrow> nat \<Rightarrow> 'a \<Rightarrow> 'a memory \<Rightarrow> 'a memory" where
  "store_at a i x h = h[a := (h ! a)[i := x]]"

lemma length_store_at [simp]: "length (store_at a i x h) = length h"
  by (simp add: store_at_def)

lemma store_at_other: "b \<noteq> a \<Longrightarrow> store_at a i x h ! b = h ! b"
  by (simp add: store_at_def)

lemma store_at_same: "a < length h \<Longrightarrow> store_at a i x h ! a = (h ! a)[i := x]"
  by (simp add: store_at_def)

lemma prefix_memory_nth: "prefix h h' \<Longrightarrow> a < length h \<Longrightarrow> h' ! a = h ! a"
  by (auto simp: prefix_def nth_append)

lemma prefix_store_at: "prefix h h' \<Longrightarrow> length h \<le> a \<Longrightarrow> prefix h (store_at a i x h')"
  by (auto simp: prefix_def store_at_def list_update_append)

lemma prefix_alloc: "prefix h h' \<Longrightarrow> prefix h (h' @ [c])"
  by (auto simp: prefix_def)

section \<open>Values and their types\<close>

datatype prim = PString string | PBool bool | PInt int

datatype prim_type = TyString | TyBool | TyInt

fun prim_type_of :: "prim \<Rightarrow> prim_type" where
  "prim_type_of (PString s) = TyString"
| "prim_type_of (PBool b) = TyBool"
| "prim_type_of (PInt i) = TyInt"

fun zero_prim :: "prim_type \<Rightarrow> prim" where
  "zero_prim TyString = PString []"
| "zero_prim TyBool = PBool False"
| "zero_prim TyInt = PInt 0"

datatype gtype =
    TPrim prim_type
  | TPtr gtype
  | TSlice gtype
  | TMap gtype
  | TStruct "(string \<times> gtype) list"

datatype gval =
    GPrim prim
  | GPtr "nat option"
  | GSlice "slice option"
  | GMap "nat option"
  | GStruct "(string \<times> gval) list"

type_synonym gmem = "gval memory"

text \<open>
  A variable is an array of one value. A map with string keys is a variable that holds its
  entries.
\<close>

definition variable :: "gmem \<Rightarrow> nat \<Rightarrow> gval option" where
  "variable h a = (if a < length h then (case h ! a of [x] \<Rightarrow> Some x | _ \<Rightarrow> None) else None)"

definition entries :: "gmem \<Rightarrow> nat \<Rightarrow> (string \<times> gval) list option" where
  "entries h a = (case variable h a of Some (GStruct es) \<Rightarrow> Some es | _ \<Rightarrow> None)"

text \<open>The zero value of a type.\<close>

fun zero_value :: "gtype \<Rightarrow> gval" and zero_fields :: "(string \<times> gtype) list \<Rightarrow> (string \<times> gval) list" where
  "zero_value (TPrim k) = GPrim (zero_prim k)"
| "zero_value (TPtr t) = GPtr None"
| "zero_value (TSlice t) = GSlice None"
| "zero_value (TMap t) = GMap None"
| "zero_value (TStruct fs) = GStruct (zero_fields fs)"
| "zero_fields [] = []"
| "zero_fields ((n, t) # fs) = (n, zero_value t) # zero_fields fs"

section \<open>What a value denotes\<close>

text \<open>
  The value with everything it points to, as a tree: what a program can observe of it other
  than by comparing addresses. A nil slice and an empty one differ. There is none when the
  value is not of the type or points outside the memory.
\<close>

datatype tree =
    VPrim prim
  | VNil
  | VPtr tree
  | VSlice "tree list"
  | VMap "(string \<times> tree) list"
  | VStruct "(string \<times> tree) list"

fun view :: "gmem \<Rightarrow> gtype \<Rightarrow> gval \<Rightarrow> tree option"
  and view_fields :: "gmem \<Rightarrow> (string \<times> gtype) list \<Rightarrow> (string \<times> gval) list \<Rightarrow> (string \<times> tree) list option"
where
  "view h (TPrim k) v =
     (case v of GPrim p \<Rightarrow> if prim_type_of p = k then Some (VPrim p) else None | _ \<Rightarrow> None)"
| "view h (TPtr t) v =
     (case v of
        GPtr None \<Rightarrow> Some VNil
      | GPtr (Some a) \<Rightarrow>
          (case variable h a of None \<Rightarrow> None | Some x \<Rightarrow> map_option VPtr (view h t x))
      | _ \<Rightarrow> None)"
| "view h (TSlice t) v =
     (case v of
        GSlice None \<Rightarrow> Some VNil
      | GSlice (Some s) \<Rightarrow>
          (if slice_ok h s then map_option VSlice (those (map (view h t) (slice_items h s))) else None)
      | _ \<Rightarrow> None)"
| "view h (TMap t) v =
     (case v of
        GMap None \<Rightarrow> Some VNil
      | GMap (Some a) \<Rightarrow>
          (case entries h a of
             None \<Rightarrow> None
           | Some es \<Rightarrow> map_option (\<lambda>xs. VMap (zip (map fst es) xs)) (those (map (view h t) (map snd es))))
      | _ \<Rightarrow> None)"
| "view h (TStruct fs) v =
     (case v of GStruct gs \<Rightarrow> map_option VStruct (view_fields h fs gs) | _ \<Rightarrow> None)"
| "view_fields h [] gs = (if gs = [] then Some [] else None)"
| "view_fields h ((n, t) # fs) gs =
     (case gs of
        [] \<Rightarrow> None
      | (m, v) # gs' \<Rightarrow>
          (if m = n
           then (case view h t v of
                   None \<Rightarrow> None
                 | Some x \<Rightarrow> map_option (\<lambda>xs. (n, x) # xs) (view_fields h fs gs'))
           else None))"

text \<open>The addresses a value reaches.\<close>

fun reach :: "gmem \<Rightarrow> gtype \<Rightarrow> gval \<Rightarrow> nat list"
  and reach_fields :: "gmem \<Rightarrow> (string \<times> gtype) list \<Rightarrow> (string \<times> gval) list \<Rightarrow> nat list"
where
  "reach h (TPrim k) v = []"
| "reach h (TPtr t) v =
     (case v of
        GPtr (Some a) \<Rightarrow> a # (case variable h a of None \<Rightarrow> [] | Some x \<Rightarrow> reach h t x)
      | _ \<Rightarrow> [])"
| "reach h (TSlice t) v =
     (case v of
        GSlice (Some s) \<Rightarrow> sl_array s # concat (map (reach h t) (slice_items h s))
      | _ \<Rightarrow> [])"
| "reach h (TMap t) v =
     (case v of
        GMap (Some a) \<Rightarrow>
          a # (case entries h a of None \<Rightarrow> [] | Some es \<Rightarrow> concat (map (reach h t) (map snd es)))
      | _ \<Rightarrow> [])"
| "reach h (TStruct fs) v = (case v of GStruct gs \<Rightarrow> reach_fields h fs gs | _ \<Rightarrow> [])"
| "reach_fields h [] gs = []"
| "reach_fields h ((n, t) # fs) gs =
     (case gs of [] \<Rightarrow> [] | (m, v) # gs' \<Rightarrow> reach h t v @ reach_fields h fs gs')"

text \<open>A flat type has no references: copying its values copies all there is.\<close>

fun flat :: "gtype \<Rightarrow> bool" and flat_fields :: "(string \<times> gtype) list \<Rightarrow> bool" where
  "flat (TPrim k) = True"
| "flat (TPtr t) = False"
| "flat (TSlice t) = False"
| "flat (TMap t) = False"
| "flat (TStruct fs) = flat_fields fs"
| "flat_fields [] = True"
| "flat_fields ((n, t) # fs) \<longleftrightarrow> flat t \<and> flat_fields fs"

section \<open>Framing\<close>

lemma those_Some_iff: "those xs = Some ys \<longleftrightarrow> xs = map Some ys"
proof (induction xs arbitrary: ys)
  case (Cons x xs)
  then show ?case by (cases x; cases ys) auto
qed auto

lemma those_map_cong: "(\<And>x. x \<in> set xs \<Longrightarrow> f x = g x) \<Longrightarrow> those (map f xs) = those (map g xs)"
  by (simp cong: map_cong)

lemma flat_reach:
  "flat t \<Longrightarrow> reach h t v = []"
  "flat_fields fs \<Longrightarrow> reach_fields h fs gs = []"
  by (induction h t v and h fs gs rule: reach_reach_fields.induct) (auto split: gval.splits list.splits)

text \<open>Two memories agree on the addresses of a list.\<close>

definition agree_on :: "nat list \<Rightarrow> gmem \<Rightarrow> gmem \<Rightarrow> bool" where
  "agree_on as h h' \<longleftrightarrow> list_all (\<lambda>a. a < length h \<and> a < length h' \<and> h' ! a = h ! a) as"

lemma agree_on_append [simp]: "agree_on (as @ bs) h h' \<longleftrightarrow> agree_on as h h' \<and> agree_on bs h h'"
  by (simp add: agree_on_def)

lemma agree_on_Cons:
  "agree_on (a # as) h h' \<longleftrightarrow> a < length h \<and> a < length h' \<and> h' ! a = h ! a \<and> agree_on as h h'"
  by (simp add: agree_on_def)

lemma agree_on_concat: "agree_on (concat ass) h h' \<longleftrightarrow> (\<forall>as \<in> set ass. agree_on as h h')"
  by (induction ass) (auto simp: agree_on_def)

lemma agree_variable: "a < length h \<Longrightarrow> a < length h' \<Longrightarrow> h' ! a = h ! a \<Longrightarrow> variable h' a = variable h a"
  by (simp add: variable_def)

lemma variable_bound: "variable h a = Some x \<Longrightarrow> a < length h"
  by (simp add: variable_def split: if_splits)

lemma entries_variable: "entries h a = Some es \<Longrightarrow> variable h a = Some (GStruct es)"
  by (auto simp: entries_def split: option.splits gval.splits)

lemma agree_slice:
  "sl_array s < length h \<Longrightarrow> sl_array s < length h' \<Longrightarrow> h' ! sl_array s = h ! sl_array s \<Longrightarrow>
     slice_ok h' s = slice_ok h s \<and> slice_items h' s = slice_items h s"
  by (simp add: slice_ok_def slice_items_def)

lemma those_map_SomeD: "those (map f xs) = Some ys \<Longrightarrow> e \<in> set xs \<Longrightarrow> \<exists>y. f e = Some y"
  by (induction xs arbitrary: ys) (auto split: option.splits)

lemma frame_elems:
  assumes IH: "\<And>e y. e \<in> set es \<Longrightarrow> view h t e = Some y \<Longrightarrow> agree_on (reach h t e) h h' \<Longrightarrow>
      view h' t e = Some y \<and> reach h' t e = reach h t e"
    and ys: "those (map (view h t) es) = Some ys"
    and agree: "agree_on (concat (map (reach h t) es)) h h'"
  shows "those (map (view h' t) es) = Some ys \<and>
     concat (map (reach h' t) es) = concat (map (reach h t) es)"
proof -
  have "view h' t e = view h t e \<and> reach h' t e = reach h t e" if e: "e \<in> set es" for e
  proof -
    obtain y where y: "view h t e = Some y" using those_map_SomeD [OF ys e] by blast
    have "agree_on (reach h t e) h h'" using agree e by (simp add: agree_on_concat)
    from IH [OF e y this] y show ?thesis by simp
  qed
  then show ?thesis using ys by (simp cong: map_cong)
qed

lemma view_SliceE:
  assumes "view h (TSlice t) v = Some x"
  obtains "v = GSlice None" "x = VNil"
  | s ys where "v = GSlice (Some s)" "slice_ok h s" "those (map (view h t) (slice_items h s)) = Some ys" "x = VSlice ys"
  using assms by (auto split: gval.splits option.splits if_splits)

lemma view_MapE:
  assumes "view h (TMap t) v = Some x"
  obtains "v = GMap None" "x = VNil"
  | a es ys where "v = GMap (Some a)" "entries h a = Some es"
      "those (map (view h t) (map snd es)) = Some ys" "x = VMap (zip (map fst es) ys)"
  using assms by (auto split: gval.splits option.splits if_splits)

lemma view_PtrE:
  assumes "view h (TPtr t) v = Some x"
  obtains "v = GPtr None" "x = VNil"
  | a w y where "v = GPtr (Some a)" "variable h a = Some w" "view h t w = Some y" "x = VPtr y"
  using assms by (auto split: gval.splits option.splits if_splits)

lemma view_StructE:
  assumes "view h (TStruct fs) v = Some x"
  obtains gs xs where "v = GStruct gs" "view_fields h fs gs = Some xs" "x = VStruct xs"
  using assms by (auto split: gval.splits option.splits if_splits)

lemma view_fields_ConsE:
  assumes "view_fields h ((n, t) # fs) gs = Some xs"
  obtains v gs' y ys where "gs = (n, v) # gs'" "view h t v = Some y" "view_fields h fs gs' = Some ys"
    "xs = (n, y) # ys"
  using assms by (auto split: list.splits option.splits if_splits)

lemma view_frame:
  "view h t v = Some x \<Longrightarrow> agree_on (reach h t v) h h' \<Longrightarrow>
     view h' t v = Some x \<and> reach h' t v = reach h t v"
  "view_fields h fs gs = Some xs \<Longrightarrow> agree_on (reach_fields h fs gs) h h' \<Longrightarrow>
     view_fields h' fs gs = Some xs \<and> reach_fields h' fs gs = reach_fields h fs gs"
proof (induction h t v and h fs gs arbitrary: x and xs rule: view_view_fields.induct)
  case (2 h t v)
  from "2.prems"(1) show ?case
  proof (cases rule: view_PtrE)
    case (2 a w y)
    have "variable h' a = variable h a"
      using "2.prems"(2) by (simp add: agree_on_Cons agree_variable \<open>v = _\<close>)
    then show ?thesis
      using "2.IH" [OF \<open>v = _\<close> refl \<open>variable h a = _\<close> \<open>view h t w = _\<close>] "2.prems"(2) 2
      by (simp add: agree_on_Cons)
  qed simp
next
  case (3 h t v)
  from "3.prems"(1) show ?case
  proof (cases rule: view_SliceE)
    case (2 s ys)
    have a: "slice_ok h' s" "slice_items h' s = slice_items h s"
      using "3.prems"(2) agree_slice [of s h h'] 2 by (auto simp: agree_on_Cons)
    have "agree_on (concat (map (reach h t) (slice_items h s))) h h'"
      using "3.prems"(2) 2 by (simp add: agree_on_Cons)
    from frame_elems [OF "3.IH" [OF 2(1) refl 2(2)] 2(3) this] show ?thesis using 2 a by simp
  qed simp
next
  case (4 h t v)
  from "4.prems"(1) show ?case
  proof (cases rule: view_MapE)
    case (2 a es ys)
    have a: "entries h' a = entries h a"
      using "4.prems"(2) agree_variable [of a h h'] 2 by (simp add: agree_on_Cons entries_def)
    have "agree_on (concat (map (reach h t) (map snd es))) h h'"
      using "4.prems"(2) 2 by (simp add: agree_on_Cons)
    from frame_elems [OF "4.IH" [OF 2(1) refl 2(2)] 2(3) this] show ?thesis using 2 a by simp
  qed simp
next
  case (7 h n t fs gs)
  from "7.prems"(1) show ?case
  proof (cases rule: view_fields_ConsE)
    case (1 v gs' y ys)
    then show ?thesis
      using "7.IH"(1) [OF 1(1) refl refl 1(2)] "7.IH"(2) [OF 1(1) refl refl 1(2) 1(3)] "7.prems"(2) by simp
  qed
qed (auto split: gval.splits)

lemma reach_bound:
  "view h t v = Some x \<Longrightarrow> agree_on (reach h t v) h h"
  "view_fields h fs gs = Some xs \<Longrightarrow> agree_on (reach_fields h fs gs) h h"
proof (induction h t v and h fs gs arbitrary: x and xs rule: view_view_fields.induct)
  case (2 h t v)
  from "2.prems" show ?case
  proof (cases rule: view_PtrE)
    case (2 a w y)
    then show ?thesis
      using "2.IH" [OF \<open>v = _\<close> refl \<open>variable h a = _\<close> \<open>view h t w = _\<close>]
      by (simp add: agree_on_Cons variable_bound)
  qed (simp add: agree_on_def)
next
  case (3 h t v)
  from "3.prems" show ?case
  proof (cases rule: view_SliceE)
    case (2 s ys)
    have "agree_on (reach h t e) h h" if "e \<in> set (slice_items h s)" for e
      using those_map_SomeD [OF 2(3) that] "3.IH" [OF 2(1) refl 2(2) that] by blast
    with 2 show ?thesis by (simp add: agree_on_Cons agree_on_concat slice_ok_def)
  qed (simp add: agree_on_def)
next
  case (4 h t v)
  from "4.prems" show ?case
  proof (cases rule: view_MapE)
    case (2 a es ys)
    have "agree_on (reach h t e) h h" if "e \<in> set (map snd es)" for e
      using those_map_SomeD [OF 2(3) that] "4.IH" [OF 2(1) refl 2(2) that] by blast
    with 2 show ?thesis
      by (auto simp add: agree_on_Cons agree_on_concat dest!: entries_variable variable_bound)
  qed (simp add: agree_on_def)
next
  case (7 h n t fs gs)
  from "7.prems" show ?case
  proof (cases rule: view_fields_ConsE)
    case (1 v gs' y ys)
    then show ?thesis
      using "7.IH"(1) [OF 1(1) refl refl 1(2)] "7.IH"(2) [OF 1(1) refl refl 1(2) 1(3)] by simp
  qed
qed (auto split: gval.splits simp: agree_on_def)

text \<open>Allocating does not change what a value denotes, nor does a store it does not reach.\<close>

lemma view_prefix:
  assumes "view h t v = Some x" and "prefix h h'"
  shows "view h' t v = Some x" and "reach h' t v = reach h t v"
proof -
  have "length h \<le> length h'" using assms(2) by (rule prefix_length_le)
  then have "agree_on (reach h t v) h h'"
    using reach_bound(1) [OF assms(1)] prefix_memory_nth [OF assms(2)]
    by (auto simp: agree_on_def list_all_iff)
  from view_frame(1) [OF assms(1) this]
  show "view h' t v = Some x" and "reach h' t v = reach h t v" by simp_all
qed

lemma view_store_at:
  assumes "view h t v = Some x" and "a \<notin> set (reach h t v)"
  shows "view (store_at a i w h) t v = Some x" and "reach (store_at a i w h) t v = reach h t v"
proof -
  have "agree_on (reach h t v) h (store_at a i w h)"
    using reach_bound(1) [OF assms(1)] assms(2) by (auto simp: agree_on_def list_all_iff intro!: store_at_other)
  from view_frame(1) [OF assms(1) this]
  show "view (store_at a i w h) t v = Some x" and "reach (store_at a i w h) t v = reach h t v" by simp_all
qed

lemma reach_below: "view h t v = Some x \<Longrightarrow> a \<in> set (reach h t v) \<Longrightarrow> a < length h"
  using reach_bound(1) by (fastforce simp: agree_on_def list_all_iff)

end
