(* ===== verification/Deep_Copy.thy ===== *)
theory Deep_Copy
  imports Go_Memory
begin

text \<open>
  The statements controller-gen writes into a \<^verbatim>\<open>DeepCopyInto\<close>, over the memory of theory
  \<^verbatim>\<open>Go_Memory\<close>, and what a deep copy promises: the copy denotes the same value, shares no
  variable with the original, and the original is not touched.
\<close>

section \<open>Copying\<close>

text \<open>
  A copier takes the value of \<^verbatim>\<open>*in\<close> and returns the value it leaves in \<^verbatim>\<open>*out\<close>. The result is
  \<open>None\<close> where Go would panic on an invalid pointer or where the memory is not of the type.
\<close>

type_synonym copier = "gval \<Rightarrow> gmem \<Rightarrow> (gval \<times> gmem) option"

text \<open>\<^verbatim>\<open>*out = *in\<close>, and an element of \<^verbatim>\<open>copy(*out, *in)\<close>: the value itself, references shared.\<close>

definition plain_copy :: copier where
  "plain_copy v h = Some (v, h)"

text \<open>
  \<^verbatim>\<open>for i := range *in { (*in)[i].DeepCopyInto(&(*out)[i]) }\<close>, from index \<open>i\<close> with \<open>n\<close> elements
  left, the array of \<^verbatim>\<open>*out\<close> being at \<open>a\<close>.
\<close>

fun copy_range :: "copier \<Rightarrow> slice \<Rightarrow> nat \<Rightarrow> nat \<Rightarrow> nat \<Rightarrow> gmem \<Rightarrow> gmem option" where
  "copy_range f s a i 0 h = Some h"
| "copy_range f s a i (Suc n) h =
     (case f (h ! sl_array s ! (sl_off s + i)) h of
        None \<Rightarrow> None
      | Some (w, h') \<Rightarrow> copy_range f s a (Suc i) n (store_at a i w h'))"

text \<open>
  \<^verbatim>\<open>if in == nil { return nil }; out := new(T); in.DeepCopyInto(out); return out\<close>, which is also
  what happens to a pointer field.
\<close>

definition copy_pointer :: "gtype \<Rightarrow> copier \<Rightarrow> copier" where
  "copy_pointer t f v h =
     (case v of
        GPtr None \<Rightarrow> Some (GPtr None, h)
      | GPtr (Some p) \<Rightarrow>
          (case alloc [zero_value t] h of (a, h1) \<Rightarrow>
             (case variable h1 p of
                None \<Rightarrow> None
              | Some x \<Rightarrow>
                  (case f x h1 of
                     None \<Rightarrow> None
                   | Some (w, h2) \<Rightarrow> Some (GPtr (Some a), store_at a 0 w h2))))
      | _ \<Rightarrow> None)"

text \<open>\<^verbatim>\<open>x := (*in).DeepCopy(); *out = &x\<close>, for a type whose copy is returned by value.\<close>

definition copy_value_pointer :: "copier \<Rightarrow> copier" where
  "copy_value_pointer f v h =
     (case v of
        GPtr None \<Rightarrow> Some (GPtr None, h)
      | GPtr (Some p) \<Rightarrow>
          (case variable h p of
             None \<Rightarrow> None
           | Some x \<Rightarrow>
               (case f x h of
                  None \<Rightarrow> None
                | Some (w, h1) \<Rightarrow> (case alloc [w] h1 of (a, h2) \<Rightarrow> Some (GPtr (Some a), h2))))
      | _ \<Rightarrow> None)"

text \<open>\<^verbatim>\<open>if in != nil { *out = make([]T, len(*in)); ... }\<close> with the loop, or with \<^verbatim>\<open>copy\<close>.\<close>

definition copy_slice :: "gtype \<Rightarrow> copier \<Rightarrow> copier" where
  "copy_slice t f v h =
     (case v of
        GSlice None \<Rightarrow> Some (GSlice None, h)
      | GSlice (Some s) \<Rightarrow>
          (if \<not> slice_ok h s then None
           else (case alloc (replicate (sl_len s) (zero_value t)) h of (a, h1) \<Rightarrow>
             map_option (\<lambda>h2. (GSlice (Some \<lparr>sl_array = a, sl_off = 0, sl_len = sl_len s, sl_cap = sl_len s\<rparr>), h2))
               (copy_range f s a 0 (sl_len s) h1)))
      | _ \<Rightarrow> None)"

section \<open>Statements on the fields of a struct\<close>

datatype stmt =
    Assign string                      \<comment> \<open>\<open>out.F = in.F\<close>\<close>
  | Into string copier                 \<comment> \<open>\<open>in.F.DeepCopyInto(&out.F)\<close>\<close>
  | CopyPointer string gtype copier
  | CopyValuePointer string copier
  | CopySlice string gtype copier

fun stmt_field :: "stmt \<Rightarrow> string" where
  "stmt_field (Assign n) = n"
| "stmt_field (Into n f) = n"
| "stmt_field (CopyPointer n t f) = n"
| "stmt_field (CopyValuePointer n f) = n"
| "stmt_field (CopySlice n t f) = n"

fun stmt_copier :: "stmt \<Rightarrow> copier" where
  "stmt_copier (Assign n) = plain_copy"
| "stmt_copier (Into n f) = f"
| "stmt_copier (CopyPointer n t f) = copy_pointer t f"
| "stmt_copier (CopyValuePointer n f) = copy_value_pointer f"
| "stmt_copier (CopySlice n t f) = copy_slice t f"

definition set_field :: "string \<Rightarrow> gval \<Rightarrow> (string \<times> gval) list \<Rightarrow> (string \<times> gval) list" where
  "set_field n w gs = map (\<lambda>(m, v). (m, if m = n then w else v)) gs"

fun run_stmts ::
    "stmt list \<Rightarrow> (string \<times> gval) list \<Rightarrow> (string \<times> gval) list \<Rightarrow> gmem \<Rightarrow>
     ((string \<times> gval) list \<times> gmem) option" where
  "run_stmts [] ins outs h = Some (outs, h)"
| "run_stmts (st # sts) ins outs h =
     (case map_of ins (stmt_field st) of
        None \<Rightarrow> None
      | Some v \<Rightarrow>
          (case stmt_copier st v h of
             None \<Rightarrow> None
           | Some (w, h') \<Rightarrow> run_stmts sts ins (set_field (stmt_field st) w outs) h'))"

text \<open>A \<^verbatim>\<open>DeepCopyInto\<close>: \<^verbatim>\<open>*out = *in\<close> and then the statements of its body in their order.\<close>

definition copy_struct :: "stmt list \<Rightarrow> copier" where
  "copy_struct sts v h =
     (case v of
        GStruct ins \<Rightarrow> map_option (\<lambda>(outs, h'). (GStruct outs, h')) (run_stmts sts ins ins h)
      | _ \<Rightarrow> None)"

section \<open>What a deep copy promises\<close>

definition fresh_from :: "nat \<Rightarrow> nat list \<Rightarrow> bool" where
  "fresh_from b as \<longleftrightarrow> list_all (\<lambda>a. b \<le> a) as"

lemma fresh_from_simps [simp]:
  "fresh_from b []" "fresh_from b (a # as) \<longleftrightarrow> b \<le> a \<and> fresh_from b as"
  "fresh_from b (as @ bs) \<longleftrightarrow> fresh_from b as \<and> fresh_from b bs"
  by (simp_all add: fresh_from_def)

lemma fresh_from_mono: "fresh_from b as \<Longrightarrow> c \<le> b \<Longrightarrow> fresh_from c as"
  by (auto simp: fresh_from_def list_all_iff)

lemma fresh_from_notin: "fresh_from (Suc a) as \<Longrightarrow> a \<notin> set as"
  by (auto simp: fresh_from_def list_all_iff)

definition copied :: "gtype \<Rightarrow> gmem \<Rightarrow> tree \<Rightarrow> (gval \<times> gmem) option \<Rightarrow> bool" where
  "copied t h x r =
     (case r of
        None \<Rightarrow> False
      | Some (w, h') \<Rightarrow> prefix h h' \<and> view h' t w = Some x \<and> fresh_from (length h) (reach h' t w))"

definition deep_copies :: "gtype \<Rightarrow> copier \<Rightarrow> bool" where
  "deep_copies t f \<longleftrightarrow> (\<forall>v h x. view h t v = Some x \<longrightarrow> copied t h x (f v h))"

lemma deep_copiesI: "(\<And>v h x. view h t v = Some x \<Longrightarrow> copied t h x (f v h)) \<Longrightarrow> deep_copies t f"
  by (simp add: deep_copies_def)

lemma deep_copiesE:
  assumes "deep_copies t f" and "view h t v = Some x"
  obtains w h' where "f v h = Some (w, h')" "prefix h h'" "view h' t w = Some x"
    "fresh_from (length h) (reach h' t w)"
proof -
  have "copied t h x (f v h)" using assms by (simp add: deep_copies_def)
  then show thesis using that by (cases "f v h") (auto simp: copied_def)
qed

lemma deep_plain_copy: "flat t \<Longrightarrow> deep_copies t plain_copy"
  by (simp add: deep_copies_def copied_def plain_copy_def flat_reach)

lemma variable_append: "variable h p = Some x \<Longrightarrow> variable (h @ [c]) p = Some x"
  by (auto simp: variable_def nth_append split: if_splits)

lemma variable_stored: "h ! a = [z] \<Longrightarrow> a < length h \<Longrightarrow> variable (store_at a 0 w h) a = Some w"
  by (simp add: variable_def store_at_def)

lemma deep_copy_pointer:
  assumes f: "deep_copies t f"
  shows "deep_copies (TPtr t) (copy_pointer t f)"
proof (rule deep_copiesI)
  fix v h x
  assume "view h (TPtr t) v = Some x"
  then show "copied (TPtr t) h x (copy_pointer t f v h)"
  proof (cases rule: view_PtrE)
    case 1
    then show ?thesis by (simp add: copied_def copy_pointer_def)
  next
    case (2 p y z)
    define h1 where "h1 = h @ [[zero_value t]]"
    have "view h1 t y = Some z" using view_prefix(1) [OF 2(3)] by (simp add: h1_def)
    with f obtain w h2 where c: "f y h1 = Some (w, h2)" "prefix h1 h2" "view h2 t w = Some z"
      "fresh_from (length h1) (reach h2 t w)" by (rule deep_copiesE)
    have new: "length h < length h2" "h2 ! length h = [zero_value t]"
      using prefix_length_le [OF c(2)] prefix_memory_nth [OF c(2), of "length h"] by (simp_all add: h1_def)
    have "length h \<notin> set (reach h2 t w)" using c(4) by (simp add: h1_def fresh_from_notin)
    note s = view_store_at [OF c(3) this, of 0 w]
    have "prefix h h2" using c(2) unfolding h1_def by (rule append_prefixD)
    then have p: "prefix h (store_at (length h) 0 w h2)" by (simp add: prefix_store_at)
    have "variable h1 p = Some y" using 2(2) by (simp add: h1_def variable_append)
    with 2 c s p new fresh_from_mono [OF c(4), of "length h"] show ?thesis
      by (simp add: copied_def copy_pointer_def alloc_def variable_stored flip: h1_def)
        (simp add: h1_def)
  qed
qed

lemma deep_copy_value_pointer:
  assumes f: "deep_copies t f"
  shows "deep_copies (TPtr t) (copy_value_pointer f)"
proof (rule deep_copiesI)
  fix v h x
  assume "view h (TPtr t) v = Some x"
  then show "copied (TPtr t) h x (copy_value_pointer f v h)"
  proof (cases rule: view_PtrE)
    case 1
    then show ?thesis by (simp add: copied_def copy_value_pointer_def)
  next
    case (2 p y z)
    from f 2(3) obtain w h1 where c: "f y h = Some (w, h1)" "prefix h h1" "view h1 t w = Some z"
      "fresh_from (length h) (reach h1 t w)" by (rule deep_copiesE)
    have "variable (h1 @ [[w]]) (length h1) = Some w" by (simp add: variable_def)
    with 2 c view_prefix [OF c(3), of "h1 @ [[w]]"] prefix_length_le [OF c(2)] show ?thesis
      by (simp add: copied_def copy_value_pointer_def alloc_def prefix_alloc)
  qed
qed

lemma length_slice_items: "slice_ok h s \<Longrightarrow> length (slice_items h s) = sl_len s"
  by (auto simp: slice_ok_def slice_items_def)

text \<open>The loop over a slice: the elements before index \<open>i\<close> are copied, the original is as it was.\<close>

definition range_inv :: "gtype \<Rightarrow> gmem \<Rightarrow> tree list \<Rightarrow> nat \<Rightarrow> gmem \<Rightarrow> bool" where
  "range_inv t h0 ys i h \<longleftrightarrow>
     prefix h0 h \<and> length h0 < length h \<and> length (h ! length h0) = length ys \<and>
     (\<forall>j < i. view h t (h ! length h0 ! j) = Some (ys ! j) \<and>
        fresh_from (Suc (length h0)) (reach h t (h ! length h0 ! j)))"

lemma range_inv_step:
  assumes inv: "range_inv t h0 ys i h" and i: "i < length ys"
    and w: "prefix h h'" "view h' t w = Some (ys ! i)" "fresh_from (length h) (reach h' t w)"
  shows "range_inv t h0 ys (Suc i) (store_at (length h0) i w h')"
  unfolding range_inv_def
proof (intro conjI allI impI)
  let ?a = "length h0" and ?h = "store_at (length h0) i w h'"
  have a: "?a < length h" "length (h ! ?a) = length ys" "prefix h0 h" using inv by (auto simp: range_inv_def)
  have a': "?a < length h'" "h' ! ?a = h ! ?a"
    using prefix_length_le [OF w(1)] prefix_memory_nth [OF w(1) a(1)] a(1) by simp_all
  show "prefix h0 ?h" using prefix_store_at [OF prefix_order.trans [OF a(3) w(1)]] by simp
  show "length h0 < length ?h" using a' by simp
  show "length (?h ! ?a) = length ys" using a a' by (simp add: store_at_same)
  fix j assume j: "j < Suc i"
  obtain u where u: "?h ! ?a ! j = u" "view h' t u = Some (ys ! j)" "fresh_from (Suc ?a) (reach h' t u)"
  proof (cases "j = i")
    case True
    then show thesis using that [of w] w a a' i fresh_from_mono [OF w(3), of "Suc ?a"]
      by (simp add: store_at_same)
  next
    case False
    with j inv have o: "view h t (h ! ?a ! j) = Some (ys ! j)" "fresh_from (Suc ?a) (reach h t (h ! ?a ! j))"
      by (auto simp: range_inv_def)
    then show thesis using that [of "h ! ?a ! j"] False view_prefix [OF o(1) w(1)] a'
      by (simp add: store_at_same)
  qed
  from view_store_at [OF u(2) fresh_from_notin [OF u(3)], of i w] u
  show "view ?h t (?h ! ?a ! j) = Some (ys ! j)" "fresh_from (Suc ?a) (reach ?h t (?h ! ?a ! j))"
    by simp_all
qed

lemma copy_range_inv:
  assumes f: "deep_copies t f"
    and s: "slice_ok h0 s" and ys: "map (view h0 t) (slice_items h0 s) = map Some ys"
  shows "range_inv t h0 ys i h \<Longrightarrow> i + n = length ys \<Longrightarrow>
     \<exists>h'. copy_range f s (length h0) i n h = Some h' \<and> range_inv t h0 ys (length ys) h'"
proof (induction n arbitrary: i h)
  case (Suc n)
  have len: "length ys = sl_len s" using s arg_cong [OF ys, of length] by (simp add: length_slice_items)
  have p: "prefix h0 h" using Suc.prems(1) by (simp add: range_inv_def)
  have i: "i < length ys" using Suc.prems(2) by simp
  have "slice_items h0 s ! i = h ! sl_array s ! (sl_off s + i)"
    using i len s prefix_memory_nth [OF p, of "sl_array s"] by (simp add: slice_items_def slice_ok_def)
  moreover have "view h0 t (slice_items h0 s ! i) = Some (ys ! i)"
    using ys i by (metis length_map nth_map)
  ultimately have "view h t (h ! sl_array s ! (sl_off s + i)) = Some (ys ! i)"
    using view_prefix(1) [OF _ p] by simp
  with f obtain w h' where c: "f (h ! sl_array s ! (sl_off s + i)) h = Some (w, h')"
    "prefix h h'" "view h' t w = Some (ys ! i)" "fresh_from (length h) (reach h' t w)" by (rule deep_copiesE)
  from Suc.IH [OF range_inv_step [OF Suc.prems(1) i c(2-4)]] Suc.prems(2) show ?case
    by (simp add: c(1))
qed simp

lemma deep_copy_slice:
  assumes f: "deep_copies t f"
  shows "deep_copies (TSlice t) (copy_slice t f)"
proof (rule deep_copiesI)
  fix v h x
  assume "view h (TSlice t) v = Some x"
  then show "copied (TSlice t) h x (copy_slice t f v h)"
  proof (cases rule: view_SliceE)
    case 1
    then show ?thesis by (simp add: copied_def copy_slice_def)
  next
    case (2 s ys)
    have ys: "map (view h t) (slice_items h s) = map Some ys" using 2(3) by (simp add: those_Some_iff)
    have len: "length ys = sl_len s"
      using 2(2) arg_cong [OF ys, of length] by (simp add: length_slice_items)
    define h1 where "h1 = h @ [replicate (sl_len s) (zero_value t)]"
    have "range_inv t h ys 0 h1" by (simp add: range_inv_def h1_def len)
    from copy_range_inv [OF f 2(2) ys this] obtain h2 where h2: "copy_range f s (length h) 0 (length ys) h1 = Some h2"
      and inv: "range_inv t h ys (length ys) h2" by auto
    let ?s = "\<lparr>sl_array = length h, sl_off = 0, sl_len = sl_len s, sl_cap = sl_len s\<rparr>"
    have ok: "slice_ok h2 ?s" "slice_items h2 ?s = h2 ! length h" "length (h2 ! length h) = length ys"
      using inv by (simp_all add: range_inv_def slice_ok_def slice_items_def len)
    have "map (view h2 t) (h2 ! length h) = map Some ys"
      using inv by (intro nth_equalityI) (simp_all add: range_inv_def)
    moreover have "fresh_from (length h) (concat (map (reach h2 t) (h2 ! length h)))"
    proof -
      have "\<forall>e \<in> set (h2 ! length h). fresh_from (Suc (length h)) (reach h2 t e)"
        using inv by (auto simp: range_inv_def in_set_conv_nth)
      then show ?thesis by (auto simp: fresh_from_def list_all_iff dest: Suc_leD)
    qed
    ultimately show ?thesis using 2 h2 ok inv
      by (simp add: copied_def copy_slice_def alloc_def len those_Some_iff range_inv_def flip: h1_def)
  qed
qed

section \<open>Structs\<close>

lemma set_field_simps [simp]:
  "set_field n w [] = []"
  "set_field n w ((m, v) # gs) = (m, if m = n then w else v) # set_field n w gs"
  by (simp_all add: set_field_def)

lemma map_of_set_field: "map_of (set_field n w gs) m = (if m = n then map_option (\<lambda>v. w) (map_of gs n) else map_of gs m)"
  by (induction gs) auto

lemma set_field_absent: "n \<notin> fst ` set gs \<Longrightarrow> set_field n w gs = gs"
  by (induction gs) auto

lemma view_fields_names: "view_fields h fs gs = Some xs \<Longrightarrow> map fst gs = map fst fs \<and> map fst xs = map fst fs"
proof (induction fs arbitrary: gs xs)
  case (Cons f fs)
  obtain m u where f: "f = (m, u)" by (cases f)
  from Cons.prems(1) [unfolded f] show ?case
    by (cases rule: view_fields_ConsE) (use Cons.IH f in auto)
qed (auto split: if_splits)

lemma view_fields_lookup:
  "view_fields h fs gs = Some xs \<Longrightarrow> map_of fs n = Some t \<Longrightarrow>
     \<exists>v y. map_of gs n = Some v \<and> map_of xs n = Some y \<and> view h t v = Some y"
proof (induction fs arbitrary: gs xs)
  case (Cons f fs)
  obtain m u where f: "f = (m, u)" by (cases f)
  from Cons.prems(1) [unfolded f] show ?case
  proof (cases rule: view_fields_ConsE)
    case (1 v gs' y ys)
    with Cons f show ?thesis by (cases "m = n") auto
  qed
qed simp

lemma view_fields_set_field:
  "view_fields h fs gs = Some xs \<Longrightarrow> distinct (map fst fs) \<Longrightarrow> map_of fs n = Some t \<Longrightarrow>
     view h t w = map_of xs n \<Longrightarrow> view_fields h fs (set_field n w gs) = Some xs"
proof (induction fs arbitrary: gs xs)
  case (Cons f fs)
  obtain m u where f: "f = (m, u)" by (cases f)
  from Cons.prems(1) [unfolded f] show ?case
  proof (cases rule: view_fields_ConsE)
    case (1 v gs' y ys)
    show ?thesis
    proof (cases "m = n")
      case True
      then have "set_field n w gs' = gs'"
        using view_fields_names [OF 1(3)] Cons.prems(2) f by (metis fst_conv distinct.simps(2) list.set_map list.simps(9) set_field_absent)
      with True 1 Cons.prems f show ?thesis by simp
    next
      case False
      with 1 Cons f show ?thesis by auto
    qed
  qed
qed simp

lemma reach_fields_fresh:
  "view_fields h fs gs = Some xs \<Longrightarrow> distinct (map fst fs) \<Longrightarrow>
     (\<And>n t v. map_of fs n = Some t \<Longrightarrow> map_of gs n = Some v \<Longrightarrow> fresh_from b (reach h t v)) \<Longrightarrow>
     fresh_from b (reach_fields h fs gs)"
proof (induction fs arbitrary: gs xs)
  case (Cons f fs)
  obtain m u where f: "f = (m, u)" by (cases f)
  from Cons.prems(1) [unfolded f] show ?case
  proof (cases rule: view_fields_ConsE)
    case (1 v gs' y ys)
    have "fresh_from b (reach_fields h fs gs')"
    proof (rule Cons.IH [OF 1(3)])
      show "distinct (map fst fs)" using Cons.prems(2) by simp
      fix n t v' assume a: "map_of fs n = Some t" "map_of gs' n = Some v'"
      have "n \<in> fst ` set fs" using a(1) by (metis domI dom_map_of_conv_image_fst)
      then have "m \<noteq> n" using Cons.prems(2) f by auto
      then show "fresh_from b (reach h t v')" using a Cons.prems(3) [of n t v'] f 1 by simp
    qed
    with 1 f Cons.prems(3) [of m u v] show ?thesis by simp
  qed
qed simp

text \<open>Every statement copies its field deeply, for the type the field is declared with.\<close>

definition stmt_ok :: "(string \<times> gtype) list \<Rightarrow> stmt \<Rightarrow> bool" where
  "stmt_ok fs st = (case map_of fs (stmt_field st) of None \<Rightarrow> False | Some t \<Rightarrow> deep_copies t (stmt_copier st))"

text \<open>
  After some statements, \<open>out\<close> still denotes the value of \<open>in\<close>, and the fields \<open>ns\<close> they
  assigned are fresh.
\<close>

definition struct_inv ::
    "(string \<times> gtype) list \<Rightarrow> gmem \<Rightarrow> (string \<times> tree) list \<Rightarrow> string set \<Rightarrow> (string \<times> gval) list \<Rightarrow> gmem \<Rightarrow> bool" where
  "struct_inv fs h0 xs ns outs h \<longleftrightarrow>
     prefix h0 h \<and> view_fields h fs outs = Some xs \<and>
     (\<forall>n \<in> ns. \<forall>t v. map_of fs n = Some t \<longrightarrow> map_of outs n = Some v \<longrightarrow> fresh_from (length h0) (reach h t v))"

lemma view_fields_prefix:
  "view_fields h fs gs = Some xs \<Longrightarrow> prefix h h' \<Longrightarrow> view_fields h' fs gs = Some xs"
  using view_prefix(1) [of h "TStruct fs" "GStruct gs" "VStruct xs" h'] by (auto split: option.splits)

lemma struct_inv_step:
  assumes inv: "struct_inv fs h0 xs ns outs h" and d: "distinct (map fst fs)"
    and t: "map_of fs n = Some t" and w: "prefix h h'" "view h' t w = map_of xs n" "fresh_from (length h) (reach h' t w)"
  shows "struct_inv fs h0 xs (insert n ns) (set_field n w outs) h'"
  unfolding struct_inv_def
proof (intro conjI ballI allI impI)
  have i: "prefix h0 h" "view_fields h fs outs = Some xs" using inv by (simp_all add: struct_inv_def)
  show "prefix h0 h'" using i(1) w(1) by (rule prefix_order.trans)
  show "view_fields h' fs (set_field n w outs) = Some xs"
    by (rule view_fields_set_field [OF view_fields_prefix [OF i(2) w(1)] d t w(2)])
  fix m u v
  assume m: "m \<in> insert n ns" "map_of fs m = Some u" "map_of (set_field n w outs) m = Some v"
  show "fresh_from (length h0) (reach h' u v)"
  proof (cases "m = n")
    case True
    with m t have "u = t" "v = w" by (auto simp: map_of_set_field)
    with w(3) show ?thesis using prefix_length_le [OF i(1)] by (simp add: fresh_from_mono)
  next
    case False
    with m have o: "m \<in> ns" "map_of outs m = Some v" by (auto simp: map_of_set_field)
    with inv m(2) have "fresh_from (length h0) (reach h u v)" by (simp add: struct_inv_def)
    moreover obtain y where "view h u v = Some y" using view_fields_lookup [OF i(2) m(2)] o(2) by auto
    ultimately show ?thesis using view_prefix(2) [OF _ w(1)] by simp
  qed
qed

lemma run_stmts_inv:
  assumes d: "distinct (map fst fs)" and ins: "view_fields h0 fs ins = Some xs"
  shows "list_all (stmt_ok fs) sts \<Longrightarrow> struct_inv fs h0 xs ns outs h \<Longrightarrow>
     \<exists>outs' h'. run_stmts sts ins outs h = Some (outs', h') \<and>
       struct_inv fs h0 xs (ns \<union> set (map stmt_field sts)) outs' h'"
proof (induction sts arbitrary: ns outs h)
  case (Cons st sts)
  obtain t where t: "map_of fs (stmt_field st) = Some t" and f: "deep_copies t (stmt_copier st)"
    using Cons.prems(1) by (auto simp: stmt_ok_def split: option.splits)
  from view_fields_lookup [OF ins t] obtain v y where v: "map_of ins (stmt_field st) = Some v"
    "map_of xs (stmt_field st) = Some y" "view h0 t v = Some y" by blast
  have "prefix h0 h" using Cons.prems(2) by (simp add: struct_inv_def)
  with v(3) have "view h t v = Some y" by (rule view_prefix(1))
  with f obtain w h' where c: "stmt_copier st v h = Some (w, h')" "prefix h h'" "view h' t w = Some y"
    "fresh_from (length h) (reach h' t w)" by (rule deep_copiesE)
  have "struct_inv fs h0 xs (insert (stmt_field st) ns) (set_field (stmt_field st) w outs) h'"
    by (rule struct_inv_step [OF Cons.prems(2) d t c(2) _ c(4)]) (simp add: c(3) v(2))
  from Cons.IH [OF _ this] Cons.prems(1) show ?case by (simp add: v(1) c(1))
qed simp

text \<open>
  The rule for a struct: the body copies each field it names deeply, and it names every field
  that holds a reference.
\<close>

lemma deep_copy_struct:
  assumes d: "distinct (map fst fs)" and ok: "list_all (stmt_ok fs) sts"
    and all: "list_all (\<lambda>(n, t). flat t \<or> n \<in> set (map stmt_field sts)) fs"
  shows "deep_copies (TStruct fs) (copy_struct sts)"
proof (rule deep_copiesI)
  fix v h x
  assume "view h (TStruct fs) v = Some x"
  then show "copied (TStruct fs) h x (copy_struct sts v h)"
  proof (cases rule: view_StructE)
    case (1 ins xs)
    have "struct_inv fs h xs {} ins h" using 1(2) by (simp add: struct_inv_def)
    from run_stmts_inv [OF d 1(2) ok this] obtain outs h' where
      r: "run_stmts sts ins ins h = Some (outs, h')" and
      inv: "struct_inv fs h xs (set (map stmt_field sts)) outs h'" by auto
    have "fresh_from (length h) (reach_fields h' fs outs)"
    proof (rule reach_fields_fresh [OF _ d])
      show "view_fields h' fs outs = Some xs" using inv by (simp add: struct_inv_def)
      fix n t v assume a: "map_of fs n = Some t" "map_of outs n = Some v"
      then have "flat t \<or> n \<in> set (map stmt_field sts)" using all by (auto simp: list_all_iff dest: map_of_SomeD)
      then show "fresh_from (length h) (reach h' t v)" using a inv by (auto simp: flat_reach struct_inv_def)
    qed
    with 1 r inv show ?thesis by (simp add: copied_def copy_struct_def struct_inv_def)
  qed
qed

section \<open>What other code does to the memory\<close>

datatype mutation = Store nat nat gval | Allocate "gval list"

fun mutate :: "mutation \<Rightarrow> gmem \<Rightarrow> gmem" where
  "mutate (Store a i w) h = store_at a i w h"
| "mutate (Allocate c) h = h @ [c]"

fun stores_to :: "(nat \<Rightarrow> bool) \<Rightarrow> mutation \<Rightarrow> bool" where
  "stores_to P (Store a i w) = P a"
| "stores_to P (Allocate c) = True"

lemma view_mutations:
  "view h t v = Some x \<Longrightarrow> list_all (stores_to (\<lambda>a. a \<notin> set (reach h t v))) ms \<Longrightarrow>
     view (fold mutate ms h) t v = Some x"
proof (induction ms arbitrary: h)
  case (Cons m ms)
  show ?case
  proof (cases m)
    case (Store a i w)
    with Cons.prems have "a \<notin> set (reach h t v)" by simp
    note s = view_store_at [OF Cons.prems(1) this, of i w]
    with Cons.IH [OF s(1)] Cons.prems(2) show ?thesis by (simp add: Store)
  next
    case (Allocate c)
    have "prefix h (h @ [c])" by simp
    note s = view_prefix [OF Cons.prems(1) this]
    with Cons.IH [OF s(1)] Cons.prems(2) show ?thesis by (simp add: Allocate)
  qed
qed simp

lemma stores_to_mono: "list_all (stores_to P) ms \<Longrightarrow> (\<And>a. P a \<Longrightarrow> Q a) \<Longrightarrow> list_all (stores_to Q) ms"
  by (induction ms) (auto elim!: stores_to.elims)

text \<open>
  A deep copy and its original are independent: stores outside the memory the copy was made in
  do not change the copy, and stores into that memory or what was allocated later do not
  change the original.
\<close>

locale deep_copier =
  fixes ty :: "'x \<Rightarrow> gtype"
    and into :: "'x \<Rightarrow> copier"
    and ok :: "'x \<Rightarrow> bool"
  assumes deep: "ok X \<Longrightarrow> deep_copies (ty X) (into X)"
begin

lemma total: "ok X \<Longrightarrow> view h (ty X) v = Some x \<Longrightarrow> into X v h \<noteq> None"
  using deep by (metis deep_copiesE option.distinct(1))

lemma deep_pointer: "ok X \<Longrightarrow> deep_copies (TPtr (ty X)) (copy_pointer (ty X) (into X))"
  by (rule deep_copy_pointer) (rule deep)

lemma copy_unaffected:
  assumes "ok X" "view h (ty X) v = Some x" "into X v h = Some (w, h')"
    and ms: "list_all (stores_to (\<lambda>a. a < length h \<or> length h' \<le> a)) ms"
  shows "view (fold mutate ms h') (ty X) w = Some x"
proof -
  from deep [OF assms(1)] assms(2) obtain w' h'' where "into X v h = Some (w', h'')" "view h'' (ty X) w' = Some x"
    "fresh_from (length h) (reach h'' (ty X) w')" by (rule deep_copiesE)
  with assms(3) have c: "view h' (ty X) w = Some x" "fresh_from (length h) (reach h' (ty X) w)" by simp_all
  have "\<And>a. a < length h \<or> length h' \<le> a \<Longrightarrow> a \<notin> set (reach h' (ty X) w)"
    using c(2) reach_below [OF c(1)] by (fastforce simp: fresh_from_def list_all_iff)
  from view_mutations [OF c(1) stores_to_mono [OF ms this]] show ?thesis .
qed

lemma original_unaffected:
  assumes "ok X" "view h (ty X) v = Some x" "into X v h = Some (w, h')"
    and ms: "list_all (stores_to (\<lambda>a. length h \<le> a)) ms"
  shows "view (fold mutate ms h') (ty X) v = Some x"
proof -
  from deep [OF assms(1)] assms(2) obtain w' h'' where "into X v h = Some (w', h'')" "prefix h h''"
    by (rule deep_copiesE)
  with assms(3) have p: "prefix h h'" by simp
  note s = view_prefix [OF assms(2) p]
  have "\<And>a. length h \<le> a \<Longrightarrow> a \<notin> set (reach h' (ty X) v)"
    using reach_below [OF assms(2)] s(2) by (metis linorder_not_le)
  from view_mutations [OF s(1) stores_to_mono [OF ms this]] show ?thesis .
qed

end

end
