(* ===== verification/V1alpha1_DeepCopy.thy ===== *)
theory V1alpha1_DeepCopy
  imports Deep_Copy
begin

text \<open>
  \<^verbatim>\<open>api/v1alpha1/zz_generated.deepcopy.go\<close>: for each struct of the API its type as the Go source
  declares it, its \<^verbatim>\<open>DeepCopyInto\<close> statement by statement, its \<^verbatim>\<open>DeepCopy\<close> and, for the
  objects and lists, its \<^verbatim>\<open>DeepCopyObject\<close>; and that each is a deep copy of that type. The
  status patcher's base is such a copy.
\<close>

named_theorems deep_rules \<open>copiers that copy deeply\<close>

declare deep_plain_copy [deep_rules] deep_copy_pointer [deep_rules] deep_copy_value_pointer [deep_rules]
  deep_copy_slice [deep_rules] stmt_ok_def [deep_rules]

section \<open>What the generated code imports\<close>

text \<open>
  The types of the Kubernetes libraries that the structs embed, and their copiers. Of the two that
  are assigned, \<^verbatim>\<open>TypeMeta\<close> and \<^verbatim>\<open>LocalObjectReference\<close>, the code relies on having no references;
  of the others, on their \<^verbatim>\<open>DeepCopyInto\<close> being deep.
\<close>

record go_imports =
  im_TypeMeta :: gtype
  im_LocalObjectReference :: gtype
  im_ObjectMeta :: gtype
  im_ListMeta :: gtype
  im_Condition :: gtype
  im_ResourceRequirements :: gtype
  im_Quantity :: gtype
  im_ObjectMeta_DeepCopyInto :: copier
  im_ListMeta_DeepCopyInto :: copier
  im_Condition_DeepCopyInto :: copier
  im_ResourceRequirements_DeepCopyInto :: copier
  im_Quantity_DeepCopyInto :: copier

definition imports_ok :: "go_imports \<Rightarrow> bool" where
  "imports_ok X \<longleftrightarrow>
     flat (im_TypeMeta X) \<and> flat (im_LocalObjectReference X) \<and>
     deep_copies (im_ObjectMeta X) (im_ObjectMeta_DeepCopyInto X) \<and>
     deep_copies (im_ListMeta X) (im_ListMeta_DeepCopyInto X) \<and>
     deep_copies (im_Condition X) (im_Condition_DeepCopyInto X) \<and>
     deep_copies (im_ResourceRequirements X) (im_ResourceRequirements_DeepCopyInto X) \<and>
     deep_copies (im_Quantity X) (im_Quantity_DeepCopyInto X)"

lemma imports_deep [deep_rules]:
  assumes "imports_ok X"
  shows "flat (im_TypeMeta X)" "flat (im_LocalObjectReference X)"
    "deep_copies (im_ObjectMeta X) (im_ObjectMeta_DeepCopyInto X)"
    "deep_copies (im_ListMeta X) (im_ListMeta_DeepCopyInto X)"
    "deep_copies (im_Condition X) (im_Condition_DeepCopyInto X)"
    "deep_copies (im_ResourceRequirements X) (im_ResourceRequirements_DeepCopyInto X)"
    "deep_copies (im_Quantity X) (im_Quantity_DeepCopyInto X)"
  using assms by (simp_all add: imports_ok_def)

text \<open>
  A \<^verbatim>\<open>runtime.Object\<close> is a nil interface or one that holds a pointer to a struct of a known type.
  \<^verbatim>\<open>DeepCopyObject\<close> tests the pointer, so that it never wraps a nil pointer.
\<close>

datatype iface = NilInterface | Interface string gval

type_synonym object_copier = "gval \<Rightarrow> gmem \<Rightarrow> (iface \<times> gmem) option"

definition copy_object :: "string \<Rightarrow> copier \<Rightarrow> object_copier" where
  "copy_object name copy p h =
     (case copy p h of
        None \<Rightarrow> None
      | Some (c, h') \<Rightarrow> Some (if c \<noteq> GPtr None then Interface name c else NilInterface, h'))"

section \<open>keylineuser\_types.go\<close>

definition T_ServiceUserPublicKey :: "go_imports \<Rightarrow> gtype" where
  "T_ServiceUserPublicKey X = TStruct [
     (''Kid'', TPrim TyString), (''PublicKeyPEM'', TPrim TyString)]"

definition ServiceUserPublicKey_DeepCopyInto :: "go_imports \<Rightarrow> copier" where
  "ServiceUserPublicKey_DeepCopyInto X = copy_struct []"

definition ServiceUserPublicKey_DeepCopy :: "go_imports \<Rightarrow> copier" where
  "ServiceUserPublicKey_DeepCopy X =
     copy_pointer (T_ServiceUserPublicKey X) (ServiceUserPublicKey_DeepCopyInto X)"

lemma flat_ServiceUserPublicKey [deep_rules]: "imports_ok X \<Longrightarrow> flat (T_ServiceUserPublicKey X)"
  by (simp add: T_ServiceUserPublicKey_def imports_ok_def)

lemma deep_ServiceUserPublicKey [deep_rules]:
  "imports_ok X \<Longrightarrow> deep_copies (T_ServiceUserPublicKey X) (ServiceUserPublicKey_DeepCopyInto X)"
  unfolding T_ServiceUserPublicKey_def ServiceUserPublicKey_DeepCopyInto_def
  by (rule deep_copy_struct) (simp_all add: deep_rules)

section \<open>keylineinstance\_types.go\<close>

definition T_KeylineInstancePostgresSpec :: "go_imports \<Rightarrow> gtype" where
  "T_KeylineInstancePostgresSpec X = TStruct [
     (''Host'', TPrim TyString), (''Port'', TPrim TyInt), (''Database'', TPrim TyString),
     (''SslMode'', TPrim TyString), (''CredentialsSecretRef'', im_LocalObjectReference X)]"

definition KeylineInstancePostgresSpec_DeepCopyInto :: "go_imports \<Rightarrow> copier" where
  "KeylineInstancePostgresSpec_DeepCopyInto X = copy_struct [
     Assign ''CredentialsSecretRef'']"

definition KeylineInstancePostgresSpec_DeepCopy :: "go_imports \<Rightarrow> copier" where
  "KeylineInstancePostgresSpec_DeepCopy X =
     copy_pointer (T_KeylineInstancePostgresSpec X) (KeylineInstancePostgresSpec_DeepCopyInto X)"

lemma flat_KeylineInstancePostgresSpec [deep_rules]: "imports_ok X \<Longrightarrow> flat (T_KeylineInstancePostgresSpec X)"
  by (simp add: T_KeylineInstancePostgresSpec_def imports_ok_def)

lemma deep_KeylineInstancePostgresSpec [deep_rules]:
  "imports_ok X \<Longrightarrow> deep_copies (T_KeylineInstancePostgresSpec X) (KeylineInstancePostgresSpec_DeepCopyInto X)"
  unfolding T_KeylineInstancePostgresSpec_def KeylineInstancePostgresSpec_DeepCopyInto_def
  by (rule deep_copy_struct) (simp_all add: deep_rules)

definition T_KeylineInstanceDatabaseSpec :: "go_imports \<Rightarrow> gtype" where
  "T_KeylineInstanceDatabaseSpec X = TStruct [
     (''Mode'', TPrim TyString), (''Postgres'', TPtr (T_KeylineInstancePostgresSpec X))]"

definition KeylineInstanceDatabaseSpec_DeepCopyInto :: "go_imports \<Rightarrow> copier" where
  "KeylineInstanceDatabaseSpec_DeepCopyInto X = copy_struct [
     CopyPointer ''Postgres'' (T_KeylineInstancePostgresSpec X) plain_copy]"

definition KeylineInstanceDatabaseSpec_DeepCopy :: "go_imports \<Rightarrow> copier" where
  "KeylineInstanceDatabaseSpec_DeepCopy X =
     copy_pointer (T_KeylineInstanceDatabaseSpec X) (KeylineInstanceDatabaseSpec_DeepCopyInto X)"

lemma deep_KeylineInstanceDatabaseSpec [deep_rules]:
  "imports_ok X \<Longrightarrow> deep_copies (T_KeylineInstanceDatabaseSpec X) (KeylineInstanceDatabaseSpec_DeepCopyInto X)"
  unfolding T_KeylineInstanceDatabaseSpec_def KeylineInstanceDatabaseSpec_DeepCopyInto_def
  by (rule deep_copy_struct) (simp_all add: deep_rules)

definition T_KeylineInstanceKeyStoreDirectorySpec :: "go_imports \<Rightarrow> gtype" where
  "T_KeylineInstanceKeyStoreDirectorySpec X = TStruct [
     (''StorageClassName'', TPtr (TPrim TyString)), (''StorageSize'', TPtr (im_Quantity X))]"

definition KeylineInstanceKeyStoreDirectorySpec_DeepCopyInto :: "go_imports \<Rightarrow> copier" where
  "KeylineInstanceKeyStoreDirectorySpec_DeepCopyInto X = copy_struct [
     CopyPointer ''StorageClassName'' (TPrim TyString) plain_copy,
     CopyValuePointer ''StorageSize'' (im_Quantity_DeepCopyInto X)]"

definition KeylineInstanceKeyStoreDirectorySpec_DeepCopy :: "go_imports \<Rightarrow> copier" where
  "KeylineInstanceKeyStoreDirectorySpec_DeepCopy X =
     copy_pointer (T_KeylineInstanceKeyStoreDirectorySpec X) (KeylineInstanceKeyStoreDirectorySpec_DeepCopyInto X)"

lemma deep_KeylineInstanceKeyStoreDirectorySpec [deep_rules]:
  "imports_ok X \<Longrightarrow> deep_copies (T_KeylineInstanceKeyStoreDirectorySpec X) (KeylineInstanceKeyStoreDirectorySpec_DeepCopyInto X)"
  unfolding T_KeylineInstanceKeyStoreDirectorySpec_def KeylineInstanceKeyStoreDirectorySpec_DeepCopyInto_def
  by (rule deep_copy_struct) (simp_all add: deep_rules)

definition T_KeylineInstanceKeyStoreVaultSpec :: "go_imports \<Rightarrow> gtype" where
  "T_KeylineInstanceKeyStoreVaultSpec X = TStruct [
     (''Address'', TPrim TyString), (''Mount'', TPrim TyString), (''Prefix'', TPrim TyString),
     (''TokenSecretRef'', im_LocalObjectReference X)]"

definition KeylineInstanceKeyStoreVaultSpec_DeepCopyInto :: "go_imports \<Rightarrow> copier" where
  "KeylineInstanceKeyStoreVaultSpec_DeepCopyInto X = copy_struct [
     Assign ''TokenSecretRef'']"

definition KeylineInstanceKeyStoreVaultSpec_DeepCopy :: "go_imports \<Rightarrow> copier" where
  "KeylineInstanceKeyStoreVaultSpec_DeepCopy X =
     copy_pointer (T_KeylineInstanceKeyStoreVaultSpec X) (KeylineInstanceKeyStoreVaultSpec_DeepCopyInto X)"

lemma flat_KeylineInstanceKeyStoreVaultSpec [deep_rules]: "imports_ok X \<Longrightarrow> flat (T_KeylineInstanceKeyStoreVaultSpec X)"
  by (simp add: T_KeylineInstanceKeyStoreVaultSpec_def imports_ok_def)

lemma deep_KeylineInstanceKeyStoreVaultSpec [deep_rules]:
  "imports_ok X \<Longrightarrow> deep_copies (T_KeylineInstanceKeyStoreVaultSpec X) (KeylineInstanceKeyStoreVaultSpec_DeepCopyInto X)"
  unfolding T_KeylineInstanceKeyStoreVaultSpec_def KeylineInstanceKeyStoreVaultSpec_DeepCopyInto_def
  by (rule deep_copy_struct) (simp_all add: deep_rules)

definition T_KeylineInstanceKeyStoreSpec :: "go_imports \<Rightarrow> gtype" where
  "T_KeylineInstanceKeyStoreSpec X = TStruct [
     (''Mode'', TPrim TyString), (''Directory'', TPtr (T_KeylineInstanceKeyStoreDirectorySpec X)),
     (''Vault'', TPtr (T_KeylineInstanceKeyStoreVaultSpec X))]"

definition KeylineInstanceKeyStoreSpec_DeepCopyInto :: "go_imports \<Rightarrow> copier" where
  "KeylineInstanceKeyStoreSpec_DeepCopyInto X = copy_struct [
     CopyPointer ''Directory'' (T_KeylineInstanceKeyStoreDirectorySpec X) (KeylineInstanceKeyStoreDirectorySpec_DeepCopyInto X),
     CopyPointer ''Vault'' (T_KeylineInstanceKeyStoreVaultSpec X) plain_copy]"

definition KeylineInstanceKeyStoreSpec_DeepCopy :: "go_imports \<Rightarrow> copier" where
  "KeylineInstanceKeyStoreSpec_DeepCopy X =
     copy_pointer (T_KeylineInstanceKeyStoreSpec X) (KeylineInstanceKeyStoreSpec_DeepCopyInto X)"

lemma deep_KeylineInstanceKeyStoreSpec [deep_rules]:
  "imports_ok X \<Longrightarrow> deep_copies (T_KeylineInstanceKeyStoreSpec X) (KeylineInstanceKeyStoreSpec_DeepCopyInto X)"
  unfolding T_KeylineInstanceKeyStoreSpec_def KeylineInstanceKeyStoreSpec_DeepCopyInto_def
  by (rule deep_copy_struct) (simp_all add: deep_rules)

definition T_KeylineInstanceSpec :: "go_imports \<Rightarrow> gtype" where
  "T_KeylineInstanceSpec X = TStruct [
     (''Image'', TPrim TyString), (''ExternalUrl'', TPrim TyString),
     (''FrontendExternalUrl'', TPrim TyString), (''VirtualServer'', TPrim TyString),
     (''Database'', T_KeylineInstanceDatabaseSpec X),
     (''KeyStore'', T_KeylineInstanceKeyStoreSpec X), (''Resources'', im_ResourceRequirements X)]"

definition KeylineInstanceSpec_DeepCopyInto :: "go_imports \<Rightarrow> copier" where
  "KeylineInstanceSpec_DeepCopyInto X = copy_struct [
     Into ''Database'' (KeylineInstanceDatabaseSpec_DeepCopyInto X),
     Into ''KeyStore'' (KeylineInstanceKeyStoreSpec_DeepCopyInto X),
     Into ''Resources'' (im_ResourceRequirements_DeepCopyInto X)]"

definition KeylineInstanceSpec_DeepCopy :: "go_imports \<Rightarrow> copier" where
  "KeylineInstanceSpec_DeepCopy X =
     copy_pointer (T_KeylineInstanceSpec X) (KeylineInstanceSpec_DeepCopyInto X)"

lemma deep_KeylineInstanceSpec [deep_rules]:
  "imports_ok X \<Longrightarrow> deep_copies (T_KeylineInstanceSpec X) (KeylineInstanceSpec_DeepCopyInto X)"
  unfolding T_KeylineInstanceSpec_def KeylineInstanceSpec_DeepCopyInto_def
  by (rule deep_copy_struct) (simp_all add: deep_rules)

definition T_KeylineInstanceStatus :: "go_imports \<Rightarrow> gtype" where
  "T_KeylineInstanceStatus X = TStruct [
     (''URL'', TPrim TyString), (''Conditions'', TSlice (im_Condition X))]"

definition KeylineInstanceStatus_DeepCopyInto :: "go_imports \<Rightarrow> copier" where
  "KeylineInstanceStatus_DeepCopyInto X = copy_struct [
     CopySlice ''Conditions'' (im_Condition X) (im_Condition_DeepCopyInto X)]"

definition KeylineInstanceStatus_DeepCopy :: "go_imports \<Rightarrow> copier" where
  "KeylineInstanceStatus_DeepCopy X =
     copy_pointer (T_KeylineInstanceStatus X) (KeylineInstanceStatus_DeepCopyInto X)"

lemma deep_KeylineInstanceStatus [deep_rules]:
  "imports_ok X \<Longrightarrow> deep_copies (T_KeylineInstanceStatus X) (KeylineInstanceStatus_DeepCopyInto X)"
  unfolding T_KeylineInstanceStatus_def KeylineInstanceStatus_DeepCopyInto_def
  by (rule deep_copy_struct) (simp_all add: deep_rules)

definition T_KeylineInstance :: "go_imports \<Rightarrow> gtype" where
  "T_KeylineInstance X = TStruct [
     (''TypeMeta'', im_TypeMeta X), (''ObjectMeta'', im_ObjectMeta X),
     (''Spec'', T_KeylineInstanceSpec X), (''Status'', T_KeylineInstanceStatus X)]"

definition KeylineInstance_DeepCopyInto :: "go_imports \<Rightarrow> copier" where
  "KeylineInstance_DeepCopyInto X = copy_struct [
     Assign ''TypeMeta'', Into ''ObjectMeta'' (im_ObjectMeta_DeepCopyInto X),
     Into ''Spec'' (KeylineInstanceSpec_DeepCopyInto X),
     Into ''Status'' (KeylineInstanceStatus_DeepCopyInto X)]"

definition KeylineInstance_DeepCopy :: "go_imports \<Rightarrow> copier" where
  "KeylineInstance_DeepCopy X =
     copy_pointer (T_KeylineInstance X) (KeylineInstance_DeepCopyInto X)"

definition KeylineInstance_DeepCopyObject :: "go_imports \<Rightarrow> object_copier" where
  "KeylineInstance_DeepCopyObject X =
     copy_object ''KeylineInstance'' (KeylineInstance_DeepCopy X)"

lemma deep_KeylineInstance [deep_rules]:
  "imports_ok X \<Longrightarrow> deep_copies (T_KeylineInstance X) (KeylineInstance_DeepCopyInto X)"
  unfolding T_KeylineInstance_def KeylineInstance_DeepCopyInto_def
  by (rule deep_copy_struct) (simp_all add: deep_rules)

definition T_KeylineInstanceList :: "go_imports \<Rightarrow> gtype" where
  "T_KeylineInstanceList X = TStruct [
     (''TypeMeta'', im_TypeMeta X), (''ListMeta'', im_ListMeta X),
     (''Items'', TSlice (T_KeylineInstance X))]"

definition KeylineInstanceList_DeepCopyInto :: "go_imports \<Rightarrow> copier" where
  "KeylineInstanceList_DeepCopyInto X = copy_struct [
     Assign ''TypeMeta'', Into ''ListMeta'' (im_ListMeta_DeepCopyInto X),
     CopySlice ''Items'' (T_KeylineInstance X) (KeylineInstance_DeepCopyInto X)]"

definition KeylineInstanceList_DeepCopy :: "go_imports \<Rightarrow> copier" where
  "KeylineInstanceList_DeepCopy X =
     copy_pointer (T_KeylineInstanceList X) (KeylineInstanceList_DeepCopyInto X)"

definition KeylineInstanceList_DeepCopyObject :: "go_imports \<Rightarrow> object_copier" where
  "KeylineInstanceList_DeepCopyObject X =
     copy_object ''KeylineInstanceList'' (KeylineInstanceList_DeepCopy X)"

lemma deep_KeylineInstanceList [deep_rules]:
  "imports_ok X \<Longrightarrow> deep_copies (T_KeylineInstanceList X) (KeylineInstanceList_DeepCopyInto X)"
  unfolding T_KeylineInstanceList_def KeylineInstanceList_DeepCopyInto_def
  by (rule deep_copy_struct) (simp_all add: deep_rules)

section \<open>keylinevirtualserver\_types.go\<close>

definition T_KeylineVirtualServerSpec :: "go_imports \<Rightarrow> gtype" where
  "T_KeylineVirtualServerSpec X = TStruct [
     (''InstanceRef'', im_LocalObjectReference X), (''Name'', TPrim TyString),
     (''DisplayName'', TPtr (TPrim TyString)), (''RegistrationEnabled'', TPtr (TPrim TyBool)),
     (''Require2FA'', TPtr (TPrim TyBool)), (''RequireEmailVerification'', TPtr (TPrim TyBool)),
     (''PrimarySigningAlgorithm'', TPtr (TPrim TyString)),
     (''AdditionalSigningAlgorithms'', TSlice (TPrim TyString))]"

definition KeylineVirtualServerSpec_DeepCopyInto :: "go_imports \<Rightarrow> copier" where
  "KeylineVirtualServerSpec_DeepCopyInto X = copy_struct [
     Assign ''InstanceRef'', CopyPointer ''DisplayName'' (TPrim TyString) plain_copy,
     CopyPointer ''RegistrationEnabled'' (TPrim TyBool) plain_copy,
     CopyPointer ''Require2FA'' (TPrim TyBool) plain_copy,
     CopyPointer ''RequireEmailVerification'' (TPrim TyBool) plain_copy,
     CopyPointer ''PrimarySigningAlgorithm'' (TPrim TyString) plain_copy,
     CopySlice ''AdditionalSigningAlgorithms'' (TPrim TyString) plain_copy]"

definition KeylineVirtualServerSpec_DeepCopy :: "go_imports \<Rightarrow> copier" where
  "KeylineVirtualServerSpec_DeepCopy X =
     copy_pointer (T_KeylineVirtualServerSpec X) (KeylineVirtualServerSpec_DeepCopyInto X)"

lemma deep_KeylineVirtualServerSpec [deep_rules]:
  "imports_ok X \<Longrightarrow> deep_copies (T_KeylineVirtualServerSpec X) (KeylineVirtualServerSpec_DeepCopyInto X)"
  unfolding T_KeylineVirtualServerSpec_def KeylineVirtualServerSpec_DeepCopyInto_def
  by (rule deep_copy_struct) (simp_all add: deep_rules)

definition T_KeylineVirtualServerStatus :: "go_imports \<Rightarrow> gtype" where
  "T_KeylineVirtualServerStatus X = TStruct [
     (''Conditions'', TSlice (im_Condition X))]"

definition KeylineVirtualServerStatus_DeepCopyInto :: "go_imports \<Rightarrow> copier" where
  "KeylineVirtualServerStatus_DeepCopyInto X = copy_struct [
     CopySlice ''Conditions'' (im_Condition X) (im_Condition_DeepCopyInto X)]"

definition KeylineVirtualServerStatus_DeepCopy :: "go_imports \<Rightarrow> copier" where
  "KeylineVirtualServerStatus_DeepCopy X =
     copy_pointer (T_KeylineVirtualServerStatus X) (KeylineVirtualServerStatus_DeepCopyInto X)"

lemma deep_KeylineVirtualServerStatus [deep_rules]:
  "imports_ok X \<Longrightarrow> deep_copies (T_KeylineVirtualServerStatus X) (KeylineVirtualServerStatus_DeepCopyInto X)"
  unfolding T_KeylineVirtualServerStatus_def KeylineVirtualServerStatus_DeepCopyInto_def
  by (rule deep_copy_struct) (simp_all add: deep_rules)

definition T_KeylineVirtualServer :: "go_imports \<Rightarrow> gtype" where
  "T_KeylineVirtualServer X = TStruct [
     (''TypeMeta'', im_TypeMeta X), (''ObjectMeta'', im_ObjectMeta X),
     (''Spec'', T_KeylineVirtualServerSpec X), (''Status'', T_KeylineVirtualServerStatus X)]"

definition KeylineVirtualServer_DeepCopyInto :: "go_imports \<Rightarrow> copier" where
  "KeylineVirtualServer_DeepCopyInto X = copy_struct [
     Assign ''TypeMeta'', Into ''ObjectMeta'' (im_ObjectMeta_DeepCopyInto X),
     Into ''Spec'' (KeylineVirtualServerSpec_DeepCopyInto X),
     Into ''Status'' (KeylineVirtualServerStatus_DeepCopyInto X)]"

definition KeylineVirtualServer_DeepCopy :: "go_imports \<Rightarrow> copier" where
  "KeylineVirtualServer_DeepCopy X =
     copy_pointer (T_KeylineVirtualServer X) (KeylineVirtualServer_DeepCopyInto X)"

definition KeylineVirtualServer_DeepCopyObject :: "go_imports \<Rightarrow> object_copier" where
  "KeylineVirtualServer_DeepCopyObject X =
     copy_object ''KeylineVirtualServer'' (KeylineVirtualServer_DeepCopy X)"

lemma deep_KeylineVirtualServer [deep_rules]:
  "imports_ok X \<Longrightarrow> deep_copies (T_KeylineVirtualServer X) (KeylineVirtualServer_DeepCopyInto X)"
  unfolding T_KeylineVirtualServer_def KeylineVirtualServer_DeepCopyInto_def
  by (rule deep_copy_struct) (simp_all add: deep_rules)

definition T_KeylineVirtualServerList :: "go_imports \<Rightarrow> gtype" where
  "T_KeylineVirtualServerList X = TStruct [
     (''TypeMeta'', im_TypeMeta X), (''ListMeta'', im_ListMeta X),
     (''Items'', TSlice (T_KeylineVirtualServer X))]"

definition KeylineVirtualServerList_DeepCopyInto :: "go_imports \<Rightarrow> copier" where
  "KeylineVirtualServerList_DeepCopyInto X = copy_struct [
     Assign ''TypeMeta'', Into ''ListMeta'' (im_ListMeta_DeepCopyInto X),
     CopySlice ''Items'' (T_KeylineVirtualServer X) (KeylineVirtualServer_DeepCopyInto X)]"

definition KeylineVirtualServerList_DeepCopy :: "go_imports \<Rightarrow> copier" where
  "KeylineVirtualServerList_DeepCopy X =
     copy_pointer (T_KeylineVirtualServerList X) (KeylineVirtualServerList_DeepCopyInto X)"

definition KeylineVirtualServerList_DeepCopyObject :: "go_imports \<Rightarrow> object_copier" where
  "KeylineVirtualServerList_DeepCopyObject X =
     copy_object ''KeylineVirtualServerList'' (KeylineVirtualServerList_DeepCopy X)"

lemma deep_KeylineVirtualServerList [deep_rules]:
  "imports_ok X \<Longrightarrow> deep_copies (T_KeylineVirtualServerList X) (KeylineVirtualServerList_DeepCopyInto X)"
  unfolding T_KeylineVirtualServerList_def KeylineVirtualServerList_DeepCopyInto_def
  by (rule deep_copy_struct) (simp_all add: deep_rules)

section \<open>keylineproject\_types.go\<close>

definition T_KeylineProjectSpec :: "go_imports \<Rightarrow> gtype" where
  "T_KeylineProjectSpec X = TStruct [
     (''VirtualServerRef'', im_LocalObjectReference X), (''Slug'', TPrim TyString),
     (''Name'', TPrim TyString), (''Description'', TPtr (TPrim TyString))]"

definition KeylineProjectSpec_DeepCopyInto :: "go_imports \<Rightarrow> copier" where
  "KeylineProjectSpec_DeepCopyInto X = copy_struct [
     Assign ''VirtualServerRef'', CopyPointer ''Description'' (TPrim TyString) plain_copy]"

definition KeylineProjectSpec_DeepCopy :: "go_imports \<Rightarrow> copier" where
  "KeylineProjectSpec_DeepCopy X =
     copy_pointer (T_KeylineProjectSpec X) (KeylineProjectSpec_DeepCopyInto X)"

lemma deep_KeylineProjectSpec [deep_rules]:
  "imports_ok X \<Longrightarrow> deep_copies (T_KeylineProjectSpec X) (KeylineProjectSpec_DeepCopyInto X)"
  unfolding T_KeylineProjectSpec_def KeylineProjectSpec_DeepCopyInto_def
  by (rule deep_copy_struct) (simp_all add: deep_rules)

definition T_KeylineProjectStatus :: "go_imports \<Rightarrow> gtype" where
  "T_KeylineProjectStatus X = TStruct [
     (''Conditions'', TSlice (im_Condition X))]"

definition KeylineProjectStatus_DeepCopyInto :: "go_imports \<Rightarrow> copier" where
  "KeylineProjectStatus_DeepCopyInto X = copy_struct [
     CopySlice ''Conditions'' (im_Condition X) (im_Condition_DeepCopyInto X)]"

definition KeylineProjectStatus_DeepCopy :: "go_imports \<Rightarrow> copier" where
  "KeylineProjectStatus_DeepCopy X =
     copy_pointer (T_KeylineProjectStatus X) (KeylineProjectStatus_DeepCopyInto X)"

lemma deep_KeylineProjectStatus [deep_rules]:
  "imports_ok X \<Longrightarrow> deep_copies (T_KeylineProjectStatus X) (KeylineProjectStatus_DeepCopyInto X)"
  unfolding T_KeylineProjectStatus_def KeylineProjectStatus_DeepCopyInto_def
  by (rule deep_copy_struct) (simp_all add: deep_rules)

definition T_KeylineProject :: "go_imports \<Rightarrow> gtype" where
  "T_KeylineProject X = TStruct [
     (''TypeMeta'', im_TypeMeta X), (''ObjectMeta'', im_ObjectMeta X),
     (''Spec'', T_KeylineProjectSpec X), (''Status'', T_KeylineProjectStatus X)]"

definition KeylineProject_DeepCopyInto :: "go_imports \<Rightarrow> copier" where
  "KeylineProject_DeepCopyInto X = copy_struct [
     Assign ''TypeMeta'', Into ''ObjectMeta'' (im_ObjectMeta_DeepCopyInto X),
     Into ''Spec'' (KeylineProjectSpec_DeepCopyInto X),
     Into ''Status'' (KeylineProjectStatus_DeepCopyInto X)]"

definition KeylineProject_DeepCopy :: "go_imports \<Rightarrow> copier" where
  "KeylineProject_DeepCopy X =
     copy_pointer (T_KeylineProject X) (KeylineProject_DeepCopyInto X)"

definition KeylineProject_DeepCopyObject :: "go_imports \<Rightarrow> object_copier" where
  "KeylineProject_DeepCopyObject X =
     copy_object ''KeylineProject'' (KeylineProject_DeepCopy X)"

lemma deep_KeylineProject [deep_rules]:
  "imports_ok X \<Longrightarrow> deep_copies (T_KeylineProject X) (KeylineProject_DeepCopyInto X)"
  unfolding T_KeylineProject_def KeylineProject_DeepCopyInto_def
  by (rule deep_copy_struct) (simp_all add: deep_rules)

definition T_KeylineProjectList :: "go_imports \<Rightarrow> gtype" where
  "T_KeylineProjectList X = TStruct [
     (''TypeMeta'', im_TypeMeta X), (''ListMeta'', im_ListMeta X),
     (''Items'', TSlice (T_KeylineProject X))]"

definition KeylineProjectList_DeepCopyInto :: "go_imports \<Rightarrow> copier" where
  "KeylineProjectList_DeepCopyInto X = copy_struct [
     Assign ''TypeMeta'', Into ''ListMeta'' (im_ListMeta_DeepCopyInto X),
     CopySlice ''Items'' (T_KeylineProject X) (KeylineProject_DeepCopyInto X)]"

definition KeylineProjectList_DeepCopy :: "go_imports \<Rightarrow> copier" where
  "KeylineProjectList_DeepCopy X =
     copy_pointer (T_KeylineProjectList X) (KeylineProjectList_DeepCopyInto X)"

definition KeylineProjectList_DeepCopyObject :: "go_imports \<Rightarrow> object_copier" where
  "KeylineProjectList_DeepCopyObject X =
     copy_object ''KeylineProjectList'' (KeylineProjectList_DeepCopy X)"

lemma deep_KeylineProjectList [deep_rules]:
  "imports_ok X \<Longrightarrow> deep_copies (T_KeylineProjectList X) (KeylineProjectList_DeepCopyInto X)"
  unfolding T_KeylineProjectList_def KeylineProjectList_DeepCopyInto_def
  by (rule deep_copy_struct) (simp_all add: deep_rules)

section \<open>keylineapplication\_types.go\<close>

definition T_KeylineApplicationSpec :: "go_imports \<Rightarrow> gtype" where
  "T_KeylineApplicationSpec X = TStruct [
     (''ProjectRef'', im_LocalObjectReference X), (''Name'', TPrim TyString),
     (''DisplayName'', TPrim TyString), (''Type'', TPrim TyString),
     (''RedirectUris'', TSlice (TPrim TyString)), (''PostLogoutUris'', TSlice (TPrim TyString)),
     (''AccessTokenHeaderType'', TPtr (TPrim TyString)), (''DeviceFlowEnabled'', TPrim TyBool),
     (''ClaimsMappingScript'', TPtr (TPrim TyString)), (''SigningAlgorithm'', TPtr (TPrim TyString))]"

definition KeylineApplicationSpec_DeepCopyInto :: "go_imports \<Rightarrow> copier" where
  "KeylineApplicationSpec_DeepCopyInto X = copy_struct [
     Assign ''ProjectRef'', CopySlice ''RedirectUris'' (TPrim TyString) plain_copy,
     CopySlice ''PostLogoutUris'' (TPrim TyString) plain_copy,
     CopyPointer ''AccessTokenHeaderType'' (TPrim TyString) plain_copy,
     CopyPointer ''ClaimsMappingScript'' (TPrim TyString) plain_copy,
     CopyPointer ''SigningAlgorithm'' (TPrim TyString) plain_copy]"

definition KeylineApplicationSpec_DeepCopy :: "go_imports \<Rightarrow> copier" where
  "KeylineApplicationSpec_DeepCopy X =
     copy_pointer (T_KeylineApplicationSpec X) (KeylineApplicationSpec_DeepCopyInto X)"

lemma deep_KeylineApplicationSpec [deep_rules]:
  "imports_ok X \<Longrightarrow> deep_copies (T_KeylineApplicationSpec X) (KeylineApplicationSpec_DeepCopyInto X)"
  unfolding T_KeylineApplicationSpec_def KeylineApplicationSpec_DeepCopyInto_def
  by (rule deep_copy_struct) (simp_all add: deep_rules)

definition T_KeylineApplicationStatus :: "go_imports \<Rightarrow> gtype" where
  "T_KeylineApplicationStatus X = TStruct [
     (''ApplicationId'', TPrim TyString), (''Conditions'', TSlice (im_Condition X))]"

definition KeylineApplicationStatus_DeepCopyInto :: "go_imports \<Rightarrow> copier" where
  "KeylineApplicationStatus_DeepCopyInto X = copy_struct [
     CopySlice ''Conditions'' (im_Condition X) (im_Condition_DeepCopyInto X)]"

definition KeylineApplicationStatus_DeepCopy :: "go_imports \<Rightarrow> copier" where
  "KeylineApplicationStatus_DeepCopy X =
     copy_pointer (T_KeylineApplicationStatus X) (KeylineApplicationStatus_DeepCopyInto X)"

lemma deep_KeylineApplicationStatus [deep_rules]:
  "imports_ok X \<Longrightarrow> deep_copies (T_KeylineApplicationStatus X) (KeylineApplicationStatus_DeepCopyInto X)"
  unfolding T_KeylineApplicationStatus_def KeylineApplicationStatus_DeepCopyInto_def
  by (rule deep_copy_struct) (simp_all add: deep_rules)

definition T_KeylineApplication :: "go_imports \<Rightarrow> gtype" where
  "T_KeylineApplication X = TStruct [
     (''TypeMeta'', im_TypeMeta X), (''ObjectMeta'', im_ObjectMeta X),
     (''Spec'', T_KeylineApplicationSpec X), (''Status'', T_KeylineApplicationStatus X)]"

definition KeylineApplication_DeepCopyInto :: "go_imports \<Rightarrow> copier" where
  "KeylineApplication_DeepCopyInto X = copy_struct [
     Assign ''TypeMeta'', Into ''ObjectMeta'' (im_ObjectMeta_DeepCopyInto X),
     Into ''Spec'' (KeylineApplicationSpec_DeepCopyInto X),
     Into ''Status'' (KeylineApplicationStatus_DeepCopyInto X)]"

definition KeylineApplication_DeepCopy :: "go_imports \<Rightarrow> copier" where
  "KeylineApplication_DeepCopy X =
     copy_pointer (T_KeylineApplication X) (KeylineApplication_DeepCopyInto X)"

definition KeylineApplication_DeepCopyObject :: "go_imports \<Rightarrow> object_copier" where
  "KeylineApplication_DeepCopyObject X =
     copy_object ''KeylineApplication'' (KeylineApplication_DeepCopy X)"

lemma deep_KeylineApplication [deep_rules]:
  "imports_ok X \<Longrightarrow> deep_copies (T_KeylineApplication X) (KeylineApplication_DeepCopyInto X)"
  unfolding T_KeylineApplication_def KeylineApplication_DeepCopyInto_def
  by (rule deep_copy_struct) (simp_all add: deep_rules)

definition T_KeylineApplicationList :: "go_imports \<Rightarrow> gtype" where
  "T_KeylineApplicationList X = TStruct [
     (''TypeMeta'', im_TypeMeta X), (''ListMeta'', im_ListMeta X),
     (''Items'', TSlice (T_KeylineApplication X))]"

definition KeylineApplicationList_DeepCopyInto :: "go_imports \<Rightarrow> copier" where
  "KeylineApplicationList_DeepCopyInto X = copy_struct [
     Assign ''TypeMeta'', Into ''ListMeta'' (im_ListMeta_DeepCopyInto X),
     CopySlice ''Items'' (T_KeylineApplication X) (KeylineApplication_DeepCopyInto X)]"

definition KeylineApplicationList_DeepCopy :: "go_imports \<Rightarrow> copier" where
  "KeylineApplicationList_DeepCopy X =
     copy_pointer (T_KeylineApplicationList X) (KeylineApplicationList_DeepCopyInto X)"

definition KeylineApplicationList_DeepCopyObject :: "go_imports \<Rightarrow> object_copier" where
  "KeylineApplicationList_DeepCopyObject X =
     copy_object ''KeylineApplicationList'' (KeylineApplicationList_DeepCopy X)"

lemma deep_KeylineApplicationList [deep_rules]:
  "imports_ok X \<Longrightarrow> deep_copies (T_KeylineApplicationList X) (KeylineApplicationList_DeepCopyInto X)"
  unfolding T_KeylineApplicationList_def KeylineApplicationList_DeepCopyInto_def
  by (rule deep_copy_struct) (simp_all add: deep_rules)

section \<open>keylinerole\_types.go\<close>

definition T_KeylineRoleSpec :: "go_imports \<Rightarrow> gtype" where
  "T_KeylineRoleSpec X = TStruct [
     (''ProjectRef'', im_LocalObjectReference X), (''Name'', TPrim TyString),
     (''Description'', TPtr (TPrim TyString))]"

definition KeylineRoleSpec_DeepCopyInto :: "go_imports \<Rightarrow> copier" where
  "KeylineRoleSpec_DeepCopyInto X = copy_struct [
     Assign ''ProjectRef'', CopyPointer ''Description'' (TPrim TyString) plain_copy]"

definition KeylineRoleSpec_DeepCopy :: "go_imports \<Rightarrow> copier" where
  "KeylineRoleSpec_DeepCopy X =
     copy_pointer (T_KeylineRoleSpec X) (KeylineRoleSpec_DeepCopyInto X)"

lemma deep_KeylineRoleSpec [deep_rules]:
  "imports_ok X \<Longrightarrow> deep_copies (T_KeylineRoleSpec X) (KeylineRoleSpec_DeepCopyInto X)"
  unfolding T_KeylineRoleSpec_def KeylineRoleSpec_DeepCopyInto_def
  by (rule deep_copy_struct) (simp_all add: deep_rules)

definition T_KeylineRoleStatus :: "go_imports \<Rightarrow> gtype" where
  "T_KeylineRoleStatus X = TStruct [
     (''RoleId'', TPrim TyString), (''Conditions'', TSlice (im_Condition X))]"

definition KeylineRoleStatus_DeepCopyInto :: "go_imports \<Rightarrow> copier" where
  "KeylineRoleStatus_DeepCopyInto X = copy_struct [
     CopySlice ''Conditions'' (im_Condition X) (im_Condition_DeepCopyInto X)]"

definition KeylineRoleStatus_DeepCopy :: "go_imports \<Rightarrow> copier" where
  "KeylineRoleStatus_DeepCopy X =
     copy_pointer (T_KeylineRoleStatus X) (KeylineRoleStatus_DeepCopyInto X)"

lemma deep_KeylineRoleStatus [deep_rules]:
  "imports_ok X \<Longrightarrow> deep_copies (T_KeylineRoleStatus X) (KeylineRoleStatus_DeepCopyInto X)"
  unfolding T_KeylineRoleStatus_def KeylineRoleStatus_DeepCopyInto_def
  by (rule deep_copy_struct) (simp_all add: deep_rules)

definition T_KeylineRole :: "go_imports \<Rightarrow> gtype" where
  "T_KeylineRole X = TStruct [
     (''TypeMeta'', im_TypeMeta X), (''ObjectMeta'', im_ObjectMeta X),
     (''Spec'', T_KeylineRoleSpec X), (''Status'', T_KeylineRoleStatus X)]"

definition KeylineRole_DeepCopyInto :: "go_imports \<Rightarrow> copier" where
  "KeylineRole_DeepCopyInto X = copy_struct [
     Assign ''TypeMeta'', Into ''ObjectMeta'' (im_ObjectMeta_DeepCopyInto X),
     Into ''Spec'' (KeylineRoleSpec_DeepCopyInto X),
     Into ''Status'' (KeylineRoleStatus_DeepCopyInto X)]"

definition KeylineRole_DeepCopy :: "go_imports \<Rightarrow> copier" where
  "KeylineRole_DeepCopy X =
     copy_pointer (T_KeylineRole X) (KeylineRole_DeepCopyInto X)"

definition KeylineRole_DeepCopyObject :: "go_imports \<Rightarrow> object_copier" where
  "KeylineRole_DeepCopyObject X =
     copy_object ''KeylineRole'' (KeylineRole_DeepCopy X)"

lemma deep_KeylineRole [deep_rules]:
  "imports_ok X \<Longrightarrow> deep_copies (T_KeylineRole X) (KeylineRole_DeepCopyInto X)"
  unfolding T_KeylineRole_def KeylineRole_DeepCopyInto_def
  by (rule deep_copy_struct) (simp_all add: deep_rules)

definition T_KeylineRoleList :: "go_imports \<Rightarrow> gtype" where
  "T_KeylineRoleList X = TStruct [
     (''TypeMeta'', im_TypeMeta X), (''ListMeta'', im_ListMeta X),
     (''Items'', TSlice (T_KeylineRole X))]"

definition KeylineRoleList_DeepCopyInto :: "go_imports \<Rightarrow> copier" where
  "KeylineRoleList_DeepCopyInto X = copy_struct [
     Assign ''TypeMeta'', Into ''ListMeta'' (im_ListMeta_DeepCopyInto X),
     CopySlice ''Items'' (T_KeylineRole X) (KeylineRole_DeepCopyInto X)]"

definition KeylineRoleList_DeepCopy :: "go_imports \<Rightarrow> copier" where
  "KeylineRoleList_DeepCopy X =
     copy_pointer (T_KeylineRoleList X) (KeylineRoleList_DeepCopyInto X)"

definition KeylineRoleList_DeepCopyObject :: "go_imports \<Rightarrow> object_copier" where
  "KeylineRoleList_DeepCopyObject X =
     copy_object ''KeylineRoleList'' (KeylineRoleList_DeepCopy X)"

lemma deep_KeylineRoleList [deep_rules]:
  "imports_ok X \<Longrightarrow> deep_copies (T_KeylineRoleList X) (KeylineRoleList_DeepCopyInto X)"
  unfolding T_KeylineRoleList_def KeylineRoleList_DeepCopyInto_def
  by (rule deep_copy_struct) (simp_all add: deep_rules)

section \<open>keylineuser\_types.go\<close>

definition T_KeylineUserSpec :: "go_imports \<Rightarrow> gtype" where
  "T_KeylineUserSpec X = TStruct [
     (''VirtualServerRef'', im_LocalObjectReference X), (''Username'', TPrim TyString),
     (''DisplayName'', TPtr (TPrim TyString)), (''PublicKeys'', TSlice (T_ServiceUserPublicKey X))]"

definition KeylineUserSpec_DeepCopyInto :: "go_imports \<Rightarrow> copier" where
  "KeylineUserSpec_DeepCopyInto X = copy_struct [
     Assign ''VirtualServerRef'', CopyPointer ''DisplayName'' (TPrim TyString) plain_copy,
     CopySlice ''PublicKeys'' (T_ServiceUserPublicKey X) plain_copy]"

definition KeylineUserSpec_DeepCopy :: "go_imports \<Rightarrow> copier" where
  "KeylineUserSpec_DeepCopy X =
     copy_pointer (T_KeylineUserSpec X) (KeylineUserSpec_DeepCopyInto X)"

lemma deep_KeylineUserSpec [deep_rules]:
  "imports_ok X \<Longrightarrow> deep_copies (T_KeylineUserSpec X) (KeylineUserSpec_DeepCopyInto X)"
  unfolding T_KeylineUserSpec_def KeylineUserSpec_DeepCopyInto_def
  by (rule deep_copy_struct) (simp_all add: deep_rules)

definition T_KeylineUserStatus :: "go_imports \<Rightarrow> gtype" where
  "T_KeylineUserStatus X = TStruct [
     (''UserId'', TPrim TyString), (''ManagedKeyIds'', TSlice (TPrim TyString)),
     (''Conditions'', TSlice (im_Condition X))]"

definition KeylineUserStatus_DeepCopyInto :: "go_imports \<Rightarrow> copier" where
  "KeylineUserStatus_DeepCopyInto X = copy_struct [
     CopySlice ''ManagedKeyIds'' (TPrim TyString) plain_copy,
     CopySlice ''Conditions'' (im_Condition X) (im_Condition_DeepCopyInto X)]"

definition KeylineUserStatus_DeepCopy :: "go_imports \<Rightarrow> copier" where
  "KeylineUserStatus_DeepCopy X =
     copy_pointer (T_KeylineUserStatus X) (KeylineUserStatus_DeepCopyInto X)"

lemma deep_KeylineUserStatus [deep_rules]:
  "imports_ok X \<Longrightarrow> deep_copies (T_KeylineUserStatus X) (KeylineUserStatus_DeepCopyInto X)"
  unfolding T_KeylineUserStatus_def KeylineUserStatus_DeepCopyInto_def
  by (rule deep_copy_struct) (simp_all add: deep_rules)

definition T_KeylineUser :: "go_imports \<Rightarrow> gtype" where
  "T_KeylineUser X = TStruct [
     (''TypeMeta'', im_TypeMeta X), (''ObjectMeta'', im_ObjectMeta X),
     (''Spec'', T_KeylineUserSpec X), (''Status'', T_KeylineUserStatus X)]"

definition KeylineUser_DeepCopyInto :: "go_imports \<Rightarrow> copier" where
  "KeylineUser_DeepCopyInto X = copy_struct [
     Assign ''TypeMeta'', Into ''ObjectMeta'' (im_ObjectMeta_DeepCopyInto X),
     Into ''Spec'' (KeylineUserSpec_DeepCopyInto X),
     Into ''Status'' (KeylineUserStatus_DeepCopyInto X)]"

definition KeylineUser_DeepCopy :: "go_imports \<Rightarrow> copier" where
  "KeylineUser_DeepCopy X =
     copy_pointer (T_KeylineUser X) (KeylineUser_DeepCopyInto X)"

definition KeylineUser_DeepCopyObject :: "go_imports \<Rightarrow> object_copier" where
  "KeylineUser_DeepCopyObject X =
     copy_object ''KeylineUser'' (KeylineUser_DeepCopy X)"

lemma deep_KeylineUser [deep_rules]:
  "imports_ok X \<Longrightarrow> deep_copies (T_KeylineUser X) (KeylineUser_DeepCopyInto X)"
  unfolding T_KeylineUser_def KeylineUser_DeepCopyInto_def
  by (rule deep_copy_struct) (simp_all add: deep_rules)

definition T_KeylineUserList :: "go_imports \<Rightarrow> gtype" where
  "T_KeylineUserList X = TStruct [
     (''TypeMeta'', im_TypeMeta X), (''ListMeta'', im_ListMeta X),
     (''Items'', TSlice (T_KeylineUser X))]"

definition KeylineUserList_DeepCopyInto :: "go_imports \<Rightarrow> copier" where
  "KeylineUserList_DeepCopyInto X = copy_struct [
     Assign ''TypeMeta'', Into ''ListMeta'' (im_ListMeta_DeepCopyInto X),
     CopySlice ''Items'' (T_KeylineUser X) (KeylineUser_DeepCopyInto X)]"

definition KeylineUserList_DeepCopy :: "go_imports \<Rightarrow> copier" where
  "KeylineUserList_DeepCopy X =
     copy_pointer (T_KeylineUserList X) (KeylineUserList_DeepCopyInto X)"

definition KeylineUserList_DeepCopyObject :: "go_imports \<Rightarrow> object_copier" where
  "KeylineUserList_DeepCopyObject X =
     copy_object ''KeylineUserList'' (KeylineUserList_DeepCopy X)"

lemma deep_KeylineUserList [deep_rules]:
  "imports_ok X \<Longrightarrow> deep_copies (T_KeylineUserList X) (KeylineUserList_DeepCopyInto X)"
  unfolding T_KeylineUserList_def KeylineUserList_DeepCopyInto_def
  by (rule deep_copy_struct) (simp_all add: deep_rules)

section \<open>keylineroleassignment\_types.go\<close>

definition T_KeylineRoleAssignmentSpec :: "go_imports \<Rightarrow> gtype" where
  "T_KeylineRoleAssignmentSpec X = TStruct [
     (''RoleRef'', im_LocalObjectReference X), (''UserRef'', im_LocalObjectReference X)]"

definition KeylineRoleAssignmentSpec_DeepCopyInto :: "go_imports \<Rightarrow> copier" where
  "KeylineRoleAssignmentSpec_DeepCopyInto X = copy_struct [
     Assign ''RoleRef'', Assign ''UserRef'']"

definition KeylineRoleAssignmentSpec_DeepCopy :: "go_imports \<Rightarrow> copier" where
  "KeylineRoleAssignmentSpec_DeepCopy X =
     copy_pointer (T_KeylineRoleAssignmentSpec X) (KeylineRoleAssignmentSpec_DeepCopyInto X)"

lemma flat_KeylineRoleAssignmentSpec [deep_rules]: "imports_ok X \<Longrightarrow> flat (T_KeylineRoleAssignmentSpec X)"
  by (simp add: T_KeylineRoleAssignmentSpec_def imports_ok_def)

lemma deep_KeylineRoleAssignmentSpec [deep_rules]:
  "imports_ok X \<Longrightarrow> deep_copies (T_KeylineRoleAssignmentSpec X) (KeylineRoleAssignmentSpec_DeepCopyInto X)"
  unfolding T_KeylineRoleAssignmentSpec_def KeylineRoleAssignmentSpec_DeepCopyInto_def
  by (rule deep_copy_struct) (simp_all add: deep_rules)

definition T_KeylineRoleAssignmentStatus :: "go_imports \<Rightarrow> gtype" where
  "T_KeylineRoleAssignmentStatus X = TStruct [
     (''Conditions'', TSlice (im_Condition X))]"

definition KeylineRoleAssignmentStatus_DeepCopyInto :: "go_imports \<Rightarrow> copier" where
  "KeylineRoleAssignmentStatus_DeepCopyInto X = copy_struct [
     CopySlice ''Conditions'' (im_Condition X) (im_Condition_DeepCopyInto X)]"

definition KeylineRoleAssignmentStatus_DeepCopy :: "go_imports \<Rightarrow> copier" where
  "KeylineRoleAssignmentStatus_DeepCopy X =
     copy_pointer (T_KeylineRoleAssignmentStatus X) (KeylineRoleAssignmentStatus_DeepCopyInto X)"

lemma deep_KeylineRoleAssignmentStatus [deep_rules]:
  "imports_ok X \<Longrightarrow> deep_copies (T_KeylineRoleAssignmentStatus X) (KeylineRoleAssignmentStatus_DeepCopyInto X)"
  unfolding T_KeylineRoleAssignmentStatus_def KeylineRoleAssignmentStatus_DeepCopyInto_def
  by (rule deep_copy_struct) (simp_all add: deep_rules)

definition T_KeylineRoleAssignment :: "go_imports \<Rightarrow> gtype" where
  "T_KeylineRoleAssignment X = TStruct [
     (''TypeMeta'', im_TypeMeta X), (''ObjectMeta'', im_ObjectMeta X),
     (''Spec'', T_KeylineRoleAssignmentSpec X), (''Status'', T_KeylineRoleAssignmentStatus X)]"

definition KeylineRoleAssignment_DeepCopyInto :: "go_imports \<Rightarrow> copier" where
  "KeylineRoleAssignment_DeepCopyInto X = copy_struct [
     Assign ''TypeMeta'', Into ''ObjectMeta'' (im_ObjectMeta_DeepCopyInto X), Assign ''Spec'',
     Into ''Status'' (KeylineRoleAssignmentStatus_DeepCopyInto X)]"

definition KeylineRoleAssignment_DeepCopy :: "go_imports \<Rightarrow> copier" where
  "KeylineRoleAssignment_DeepCopy X =
     copy_pointer (T_KeylineRoleAssignment X) (KeylineRoleAssignment_DeepCopyInto X)"

definition KeylineRoleAssignment_DeepCopyObject :: "go_imports \<Rightarrow> object_copier" where
  "KeylineRoleAssignment_DeepCopyObject X =
     copy_object ''KeylineRoleAssignment'' (KeylineRoleAssignment_DeepCopy X)"

lemma deep_KeylineRoleAssignment [deep_rules]:
  "imports_ok X \<Longrightarrow> deep_copies (T_KeylineRoleAssignment X) (KeylineRoleAssignment_DeepCopyInto X)"
  unfolding T_KeylineRoleAssignment_def KeylineRoleAssignment_DeepCopyInto_def
  by (rule deep_copy_struct) (simp_all add: deep_rules)

definition T_KeylineRoleAssignmentList :: "go_imports \<Rightarrow> gtype" where
  "T_KeylineRoleAssignmentList X = TStruct [
     (''TypeMeta'', im_TypeMeta X), (''ListMeta'', im_ListMeta X),
     (''Items'', TSlice (T_KeylineRoleAssignment X))]"

definition KeylineRoleAssignmentList_DeepCopyInto :: "go_imports \<Rightarrow> copier" where
  "KeylineRoleAssignmentList_DeepCopyInto X = copy_struct [
     Assign ''TypeMeta'', Into ''ListMeta'' (im_ListMeta_DeepCopyInto X),
     CopySlice ''Items'' (T_KeylineRoleAssignment X) (KeylineRoleAssignment_DeepCopyInto X)]"

definition KeylineRoleAssignmentList_DeepCopy :: "go_imports \<Rightarrow> copier" where
  "KeylineRoleAssignmentList_DeepCopy X =
     copy_pointer (T_KeylineRoleAssignmentList X) (KeylineRoleAssignmentList_DeepCopyInto X)"

definition KeylineRoleAssignmentList_DeepCopyObject :: "go_imports \<Rightarrow> object_copier" where
  "KeylineRoleAssignmentList_DeepCopyObject X =
     copy_object ''KeylineRoleAssignmentList'' (KeylineRoleAssignmentList_DeepCopy X)"

lemma deep_KeylineRoleAssignmentList [deep_rules]:
  "imports_ok X \<Longrightarrow> deep_copies (T_KeylineRoleAssignmentList X) (KeylineRoleAssignmentList_DeepCopyInto X)"
  unfolding T_KeylineRoleAssignmentList_def KeylineRoleAssignmentList_DeepCopyInto_def
  by (rule deep_copy_struct) (simp_all add: deep_rules)

section \<open>All copiers\<close>

text \<open>Every struct of the package with its \<^verbatim>\<open>DeepCopyInto\<close>, and the objects and lists with their \<^verbatim>\<open>DeepCopyObject\<close>.\<close>

definition struct_copiers :: "go_imports \<Rightarrow> (gtype \<times> copier) list" where
  "struct_copiers X =
     [(T_ServiceUserPublicKey X, ServiceUserPublicKey_DeepCopyInto X),
      (T_KeylineInstancePostgresSpec X, KeylineInstancePostgresSpec_DeepCopyInto X),
      (T_KeylineInstanceDatabaseSpec X, KeylineInstanceDatabaseSpec_DeepCopyInto X),
      (T_KeylineInstanceKeyStoreDirectorySpec X, KeylineInstanceKeyStoreDirectorySpec_DeepCopyInto X),
      (T_KeylineInstanceKeyStoreVaultSpec X, KeylineInstanceKeyStoreVaultSpec_DeepCopyInto X),
      (T_KeylineInstanceKeyStoreSpec X, KeylineInstanceKeyStoreSpec_DeepCopyInto X),
      (T_KeylineInstanceSpec X, KeylineInstanceSpec_DeepCopyInto X),
      (T_KeylineInstanceStatus X, KeylineInstanceStatus_DeepCopyInto X),
      (T_KeylineInstance X, KeylineInstance_DeepCopyInto X),
      (T_KeylineInstanceList X, KeylineInstanceList_DeepCopyInto X),
      (T_KeylineVirtualServerSpec X, KeylineVirtualServerSpec_DeepCopyInto X),
      (T_KeylineVirtualServerStatus X, KeylineVirtualServerStatus_DeepCopyInto X),
      (T_KeylineVirtualServer X, KeylineVirtualServer_DeepCopyInto X),
      (T_KeylineVirtualServerList X, KeylineVirtualServerList_DeepCopyInto X),
      (T_KeylineProjectSpec X, KeylineProjectSpec_DeepCopyInto X),
      (T_KeylineProjectStatus X, KeylineProjectStatus_DeepCopyInto X),
      (T_KeylineProject X, KeylineProject_DeepCopyInto X),
      (T_KeylineProjectList X, KeylineProjectList_DeepCopyInto X),
      (T_KeylineApplicationSpec X, KeylineApplicationSpec_DeepCopyInto X),
      (T_KeylineApplicationStatus X, KeylineApplicationStatus_DeepCopyInto X),
      (T_KeylineApplication X, KeylineApplication_DeepCopyInto X),
      (T_KeylineApplicationList X, KeylineApplicationList_DeepCopyInto X),
      (T_KeylineRoleSpec X, KeylineRoleSpec_DeepCopyInto X),
      (T_KeylineRoleStatus X, KeylineRoleStatus_DeepCopyInto X),
      (T_KeylineRole X, KeylineRole_DeepCopyInto X),
      (T_KeylineRoleList X, KeylineRoleList_DeepCopyInto X),
      (T_KeylineUserSpec X, KeylineUserSpec_DeepCopyInto X),
      (T_KeylineUserStatus X, KeylineUserStatus_DeepCopyInto X),
      (T_KeylineUser X, KeylineUser_DeepCopyInto X),
      (T_KeylineUserList X, KeylineUserList_DeepCopyInto X),
      (T_KeylineRoleAssignmentSpec X, KeylineRoleAssignmentSpec_DeepCopyInto X),
      (T_KeylineRoleAssignmentStatus X, KeylineRoleAssignmentStatus_DeepCopyInto X),
      (T_KeylineRoleAssignment X, KeylineRoleAssignment_DeepCopyInto X),
      (T_KeylineRoleAssignmentList X, KeylineRoleAssignmentList_DeepCopyInto X)]"

definition pointer_copiers :: "go_imports \<Rightarrow> (gtype \<times> copier) list" where
  "pointer_copiers X =
     [(TPtr (T_ServiceUserPublicKey X), ServiceUserPublicKey_DeepCopy X),
      (TPtr (T_KeylineInstancePostgresSpec X), KeylineInstancePostgresSpec_DeepCopy X),
      (TPtr (T_KeylineInstanceDatabaseSpec X), KeylineInstanceDatabaseSpec_DeepCopy X),
      (TPtr (T_KeylineInstanceKeyStoreDirectorySpec X), KeylineInstanceKeyStoreDirectorySpec_DeepCopy X),
      (TPtr (T_KeylineInstanceKeyStoreVaultSpec X), KeylineInstanceKeyStoreVaultSpec_DeepCopy X),
      (TPtr (T_KeylineInstanceKeyStoreSpec X), KeylineInstanceKeyStoreSpec_DeepCopy X),
      (TPtr (T_KeylineInstanceSpec X), KeylineInstanceSpec_DeepCopy X),
      (TPtr (T_KeylineInstanceStatus X), KeylineInstanceStatus_DeepCopy X),
      (TPtr (T_KeylineInstance X), KeylineInstance_DeepCopy X),
      (TPtr (T_KeylineInstanceList X), KeylineInstanceList_DeepCopy X),
      (TPtr (T_KeylineVirtualServerSpec X), KeylineVirtualServerSpec_DeepCopy X),
      (TPtr (T_KeylineVirtualServerStatus X), KeylineVirtualServerStatus_DeepCopy X),
      (TPtr (T_KeylineVirtualServer X), KeylineVirtualServer_DeepCopy X),
      (TPtr (T_KeylineVirtualServerList X), KeylineVirtualServerList_DeepCopy X),
      (TPtr (T_KeylineProjectSpec X), KeylineProjectSpec_DeepCopy X),
      (TPtr (T_KeylineProjectStatus X), KeylineProjectStatus_DeepCopy X),
      (TPtr (T_KeylineProject X), KeylineProject_DeepCopy X),
      (TPtr (T_KeylineProjectList X), KeylineProjectList_DeepCopy X),
      (TPtr (T_KeylineApplicationSpec X), KeylineApplicationSpec_DeepCopy X),
      (TPtr (T_KeylineApplicationStatus X), KeylineApplicationStatus_DeepCopy X),
      (TPtr (T_KeylineApplication X), KeylineApplication_DeepCopy X),
      (TPtr (T_KeylineApplicationList X), KeylineApplicationList_DeepCopy X),
      (TPtr (T_KeylineRoleSpec X), KeylineRoleSpec_DeepCopy X),
      (TPtr (T_KeylineRoleStatus X), KeylineRoleStatus_DeepCopy X),
      (TPtr (T_KeylineRole X), KeylineRole_DeepCopy X),
      (TPtr (T_KeylineRoleList X), KeylineRoleList_DeepCopy X),
      (TPtr (T_KeylineUserSpec X), KeylineUserSpec_DeepCopy X),
      (TPtr (T_KeylineUserStatus X), KeylineUserStatus_DeepCopy X),
      (TPtr (T_KeylineUser X), KeylineUser_DeepCopy X),
      (TPtr (T_KeylineUserList X), KeylineUserList_DeepCopy X),
      (TPtr (T_KeylineRoleAssignmentSpec X), KeylineRoleAssignmentSpec_DeepCopy X),
      (TPtr (T_KeylineRoleAssignmentStatus X), KeylineRoleAssignmentStatus_DeepCopy X),
      (TPtr (T_KeylineRoleAssignment X), KeylineRoleAssignment_DeepCopy X),
      (TPtr (T_KeylineRoleAssignmentList X), KeylineRoleAssignmentList_DeepCopy X)]"

definition object_copiers :: "go_imports \<Rightarrow> (string \<times> gtype \<times> object_copier) list" where
  "object_copiers X =
     [(''KeylineInstance'', T_KeylineInstance X, KeylineInstance_DeepCopyObject X),
      (''KeylineInstanceList'', T_KeylineInstanceList X, KeylineInstanceList_DeepCopyObject X),
      (''KeylineVirtualServer'', T_KeylineVirtualServer X, KeylineVirtualServer_DeepCopyObject X),
      (''KeylineVirtualServerList'', T_KeylineVirtualServerList X, KeylineVirtualServerList_DeepCopyObject X),
      (''KeylineProject'', T_KeylineProject X, KeylineProject_DeepCopyObject X),
      (''KeylineProjectList'', T_KeylineProjectList X, KeylineProjectList_DeepCopyObject X),
      (''KeylineApplication'', T_KeylineApplication X, KeylineApplication_DeepCopyObject X),
      (''KeylineApplicationList'', T_KeylineApplicationList X, KeylineApplicationList_DeepCopyObject X),
      (''KeylineRole'', T_KeylineRole X, KeylineRole_DeepCopyObject X),
      (''KeylineRoleList'', T_KeylineRoleList X, KeylineRoleList_DeepCopyObject X),
      (''KeylineUser'', T_KeylineUser X, KeylineUser_DeepCopyObject X),
      (''KeylineUserList'', T_KeylineUserList X, KeylineUserList_DeepCopyObject X),
      (''KeylineRoleAssignment'', T_KeylineRoleAssignment X, KeylineRoleAssignment_DeepCopyObject X),
      (''KeylineRoleAssignmentList'', T_KeylineRoleAssignmentList X, KeylineRoleAssignmentList_DeepCopyObject X)]"

lemmas DeepCopy_defs =
  ServiceUserPublicKey_DeepCopy_def KeylineInstancePostgresSpec_DeepCopy_def
  KeylineInstanceDatabaseSpec_DeepCopy_def KeylineInstanceKeyStoreDirectorySpec_DeepCopy_def
  KeylineInstanceKeyStoreVaultSpec_DeepCopy_def KeylineInstanceKeyStoreSpec_DeepCopy_def
  KeylineInstanceSpec_DeepCopy_def KeylineInstanceStatus_DeepCopy_def
  KeylineInstance_DeepCopy_def KeylineInstanceList_DeepCopy_def
  KeylineVirtualServerSpec_DeepCopy_def KeylineVirtualServerStatus_DeepCopy_def
  KeylineVirtualServer_DeepCopy_def KeylineVirtualServerList_DeepCopy_def
  KeylineProjectSpec_DeepCopy_def KeylineProjectStatus_DeepCopy_def
  KeylineProject_DeepCopy_def KeylineProjectList_DeepCopy_def
  KeylineApplicationSpec_DeepCopy_def KeylineApplicationStatus_DeepCopy_def
  KeylineApplication_DeepCopy_def KeylineApplicationList_DeepCopy_def
  KeylineRoleSpec_DeepCopy_def KeylineRoleStatus_DeepCopy_def
  KeylineRole_DeepCopy_def KeylineRoleList_DeepCopy_def
  KeylineUserSpec_DeepCopy_def KeylineUserStatus_DeepCopy_def
  KeylineUser_DeepCopy_def KeylineUserList_DeepCopy_def
  KeylineRoleAssignmentSpec_DeepCopy_def KeylineRoleAssignmentStatus_DeepCopy_def
  KeylineRoleAssignment_DeepCopy_def KeylineRoleAssignmentList_DeepCopy_def

lemmas DeepCopyObject_defs =
  KeylineInstance_DeepCopyObject_def KeylineInstanceList_DeepCopyObject_def
  KeylineVirtualServer_DeepCopyObject_def KeylineVirtualServerList_DeepCopyObject_def
  KeylineProject_DeepCopyObject_def KeylineProjectList_DeepCopyObject_def
  KeylineApplication_DeepCopyObject_def KeylineApplicationList_DeepCopyObject_def
  KeylineRole_DeepCopyObject_def KeylineRoleList_DeepCopyObject_def
  KeylineUser_DeepCopyObject_def KeylineUserList_DeepCopyObject_def
  KeylineRoleAssignment_DeepCopyObject_def KeylineRoleAssignmentList_DeepCopyObject_def

section \<open>The contract of an object\<close>

definition keeps_snapshot :: "string \<Rightarrow> gtype \<Rightarrow> object_copier \<Rightarrow> bool" where
  "keeps_snapshot n t f \<longleftrightarrow>
     (\<forall>h p x b h' ms.
        view h (TPtr t) (GPtr (Some p)) = Some x \<longrightarrow> f (GPtr (Some p)) h = Some (b, h') \<longrightarrow>
        (list_all (stores_to (\<lambda>a. a < length h \<or> length h' \<le> a)) ms \<longrightarrow>
           (\<exists>c. b = Interface n c \<and> view (fold mutate ms h') (TPtr t) c = Some x)) \<and>
        (list_all (stores_to (\<lambda>a. length h \<le> a)) ms \<longrightarrow>
           view (fold mutate ms h') (TPtr t) (GPtr (Some p)) = Some x))"

text \<open>
  An object is copied through a pointer and, behind \<^verbatim>\<open>runtime.Object\<close>, through an interface. Both
  copies are deep, and a nil pointer gives the nil interface.
\<close>

locale object_copier =
  fixes name :: string
    and ty :: "'x \<Rightarrow> gtype"
    and into :: "'x \<Rightarrow> copier"
    and ptr :: "'x \<Rightarrow> copier"
    and obj :: "'x \<Rightarrow> object_copier"
    and ok :: "'x \<Rightarrow> bool"
  assumes into_deep: "ok X \<Longrightarrow> deep_copies (ty X) (into X)"
    and ptr_def: "ptr X = copy_pointer (ty X) (into X)"
    and obj_def: "obj X = copy_object name (ptr X)"

sublocale object_copier \<subseteq> pointed: deep_copier "\<lambda>X. TPtr (ty X)" ptr ok
  by unfold_locales (simp add: ptr_def deep_copy_pointer into_deep)

context object_copier
begin

lemma nil_object: "obj X (GPtr None) h = Some (NilInterface, h)"
  by (simp add: obj_def ptr_def copy_object_def copy_pointer_def)

lemma copied_object:
  assumes "ok X" and x: "view h (TPtr (ty X)) (GPtr (Some p)) = Some x"
  obtains c h' where "ptr X (GPtr (Some p)) h = Some (c, h')" "obj X (GPtr (Some p)) h = Some (Interface name c, h')"
    "view h' (TPtr (ty X)) c = Some x"
proof -
  from pointed.deep [OF assms(1)] x obtain c h' where c: "ptr X (GPtr (Some p)) h = Some (c, h')"
    "view h' (TPtr (ty X)) c = Some x" by (rule deep_copiesE)
  have "c \<noteq> GPtr None" using c(2) x by (auto split: option.splits)
  with c that show thesis by (simp add: obj_def copy_object_def)
qed

lemma snapshot:
  assumes "ok X" and x: "view h (TPtr (ty X)) (GPtr (Some p)) = Some x"
    and b: "obj X (GPtr (Some p)) h = Some (b, h')"
    and ms: "list_all (stores_to (\<lambda>a. a < length h \<or> length h' \<le> a)) ms"
  shows "\<exists>c. b = Interface name c \<and> view (fold mutate ms h') (TPtr (ty X)) c = Some x"
proof -
  obtain c where "ptr X (GPtr (Some p)) h = Some (c, h')" "b = Interface name c"
    using copied_object [OF assms(1) x] b by (metis Pair_inject option.inject)
  with pointed.copy_unaffected [OF assms(1) x _ ms] show ?thesis by blast
qed

lemma original_kept:
  assumes "ok X" and x: "view h (TPtr (ty X)) (GPtr (Some p)) = Some x"
    and b: "obj X (GPtr (Some p)) h = Some (b, h')"
    and ms: "list_all (stores_to (\<lambda>a. length h \<le> a)) ms"
  shows "view (fold mutate ms h') (TPtr (ty X)) (GPtr (Some p)) = Some x"
proof -
  obtain c where "ptr X (GPtr (Some p)) h = Some (c, h')"
    using copied_object [OF assms(1) x] b by (metis Pair_inject option.inject)
  from pointed.original_unaffected [OF assms(1) x this ms] show ?thesis .
qed

lemma keeps_snapshot: "ok X \<Longrightarrow> keeps_snapshot name (ty X) (obj X)"
  unfolding keeps_snapshot_def using snapshot original_kept by blast

lemma object_typed:
  assumes "ok X"
  shows "case view h (TPtr (ty X)) (GPtr (Some p)) of
      None \<Rightarrow> True
    | Some x \<Rightarrow>
        (case obj X (GPtr (Some p)) h of
           Some (Interface n' c, h') \<Rightarrow> n' = name \<and> view h' (TPtr (ty X)) c = Some x
         | _ \<Rightarrow> False)"
proof (cases "view h (TPtr (ty X)) (GPtr (Some p))")
  case (Some x)
  obtain c h' where "obj X (GPtr (Some p)) h = Some (Interface name c, h')" "view h' (TPtr (ty X)) c = Some x"
    using copied_object [OF assms Some] by blast
  with Some show ?thesis by simp
qed simp

end

interpretation instance_copy: object_copier "''KeylineInstance''"
  T_KeylineInstance KeylineInstance_DeepCopyInto
  KeylineInstance_DeepCopy KeylineInstance_DeepCopyObject imports_ok
  by unfold_locales (simp_all add: KeylineInstance_DeepCopy_def KeylineInstance_DeepCopyObject_def deep_rules)

interpretation instance_list_copy: object_copier "''KeylineInstanceList''"
  T_KeylineInstanceList KeylineInstanceList_DeepCopyInto
  KeylineInstanceList_DeepCopy KeylineInstanceList_DeepCopyObject imports_ok
  by unfold_locales (simp_all add: KeylineInstanceList_DeepCopy_def KeylineInstanceList_DeepCopyObject_def deep_rules)

interpretation virtual_server_copy: object_copier "''KeylineVirtualServer''"
  T_KeylineVirtualServer KeylineVirtualServer_DeepCopyInto
  KeylineVirtualServer_DeepCopy KeylineVirtualServer_DeepCopyObject imports_ok
  by unfold_locales (simp_all add: KeylineVirtualServer_DeepCopy_def KeylineVirtualServer_DeepCopyObject_def deep_rules)

interpretation virtual_server_list_copy: object_copier "''KeylineVirtualServerList''"
  T_KeylineVirtualServerList KeylineVirtualServerList_DeepCopyInto
  KeylineVirtualServerList_DeepCopy KeylineVirtualServerList_DeepCopyObject imports_ok
  by unfold_locales (simp_all add: KeylineVirtualServerList_DeepCopy_def KeylineVirtualServerList_DeepCopyObject_def deep_rules)

interpretation project_copy: object_copier "''KeylineProject''"
  T_KeylineProject KeylineProject_DeepCopyInto
  KeylineProject_DeepCopy KeylineProject_DeepCopyObject imports_ok
  by unfold_locales (simp_all add: KeylineProject_DeepCopy_def KeylineProject_DeepCopyObject_def deep_rules)

interpretation project_list_copy: object_copier "''KeylineProjectList''"
  T_KeylineProjectList KeylineProjectList_DeepCopyInto
  KeylineProjectList_DeepCopy KeylineProjectList_DeepCopyObject imports_ok
  by unfold_locales (simp_all add: KeylineProjectList_DeepCopy_def KeylineProjectList_DeepCopyObject_def deep_rules)

interpretation application_copy: object_copier "''KeylineApplication''"
  T_KeylineApplication KeylineApplication_DeepCopyInto
  KeylineApplication_DeepCopy KeylineApplication_DeepCopyObject imports_ok
  by unfold_locales (simp_all add: KeylineApplication_DeepCopy_def KeylineApplication_DeepCopyObject_def deep_rules)

interpretation application_list_copy: object_copier "''KeylineApplicationList''"
  T_KeylineApplicationList KeylineApplicationList_DeepCopyInto
  KeylineApplicationList_DeepCopy KeylineApplicationList_DeepCopyObject imports_ok
  by unfold_locales (simp_all add: KeylineApplicationList_DeepCopy_def KeylineApplicationList_DeepCopyObject_def deep_rules)

interpretation role_copy: object_copier "''KeylineRole''"
  T_KeylineRole KeylineRole_DeepCopyInto
  KeylineRole_DeepCopy KeylineRole_DeepCopyObject imports_ok
  by unfold_locales (simp_all add: KeylineRole_DeepCopy_def KeylineRole_DeepCopyObject_def deep_rules)

interpretation role_list_copy: object_copier "''KeylineRoleList''"
  T_KeylineRoleList KeylineRoleList_DeepCopyInto
  KeylineRoleList_DeepCopy KeylineRoleList_DeepCopyObject imports_ok
  by unfold_locales (simp_all add: KeylineRoleList_DeepCopy_def KeylineRoleList_DeepCopyObject_def deep_rules)

interpretation user_copy: object_copier "''KeylineUser''"
  T_KeylineUser KeylineUser_DeepCopyInto
  KeylineUser_DeepCopy KeylineUser_DeepCopyObject imports_ok
  by unfold_locales (simp_all add: KeylineUser_DeepCopy_def KeylineUser_DeepCopyObject_def deep_rules)

interpretation user_list_copy: object_copier "''KeylineUserList''"
  T_KeylineUserList KeylineUserList_DeepCopyInto
  KeylineUserList_DeepCopy KeylineUserList_DeepCopyObject imports_ok
  by unfold_locales (simp_all add: KeylineUserList_DeepCopy_def KeylineUserList_DeepCopyObject_def deep_rules)

interpretation role_assignment_copy: object_copier "''KeylineRoleAssignment''"
  T_KeylineRoleAssignment KeylineRoleAssignment_DeepCopyInto
  KeylineRoleAssignment_DeepCopy KeylineRoleAssignment_DeepCopyObject imports_ok
  by unfold_locales (simp_all add: KeylineRoleAssignment_DeepCopy_def KeylineRoleAssignment_DeepCopyObject_def deep_rules)

interpretation role_assignment_list_copy: object_copier "''KeylineRoleAssignmentList''"
  T_KeylineRoleAssignmentList KeylineRoleAssignmentList_DeepCopyInto
  KeylineRoleAssignmentList_DeepCopy KeylineRoleAssignmentList_DeepCopyObject imports_ok
  by unfold_locales (simp_all add: KeylineRoleAssignmentList_DeepCopy_def KeylineRoleAssignmentList_DeepCopyObject_def deep_rules)

lemmas nil_facts =
  instance_copy.nil_object
  instance_list_copy.nil_object
  virtual_server_copy.nil_object
  virtual_server_list_copy.nil_object
  project_copy.nil_object
  project_list_copy.nil_object
  application_copy.nil_object
  application_list_copy.nil_object
  role_copy.nil_object
  role_list_copy.nil_object
  user_copy.nil_object
  user_list_copy.nil_object
  role_assignment_copy.nil_object
  role_assignment_list_copy.nil_object

lemmas object_facts =
  instance_copy.object_typed
  instance_list_copy.object_typed
  virtual_server_copy.object_typed
  virtual_server_list_copy.object_typed
  project_copy.object_typed
  project_list_copy.object_typed
  application_copy.object_typed
  application_list_copy.object_typed
  role_copy.object_typed
  role_list_copy.object_typed
  user_copy.object_typed
  user_list_copy.object_typed
  role_assignment_copy.object_typed
  role_assignment_list_copy.object_typed

lemmas snapshot_facts =
  instance_copy.keeps_snapshot
  instance_list_copy.keeps_snapshot
  virtual_server_copy.keeps_snapshot
  virtual_server_list_copy.keeps_snapshot
  project_copy.keeps_snapshot
  project_list_copy.keeps_snapshot
  application_copy.keeps_snapshot
  application_list_copy.keeps_snapshot
  role_copy.keeps_snapshot
  role_list_copy.keeps_snapshot
  user_copy.keeps_snapshot
  user_list_copy.keeps_snapshot
  role_assignment_copy.keeps_snapshot
  role_assignment_list_copy.keeps_snapshot

lemma objects_keep_snapshots:
  "imports_ok X \<Longrightarrow> list_all (\<lambda>(n, t, f). keeps_snapshot n t f) (object_copiers X)"
  unfolding object_copiers_def list.pred_inject prod.case
  by (intro conjI snapshot_facts list.pred_inject(1))

section \<open>An example\<close>

text \<open>
  Imports cut down to a few fields, and a memory with a project at address 0, its description at 1 and
  its conditions at 2.
\<close>

definition ex_imports :: go_imports where
  "ex_imports =
     \<lparr>im_TypeMeta = TStruct [(''Kind'', TPrim TyString), (''APIVersion'', TPrim TyString)],
      im_LocalObjectReference = TStruct [(''Name'', TPrim TyString)],
      im_ObjectMeta = TStruct [(''Name'', TPrim TyString), (''Finalizers'', TSlice (TPrim TyString))],
      im_ListMeta = TStruct [(''RemainingItemCount'', TPtr (TPrim TyInt))],
      im_Condition = TStruct [(''Type'', TPrim TyString), (''Status'', TPrim TyString)],
      im_ResourceRequirements = TStruct [(''Claims'', TSlice (TPrim TyString))],
      im_Quantity = TStruct [(''Format'', TPrim TyString)],
      im_ObjectMeta_DeepCopyInto = copy_struct [CopySlice ''Finalizers'' (TPrim TyString) plain_copy],
      im_ListMeta_DeepCopyInto = copy_struct [CopyPointer ''RemainingItemCount'' (TPrim TyInt) plain_copy],
      im_Condition_DeepCopyInto = copy_struct [],
      im_ResourceRequirements_DeepCopyInto = copy_struct [CopySlice ''Claims'' (TPrim TyString) plain_copy],
      im_Quantity_DeepCopyInto = plain_copy\<rparr>"

lemma ex_imports_ok: "imports_ok ex_imports"
  by (simp add: imports_ok_def ex_imports_def)
    (intro conjI deep_copy_struct; simp add: deep_rules)

definition ex_condition :: "string \<Rightarrow> gval" where
  "ex_condition st = GStruct [(''Type'', GPrim (PString ''Ready'')), (''Status'', GPrim (PString st))]"

definition ex_memory :: gmem where
  "ex_memory =
     [[GStruct
        [(''TypeMeta'', GStruct [(''Kind'', GPrim (PString [])), (''APIVersion'', GPrim (PString []))]),
         (''ObjectMeta'', GStruct [(''Name'', GPrim (PString ''p'')), (''Finalizers'', GSlice None)]),
         (''Spec'', GStruct
            [(''VirtualServerRef'', GStruct [(''Name'', GPrim (PString ''vs''))]),
             (''Slug'', GPrim (PString ''p'')), (''Name'', GPrim (PString ''P'')), (''Description'', GPtr (Some 1))]),
         (''Status'', GStruct
            [(''Conditions'', GSlice (Some \<lparr>sl_array = 2, sl_off = 0, sl_len = 1, sl_cap = 1\<rparr>))])]],
      [GPrim (PString ''d'')],
      [ex_condition ''True'']]"

abbreviation ex_project_view :: "gmem \<Rightarrow> gval \<Rightarrow> tree option" where
  "ex_project_view h v \<equiv> view h (TPtr (T_KeylineProject ex_imports)) v"

section \<open>What the copies promise\<close>

text \<open>
  C15: deep copies. For every struct of the API, \<^verbatim>\<open>DeepCopyInto\<close> and \<^verbatim>\<open>DeepCopy\<close> never panic on a
  value of the type. The copy denotes the same value, nil and empty slices told apart; it reaches
  only memory allocated by the copy; and nothing that existed before is changed. So no field that
  holds a reference is left shared.
\<close>

theorem api_copies_are_deep:
  assumes "imports_ok X"
  shows "list_all (\<lambda>(t, f). deep_copies t f) (struct_copiers X @ pointer_copiers X)"
  using assms by (simp add: struct_copiers_def pointer_copiers_def DeepCopy_defs deep_rules)

lemma api_copies_are_deep_witness:
  "list_all (\<lambda>(t, f). deep_copies t f) (struct_copiers ex_imports @ pointer_copiers ex_imports) \<and>
   copied (T_KeylineProjectStatus ex_imports) ex_memory
     (VStruct [(''Conditions'', VSlice [VStruct [(''Type'', VPrim (PString ''Ready'')), (''Status'', VPrim (PString ''True''))]])])
     (KeylineProjectStatus_DeepCopyInto ex_imports
        (GStruct [(''Conditions'', GSlice (Some \<lparr>sl_array = 2, sl_off = 0, sl_len = 1, sl_cap = 1\<rparr>))]) ex_memory)"
proof
  show "list_all (\<lambda>(t, f). deep_copies t f) (struct_copiers ex_imports @ pointer_copiers ex_imports)"
    by (rule api_copies_are_deep [OF ex_imports_ok])
qed code_simp

text \<open>
  C28: objects keep their type. \<^verbatim>\<open>DeepCopyObject\<close> of a nil pointer is the nil interface, not an
  interface around a nil pointer, and allocates nothing. For a pointer to an object it returns an
  interface of that object's own type, around a pointer to a value of that type that denotes
  the same.
\<close>

theorem copied_objects_keep_their_type:
  assumes "imports_ok X"
  shows "list_all (\<lambda>(n, t, f). f (GPtr None) h = Some (NilInterface, h) \<and>
     (case view h (TPtr t) (GPtr (Some p)) of
        None \<Rightarrow> True
      | Some x \<Rightarrow>
          (case f (GPtr (Some p)) h of
             Some (Interface n' c, h') \<Rightarrow> n' = n \<and> view h' (TPtr t) c = Some x
           | _ \<Rightarrow> False))) (object_copiers X)"
  unfolding object_copiers_def list.pred_inject prod.case
  by (intro conjI object_facts [OF assms] nil_facts list.pred_inject(1))

lemma copied_objects_keep_their_type_witness:
  "list_all (\<lambda>(n, t, f). f (GPtr None) ex_memory = Some (NilInterface, ex_memory) \<and>
     (case view ex_memory (TPtr t) (GPtr (Some 0)) of
        None \<Rightarrow> True
      | Some x \<Rightarrow>
          (case f (GPtr (Some 0)) ex_memory of
             Some (Interface n' c, h') \<Rightarrow> n' = n \<and> view h' (TPtr t) c = Some x
           | _ \<Rightarrow> False))) (object_copiers ex_imports) \<and>
   ex_project_view ex_memory (GPtr (Some 0)) \<noteq> None"
proof
  show "ex_project_view ex_memory (GPtr (Some 0)) \<noteq> None" by code_simp
qed (rule copied_objects_keep_their_type [OF ex_imports_ok])

text \<open>
  C22: the base of a status patch is a snapshot. The status patcher copies the object when it was
  read. Whatever the reconcile then stores into memory that existed before the copy (the object
  itself, the conditions it sets in place) or that it allocates later, the copy still denotes
  the object as it was read, so the merge patch carries every change. The other way round,
  no store into the copy shows in the object.
\<close>

theorem patch_base_is_snapshot:
  assumes "imports_ok X" and "(n, t, DeepCopyObject) \<in> set (object_copiers X)"
    and "view h (TPtr t) (GPtr (Some p)) = Some x"
    and "DeepCopyObject (GPtr (Some p)) h = Some (b, h')"
  shows "(list_all (stores_to (\<lambda>a. a < length h \<or> length h' \<le> a)) ms \<longrightarrow>
            (\<exists>c. b = Interface n c \<and> view (fold mutate ms h') (TPtr t) c = Some x)) \<and>
         (list_all (stores_to (\<lambda>a. length h \<le> a)) ms \<longrightarrow>
            view (fold mutate ms h') (TPtr t) (GPtr (Some p)) = Some x)"
proof -
  have "keeps_snapshot n t DeepCopyObject"
    using objects_keep_snapshots [OF assms(1)] assms(2) by (auto simp: list_all_iff)
  then show ?thesis using assms(3,4) by (simp add: keeps_snapshot_def)
qed

text \<open>In the example the Ready condition is set in place: the object changes, the base does not.\<close>

lemma patch_base_is_snapshot_witness:
  "\<exists>x b c h'. ex_project_view ex_memory (GPtr (Some 0)) = Some x \<and>
     KeylineProject_DeepCopyObject ex_imports (GPtr (Some 0)) ex_memory = Some (b, h') \<and>
     b = Interface ''KeylineProject'' c \<and>
     ex_project_view (fold mutate [Store 2 0 (ex_condition ''False'')] h') c = Some x \<and>
     ex_project_view (fold mutate [Store 2 0 (ex_condition ''False'')] h') (GPtr (Some 0)) \<noteq> Some x"
proof -
  let ?ms = "[Store 2 0 (ex_condition ''False'')]"
  define r where "r = KeylineProject_DeepCopyObject ex_imports (GPtr (Some 0)) ex_memory"
  have ev: "(case (ex_project_view ex_memory (GPtr (Some 0)), KeylineProject_DeepCopyObject ex_imports (GPtr (Some 0)) ex_memory) of
      (Some x, Some (b, h')) \<Rightarrow> ex_project_view (fold mutate ?ms h') (GPtr (Some 0)) \<noteq> Some x
    | _ \<Rightarrow> False)"
    by code_simp
  then obtain x b h' where xb: "ex_project_view ex_memory (GPtr (Some 0)) = Some x"
    "KeylineProject_DeepCopyObject ex_imports (GPtr (Some 0)) ex_memory = Some (b, h')"
    "ex_project_view (fold mutate ?ms h') (GPtr (Some 0)) \<noteq> Some x"
    by (auto simp del: view.simps fold_simps split: option.splits prod.splits)
  have m: "(''KeylineProject'', T_KeylineProject ex_imports, KeylineProject_DeepCopyObject ex_imports)
      \<in> set (object_copiers ex_imports)"
    by (simp add: object_copiers_def)
  have "list_all (stores_to (\<lambda>a. a < length ex_memory \<or> length h' \<le> a)) ?ms"
    by (simp add: ex_memory_def)
  with patch_base_is_snapshot [OF ex_imports_ok m xb(1) xb(2), of ?ms] xb show ?thesis by blast
qed

end
