(* ===== verification/Startup.thy ===== *)
theory Startup
  imports Manager V1alpha1_DeepCopy
begin

text \<open>
  \<^verbatim>\<open>cmd/main.go\<close>: the command line, the TLS options of the two servers, and the start of the manager
  up to the first failure; and the registration of the API types with the scheme. What the
  start-up calls outside the repository may fail, so its answers are a parameter.
\<close>

section \<open>The command line\<close>

record flags =
  metricsAddr :: string
  probeAddr :: string
  enableLeaderElection :: bool
  secureMetrics :: bool
  webhookCertPath :: string
  webhookCertName :: string
  webhookCertKey :: string
  metricsCertPath :: string
  metricsCertName :: string
  metricsCertKey :: string
  enableHTTP2 :: bool

definition default_flags :: flags where
  "default_flags =
     \<lparr>metricsAddr = ''0'', probeAddr = '':8081'', enableLeaderElection = False, secureMetrics = True,
      webhookCertPath = [], webhookCertName = ''tls.crt'', webhookCertKey = ''tls.key'',
      metricsCertPath = [], metricsCertName = ''tls.crt'', metricsCertKey = ''tls.key'',
      enableHTTP2 = False\<rparr>"

text \<open>\<^verbatim>\<open>strconv.ParseBool\<close>.\<close>

definition parse_bool :: "string \<Rightarrow> bool option" where
  "parse_bool s =
     (if s \<in> {''1'', ''t'', ''T'', ''true'', ''TRUE'', ''True''} then Some True
      else if s \<in> {''0'', ''f'', ''F'', ''false'', ''FALSE'', ''False''} then Some False
      else None)"

text \<open>
  A flag is known by its name; it is boolean or not, and setting it may fail. \<^verbatim>\<open>flag.StringVar\<close> and
  \<^verbatim>\<open>flag.BoolVar\<close> bind it to a variable.
\<close>

record flag =
  fl_name :: string
  fl_bool :: bool
  fl_set :: "string \<Rightarrow> flags \<Rightarrow> flags option"

definition StringVar :: "string \<Rightarrow> (string \<Rightarrow> flags \<Rightarrow> flags) \<Rightarrow> flag" where
  "StringVar name upd = \<lparr>fl_name = name, fl_bool = False, fl_set = (\<lambda>v f. Some (upd v f))\<rparr>"

definition BoolVar :: "string \<Rightarrow> (bool \<Rightarrow> flags \<Rightarrow> flags) \<Rightarrow> flag" where
  "BoolVar name upd =
     \<lparr>fl_name = name, fl_bool = True, fl_set = (\<lambda>v f. map_option (\<lambda>b. upd b f) (parse_bool v))\<rparr>"

definition own_flags :: "flag list" where
  "own_flags =
     [StringVar ''metrics-bind-address'' (\<lambda>v f. f\<lparr>metricsAddr := v\<rparr>),
      StringVar ''health-probe-bind-address'' (\<lambda>v f. f\<lparr>probeAddr := v\<rparr>),
      BoolVar ''leader-elect'' (\<lambda>v f. f\<lparr>enableLeaderElection := v\<rparr>),
      BoolVar ''metrics-secure'' (\<lambda>v f. f\<lparr>secureMetrics := v\<rparr>),
      StringVar ''webhook-cert-path'' (\<lambda>v f. f\<lparr>webhookCertPath := v\<rparr>),
      StringVar ''webhook-cert-name'' (\<lambda>v f. f\<lparr>webhookCertName := v\<rparr>),
      StringVar ''webhook-cert-key'' (\<lambda>v f. f\<lparr>webhookCertKey := v\<rparr>),
      StringVar ''metrics-cert-path'' (\<lambda>v f. f\<lparr>metricsCertPath := v\<rparr>),
      StringVar ''metrics-cert-name'' (\<lambda>v f. f\<lparr>metricsCertName := v\<rparr>),
      StringVar ''metrics-cert-key'' (\<lambda>v f. f\<lparr>metricsCertKey := v\<rparr>),
      BoolVar ''enable-http2'' (\<lambda>v f. f\<lparr>enableHTTP2 := v\<rparr>)]"

text \<open>
  The syntax of one argument in Go's \<^verbatim>\<open>flag\<close> package: one or two dashes, a name, and perhaps a value after
  the first equals sign that is not the name's first character.
\<close>

datatype arg_shape = NoFlag | Terminator | BadSyntax | FlagArg string "string option"

definition split_value :: "string \<Rightarrow> string \<times> string option" where
  "split_value s =
     (let n = takeWhile (\<lambda>c. c \<noteq> CHR ''='') s
      in (n, if n = s then None else Some (drop (Suc (length n)) s)))"

fun flag_name_arg :: "string \<Rightarrow> arg_shape" where
  "flag_name_arg [] = BadSyntax"
| "flag_name_arg (c # cs) =
     (if c = CHR ''-'' \<or> c = CHR ''='' then BadSyntax
      else (case split_value (c # cs) of (n, v) \<Rightarrow> FlagArg n v))"

fun shape_of :: "string \<Rightarrow> arg_shape" where
  "shape_of [] = NoFlag"
| "shape_of [c] = NoFlag"
| "shape_of (c # d # cs) =
     (if c \<noteq> CHR ''-'' then NoFlag
      else if d = CHR ''-'' then (if cs = [] then Terminator else flag_name_arg cs)
      else flag_name_arg (d # cs))"

text \<open>
  \<^verbatim>\<open>flag.Parse\<close> on the process's flag set, which exits: with 0 after printing the usage, with 2 on
  a mistake. \<open>fs\<close> are the flags that are defined: those above and those that zap and
  controller-runtime bind.
\<close>

datatype parse_result = Parsed flags "string list" | ParseExit int

definition find_flag :: "flag list \<Rightarrow> string \<Rightarrow> flag option" where
  "find_flag fs n = find (\<lambda>f. fl_name f = n) fs"

fun parse_flags :: "flag list \<Rightarrow> string list \<Rightarrow> flags \<Rightarrow> parse_result" where
  "parse_flags fs [] st = Parsed st []"
| "parse_flags fs (s # rest) st =
     (case shape_of s of
        NoFlag \<Rightarrow> Parsed st (s # rest)
      | Terminator \<Rightarrow> Parsed st rest
      | BadSyntax \<Rightarrow> ParseExit 2
      | FlagArg n v \<Rightarrow>
          (case find_flag fs n of
             None \<Rightarrow> ParseExit (if n = ''help'' \<or> n = ''h'' then 0 else 2)
           | Some f \<Rightarrow>
               (if fl_bool f
                then (case fl_set f (case v of None \<Rightarrow> ''true'' | Some x \<Rightarrow> x) st of
                        None \<Rightarrow> ParseExit 2
                      | Some st' \<Rightarrow> parse_flags fs rest st')
                else (case v of
                        Some x \<Rightarrow>
                          (case fl_set f x st of None \<Rightarrow> ParseExit 2 | Some st' \<Rightarrow> parse_flags fs rest st')
                      | None \<Rightarrow>
                          (case rest of
                             [] \<Rightarrow> ParseExit 2
                           | x # rest' \<Rightarrow>
                               (case fl_set f x st of
                                  None \<Rightarrow> ParseExit 2
                                | Some st' \<Rightarrow> parse_flags fs rest' st'))))))"

section \<open>Paths\<close>

text \<open>\<^verbatim>\<open>filepath.Join\<close> of two elements and \<^verbatim>\<open>filepath.Clean\<close>, on a system whose separator is a slash.\<close>

fun split_slash :: "string \<Rightarrow> string list" where
  "split_slash [] = [[]]"
| "split_slash (c # cs) =
     (if c = CHR ''/'' then [] # split_slash cs
      else (case split_slash cs of [] \<Rightarrow> [[c]] | p # ps \<Rightarrow> (c # p) # ps))"

fun clean_parts :: "bool \<Rightarrow> string list \<Rightarrow> string list \<Rightarrow> string list" where
  "clean_parts rooted out [] = rev out"
| "clean_parts rooted out (p # ps) =
     (if p = [] \<or> p = ''.'' then clean_parts rooted out ps
      else if p = ''..'' then
        (case out of
           q # out' \<Rightarrow> if q = ''..'' then clean_parts rooted (p # out) ps else clean_parts rooted out' ps
         | [] \<Rightarrow> clean_parts rooted (if rooted then [] else [p]) ps)
      else clean_parts rooted (p # out) ps)"

fun join_slash :: "string list \<Rightarrow> string" where
  "join_slash [] = []"
| "join_slash [p] = p"
| "join_slash (p # q # ps) = p @ ''/'' @ join_slash (q # ps)"

definition filepath_clean :: "string \<Rightarrow> string" where
  "filepath_clean s =
     (let rooted = take 1 s = ''/'';
          body = join_slash (clean_parts rooted [] (split_slash s))
      in if rooted then ''/'' @ body else if body = [] then ''.'' else body)"

definition filepath_join :: "string \<Rightarrow> string \<Rightarrow> string" where
  "filepath_join a b =
     (if a \<noteq> [] then filepath_clean (a @ ''/'' @ b)
      else if b \<noteq> [] then filepath_clean b
      else [])"

section \<open>The TLS options\<close>

datatype server = WebhookServer | MetricsServer

text \<open>The functions of a \<^verbatim>\<open>[]func(*tls.Config)\<close>; an unused element of its array is nil.\<close>

datatype tls_opt = DisableHTTP2 | GetCertificateOf server

type_synonym tls_memory = "tls_opt option memory"

text \<open>
  \<^verbatim>\<open>append\<close> of one element. With room left it writes into the array the slice shares with others;
  otherwise it allocates. \<open>grow c n\<close> is the capacity the runtime chooses for \<open>n\<close> elements when
  the capacity was \<open>c\<close>; the language only promises that they fit.
\<close>

type_synonym growth = "nat \<Rightarrow> nat \<Rightarrow> nat"

definition append_one :: "growth \<Rightarrow> slice option \<Rightarrow> tls_opt \<Rightarrow> tls_memory \<Rightarrow> slice option \<times> tls_memory" where
  "append_one grow so x h =
     (case so of
        None \<Rightarrow>
          (case alloc (Some x # replicate (grow 0 1 - 1) None) h of
             (a, h') \<Rightarrow> (Some \<lparr>sl_array = a, sl_off = 0, sl_len = 1, sl_cap = grow 0 1\<rparr>, h'))
      | Some s \<Rightarrow>
          (if sl_len s < sl_cap s
           then (Some (s\<lparr>sl_len := Suc (sl_len s)\<rparr>), store_at (sl_array s) (sl_off s + sl_len s) (Some x) h)
           else (let n = Suc (sl_len s); c = grow (sl_cap s) n in
             (case alloc (slice_items h s @ Some x # replicate (c - n) None) h of
                (a, h') \<Rightarrow> (Some \<lparr>sl_array = a, sl_off = 0, sl_len = n, sl_cap = c\<rparr>, h')))))"

definition elems_of :: "tls_memory \<Rightarrow> slice option \<Rightarrow> tls_opt option list" where
  "elems_of h so = (case so of None \<Rightarrow> [] | Some s \<Rightarrow> slice_items h s)"

text \<open>
  \<^verbatim>\<open>tlsOpts\<close>, the webhook server's options made from it, and then the metrics server's, both by
  appending to the same slice. The servers keep the slices and read them when they start.
\<close>

definition tls_options :: "growth \<Rightarrow> flags \<Rightarrow> slice option \<times> slice option \<times> tls_memory" where
  "tls_options grow fl =
     (let (tlsOpts, h1) = (if \<not> enableHTTP2 fl then append_one grow None DisableHTTP2 [] else (None, []));
          (webhookTLSOpts, h2) =
            (if length (webhookCertPath fl) > 0
             then append_one grow tlsOpts (GetCertificateOf WebhookServer) h1 else (tlsOpts, h1));
          (metricsTLSOpts, h3) =
            (if length (metricsCertPath fl) > 0
             then append_one grow tlsOpts (GetCertificateOf MetricsServer) h2 else (tlsOpts, h2))
      in (webhookTLSOpts, metricsTLSOpts, h3))"

section \<open>The start of the manager\<close>

record metrics_options =
  mo_bind_address :: string
  mo_secure_serving :: bool
  mo_tls_opts :: "slice option"
  mo_authn_authz :: bool

record manager_options =
  mgr_metrics :: metrics_options
  mgr_webhook_tls_opts :: "slice option"
  mgr_probe_addr :: string
  mgr_leader_election :: bool
  mgr_leader_election_id :: string

datatype start_call =
    NewCertWatcher server string string
  | GetConfigOrDie
  | NewManager manager_options
  | SetupWithManager string
  | AddCertWatcher server
  | AddHealthzCheck string
  | AddReadyzCheck string
  | StartManager

datatype main_result = Exited int | MainReturned

text \<open>
  The rest of \<^verbatim>\<open>main\<close> as a function of the calls made so far. Every call that can fail is followed by
  the same check: log and \<^verbatim>\<open>os.Exit(1)\<close>. \<open>ans\<close> answers the calls.
\<close>

type_synonym main_rest = "start_call list \<Rightarrow> main_result \<times> start_call list"

definition or_exit :: "(start_call \<Rightarrow> goerr option) \<Rightarrow> start_call \<Rightarrow> main_rest \<Rightarrow> main_rest" where
  "or_exit ans c rest log =
     (case ans c of Some err \<Rightarrow> (Exited 1, log @ [c]) | None \<Rightarrow> rest (log @ [c]))"

definition metrics_server_options :: "flags \<Rightarrow> slice option \<Rightarrow> metrics_options" where
  "metrics_server_options fl tls =
     \<lparr>mo_bind_address = metricsAddr fl, mo_secure_serving = secureMetrics fl, mo_tls_opts = tls,
      mo_authn_authz = secureMetrics fl\<rparr>"

definition main_options :: "growth \<Rightarrow> flags \<Rightarrow> manager_options" where
  "main_options grow fl =
     (case tls_options grow fl of
        (webhookTLSOpts, metricsTLSOpts, h) \<Rightarrow>
          \<lparr>mgr_metrics = metrics_server_options fl metricsTLSOpts, mgr_webhook_tls_opts = webhookTLSOpts,
           mgr_probe_addr = probeAddr fl, mgr_leader_election = enableLeaderElection fl,
           mgr_leader_election_id = ''a07b3cac.keyline.dev''\<rparr>)"

text \<open>From the creation of the manager on.\<close>

definition run_manager :: "(start_call \<Rightarrow> goerr option) \<Rightarrow> growth \<Rightarrow> flags \<Rightarrow> main_rest" where
  "run_manager ans grow fl =
     or_exit ans GetConfigOrDie (
     or_exit ans (NewManager (main_options grow fl)) (
     or_exit ans (SetupWithManager ''KeylineInstance'') (
     or_exit ans (SetupWithManager ''KeylineVirtualServer'') (
     or_exit ans (SetupWithManager ''KeylineProject'') (
     or_exit ans (SetupWithManager ''KeylineApplication'') (
     or_exit ans (SetupWithManager ''KeylineRole'') (
     or_exit ans (SetupWithManager ''KeylineUser'') (
     or_exit ans (SetupWithManager ''KeylineRoleAssignment'') (
     (\<lambda>rest. if length (metricsCertPath fl) > 0 then or_exit ans (AddCertWatcher MetricsServer) rest else rest) (
     (\<lambda>rest. if length (webhookCertPath fl) > 0 then or_exit ans (AddCertWatcher WebhookServer) rest else rest) (
     or_exit ans (AddHealthzCheck ''healthz'') (
     or_exit ans (AddReadyzCheck ''readyz'') (
     or_exit ans StartManager (\<lambda>log. (MainReturned, log)))))))))))))))"

definition main_from_flags :: "(start_call \<Rightarrow> goerr option) \<Rightarrow> growth \<Rightarrow> flags \<Rightarrow> main_rest" where
  "main_from_flags ans grow fl =
     (\<lambda>rest. if length (webhookCertPath fl) > 0
        then or_exit ans (NewCertWatcher WebhookServer
               (filepath_join (webhookCertPath fl) (webhookCertName fl))
               (filepath_join (webhookCertPath fl) (webhookCertKey fl))) rest
        else rest) (
     (\<lambda>rest. if length (metricsCertPath fl) > 0
        then or_exit ans (NewCertWatcher MetricsServer
               (filepath_join (metricsCertPath fl) (metricsCertName fl))
               (filepath_join (metricsCertPath fl) (metricsCertKey fl))) rest
        else rest) (
     run_manager ans grow fl))"

text \<open>\<^verbatim>\<open>main\<close>: \<open>others\<close> are the flags bound outside the repository.\<close>

definition main_program ::
    "(start_call \<Rightarrow> goerr option) \<Rightarrow> growth \<Rightarrow> flag list \<Rightarrow> string list \<Rightarrow> main_result \<times> start_call list" where
  "main_program ans grow others args =
     (case parse_flags (own_flags @ others) args default_flags of
        ParseExit code \<Rightarrow> (Exited code, [])
      | Parsed fl rest \<Rightarrow> main_from_flags ans grow fl [])"

section \<open>Scheme registration\<close>

text \<open>
  Each \<^verbatim>\<open>init\<close> function of the package \<^verbatim>\<open>v1alpha1\<close> registers an object and its list with the group's
  builder; they run in the order of the files.
\<close>

record group_version =
  gv_group :: string
  gv_version :: string

definition SchemeGroupVersion :: group_version where
  "SchemeGroupVersion = \<lparr>gv_group = ''keyline.keyline.dev'', gv_version = ''v1alpha1''\<rparr>"

definition init_KeylineApplication :: "string list" where
  "init_KeylineApplication = [''KeylineApplication'', ''KeylineApplicationList'']"

definition init_KeylineInstance :: "string list" where
  "init_KeylineInstance = [''KeylineInstance'', ''KeylineInstanceList'']"

definition init_KeylineProject :: "string list" where
  "init_KeylineProject = [''KeylineProject'', ''KeylineProjectList'']"

definition init_KeylineRole :: "string list" where
  "init_KeylineRole = [''KeylineRole'', ''KeylineRoleList'']"

definition init_KeylineRoleAssignment :: "string list" where
  "init_KeylineRoleAssignment = [''KeylineRoleAssignment'', ''KeylineRoleAssignmentList'']"

definition init_KeylineUser :: "string list" where
  "init_KeylineUser = [''KeylineUser'', ''KeylineUserList'']"

definition init_KeylineVirtualServer :: "string list" where
  "init_KeylineVirtualServer = [''KeylineVirtualServer'', ''KeylineVirtualServerList'']"

definition registered_types :: "string list" where
  "registered_types =
     init_KeylineApplication @ init_KeylineInstance @ init_KeylineProject @
     init_KeylineRole @ init_KeylineRoleAssignment @ init_KeylineUser @
     init_KeylineVirtualServer"

lemmas registered_defs =
  registered_types_def init_KeylineApplication_def init_KeylineInstance_def init_KeylineProject_def
  init_KeylineRole_def init_KeylineRoleAssignment_def init_KeylineUser_def init_KeylineVirtualServer_def

section \<open>Controllers as they are set up\<close>

text \<open>
  What each \<^verbatim>\<open>SetupWithManager\<close> tells the builder: the kind the controller is for, its name where
  it is given one, and the kinds it owns.
\<close>

record controller_builder =
  cb_for :: kind
  cb_named :: "string option"
  cb_owns :: "kind list"

definition SetupInstance :: controller_builder where
  "SetupInstance =
     \<lparr>cb_for = KInstance, cb_named = None, cb_owns = [KDeployment, KService, KSecret, KPersistentVolumeClaim]\<rparr>"

definition SetupVirtualServer :: controller_builder where
  "SetupVirtualServer = \<lparr>cb_for = KVirtualServer, cb_named = Some ''keylinevirtualserver'', cb_owns = []\<rparr>"

definition SetupProject :: controller_builder where
  "SetupProject = \<lparr>cb_for = KProject, cb_named = Some ''keylineproject'', cb_owns = []\<rparr>"

definition SetupApplication :: controller_builder where
  "SetupApplication = \<lparr>cb_for = KApplication, cb_named = Some ''keylineapplication'', cb_owns = []\<rparr>"

definition SetupRole :: controller_builder where
  "SetupRole = \<lparr>cb_for = KRole, cb_named = Some ''keylinerole'', cb_owns = []\<rparr>"

definition SetupUser :: controller_builder where
  "SetupUser = \<lparr>cb_for = KUser, cb_named = Some ''keylineuser'', cb_owns = []\<rparr>"

definition SetupRoleAssignment :: controller_builder where
  "SetupRoleAssignment = \<lparr>cb_for = KRoleAssignment, cb_named = Some ''keylineroleassignment'', cb_owns = []\<rparr>"

definition controller_builders :: "controller_builder list" where
  "controller_builders =
     [SetupInstance, SetupVirtualServer, SetupProject, SetupApplication, SetupRole, SetupUser, SetupRoleAssignment]"

lemmas setup_defs =
  SetupInstance_def SetupVirtualServer_def SetupProject_def SetupApplication_def SetupRole_def SetupUser_def
  SetupRoleAssignment_def

lemma controllers_as_set_up:
  "map (\<lambda>c. (ctl_kind c, ctl_owns c)) (controllers env) = map (\<lambda>b. (cb_for b, cb_owns b)) controller_builders"
  by (simp add: controllers_def controller_builders_def setup_defs)

section \<open>What the start-up promises\<close>

text \<open>The calls in order, when none fails.\<close>

definition start_sequence :: "growth \<Rightarrow> flags \<Rightarrow> string list \<Rightarrow> start_call list" where
  "start_sequence grow fl names =
     (if webhookCertPath fl = [] then []
      else [NewCertWatcher WebhookServer (filepath_join (webhookCertPath fl) (webhookCertName fl))
              (filepath_join (webhookCertPath fl) (webhookCertKey fl))]) @
     (if metricsCertPath fl = [] then []
      else [NewCertWatcher MetricsServer (filepath_join (metricsCertPath fl) (metricsCertName fl))
              (filepath_join (metricsCertPath fl) (metricsCertKey fl))]) @
     [GetConfigOrDie, NewManager (main_options grow fl)] @
     map SetupWithManager names @
     (if metricsCertPath fl = [] then [] else [AddCertWatcher MetricsServer]) @
     (if webhookCertPath fl = [] then [] else [AddCertWatcher WebhookServer]) @
     [AddHealthzCheck ''healthz'', AddReadyzCheck ''readyz'', StartManager]"

text \<open>Making the calls of a list up to the first that fails.\<close>

definition upto_failure :: "(start_call \<Rightarrow> goerr option) \<Rightarrow> start_call list \<Rightarrow> main_result \<times> start_call list" where
  "upto_failure ans cs =
     (let good = takeWhile (\<lambda>c. ans c = None) cs
      in if good = cs then (MainReturned, cs) else (Exited 1, take (Suc (length good)) cs))"

lemma or_exit_run:
  "foldr (or_exit ans) cs (\<lambda>log. (MainReturned, log)) log =
     (case upto_failure ans cs of (r, made) \<Rightarrow> (r, log @ made))"
  by (induction cs arbitrary: log) (auto simp: upto_failure_def or_exit_def Let_def split: option.splits if_splits)

lemma main_from_flags_sequence:
  "main_from_flags ans grow fl [] = upto_failure ans (start_sequence grow fl (map ctl_name (controllers env)))"
proof -
  have "main_from_flags ans grow fl [] =
      foldr (or_exit ans) (start_sequence grow fl (map ctl_name (controllers env))) (\<lambda>log. (MainReturned, log)) []"
    by (simp add: main_from_flags_def run_manager_def start_sequence_def controllers_def)
  then show ?thesis by (simp add: or_exit_run case_prod_beta)
qed

text \<open>
  C16: the start of the program. A mistake on the command line exits before anything is called. With
  the flags read, \<^verbatim>\<open>main\<close> makes the calls of one fixed list, each only when all before it succeeded,
  and on the first failure exits with code 1 and makes no more. So the manager is started last, after
  the certificate watchers that the flags ask for exist and are added, after all seven
  controllers are set up in the order of their registration, and after both probes; \<^verbatim>\<open>main\<close> returns
  only if the manager was started and stopped without an error.
\<close>

theorem main_runs_the_start_sequence:
  "main_program ans grow others args =
     (case parse_flags (own_flags @ others) args default_flags of
        ParseExit code \<Rightarrow> (Exited code, [])
      | Parsed fl rest \<Rightarrow> upto_failure ans (start_sequence grow fl (map ctl_name (controllers env))))"
  by (simp add: main_program_def main_from_flags_sequence split: parse_result.split)

section \<open>What the TLS options are\<close>

definition expected_tls :: "flags \<Rightarrow> server \<Rightarrow> tls_opt list" where
  "expected_tls fl srv =
     (if enableHTTP2 fl then [] else [DisableHTTP2]) @
     (if (case srv of WebhookServer \<Rightarrow> webhookCertPath fl | MetricsServer \<Rightarrow> metricsCertPath fl) = [] then []
      else [GetCertificateOf srv])"

text \<open>The language's promise on \<^verbatim>\<open>append\<close>: the new array is large enough.\<close>

definition growth_ok :: "growth \<Rightarrow> bool" where
  "growth_ok grow \<longleftrightarrow> (\<forall>c n. n \<le> grow c n)"

text \<open>
  C27: the TLS options of the servers. The metrics server always gets HTTP/2 disabled unless it was enabled
  by flag, and its own certificate when it has one. The webhook server gets the like, except in
  one case: when both servers have certificates, HTTP/2 is disabled, and the array of the
  first \<^verbatim>\<open>append\<close> had room for more than one element. Then both appends write to the same slot and the
  webhook server serves the metrics certificate. A runtime that allocates exactly one element for
  one pointer, as Go's does, excludes the case; the language does not.
\<close>

theorem tls_options_exact:
  assumes "growth_ok grow"
  shows "case tls_options grow fl of
    (webhookTLSOpts, metricsTLSOpts, h) \<Rightarrow>
      elems_of h metricsTLSOpts = map Some (expected_tls fl MetricsServer) \<and>
      elems_of h webhookTLSOpts =
        (if \<not> enableHTTP2 fl \<and> webhookCertPath fl \<noteq> [] \<and> metricsCertPath fl \<noteq> [] \<and> 1 < grow 0 1
         then [Some DisableHTTP2, Some (GetCertificateOf MetricsServer)]
         else map Some (expected_tls fl WebhookServer))"
proof -
  have "1 \<le> grow 0 1" using assms by (simp add: growth_ok_def)
  then obtain k where k: "grow 0 (Suc 0) = Suc k" by (cases "grow 0 1") auto
  show ?thesis
    by (cases k; cases "enableHTTP2 fl"; cases "webhookCertPath fl = []"; cases "metricsCertPath fl = []")
      (simp_all add: k tls_options_def append_one_def alloc_def elems_of_def slice_items_def store_at_def
        expected_tls_def Let_def)
qed

lemma tls_options_exact_witness:
  "growth_ok (\<lambda>c n. n) \<and>
   (case tls_options (\<lambda>c n. n) (default_flags\<lparr>webhookCertPath := ''/w'', metricsCertPath := ''/m''\<rparr>) of
    (webhookTLSOpts, metricsTLSOpts, h) \<Rightarrow>
      elems_of h metricsTLSOpts = [Some DisableHTTP2, Some (GetCertificateOf MetricsServer)] \<and>
      elems_of h webhookTLSOpts = [Some DisableHTTP2, Some (GetCertificateOf WebhookServer)])"
  using tls_options_exact [of "\<lambda>c n. n" "default_flags\<lparr>webhookCertPath := ''/w'', metricsCertPath := ''/m''\<rparr>"]
  by (simp add: growth_ok_def expected_tls_def default_flags_def case_prod_beta)

section \<open>What the command line means\<close>

definition render_flag :: "string \<Rightarrow> string \<Rightarrow> string" where
  "render_flag name value = ''--'' @ name @ ''='' @ value"

definition render_bool :: "bool \<Rightarrow> string" where
  "render_bool b = (if b then ''true'' else ''false'')"

definition render_flags :: "flags \<Rightarrow> string list" where
  "render_flags fl =
     [render_flag ''metrics-bind-address'' (metricsAddr fl),
      render_flag ''health-probe-bind-address'' (probeAddr fl),
      render_flag ''leader-elect'' (render_bool (enableLeaderElection fl)),
      render_flag ''metrics-secure'' (render_bool (secureMetrics fl)),
      render_flag ''webhook-cert-path'' (webhookCertPath fl),
      render_flag ''webhook-cert-name'' (webhookCertName fl),
      render_flag ''webhook-cert-key'' (webhookCertKey fl),
      render_flag ''metrics-cert-path'' (metricsCertPath fl),
      render_flag ''metrics-cert-name'' (metricsCertName fl),
      render_flag ''metrics-cert-key'' (metricsCertKey fl),
      render_flag ''enable-http2'' (render_bool (enableHTTP2 fl))]"

lemma parse_render_bool [simp]: "parse_bool (render_bool b) = Some b"
  by (simp add: parse_bool_def render_bool_def)

lemma split_value_render: "CHR ''='' \<notin> set n \<Longrightarrow> split_value (n @ ''='' @ v) = (n, Some v)"
  by (simp add: split_value_def Let_def takeWhile_append)

lemma shape_of_render:
  assumes "n \<noteq> []" "hd n \<noteq> CHR ''-''" "CHR ''='' \<notin> set n"
  shows "shape_of (render_flag n v) = FlagArg n (Some v)"
proof -
  obtain c cs where n: "n = c # cs" using assms(1) by (cases n) auto
  have "c \<noteq> CHR ''-''" "c \<noteq> CHR ''=''" using assms n by auto
  then show ?thesis using split_value_render [OF assms(3), of v] by (simp add: render_flag_def n)
qed

lemma parse_render_flag:
  assumes "n \<noteq> []" "hd n \<noteq> CHR ''-''" "CHR ''='' \<notin> set n"
    and "find_flag fs n = Some f" "fl_set f v st = Some st'"
  shows "parse_flags fs (render_flag n v # rest) st = parse_flags fs rest st'"
  using assms(4,5) by (simp add: shape_of_render [OF assms(1-3)])

text \<open>
  C33: every configuration can be given on the command line. Written as \<^verbatim>\<open>--name=value\<close> arguments, in
  whatever values, the flags are read back as they were, with no argument left over and whatever
  flags other packages define.
\<close>

theorem flags_round_trip:
  "parse_flags (own_flags @ others) (render_flags fl) default_flags = Parsed fl []"
  unfolding render_flags_def
  by (simp add: parse_render_flag find_flag_def own_flags_def StringVar_def BoolVar_def del: parse_flags.simps(2))

section \<open>What the scheme knows\<close>

text \<open>
  The scheme. The types registered under the group's version are exactly the objects that have a
  \<^verbatim>\<open>DeepCopyObject\<close>, none twice, and include the kind and the list of every controller that is
  registered. Controllers have distinct names.
\<close>

theorem scheme_knows_every_controller:
  "distinct registered_types \<and> set registered_types = fst ` set (object_copiers X) \<and>
   list_all (\<lambda>c. ctl_name c \<in> set registered_types \<and> ctl_name c @ ''List'' \<in> set registered_types)
     (controllers env) \<and>
   distinct (map cb_named controller_builders)"
proof (intro conjI subset_antisym)
  show "distinct registered_types" by (simp add: registered_defs)
  have names: "map fst (object_copiers X) =
      [''KeylineInstance'', ''KeylineInstanceList'', ''KeylineVirtualServer'', ''KeylineVirtualServerList'',
       ''KeylineProject'', ''KeylineProjectList'', ''KeylineApplication'', ''KeylineApplicationList'',
       ''KeylineRole'', ''KeylineRoleList'', ''KeylineUser'', ''KeylineUserList'',
       ''KeylineRoleAssignment'', ''KeylineRoleAssignmentList'']"
    by (simp add: object_copiers_def)
  have "list_all (\<lambda>n. n \<in> set (map fst (object_copiers X))) registered_types"
    unfolding names registered_defs by simp
  then show "set registered_types \<subseteq> fst ` set (object_copiers X)" by (auto simp: list_all_iff)
  have "list_all (\<lambda>n. n \<in> set registered_types) (map fst (object_copiers X))"
    unfolding names registered_defs by simp
  then show "fst ` set (object_copiers X) \<subseteq> set registered_types" by (auto simp: list_all_iff)
  show "list_all (\<lambda>c. ctl_name c \<in> set registered_types \<and> ctl_name c @ ''List'' \<in> set registered_types)
      (controllers env)"
    by (simp add: registered_defs controllers_def)
  show "distinct (map cb_named controller_builders)"
    by (simp add: controller_builders_def setup_defs)
qed

end
