(* ===== verification/Permissions.thy ===== *)
theory Permissions
  imports Startup
begin

text \<open>
  What the operator is allowed to do in Kubernetes: the RBAC markers above each \<^verbatim>\<open>Reconcile\<close>, the
  roles of \<^verbatim>\<open>config/rbac\<close> and of the Helm chart, and what the calls of the controllers and of the
  start-up need. A controller whose markers lack a permission works in tests with a cluster administrator
  and fails when installed.
\<close>

section \<open>Rules\<close>

record policy_rule =
  pr_groups :: "string list"
  pr_resources :: "string list"
  pr_verbs :: "string list"

text \<open>An access: an API group, a resource or subresource of it, and a verb.\<close>

type_synonym access = "string \<times> string \<times> string"

definition grants :: "policy_rule \<Rightarrow> access \<Rightarrow> bool" where
  "grants r a =
     (case a of (g, res, v) \<Rightarrow>
        List.member (pr_groups r) g \<and> List.member (pr_resources r) res \<and> List.member (pr_verbs r) v)"

definition allowed_by :: "policy_rule list \<Rightarrow> access \<Rightarrow> bool" where
  "allowed_by rs a = list_ex (\<lambda>r. grants r a) rs"

definition keyline_group :: string where
  "keyline_group = gv_group SchemeGroupVersion"

text \<open>The verbs as the markers combine them.\<close>

definition read_verbs :: "string list" where
  "read_verbs = [''get'', ''list'', ''watch'']"

definition marker :: "string \<Rightarrow> string \<Rightarrow> string list \<Rightarrow> policy_rule" where
  "marker g res vs = \<lparr>pr_groups = [g], pr_resources = [res], pr_verbs = vs\<rparr>"

section \<open>The markers\<close>

text \<open>\<^verbatim>\<open>+kubebuilder:rbac\<close>, file by file. The first three are the same for every custom resource.\<close>

definition own_markers :: "string \<Rightarrow> policy_rule list" where
  "own_markers res =
     [marker ''keyline.keyline.dev'' res [''get'', ''list'', ''watch'', ''create'', ''update'', ''patch'', ''delete''],
      marker ''keyline.keyline.dev'' (res @ ''/status'') [''get'', ''update'', ''patch''],
      marker ''keyline.keyline.dev'' (res @ ''/finalizers'') [''update'']]"

definition instance_markers :: "policy_rule list" where
  "instance_markers = own_markers ''keylineinstances'' @
     [marker [] ''secrets'' [''get'', ''list'', ''watch'', ''create'', ''update'', ''patch''],
      marker [] ''persistentvolumeclaims'' [''get'', ''list'', ''watch'', ''create''],
      marker ''apps'' ''deployments'' [''get'', ''list'', ''watch'', ''create'', ''update'', ''patch''],
      marker [] ''services'' [''get'', ''list'', ''watch'', ''create'', ''update'', ''patch'']]"

definition virtual_server_markers :: "policy_rule list" where
  "virtual_server_markers = own_markers ''keylinevirtualservers'' @
     [marker ''keyline.keyline.dev'' ''keylineinstances'' [''get'', ''list'', ''watch''],
      marker [] ''secrets'' [''get'', ''list'', ''watch'']]"

definition project_markers :: "policy_rule list" where
  "project_markers = own_markers ''keylineprojects'' @
     [marker ''keyline.keyline.dev'' ''keylinevirtualservers'' [''get'', ''list'', ''watch''],
      marker ''keyline.keyline.dev'' ''keylineinstances'' [''get'', ''list'', ''watch''],
      marker [] ''secrets'' [''get'', ''list'', ''watch'']]"

definition application_markers :: "policy_rule list" where
  "application_markers = own_markers ''keylineapplications'' @
     [marker ''keyline.keyline.dev'' ''keylineprojects'' [''get'', ''list'', ''watch''],
      marker ''keyline.keyline.dev'' ''keylinevirtualservers'' [''get'', ''list'', ''watch''],
      marker ''keyline.keyline.dev'' ''keylineinstances'' [''get'', ''list'', ''watch''],
      marker [] ''secrets'' [''get'', ''list'', ''watch'']]"

definition role_markers :: "policy_rule list" where
  "role_markers = own_markers ''keylineroles'' @
     [marker ''keyline.keyline.dev'' ''keylineprojects'' [''get'', ''list'', ''watch''],
      marker ''keyline.keyline.dev'' ''keylinevirtualservers'' [''get'', ''list'', ''watch''],
      marker ''keyline.keyline.dev'' ''keylineinstances'' [''get'', ''list'', ''watch''],
      marker [] ''secrets'' [''get'', ''list'', ''watch'']]"

definition user_markers :: "policy_rule list" where
  "user_markers = own_markers ''keylineusers'' @
     [marker ''keyline.keyline.dev'' ''keylinevirtualservers'' [''get'', ''list'', ''watch''],
      marker ''keyline.keyline.dev'' ''keylineinstances'' [''get'', ''list'', ''watch''],
      marker [] ''secrets'' [''get'', ''list'', ''watch'']]"

definition role_assignment_markers :: "policy_rule list" where
  "role_assignment_markers = own_markers ''keylineroleassignments'' @
     [marker ''keyline.keyline.dev'' ''keylineroles'' [''get'', ''list'', ''watch''],
      marker ''keyline.keyline.dev'' ''keylineusers'' [''get'', ''list'', ''watch''],
      marker ''keyline.keyline.dev'' ''keylineprojects'' [''get'', ''list'', ''watch''],
      marker ''keyline.keyline.dev'' ''keylinevirtualservers'' [''get'', ''list'', ''watch''],
      marker ''keyline.keyline.dev'' ''keylineinstances'' [''get'', ''list'', ''watch''],
      marker [] ''secrets'' [''get'', ''list'', ''watch'']]"

fun markers_of :: "kind \<Rightarrow> policy_rule list" where
  "markers_of KInstance = instance_markers"
| "markers_of KVirtualServer = virtual_server_markers"
| "markers_of KProject = project_markers"
| "markers_of KApplication = application_markers"
| "markers_of KRole = role_markers"
| "markers_of KUser = user_markers"
| "markers_of KRoleAssignment = role_assignment_markers"
| "markers_of _ = []"

section \<open>The roles\<close>

text \<open>\<^verbatim>\<open>config/rbac/role.yaml\<close>, which controller-gen makes of the markers, and the chart's copy of it.\<close>

definition custom_resources :: "string list" where
  "custom_resources =
     [''keylineapplications'', ''keylineinstances'', ''keylineprojects'', ''keylineroleassignments'', ''keylineroles'',
      ''keylineusers'', ''keylinevirtualservers'']"

definition manager_role :: "policy_rule list" where
  "manager_role =
     [\<lparr>pr_groups = [[]], pr_resources = [''persistentvolumeclaims''], pr_verbs = [''create'', ''get'', ''list'', ''watch'']\<rparr>,
      \<lparr>pr_groups = [[]], pr_resources = [''secrets'', ''services''],
       pr_verbs = [''create'', ''get'', ''list'', ''patch'', ''update'', ''watch'']\<rparr>,
      \<lparr>pr_groups = [''apps''], pr_resources = [''deployments''],
       pr_verbs = [''create'', ''get'', ''list'', ''patch'', ''update'', ''watch'']\<rparr>,
      \<lparr>pr_groups = [''keyline.keyline.dev''], pr_resources = custom_resources,
       pr_verbs = [''create'', ''delete'', ''get'', ''list'', ''patch'', ''update'', ''watch'']\<rparr>,
      \<lparr>pr_groups = [''keyline.keyline.dev''], pr_resources = map (\<lambda>r. r @ ''/finalizers'') custom_resources,
       pr_verbs = [''update'']\<rparr>,
      \<lparr>pr_groups = [''keyline.keyline.dev''], pr_resources = map (\<lambda>r. r @ ''/status'') custom_resources,
       pr_verbs = [''get'', ''patch'', ''update'']\<rparr>]"

definition leader_election_role :: "policy_rule list" where
  "leader_election_role =
     [\<lparr>pr_groups = [[]], pr_resources = [''configmaps''],
       pr_verbs = [''get'', ''list'', ''watch'', ''create'', ''update'', ''patch'', ''delete'']\<rparr>,
      \<lparr>pr_groups = [''coordination.k8s.io''], pr_resources = [''leases''],
       pr_verbs = [''get'', ''list'', ''watch'', ''create'', ''update'', ''patch'', ''delete'']\<rparr>,
      \<lparr>pr_groups = [[]], pr_resources = [''events''], pr_verbs = [''create'', ''patch'']\<rparr>]"

definition metrics_auth_role :: "policy_rule list" where
  "metrics_auth_role =
     [\<lparr>pr_groups = [''authentication.k8s.io''], pr_resources = [''tokenreviews''], pr_verbs = [''create'']\<rparr>,
      \<lparr>pr_groups = [''authorization.k8s.io''], pr_resources = [''subjectaccessreviews''], pr_verbs = [''create'']\<rparr>]"

text \<open>What the two ways of installing the operator bind to its service account.\<close>

definition kustomize_roles :: "policy_rule list" where
  "kustomize_roles = manager_role @ leader_election_role @ metrics_auth_role"

definition chart_cluster_role :: "policy_rule list" where
  "chart_cluster_role =
     [\<lparr>pr_groups = [[]], pr_resources = [''persistentvolumeclaims''], pr_verbs = [''create'', ''get'', ''list'', ''watch'']\<rparr>,
      \<lparr>pr_groups = [[]], pr_resources = [''secrets'', ''services''],
       pr_verbs = [''create'', ''get'', ''list'', ''patch'', ''update'', ''watch'']\<rparr>,
      \<lparr>pr_groups = [''apps''], pr_resources = [''deployments''],
       pr_verbs = [''create'', ''get'', ''list'', ''patch'', ''update'', ''watch'']\<rparr>,
      \<lparr>pr_groups = [''keyline.keyline.dev''], pr_resources = custom_resources,
       pr_verbs = [''create'', ''delete'', ''get'', ''list'', ''patch'', ''update'', ''watch'']\<rparr>,
      \<lparr>pr_groups = [''keyline.keyline.dev''], pr_resources = map (\<lambda>r. r @ ''/finalizers'') custom_resources,
       pr_verbs = [''update'']\<rparr>,
      \<lparr>pr_groups = [''keyline.keyline.dev''], pr_resources = map (\<lambda>r. r @ ''/status'') custom_resources,
       pr_verbs = [''get'', ''patch'', ''update'']\<rparr>]"

definition chart_role :: "policy_rule list" where
  "chart_role =
     [\<lparr>pr_groups = [[]], pr_resources = [''configmaps''],
       pr_verbs = [''get'', ''list'', ''watch'', ''create'', ''update'', ''patch'', ''delete'']\<rparr>,
      \<lparr>pr_groups = [''coordination.k8s.io''], pr_resources = [''leases''],
       pr_verbs = [''get'', ''list'', ''watch'', ''create'', ''update'', ''patch'', ''delete'']\<rparr>,
      \<lparr>pr_groups = [[]], pr_resources = [''events''], pr_verbs = [''create'', ''patch'']\<rparr>]"

definition chart_roles :: "policy_rule list" where
  "chart_roles = chart_cluster_role @ chart_role"

section \<open>What is needed\<close>

fun resource_of :: "kind \<Rightarrow> string \<times> string" where
  "resource_of KInstance = (keyline_group, ''keylineinstances'')"
| "resource_of KVirtualServer = (keyline_group, ''keylinevirtualservers'')"
| "resource_of KProject = (keyline_group, ''keylineprojects'')"
| "resource_of KApplication = (keyline_group, ''keylineapplications'')"
| "resource_of KRole = (keyline_group, ''keylineroles'')"
| "resource_of KUser = (keyline_group, ''keylineusers'')"
| "resource_of KRoleAssignment = (keyline_group, ''keylineroleassignments'')"
| "resource_of KSecret = ([], ''secrets'')"
| "resource_of KPersistentVolumeClaim = ([], ''persistentvolumeclaims'')"
| "resource_of KService = ([], ''services'')"
| "resource_of KDeployment = (''apps'', ''deployments'')"

definition access_to :: "string \<Rightarrow> string \<Rightarrow> kind \<Rightarrow> access" where
  "access_to v sub k = (case resource_of k of (g, res) \<Rightarrow> (g, res @ sub, v))"

text \<open>The manager's client reads through a cache, which lists and watches every kind that is read.\<close>

definition reading :: "kind \<Rightarrow> access list" where
  "reading k = map (\<lambda>v. access_to v [] k) read_verbs"

text \<open>
  Writing an object with a blocking owner reference to an instance takes the right to update the
  instance's finalizers.
\<close>

definition owned_writing :: "string list \<Rightarrow> kind \<Rightarrow> access list" where
  "owned_writing vs k = access_to ''update'' ''/finalizers'' KInstance # map (\<lambda>v. access_to v [] k) vs"

text \<open>
  The accesses of a logged call. \<^verbatim>\<open>CreateOrUpdate\<close> reads, and then creates or updates; when its closure fails
  it has only read, and the log does not say what. Calls of Keyline need no access to Kubernetes.
\<close>

fun accesses :: "event \<Rightarrow> access list" where
  "accesses (EvGet k nn r) = reading k"
| "accesses (EvCreate obj err) = owned_writing [''create''] (object_kind obj)"
| "accesses (EvCreateOrUpdate (Inr obj) err) = reading (object_kind obj) @ owned_writing [''create'', ''update''] (object_kind obj)"
| "accesses (EvStatusPatch obj base err) = [access_to ''patch'' ''/status'' (object_kind obj)]"
| "accesses _ = []"

text \<open>A controller lists and watches what its builder is set up for and what it owns.\<close>

definition watching :: "controller_builder \<Rightarrow> access list" where
  "watching b = concat (map reading (cb_for b # cb_owns b))"

text \<open>
  What the options of the manager need: leases and events for the election of a leader, and reviews of
  tokens and of accesses for a metrics server that authenticates its callers.
\<close>

definition manager_accesses :: "manager_options \<Rightarrow> access list" where
  "manager_accesses opts =
     (if mgr_leader_election opts
      then map (\<lambda>v. (''coordination.k8s.io'', ''leases'', v)) [''get'', ''create'', ''update''] @
           map (\<lambda>v. ([], ''events'', v)) [''create'', ''patch'']
      else []) @
     (if mo_bind_address (mgr_metrics opts) \<noteq> ''0'' \<and> mo_authn_authz (mgr_metrics opts)
      then [(''authentication.k8s.io'', ''tokenreviews'', ''create''),
            (''authorization.k8s.io'', ''subjectaccessreviews'', ''create'')]
      else [])"

section \<open>The controllers keep within their markers\<close>

definition permitted :: "kind \<Rightarrow> event \<Rightarrow> bool" where
  "permitted k e = list_all (allowed_by (markers_of k)) (accesses e)"

text \<open>The kinds a controller reads.\<close>

fun readable :: "kind \<Rightarrow> kind list" where
  "readable KInstance = [KInstance, KSecret, KPersistentVolumeClaim, KService, KDeployment]"
| "readable KVirtualServer = [KVirtualServer, KInstance, KSecret]"
| "readable KProject = [KProject, KVirtualServer, KInstance, KSecret]"
| "readable KApplication = [KApplication, KProject, KVirtualServer, KInstance, KSecret]"
| "readable KRole = [KRole, KProject, KVirtualServer, KInstance, KSecret]"
| "readable KUser = [KUser, KVirtualServer, KInstance, KSecret]"
| "readable KRoleAssignment = [KRoleAssignment, KRole, KUser, KProject, KVirtualServer, KInstance, KSecret]"
| "readable _ = []"

definition custom_kinds :: "kind list" where
  "custom_kinds = [KInstance, KVirtualServer, KProject, KApplication, KRole, KUser, KRoleAssignment]"

lemma readable_checked:
  "list_all (\<lambda>k. list_all (\<lambda>k'. list_all (allowed_by (markers_of k)) (reading k')) (readable k)) custom_kinds"
  by code_simp

lemma status_checked:
  "list_all (\<lambda>k. allowed_by (markers_of k) (access_to ''patch'' ''/status'' k)) custom_kinds"
  by code_simp

lemma permitted_calls:
  assumes "k \<in> set custom_kinds"
  shows "k' \<in> set (readable k) \<Longrightarrow> permitted k (EvGet k' nn r)"
    and "object_kind obj = k \<Longrightarrow> permitted k (EvStatusPatch obj base err)"
  using assms readable_checked status_checked by (auto simp: permitted_def list_all_iff)

lemma permitted_api: "is_api_call e \<Longrightarrow> permitted k e"
  by (cases e) (auto simp: permitted_def)

lemma permitted_token: "permitted k (EvToken ts r)"
  by (simp add: permitted_def)

lemma instance_writes_checked:
  "list_all (\<lambda>k. list_all (allowed_by instance_markers) (owned_writing [''create''] k)) [KSecret, KPersistentVolumeClaim]"
  "list_all (\<lambda>k. list_all (allowed_by instance_markers) (reading k @ owned_writing [''create'', ''update''] k))
     [KSecret, KService, KDeployment]"
  by code_simp+

lemma permitted_writes:
  "object_kind obj \<in> {KSecret, KPersistentVolumeClaim} \<Longrightarrow> permitted KInstance (EvCreate obj err)"
  "(case r of Inl e \<Rightarrow> True | Inr obj \<Rightarrow> object_kind obj \<in> {KSecret, KService, KDeployment}) \<Longrightarrow>
     permitted KInstance (EvCreateOrUpdate r err)"
  using instance_writes_checked by (cases r; auto simp: permitted_def)+

lemmas permitted_gates = permitted_calls [where k = KVirtualServer] permitted_calls [where k = KProject]
  permitted_calls [where k = KApplication] permitted_calls [where k = KRole] permitted_calls [where k = KUser]
  permitted_calls [where k = KRoleAssignment] permitted_calls [where k = KInstance]

lemmas permitted_simps = permitted_gates permitted_api permitted_token permitted_writes custom_kinds_def
  reported_def newStatusPatcher_def

lemma reconcileVirtualServer_permitted:
  "post (reconcileVirtualServer env nn) (\<lambda>out. list_all (permitted KVirtualServer))"
  unfolding reconcileVirtualServer_def reconcile_defs by (intro post_intros) (simp_all add: permitted_simps)

lemma reconcileProject_permitted: "post (reconcileProject env nn) (\<lambda>out. list_all (permitted KProject))"
  unfolding reconcileProject_def reconcile_defs by (intro post_intros) (simp_all add: permitted_simps)

lemma reconcileApplication_permitted: "post (reconcileApplication env nn) (\<lambda>out. list_all (permitted KApplication))"
  unfolding reconcileApplication_def reconcile_defs by (intro post_intros) (simp_all add: permitted_simps)

lemma reconcileRole_permitted: "post (reconcileRole env nn) (\<lambda>out. list_all (permitted KRole))"
  unfolding reconcileRole_def reconcile_defs by (intro post_intros) (simp_all add: permitted_simps)

lemma reconcileRoleAssignment_permitted:
  "post (reconcileRoleAssignment env nn) (\<lambda>out. list_all (permitted KRoleAssignment))"
  unfolding reconcileRoleAssignment_def reconcile_defs by (intro post_intros) (simp_all add: permitted_simps)

text \<open>A segment of calls of Keyline, as the steps of the user controller are.\<close>

lemma permitted_segment: "api_segment kc evs \<Longrightarrow> list_all (permitted k) evs"
  by (auto simp: api_segment_def list_all_iff dest: client_of_api intro: permitted_api)

lemma reconcileUser_permitted: "post (reconcileUser env nn) (\<lambda>out. list_all (permitted KUser))"
  unfolding reconcileUser_def reconcile_defs
  by (intro post_intros user_steps) (auto simp: permitted_simps step_ok_def permitted_segment)

text \<open>The steps of the instance controller.\<close>

lemma instance_logs_permitted:
  "credentials_log env inst r1 evs1 \<Longrightarrow> list_all (permitted KInstance) evs1"
  "reads_secret ns evs2 \<Longrightarrow> list_all (permitted KInstance) evs2"
  "key_storage_log env inst r3 evs3 \<Longrightarrow> list_all (permitted KInstance) evs3"
  "availability_log inst r4 evs4 \<Longrightarrow> list_all (permitted KInstance) evs4"
  by (auto simp: permitted_simps elim!: credentials_log.cases reads_secret.cases key_storage_log.cases availability_log.cases)

lemma map_sum_Inr: "map_sum f g r = Inr y \<Longrightarrow> (\<And>x. y = g x \<Longrightarrow> P) \<Longrightarrow> P"
  by (cases r) auto

lemma upserts_permitted:
  "permitted KInstance (EvCreateOrUpdate (config_secret_for env inst data) err)"
  "permitted KInstance (EvCreateOrUpdate (service_for env inst) err)"
  "permitted KInstance (EvCreateOrUpdate (deployment_for env inst h) err)"
  by (rule permitted_writes(2); auto split: sum.split elim!: map_sum_Inr)+

lemma resources_log_permitted: "resources_log env inst data h r evs \<Longrightarrow> list_all (permitted KInstance) evs"
  by (induction rule: resources_log.induct) (simp_all add: upserts_permitted instance_logs_permitted(3))

lemma reconcileInstance_permitted: "post (reconcileInstance env nn) (\<lambda>out. list_all (permitted KInstance))"
  unfolding reconcileInstance_def reconcile_defs
  by (intro post_intros instance_steps)
    (auto simp: permitted_simps set_url_def dest!: instance_logs_permitted(1,2,4) resources_log_permitted)

section \<open>What the roles grant\<close>

text \<open>The accesses that rules grant, enumerated.\<close>

definition granted :: "policy_rule list \<Rightarrow> access list" where
  "granted rs = concat (map (\<lambda>r. List.product (pr_groups r) (List.product (pr_resources r) (pr_verbs r))) rs)"

lemma allowed_by_granted: "allowed_by rs a \<longleftrightarrow> a \<in> set (granted rs)"
  by (auto simp: allowed_by_def grants_def granted_def list_ex_iff)

lemma markers_in_role: "list_all (\<lambda>k. list_all (allowed_by manager_role) (granted (markers_of k))) custom_kinds"
  by code_simp

lemma role_in_markers: "list_all (\<lambda>a. list_ex (\<lambda>k. allowed_by (markers_of k) a) custom_kinds) (granted manager_role)"
  by code_simp

lemma watching_checked: "list_all (\<lambda>b. list_all (allowed_by (markers_of (cb_for b))) (watching b)) controller_builders"
  by code_simp

section \<open>The Helm chart\<close>

text \<open>The values that the arguments of the chart's Deployment depend on, with their defaults.\<close>

record chart_values =
  cv_leader_election_enabled :: bool
  cv_metrics_enabled :: bool
  cv_metrics_port :: string
  cv_metrics_secure :: bool

definition default_values :: chart_values where
  "default_values =
     \<lparr>cv_leader_election_enabled = True, cv_metrics_enabled = True, cv_metrics_port = ''8443'', cv_metrics_secure = True\<rparr>"

definition chart_args :: "chart_values \<Rightarrow> string list" where
  "chart_args v =
     [''--health-probe-bind-address=:8081''] @
     (if cv_leader_election_enabled v then [''--leader-elect''] else []) @
     (if cv_metrics_enabled v
      then [''--metrics-bind-address=:'' @ cv_metrics_port v,
            ''--metrics-secure='' @ (if cv_metrics_secure v then ''true'' else ''false'')]
      else [''--metrics-bind-address=0''])"

definition chart_flags :: "chart_values \<Rightarrow> flags" where
  "chart_flags v = default_flags
     \<lparr>enableLeaderElection := cv_leader_election_enabled v,
      metricsAddr := (if cv_metrics_enabled v then CHR '':'' # cv_metrics_port v else ''0''),
      secureMetrics := (cv_metrics_enabled v \<longrightarrow> cv_metrics_secure v)\<rparr>"

lemma parse_set_flag:
  "shape_of a = FlagArg n (Some x) \<Longrightarrow> find_flag fs n = Some f \<Longrightarrow> fl_set f x st = Some st' \<Longrightarrow>
     parse_flags fs (a # rest) st = parse_flags fs rest st'"
  "shape_of a = FlagArg n None \<Longrightarrow> find_flag fs n = Some f \<Longrightarrow> fl_bool f \<Longrightarrow> fl_set f ''true'' st = Some st' \<Longrightarrow>
     parse_flags fs (a # rest) st = parse_flags fs rest st'"
  by simp_all

lemma chart_arg_shapes:
  "shape_of ''--health-probe-bind-address=:8081'' = FlagArg ''health-probe-bind-address'' (Some '':8081'')"
  "shape_of ''--leader-elect'' = FlagArg ''leader-elect'' None"
  "shape_of (''--metrics-bind-address=:'' @ port) = FlagArg ''metrics-bind-address'' (Some ('':'' @ port))"
  "shape_of ''--metrics-bind-address=0'' = FlagArg ''metrics-bind-address'' (Some ''0'')"
  "shape_of ''--metrics-secure=true'' = FlagArg ''metrics-secure'' (Some ''true'')"
  "shape_of ''--metrics-secure=false'' = FlagArg ''metrics-secure'' (Some ''false'')"
  by (simp_all add: split_value_def Let_def)

lemmas chart_arg_rules =
  parse_set_flag(1) [OF chart_arg_shapes(1)] parse_set_flag(2) [OF chart_arg_shapes(2)]
  parse_set_flag(1) [OF chart_arg_shapes(3) [unfolded append_Cons append_Nil], unfolded append_Cons append_Nil]
  parse_set_flag(1) [OF chart_arg_shapes(4)] parse_set_flag(1) [OF chart_arg_shapes(5)]
  parse_set_flag(1) [OF chart_arg_shapes(6)]

lemma chart_args_parse:
  "parse_flags (own_flags @ others) (chart_args v) default_flags = Parsed (chart_flags v) []"
  by (simp add: chart_args_def chart_flags_def chart_arg_rules find_flag_def own_flags_def StringVar_def BoolVar_def
      parse_bool_def default_flags_def del: parse_flags.simps(2) shape_of.simps)

section \<open>What holds of the installed operator\<close>

lemma role_checks:
  "list_all (allowed_by chart_roles) (map (\<lambda>v. (''coordination.k8s.io'', ''leases'', v)) [''get'', ''create'', ''update''] @
     map (\<lambda>v. ([], ''events'', v)) [''create'', ''patch''])"
  "\<not> allowed_by chart_roles (''authentication.k8s.io'', ''tokenreviews'', ''create'')"
  "list_all (allowed_by kustomize_roles) (map (\<lambda>v. (''coordination.k8s.io'', ''leases'', v)) [''get'', ''create'', ''update''] @
     map (\<lambda>v. ([], ''events'', v)) [''create'', ''patch''] @
     [(''authentication.k8s.io'', ''tokenreviews'', ''create''), (''authorization.k8s.io'', ''subjectaccessreviews'', ''create'')])"
  by code_simp+

lemma main_options_simps:
  "mgr_leader_election (main_options grow fl) = enableLeaderElection fl"
  "mo_bind_address (mgr_metrics (main_options grow fl)) = metricsAddr fl"
  "mo_authn_authz (mgr_metrics (main_options grow fl)) = secureMetrics fl"
  by (simp_all add: main_options_def metrics_server_options_def split: prod.split)

text \<open>
  C8: the controllers are allowed what they do. Every call that a controller logs needs only permissions that the
  markers in its own file ask for, whatever the environment answers; and so does the watch that its
  \<^verbatim>\<open>SetupWithManager\<close> sets up. So no reconcile fails, and no cache fails to start, for a permission that its
  file forgot and that another file happens to ask for.
\<close>

theorem controllers_permitted:
  "list_all (\<lambda>c. case run_state (ctl_reconcile c nn) (start w) of (out, s) \<Rightarrow>
     list_all (permitted (ctl_kind c)) (st_trace s)) (controllers env) \<and>
   list_all (\<lambda>b. list_all (allowed_by (markers_of (cb_for b))) (watching b)) controller_builders"
proof -
  note logs = postD [OF reconcileInstance_permitted, of env nn w] postD [OF reconcileVirtualServer_permitted, of env nn w]
    postD [OF reconcileProject_permitted, of env nn w] postD [OF reconcileApplication_permitted, of env nn w]
    postD [OF reconcileRole_permitted, of env nn w] postD [OF reconcileUser_permitted, of env nn w]
    postD [OF reconcileRoleAssignment_permitted, of env nn w]
  have "list_all (\<lambda>c. case run_state (ctl_reconcile c nn) (start w) of (out, s) \<Rightarrow>
     list_all (permitted (ctl_kind c)) (st_trace s)) (controllers env)"
    using logs by (auto simp: controllers_def split: prod.splits)
  then show ?thesis using watching_checked by (rule conjI)
qed

text \<open>
  C35: the role is what the markers ask for. The generated \<^verbatim>\<open>role.yaml\<close> and the copy of it in the Helm
  chart each grant an access if and only if the markers of some controller do: neither is out of date.
\<close>

theorem roles_up_to_date:
  "(allowed_by manager_role a \<longleftrightarrow> list_ex (\<lambda>b. allowed_by (markers_of (cb_for b)) a) controller_builders) \<and>
   (allowed_by chart_cluster_role a \<longleftrightarrow> allowed_by manager_role a)"
proof -
  have kinds: "map cb_for controller_builders = custom_kinds" by (simp add: controller_builders_def setup_defs custom_kinds_def)
  have builders: "list_ex (\<lambda>b. allowed_by (markers_of (cb_for b)) a) controller_builders
      \<longleftrightarrow> list_ex (\<lambda>k. allowed_by (markers_of k) a) custom_kinds"
    unfolding kinds [symmetric] by (simp add: list_ex_iff)
  have "allowed_by manager_role a" if "k \<in> set custom_kinds" "allowed_by (markers_of k) a" for k
    using that markers_in_role by (simp add: allowed_by_granted list_all_iff)
  moreover have "list_ex (\<lambda>k. allowed_by (markers_of k) a) custom_kinds" if "allowed_by manager_role a"
    using that role_in_markers by (simp add: allowed_by_granted list_all_iff)
  moreover have "chart_cluster_role = manager_role" by (simp add: chart_cluster_role_def manager_role_def)
  ultimately show ?thesis unfolding builders by (auto simp: list_ex_iff)
qed

text \<open>
  C36: the chart cannot authenticate its metrics. With the arguments that the Helm chart passes, for whatever
  values, the manager is allowed what its options need exactly when the values do not both enable the
  metrics and secure them. The default values do: the metrics server then asks Kubernetes to review the
  tokens of its callers, which no role of the chart allows. The roles of \<^verbatim>\<open>config/rbac\<close> allow it.
\<close>

theorem chart_metrics_not_authorized:
  "\<exists>fl. parse_flags (own_flags @ others) (chart_args v) default_flags = Parsed fl [] \<and>
     (list_all (allowed_by chart_roles) (manager_accesses (main_options grow fl)) \<longleftrightarrow>
        \<not> (cv_metrics_enabled v \<and> cv_metrics_secure v)) \<and>
     list_all (allowed_by kustomize_roles) (manager_accesses (main_options grow fl)) \<and>
     cv_metrics_enabled default_values \<and> cv_metrics_secure default_values"
proof (intro exI [of _ "chart_flags v"] conjI)
  show "parse_flags (own_flags @ others) (chart_args v) default_flags = Parsed (chart_flags v) []" by (rule chart_args_parse)
  show "list_all (allowed_by chart_roles) (manager_accesses (main_options grow (chart_flags v))) \<longleftrightarrow>
      \<not> (cv_metrics_enabled v \<and> cv_metrics_secure v)"
    using role_checks(1,2) by (auto simp: manager_accesses_def main_options_simps chart_flags_def default_flags_def)
  show "list_all (allowed_by kustomize_roles) (manager_accesses (main_options grow (chart_flags v)))"
    using role_checks(3) by (auto simp: manager_accesses_def main_options_simps)
qed (simp_all add: default_values_def)

end
