(* ===== verification/Work.thy ===== *)
theory Work
  imports Progress
begin

text \<open>
  How much a reconcile does: a bound on the calls of one reconcile, for each controller. Only the user
  controller calls more often than a constant, once for each key it has to add or to remove.
\<close>

section \<open>The bounds\<close>

text \<open>
  Reading the object and its references, the operator's key, the calls of Keyline and the status
  patch; for the instance, the Secrets, the four resources, the Deployment and the exchange.
\<close>

fun work_of :: "kind \<Rightarrow> nat" where
  "work_of KInstance = 13"
| "work_of KVirtualServer = 6"
| "work_of KProject = 7"
| "work_of KApplication = 9"
| "work_of KRole = 9"
| "work_of KUser = 9"
| "work_of KRoleAssignment = 10"
| "work_of _ = 0"

text \<open>The keys of a user that a reconcile may call Keyline for: those of the spec and those managed.\<close>

fun work_on :: "event list \<Rightarrow> nat" where
  "work_on (EvGet k nn (Inr (ObjUser u)) # _) =
     length (user_public_keys (user_spec u)) + length (user_managed_key_ids (user_status u))"
| "work_on _ = 0"

section \<open>The controllers\<close>

lemma instance_log_lengths:
  "credentials_log env inst r1 evs1 \<Longrightarrow> length evs1 \<le> 2"
  "reads_secret ns evs2 \<Longrightarrow> length evs2 \<le> 1"
  "key_storage_log env inst r3 evs3 \<Longrightarrow> length evs3 \<le> 2"
  "availability_log inst r4 evs4 \<Longrightarrow> length evs4 \<le> 1"
  by (auto elim!: credentials_log.cases reads_secret.cases key_storage_log.cases availability_log.cases)

lemma resources_log_length: "resources_log env inst data h r evs \<Longrightarrow> length evs \<le> 5"
  by (induction rule: resources_log.induct) (auto dest: instance_log_lengths(3))

lemma reconcileInstance_work: "post (reconcileInstance env nn) (\<lambda>out evs. length evs \<le> 13)"
  unfolding reconcileInstance_def reconcile_defs
  by (intro post_intros instance_steps)
    (auto dest!: instance_log_lengths(1,2,4) resources_log_length)

lemma reconcileVirtualServer_work: "post (reconcileVirtualServer env nn) (\<lambda>out evs. length evs \<le> 6)"
  unfolding reconcileVirtualServer_def reconcile_defs by (intro post_intros) simp_all

lemma reconcileProject_work: "post (reconcileProject env nn) (\<lambda>out evs. length evs \<le> 7)"
  unfolding reconcileProject_def reconcile_defs by (intro post_intros) simp_all

lemma reconcileApplication_work: "post (reconcileApplication env nn) (\<lambda>out evs. length evs \<le> 9)"
  unfolding reconcileApplication_def reconcile_defs by (intro post_intros) simp_all

lemma reconcileRole_work: "post (reconcileRole env nn) (\<lambda>out evs. length evs \<le> 9)"
  unfolding reconcileRole_def reconcile_defs by (intro post_intros) simp_all

lemma reconcileRoleAssignment_work: "post (reconcileRoleAssignment env nn) (\<lambda>out evs. length evs \<le> 10)"
  unfolding reconcileRoleAssignment_def reconcile_defs by (intro post_intros) simp_all

section \<open>The user controller\<close>

lemma find_or_create_user_work:
  "post (find_or_create_user env kc user) (\<lambda>(u, r) evs. length evs \<le> 2 \<and>
     user_spec u = user_spec user \<and> managed_of u = managed_of user)"
  unfolding find_or_create_user_def reconcile_defs by (intro post_intros) simp_all

lemma ensureServiceUser_work:
  "post (ensureServiceUser env kc user) (\<lambda>(u, r) evs. length evs \<le> 3 \<and>
     user_spec u = user_spec user \<and> managed_of u = managed_of user)"
  unfolding ensureServiceUser_def reconcile_defs
  by (intro post_intros post_mono [OF find_or_create_user_work]) auto

lemma push_display_name_work: "post (push_display_name env kc i user) (\<lambda>e evs. length evs \<le> 1)"
  unfolding push_display_name_def reconcile_defs by (intro post_intros) simp_all

text \<open>The kids associated are recorded behind those managed before, one for each call at most.\<close>

lemma associate_keys_work:
  "post (associate_keys env kc i ks managed user) (\<lambda>(u, f) evs. length evs \<le> length ks \<and>
     (\<exists>new. managed_of u = managed_of user @ new \<and> set new \<subseteq> fst ` set ks))"
proof (induction ks arbitrary: managed user)
  case Nil
  then show ?case by (auto intro: post_return)
next
  case (Cons k ks)
  have shift: "\<exists>new. xs @ kid # ys = xs @ new \<and> set new \<subseteq> insert kid A" if "set ys \<subseteq> A" for xs ys A and kid :: string
    using that by (intro exI [of _ "kid # ys"]) auto
  show ?case
    by (cases k) (auto simp: reconcile_defs intro!: post_intros post_mono [OF Cons.IH] shift)
qed

text \<open>Only kids outside the spec are removed.\<close>

lemma remove_keys_work:
  "post (remove_keys env kc i desired kids kept)
     (\<lambda>r evs. length evs \<le> length (filter (\<lambda>kid. map_of desired kid = None) kids))"
proof (induction kids arbitrary: kept)
  case Nil
  then show ?case by (auto intro: post_return)
next
  case (Cons kid kids)
  show ?case by (auto simp: reconcile_defs intro!: post_intros post_mono [OF Cons.IH])
qed

lemma desired_keys_length: "length (range_order choices (desired_keys user)) \<le> length (user_public_keys (user_spec user))"
proof -
  let ?r = "map fst (range_order choices (desired_keys user))"
  have "length ?r = card (set ?r)" using range_order_desired(1) by (simp only: distinct_card)
  also have "set ?r = desired_kids user" using range_order_desired(2) by simp
  also have "card (desired_kids user) \<le> length (user_public_keys (user_spec user))"
    by (metis card_length length_map)
  finally show ?thesis by simp
qed

text \<open>The first loop, over the spec's keys in some order, adds nothing for the second to remove.\<close>

lemma associate_desired_work:
  "post (associate_keys env kc i (range_order choices (desired_keys user)) managed user) (\<lambda>(u, f) evs.
     length evs \<le> length (user_public_keys (user_spec user)) \<and>
     length (filter (\<lambda>kid. map_of (desired_keys user) kid = None) (managed_of u)) \<le> length (managed_of user))"
proof -
  let ?obsolete = "filter (\<lambda>kid. map_of (desired_keys user) kid = None)"
  have kids: "length (?obsolete (managed_of user @ new)) \<le> length (managed_of user)"
    if "set new \<subseteq> fst ` set (range_order choices (desired_keys user))" for new
  proof -
    have "set new \<subseteq> desired_kids user" using that unfolding range_order_desired(2) .
    then have "?obsolete new = []" by (auto simp: filter_empty_conv desired_keys_defined)
    then show ?thesis by simp
  qed
  show ?thesis
    by (rule post_mono [OF associate_keys_work])
      (use kids desired_keys_length [of choices user] in
        \<open>auto simp del: set_range_order filter_append split: prod.splits intro: order.trans\<close>)
qed

lemma reconcileKeys_work:
  "post (reconcileKeys env kc user i) (\<lambda>(u, f) evs.
     length evs \<le> length (user_public_keys (user_spec user)) + length (managed_of user))"
  unfolding reconcileKeys_def Let_def
  by (intro post_intros post_bind [OF associate_desired_work] post_bind [OF remove_keys_work])
    (auto split: sum.splits)

lemma reconcileUser_work: "post (reconcileUser env nn) (\<lambda>out evs. length evs \<le> 9 + work_on evs)"
  unfolding reconcileUser_def reconcile_defs
  by (intro post_intros post_bind [OF ensureServiceUser_work] post_bind [OF push_display_name_work]
      post_bind [OF reconcileKeys_work]) auto

end
