(* ===== verification/Keyline_Server.thy ===== *)
theory Keyline_Server
  imports Progress
begin

text \<open>
  Keyline as the operator sees it: for each server and virtual server what its management API
  documents to hold, and what a call with its answer says about it. Against this the
  controllers have a specification of their own: what a reconcile that reports its object ready
  has made of Keyline. Keyline's code is not part of the repository; the state is an
  observation of the abstract world, and the law of the API is a hypothesis on the calls.
\<close>

section \<open>What a virtual server holds\<close>

record user_entry =
  ue_username :: string
  ue_is_service_user :: bool
  ue_display_name :: string

text \<open>
  Roles, applications and assignments belong to a project, given by its slug. Keys are
  PEM texts by their kid; a user that does not exist has none.
\<close>

record realm =
  rm_settings :: virtual_server_dto
  rm_projects :: "string \<Rightarrow> create_project_dto option"
  rm_roles :: "string \<times> uuid \<Rightarrow> role_dto option"
  rm_applications :: "string \<times> uuid \<Rightarrow> (string \<times> application_dto) option"
  rm_users :: "uuid \<Rightarrow> user_entry option"
  rm_keys :: "uuid \<Rightarrow> string \<Rightarrow> string option"
  rm_assigned :: "string \<times> uuid \<Rightarrow> uuid set"

text \<open>All of Keyline: the virtual servers by the base URL of their server and their name.\<close>

type_synonym keyline = "string \<times> string \<Rightarrow> realm"

definition realm_of :: "keyline_client \<Rightarrow> string \<times> string" where
  "realm_of kc = (kc_base_url kc, kc_virtual_server kc)"

section \<open>The law of the API\<close>

text \<open>
  A read changes nothing and answers what is there: a success with the entry, a 404 only without
  one; any other error says nothing. A write that succeeds has its effect; one that fails may or
  may not have had an effect on the virtual server, but for the removal of a key, whose 404
  means that there was none. Ids are handed out fresh. A field that a request for a new
  application leaves open is Keyline's to choose.
\<close>

definition answers :: "goerr option \<Rightarrow> bool \<Rightarrow> bool" where
  "answers err there = (case err of None \<Rightarrow> there | Some e \<Rightarrow> (if isApiNotFound e then \<not> there else True))"

definition answers_entry :: "goerr + 'a \<Rightarrow> 'a option \<Rightarrow> bool" where
  "answers_entry r entry =
     (case r of Inr x \<Rightarrow> entry = Some x | Inl e \<Rightarrow> (if isApiNotFound e then entry = None else True))"

definition created_as :: "create_application_dto \<Rightarrow> application_dto \<Rightarrow> bool" where
  "created_as dto d \<longleftrightarrow>
     ad_display_name d = ca_display_name dto \<and>
     ad_device_flow_enabled d = ca_device_flow_enabled dto \<and>
     slices_Equal (ad_redirect_uris d) (ca_redirect_uris dto) \<and>
     slices_Equal (ad_post_logout_redirect_uris d) (ca_post_logout_uris dto) \<and>
     (case ca_access_token_header_type dto of None \<Rightarrow> True | Some t \<Rightarrow> ad_access_token_header_type d = t) \<and>
     (case ca_signing_algorithm dto of None \<Rightarrow> True | Some a \<Rightarrow> ad_signing_algorithm d = Some a)"

fun api_law :: "event \<Rightarrow> realm \<Rightarrow> realm \<Rightarrow> bool" where
  "api_law (EvVirtualServerGet kc r) rm rm' \<longleftrightarrow>
     rm' = rm \<and> (case r of Inr d \<Rightarrow> d = rm_settings rm | Inl e \<Rightarrow> True)"
| "api_law (EvVirtualServerPatch kc vp err) rm rm' \<longleftrightarrow>
     (err = None \<longrightarrow> rm' = rm\<lparr>rm_settings := merge_vs_patch vp (rm_settings rm)\<rparr>)"
| "api_law (EvProjectGet kc slug err) rm rm' \<longleftrightarrow> rm' = rm \<and> answers err (rm_projects rm slug \<noteq> None)"
| "api_law (EvProjectCreate kc pd err) rm rm' \<longleftrightarrow>
     (err = None \<longrightarrow> rm' = rm\<lparr>rm_projects := (rm_projects rm)(cp_slug pd \<mapsto> pd)\<rparr>)"
| "api_law (EvRoleGet kc slug i r) rm rm' \<longleftrightarrow> rm' = rm \<and> answers_entry r (rm_roles rm (slug, i))"
| "api_law (EvRolePatch kc slug i rp err) rm rm' \<longleftrightarrow>
     (err = None \<longrightarrow> rm' = rm\<lparr>rm_roles :=
        (rm_roles rm)((slug, i) := map_option (merge_role_patch rp) (rm_roles rm (slug, i)))\<rparr>)"
| "api_law (EvRoleList kc slug pg sz r) rm rm' \<longleftrightarrow> rm' = rm \<and>
     (case r of Inl e \<Rightarrow> True | Inr items \<Rightarrow>
        list_all (\<lambda>it. map_option rd_name (rm_roles rm (slug, ri_id it)) = Some (ri_name it)) items)"
| "api_law (EvRoleCreate kc slug rd r) rm rm' \<longleftrightarrow>
     (case r of Inl e \<Rightarrow> True | Inr i \<Rightarrow> rm_roles rm (slug, i) = None \<and>
        rm' = rm\<lparr>rm_roles := (rm_roles rm)((slug, i) \<mapsto>
          \<lparr>rd_name = cr_name rd, rd_description = cr_description rd\<rparr>)\<rparr>)"
| "api_law (EvRoleListUsers kc slug i pg sz r) rm rm' \<longleftrightarrow> rm' = rm \<and>
     (case r of Inl e \<Rightarrow> True | Inr ids \<Rightarrow> set ids \<subseteq> rm_assigned rm (slug, i) \<and>
        (if pg = 0 \<and> finite (rm_assigned rm (slug, i)) \<and> card (rm_assigned rm (slug, i)) \<le> sz
         then set ids = rm_assigned rm (slug, i) else True))"
| "api_law (EvRoleAssign kc slug i u err) rm rm' \<longleftrightarrow>
     (err = None \<longrightarrow> rm' = rm\<lparr>rm_assigned :=
        (rm_assigned rm)((slug, i) := insert u (rm_assigned rm (slug, i)))\<rparr>)"
| "api_law (EvApplicationGet kc slug i r) rm rm' \<longleftrightarrow>
     rm' = rm \<and> answers_entry r (map_option snd (rm_applications rm (slug, i)))"
| "api_law (EvApplicationPatch kc slug i ap err) rm rm' \<longleftrightarrow>
     (err = None \<longrightarrow> rm' = rm\<lparr>rm_applications := (rm_applications rm)((slug, i) :=
        map_option (map_prod id (merge_app_patch ap)) (rm_applications rm (slug, i)))\<rparr>)"
| "api_law (EvApplicationList kc slug pg sz r) rm rm' \<longleftrightarrow> rm' = rm \<and>
     (case r of Inl e \<Rightarrow> True | Inr items \<Rightarrow>
        list_all (\<lambda>it. map_option fst (rm_applications rm (slug, ai_id it)) = Some (ai_name it)) items)"
| "api_law (EvApplicationCreate kc slug ad r) rm rm' \<longleftrightarrow>
     (case r of Inl e \<Rightarrow> True | Inr i \<Rightarrow> rm_applications rm (slug, i) = None \<and>
        (\<exists>d. created_as ad d \<and>
           rm' = rm\<lparr>rm_applications := (rm_applications rm)((slug, i) \<mapsto> (ca_name ad, d))\<rparr>))"
| "api_law (EvUserGet kc i err) rm rm' \<longleftrightarrow> rm' = rm \<and> answers err (rm_users rm i \<noteq> None)"
| "api_law (EvUserList kc pg sz r) rm rm' \<longleftrightarrow> rm' = rm \<and>
     (case r of Inl e \<Rightarrow> True | Inr items \<Rightarrow>
        list_all (\<lambda>it. map_option (\<lambda>u. (ue_username u, ue_is_service_user u)) (rm_users rm (ui_id it)) =
          Some (ui_username it, ui_is_service_user it)) items)"
| "api_law (EvUserCreate kc name r) rm rm' \<longleftrightarrow>
     (case r of Inl e \<Rightarrow> True | Inr i \<Rightarrow> rm_users rm i = None \<and>
        (\<exists>shown. rm' = rm\<lparr>rm_users := (rm_users rm)(i \<mapsto>
          \<lparr>ue_username = name, ue_is_service_user = True, ue_display_name = shown\<rparr>)\<rparr>))"
| "api_law (EvUserPatch kc i up err) rm rm' \<longleftrightarrow>
     (err = None \<longrightarrow> rm' = rm\<lparr>rm_users := (rm_users rm)(i :=
        map_option (\<lambda>u. u\<lparr>ue_display_name := overwrite (pu_display_name up) (ue_display_name u)\<rparr>) (rm_users rm i))\<rparr>)"
| "api_law (EvKeyAssociate kc i ak err) rm rm' \<longleftrightarrow>
     (err = None \<longrightarrow> (\<exists>kid. (ak_kid ak = None \<or> ak_kid ak = Some kid) \<and>
        rm' = rm\<lparr>rm_keys := (rm_keys rm)(i := (rm_keys rm i)(kid \<mapsto> ak_public_key ak))\<rparr>))"
| "api_law (EvKeyRemove kc i kid err) rm rm' \<longleftrightarrow>
     (case err of
        None \<Rightarrow> rm' = rm\<lparr>rm_keys := (rm_keys rm)(i := (rm_keys rm i)(kid := None))\<rparr>
      | Some e \<Rightarrow> (if isApiNotFound e then rm_keys rm i kid = None \<and> rm' = rm else True))"
| "api_law _ rm rm' \<longleftrightarrow> rm' = rm"

text \<open>A call concerns the virtual server of its client only; the calls of the cluster concern none.\<close>

definition keyline_law :: "event \<Rightarrow> keyline \<Rightarrow> keyline \<Rightarrow> bool" where
  "keyline_law e K K' =
     (case client_of e of
        None \<Rightarrow> K' = K
      | Some kc \<Rightarrow> (\<exists>rm'. api_law e (K (realm_of kc)) rm' \<and> K' = K(realm_of kc := rm')))"

definition serves :: "'w env \<Rightarrow> ('w \<Rightarrow> keyline) \<Rightarrow> bool" where
  "serves env kl \<longleftrightarrow> observes env kl keyline_law"

lemma serves_follow:
  "serves env kl \<Longrightarrow> explained env m \<Longrightarrow> run_state m (start w) = (a, s') \<Longrightarrow>
     follow_log keyline_law (st_trace s') (kl w) (kl (st_world s'))"
  unfolding serves_def by (rule explained_follow)

section \<open>Logs of one client\<close>

text \<open>Calls that concern no virtual server leave Keyline alone; those of one client are a matter of its virtual server.\<close>

lemma follow_no_client [simp]:
  "client_of e = None \<Longrightarrow> follow_log keyline_law (e # evs) K K' = follow_log keyline_law evs K K'"
  by (simp add: keyline_law_def)

lemma follow_client:
  "client_of e = Some kc \<Longrightarrow>
     follow_log keyline_law (e # evs) K K' \<longleftrightarrow>
     (\<exists>rm'. api_law e (K (realm_of kc)) rm' \<and> follow_log keyline_law evs (K(realm_of kc := rm')) K')"
  unfolding follow_log.simps keyline_law_def by auto

lemma follow_segment:
  "api_segment kc evs \<Longrightarrow>
     follow_log keyline_law (evs @ evs') K K' \<longleftrightarrow>
     (\<exists>rm'. follow_log api_law evs (K (realm_of kc)) rm' \<and> follow_log keyline_law evs' (K(realm_of kc := rm')) K')"
proof (induction evs arbitrary: K)
  case (Cons e evs)
  then have e: "client_of e = Some kc" "api_segment kc evs" by simp_all
  show ?case
    unfolding append_Cons follow_client [OF e(1)]
    unfolding Cons.IH [OF e(2)] fun_upd_same fun_upd_upd follow_log.simps(2) by blast
qed simp

section \<open>What a reconcile is to make of Keyline\<close>

text \<open>What a log shows: the object read of a kind, the client used, the object as patched.\<close>

fun read_of :: "kind \<Rightarrow> event list \<Rightarrow> k8s_object option" where
  "read_of k [] = None"
| "read_of k (EvGet k' nn (Inr obj) # evs) = (if k' = k then Some obj else read_of k evs)"
| "read_of k (e # evs) = read_of k evs"

fun client_in :: "event list \<Rightarrow> keyline_client option" where
  "client_in [] = None"
| "client_in (e # evs) = (case client_of e of None \<Rightarrow> client_in evs | Some kc \<Rightarrow> Some kc)"

fun patched :: "event list \<Rightarrow> k8s_object option" where
  "patched [] = None"
| "patched (EvStatusPatch obj base err # evs) = Some obj"
| "patched (e # evs) = patched evs"

definition slug_in :: "event list \<Rightarrow> string" where
  "slug_in evs = (case read_of KProject evs of Some (ObjProject p) \<Rightarrow> proj_slug (proj_spec p) | _ \<Rightarrow> [])"

text \<open>The entries that specs ask for.\<close>

definition role_entry :: "role_spec \<Rightarrow> role_dto" where
  "role_entry sp = \<lparr>rd_name = role_name sp, rd_description = description_or_empty (role_description sp)\<rparr>"

definition project_entry :: "project_spec \<Rightarrow> create_project_dto" where
  "project_entry sp =
     \<lparr>cp_slug = proj_slug sp, cp_name = proj_name sp, cp_description = description_or_empty (proj_description sp)\<rparr>"

definition application_request :: "application_spec \<Rightarrow> create_application_dto" where
  "application_request sp =
     \<lparr>ca_name = app_name sp, ca_display_name = app_display_name sp, ca_type = app_type sp,
      ca_redirect_uris = app_redirect_uris sp, ca_post_logout_uris = app_post_logout_uris sp,
      ca_access_token_header_type = app_access_token_header_type sp,
      ca_device_flow_enabled = app_device_flow_enabled sp, ca_signing_algorithm = app_signing_algorithm sp\<rparr>"

text \<open>
  What a spec makes of an entry that is there: a field that is set overwrites, one that is not set
  leaves it. A list or text that is the same but for nil against empty is left.
\<close>

definition slice_for :: "'a list option \<Rightarrow> 'a list option \<Rightarrow> 'a list option" where
  "slice_for l y = (case l of None \<Rightarrow> y | Some z \<Rightarrow> if slices_Equal l y then y else Some z)"

definition settings_for :: "virtual_server_spec \<Rightarrow> virtual_server_dto \<Rightarrow> virtual_server_dto" where
  "settings_for sp s =
     \<lparr>vsd_display_name = overwrite (vs_display_name sp) (vsd_display_name s),
      vsd_registration_enabled = overwrite (vs_registration_enabled sp) (vsd_registration_enabled s),
      vsd_require_2fa = overwrite (vs_require_2fa sp) (vsd_require_2fa s),
      vsd_require_email_verification = overwrite (vs_require_email_verification sp) (vsd_require_email_verification s),
      vsd_primary_signing_algorithm = overwrite (vs_primary_signing_algorithm sp) (vsd_primary_signing_algorithm s),
      vsd_additional_signing_algorithms =
        slice_for (vs_additional_signing_algorithms sp) (vsd_additional_signing_algorithms s)\<rparr>"

definition application_for :: "application_spec \<Rightarrow> application_dto \<Rightarrow> application_dto" where
  "application_for sp d =
     \<lparr>ad_display_name = app_display_name sp,
      ad_device_flow_enabled = app_device_flow_enabled sp,
      ad_claims_mapping_script =
        (case app_claims_mapping_script sp of None \<Rightarrow> ad_claims_mapping_script d | Some c \<Rightarrow> Some c),
      ad_redirect_uris = slice_for (app_redirect_uris sp) (ad_redirect_uris d),
      ad_post_logout_redirect_uris = slice_for (app_post_logout_uris sp) (ad_post_logout_redirect_uris d),
      ad_access_token_header_type =
        (if string_or_empty (app_access_token_header_type sp) = [] then ad_access_token_header_type d
         else string_or_empty (app_access_token_header_type sp)),
      ad_signing_algorithm =
        (case app_signing_algorithm sp of
           None \<Rightarrow> ad_signing_algorithm d
         | Some a \<Rightarrow> if a = string_or_empty (ad_signing_algorithm d) then ad_signing_algorithm d else Some a)\<rparr>"

text \<open>
  The keys of a user after a synchronisation: a key of the spec that was not managed is there, one that
  was is as it was; a managed key that the spec no longer has is gone; any other key is as it was.
\<close>

definition keys_for ::
    "service_user_public_key list \<Rightarrow> string list \<Rightarrow> (string \<Rightarrow> string option) \<Rightarrow> string \<Rightarrow> string option" where
  "keys_for ks managed m kid =
     (if kid \<in> set (map key_kid ks)
      then (if kid \<in> set managed then m kid
            else map_option key_pem (find (\<lambda>k. key_kid k = kid) (rev ks)))
      else if kid \<in> set managed then None else m kid)"

text \<open>The user with an id, made if need be, with the spec's display name and keys; all else as it was.\<close>

definition user_for :: "keyline_user \<Rightarrow> uuid \<Rightarrow> realm \<Rightarrow> realm \<Rightarrow> bool" where
  "user_for x i rm rm' \<longleftrightarrow>
     (\<exists>u. rm' = rm\<lparr>rm_users := (rm_users rm)(i \<mapsto> u), rm_keys := (rm_keys rm)(i :=
            keys_for (user_public_keys (user_spec x)) (user_managed_key_ids (user_status x)) (rm_keys rm i))\<rparr> \<and>
          (case rm_users rm i of
             None \<Rightarrow> ue_username u = user_username (user_spec x) \<and> ue_is_service_user u
           | Some u0 \<Rightarrow> u\<lparr>ue_display_name := ue_display_name u0\<rparr> = u0) \<and>
          (case user_display_name (user_spec x) of
             Some n \<Rightarrow> ue_display_name u = n
           | None \<Rightarrow> (case rm_users rm i of None \<Rightarrow> True | Some u0 \<Rightarrow> u = u0)))"

text \<open>
  \<open>effect_on env evs obj obj' rm rm'\<close>: the exact effect of a reconcile that reports readiness on the virtual server
  \<open>rm\<close>, whatever it held, given the object as it was read and as its status was patched. It says what the code does
  also where that falls short of the specification: a role whose id does not parse is left out, a role found by its
  name keeps its description, a project that is there keeps its own, a managed key is not compared. What the
  specification asks for is \<open>specified\<close> below.
\<close>

fun effect_on :: "'w env \<Rightarrow> event list \<Rightarrow> k8s_object \<Rightarrow> k8s_object \<Rightarrow> realm \<Rightarrow> realm \<Rightarrow> bool" where
  "effect_on env evs (ObjVirtualServer x) obj' rm rm' \<longleftrightarrow>
     rm' = rm\<lparr>rm_settings := settings_for (vs_spec x) (rm_settings rm)\<rparr>"
| "effect_on env evs (ObjProject x) obj' rm rm' \<longleftrightarrow>
     rm' = (if rm_projects rm (proj_slug (proj_spec x)) = None
            then rm\<lparr>rm_projects := (rm_projects rm)(proj_slug (proj_spec x) \<mapsto> project_entry (proj_spec x))\<rparr>
            else rm)"
| "effect_on env evs (ObjRole x) (ObjRole x') rm rm' \<longleftrightarrow>
     (case l_uuid_parse (lib env) (role_role_id (role_status x')) of
        Inl e \<Rightarrow> rm' = rm
      | Inr i \<Rightarrow>
          (let d = (case rm_roles rm (slug_in evs, i) of
                      None \<Rightarrow> role_entry (role_spec x)
                    | Some d0 \<Rightarrow> (if role_role_id (role_status x') = role_role_id (role_status x)
                                  then role_entry (role_spec x) else d0))
           in rd_name d = role_name (role_spec x) \<and>
              rm' = rm\<lparr>rm_roles := (rm_roles rm)((slug_in evs, i) \<mapsto> d)\<rparr>))"
| "effect_on env evs (ObjApplication x) (ObjApplication x') rm rm' \<longleftrightarrow>
     (\<exists>i d. l_uuid_parse (lib env) (app_application_id (app_status x')) = Inr i \<and>
        (case rm_applications rm (slug_in evs, i) of
           None \<Rightarrow> created_as (application_request (app_spec x)) d \<and>
             rm' = rm\<lparr>rm_applications := (rm_applications rm)((slug_in evs, i) \<mapsto> (app_name (app_spec x), d))\<rparr>
         | Some (n, d0) \<Rightarrow> d = application_for (app_spec x) d0 \<and>
             rm' = rm\<lparr>rm_applications := (rm_applications rm)((slug_in evs, i) \<mapsto> (n, d))\<rparr>))"
| "effect_on env evs (ObjUser x) (ObjUser x') rm rm' \<longleftrightarrow>
     set (user_managed_key_ids (user_status x')) = set (map key_kid (user_public_keys (user_spec x))) \<and>
     (\<exists>i. l_uuid_parse (lib env) (user_user_id (user_status x')) = Inr i \<and> user_for x i rm rm')"
| "effect_on env evs (ObjRoleAssignment x) obj' rm rm' \<longleftrightarrow>
     (case (read_of KRole evs, read_of KUser evs) of
        (Some (ObjRole r), Some (ObjUser u)) \<Rightarrow>
          (case (l_uuid_parse (lib env) (role_role_id (role_status r)),
                 l_uuid_parse (lib env) (user_user_id (user_status u))) of
             (Inr i, Inr j) \<Rightarrow> rm' = rm\<lparr>rm_assigned :=
               (rm_assigned rm)((slug_in evs, i) := insert j (rm_assigned rm (slug_in evs, i)))\<rparr>
           | _ \<Rightarrow> False)
      | _ \<Rightarrow> False)"
| "effect_on env evs _ obj' rm rm' \<longleftrightarrow> False"

section \<open>What the specification asks for\<close>

text \<open>A field that the spec sets has the value set; of a list or text, nil is the empty one.\<close>

definition asked :: "'a option \<Rightarrow> 'a \<Rightarrow> bool" where
  "asked field x \<longleftrightarrow> (case field of None \<Rightarrow> True | Some v \<Rightarrow> x = v)"

definition settings_asked :: "virtual_server_spec \<Rightarrow> virtual_server_dto \<Rightarrow> bool" where
  "settings_asked sp s \<longleftrightarrow>
     asked (vs_display_name sp) (vsd_display_name s) \<and>
     asked (vs_registration_enabled sp) (vsd_registration_enabled s) \<and>
     asked (vs_require_2fa sp) (vsd_require_2fa s) \<and>
     asked (vs_require_email_verification sp) (vsd_require_email_verification s) \<and>
     asked (vs_primary_signing_algorithm sp) (vsd_primary_signing_algorithm s) \<and>
     asked (vs_additional_signing_algorithms sp) (slice_elems (vsd_additional_signing_algorithms s))"

definition application_asked :: "application_spec \<Rightarrow> application_dto \<Rightarrow> bool" where
  "application_asked sp d \<longleftrightarrow>
     ad_display_name d = app_display_name sp \<and>
     ad_device_flow_enabled d = app_device_flow_enabled sp \<and>
     asked (app_redirect_uris sp) (slice_elems (ad_redirect_uris d)) \<and>
     asked (app_post_logout_uris sp) (slice_elems (ad_post_logout_redirect_uris d)) \<and>
     (case app_access_token_header_type sp of
        None \<Rightarrow> True | Some t \<Rightarrow> t = [] \<or> ad_access_token_header_type d = t) \<and>
     asked (app_signing_algorithm sp) (string_or_empty (ad_signing_algorithm d))"

definition script_asked :: "application_spec \<Rightarrow> application_dto \<Rightarrow> bool" where
  "script_asked sp d \<longleftrightarrow>
     (case app_claims_mapping_script sp of None \<Rightarrow> True | Some c \<Rightarrow> ad_claims_mapping_script d = Some c)"

definition user_asked :: "user_spec \<Rightarrow> user_entry \<Rightarrow> bool" where
  "user_asked sp u \<longleftrightarrow> ue_username u = user_username sp \<and> ue_is_service_user u"

text \<open>The key that the spec gives for a kid: the last one listed with it.\<close>

definition key_asked :: "user_spec \<Rightarrow> string \<Rightarrow> string option" where
  "key_asked sp kid = map_option key_pem (find (\<lambda>k. key_kid k = kid) (rev (user_public_keys sp)))"

text \<open>
  \<open>specified env evs obj obj' rm'\<close>: the virtual server \<open>rm'\<close> holds what the spec of the object asks for,
  under the id that the patched status records. This says nothing of how it came to be, nor of what was there before.
\<close>

fun specified :: "'w env \<Rightarrow> event list \<Rightarrow> k8s_object \<Rightarrow> k8s_object \<Rightarrow> realm \<Rightarrow> bool" where
  "specified env evs (ObjVirtualServer x) obj' rm' \<longleftrightarrow> settings_asked (vs_spec x) (rm_settings rm')"
| "specified env evs (ObjProject x) obj' rm' \<longleftrightarrow>
     rm_projects rm' (proj_slug (proj_spec x)) = Some (project_entry (proj_spec x))"
| "specified env evs (ObjRole x) (ObjRole x') rm' \<longleftrightarrow>
     (case l_uuid_parse (lib env) (role_role_id (role_status x')) of
        Inl e \<Rightarrow> False
      | Inr i \<Rightarrow> rm_roles rm' (slug_in evs, i) = Some (role_entry (role_spec x)))"
| "specified env evs (ObjApplication x) (ObjApplication x') rm' \<longleftrightarrow>
     (case l_uuid_parse (lib env) (app_application_id (app_status x')) of
        Inl e \<Rightarrow> False
      | Inr i \<Rightarrow> (case rm_applications rm' (slug_in evs, i) of
          None \<Rightarrow> False
        | Some (n, d) \<Rightarrow> n = app_name (app_spec x) \<and> application_asked (app_spec x) d \<and> script_asked (app_spec x) d))"
| "specified env evs (ObjUser x) (ObjUser x') rm' \<longleftrightarrow>
     (case l_uuid_parse (lib env) (user_user_id (user_status x')) of
        Inl e \<Rightarrow> False
      | Inr i \<Rightarrow> (case rm_users rm' i of
          None \<Rightarrow> False
        | Some u \<Rightarrow> user_asked (user_spec x) u \<and> asked (user_display_name (user_spec x)) (ue_display_name u)) \<and>
          list_all (\<lambda>kid. rm_keys rm' i kid = key_asked (user_spec x) kid)
            (map key_kid (user_public_keys (user_spec x)) @ user_managed_key_ids (user_status x)) \<and>
          set (user_managed_key_ids (user_status x')) = set (map key_kid (user_public_keys (user_spec x))))"
| "specified env evs (ObjRoleAssignment x) obj' rm' \<longleftrightarrow>
     (case (read_of KRole evs, read_of KUser evs) of
        (Some (ObjRole r), Some (ObjUser u)) \<Rightarrow>
          (case (l_uuid_parse (lib env) (role_role_id (role_status r)),
                 l_uuid_parse (lib env) (user_user_id (user_status u))) of
             (Inr i, Inr j) \<Rightarrow> j \<in> rm_assigned rm' (slug_in evs, i)
           | _ \<Rightarrow> False)
      | _ \<Rightarrow> False)"
| "specified env evs _ obj' rm' \<longleftrightarrow> False"

text \<open>
  \<open>shortfall env evs obj obj' rm rm'\<close>: the cases in which a ready object is not in Keyline as specified. A project
  with its slug was there and differs. The id of a role does not parse, or the role was found by its name and
  differs in its description. An application was created with a claims script asked for, which the creation does not send,
  or the one with its id has another name. The user with the id has another name or is no service user, or a key
  of the spec counts as managed but is not the one in Keyline. Settings and assignments have none.
\<close>

fun shortfall :: "'w env \<Rightarrow> event list \<Rightarrow> k8s_object \<Rightarrow> k8s_object \<Rightarrow> realm \<Rightarrow> realm \<Rightarrow> bool" where
  "shortfall env evs (ObjProject x) obj' rm rm' \<longleftrightarrow>
     rm_projects rm (proj_slug (proj_spec x)) \<notin> {None, Some (project_entry (proj_spec x))}"
| "shortfall env evs (ObjRole x) (ObjRole x') rm rm' \<longleftrightarrow>
     (case l_uuid_parse (lib env) (role_role_id (role_status x')) of
        Inl e \<Rightarrow> True
      | Inr i \<Rightarrow> role_role_id (role_status x') \<noteq> role_role_id (role_status x) \<and>
          rm_roles rm (slug_in evs, i) \<notin> {None, Some (role_entry (role_spec x))})"
| "shortfall env evs (ObjApplication x) (ObjApplication x') rm rm' \<longleftrightarrow>
     (case l_uuid_parse (lib env) (app_application_id (app_status x')) of
        Inl e \<Rightarrow> False
      | Inr i \<Rightarrow> (case rm_applications rm (slug_in evs, i) of
          Some (n, d0) \<Rightarrow> n \<noteq> app_name (app_spec x)
        | None \<Rightarrow> (case rm_applications rm' (slug_in evs, i) of
            None \<Rightarrow> False | Some (n, d) \<Rightarrow> \<not> script_asked (app_spec x) d)))"
| "shortfall env evs (ObjUser x) (ObjUser x') rm rm' \<longleftrightarrow>
     (case l_uuid_parse (lib env) (user_user_id (user_status x')) of
        Inl e \<Rightarrow> False
      | Inr i \<Rightarrow>
          (case rm_users rm i of None \<Rightarrow> False | Some u0 \<Rightarrow> \<not> user_asked (user_spec x) u0) \<or>
          list_ex (\<lambda>kid. kid \<in> set (user_managed_key_ids (user_status x)) \<and> rm_keys rm i kid \<noteq> key_asked (user_spec x) kid)
            (map key_kid (user_public_keys (user_spec x))))"
| "shortfall env evs _ obj' rm rm' \<longleftrightarrow> False"

text \<open>The effect meets the specification but for these cases.\<close>

lemma slice_for_asked: "asked l (slice_elems (slice_for l y))"
  by (auto simp: asked_def slice_for_def slices_Equal_def slice_elems_def split: option.splits)

lemma asked_overwrite: "asked f (overwrite f y)"
  by (simp add: asked_def overwrite_def split: option.split)

lemma settings_for_asked: "settings_asked sp (settings_for sp s)"
  by (simp add: settings_asked_def settings_for_def asked_overwrite slice_for_asked)

lemma algorithm_asked:
  "asked a (string_or_empty (case a of None \<Rightarrow> y | Some v \<Rightarrow> if v = string_or_empty y then y else Some v))"
  by (auto simp: asked_def string_or_empty_def split: option.splits)

lemma application_for_asked: "application_asked sp (application_for sp d)" "script_asked sp (application_for sp d)"
  by (simp_all add: application_asked_def script_asked_def application_for_def slice_for_asked algorithm_asked
      split: option.split) (simp add: string_or_empty_def)

lemma created_asked: "created_as (application_request sp) d \<Longrightarrow> application_asked sp d"
  by (auto simp: application_asked_def created_as_def application_request_def slices_Equal_def asked_def slice_elems_def
      string_or_empty_def split: option.splits)

lemma keys_for_asked:
  "list_all (\<lambda>kid. keys_for (user_public_keys sp) managed m kid = key_asked sp kid)
     (map key_kid (user_public_keys sp) @ managed) \<longleftrightarrow>
   \<not> list_ex (\<lambda>kid. kid \<in> set managed \<and> m kid \<noteq> key_asked sp kid) (map key_kid (user_public_keys sp))"
proof -
  have none: "key_asked sp kid = None" if "kid \<notin> set (map key_kid (user_public_keys sp))" for kid
    using that by (auto simp: key_asked_def find_None_iff)
  then show ?thesis by (auto simp: keys_for_def list_all_iff list_ex_iff key_asked_def [symmetric])
qed

lemma effect_specified_role:
  assumes "effect_on env evs (ObjRole x) (ObjRole x') rm rm'"
  shows "specified env evs (ObjRole x) (ObjRole x') rm' \<longleftrightarrow> \<not> shortfall env evs (ObjRole x) (ObjRole x') rm rm'"
  using assms by (auto simp: Let_def split: sum.splits option.splits if_splits)

lemma effect_specified_application:
  assumes "effect_on env evs (ObjApplication x) (ObjApplication x') rm rm'"
  shows "specified env evs (ObjApplication x) (ObjApplication x') rm' \<longleftrightarrow>
     \<not> shortfall env evs (ObjApplication x) (ObjApplication x') rm rm'"
proof -
  let ?at = "\<lambda>rm i. rm_applications rm (slug_in evs, i)"
  from assms obtain i d where i: "l_uuid_parse (lib env) (app_application_id (app_status x')) = Inr i"
    and d: "case ?at rm i of
        None \<Rightarrow> created_as (application_request (app_spec x)) d \<and>
          rm' = rm\<lparr>rm_applications := (rm_applications rm)((slug_in evs, i) \<mapsto> (app_name (app_spec x), d))\<rparr>
      | Some (n, d0) \<Rightarrow> d = application_for (app_spec x) d0 \<and>
          rm' = rm\<lparr>rm_applications := (rm_applications rm)((slug_in evs, i) \<mapsto> (n, d))\<rparr>"
    by auto
  show ?thesis
  proof (cases "?at rm i")
    case None
    with d have "?at rm' i = Some (app_name (app_spec x), d)" "created_as (application_request (app_spec x)) d" by simp_all
    then show ?thesis using None by (simp add: i created_asked)
  next
    case (Some nd)
    with d obtain n d0 where "?at rm i = Some (n, d0)" "?at rm' i = Some (n, application_for (app_spec x) d0)"
      by (cases nd) simp
    then show ?thesis by (simp add: i application_for_asked)
  qed
qed

lemma effect_specified_user:
  assumes "effect_on env evs (ObjUser x) (ObjUser x') rm rm'"
  shows "specified env evs (ObjUser x) (ObjUser x') rm' \<longleftrightarrow> \<not> shortfall env evs (ObjUser x) (ObjUser x') rm rm'"
proof -
  from assms obtain i where i: "l_uuid_parse (lib env) (user_user_id (user_status x')) = Inr i" "user_for x i rm rm'"
    and managed: "set (user_managed_key_ids (user_status x')) = set (map key_kid (user_public_keys (user_spec x)))" by auto
  from i(2) obtain u where u: "rm_users rm' i = Some u"
    and keys: "rm_keys rm' i = keys_for (user_public_keys (user_spec x)) (user_managed_key_ids (user_status x)) (rm_keys rm i)"
    and made: "case rm_users rm i of
         None \<Rightarrow> ue_username u = user_username (user_spec x) \<and> ue_is_service_user u
       | Some u0 \<Rightarrow> u\<lparr>ue_display_name := ue_display_name u0\<rparr> = u0"
    and shown: "case user_display_name (user_spec x) of
         Some n \<Rightarrow> ue_display_name u = n
       | None \<Rightarrow> (case rm_users rm i of None \<Rightarrow> True | Some u0 \<Rightarrow> u = u0)"
    unfolding user_for_def by auto
  have "asked (user_display_name (user_spec x)) (ue_display_name u)"
    using shown by (simp add: asked_def split: option.splits)
  moreover have "user_asked (user_spec x) u \<longleftrightarrow>
      (case rm_users rm i of None \<Rightarrow> True | Some u0 \<Rightarrow> user_asked (user_spec x) u0)"
  proof (cases "rm_users rm i")
    case (Some u0)
    then have "u0 = u\<lparr>ue_display_name := ue_display_name u0\<rparr>" using made by simp
    then have "ue_username u0 = ue_username u" "ue_is_service_user u0 = ue_is_service_user u" by (cases u0, cases u, simp)+
    then show ?thesis by (simp add: Some user_asked_def)
  qed (use made in \<open>simp add: user_asked_def\<close>)
  ultimately show ?thesis
    using i(1) managed by (simp add: u keys keys_for_asked del: list_all_append) (auto split: option.splits)
qed

lemma effect_specified:
  assumes "effect_on env evs obj obj' rm rm'"
  shows "specified env evs obj obj' rm' \<longleftrightarrow> \<not> shortfall env evs obj obj' rm rm'"
proof (cases obj)
  case (ObjVirtualServer x)
  with assms show ?thesis by (simp add: settings_for_asked)
next
  case (ObjProject x)
  with assms show ?thesis by (auto split: if_splits)
next
  case (ObjApplication x)
  with assms show ?thesis by (cases obj') (simp_all del: effect_on.simps specified.simps shortfall.simps add: effect_specified_application, simp_all)
next
  case (ObjRole x)
  with assms show ?thesis by (cases obj') (simp_all del: effect_on.simps specified.simps shortfall.simps add: effect_specified_role, simp_all)
next
  case (ObjUser x)
  with assms show ?thesis by (cases obj') (simp_all del: effect_on.simps specified.simps shortfall.simps add: effect_specified_user, simp_all)
next
  case (ObjRoleAssignment x)
  with assms show ?thesis by (auto split: option.splits k8s_object.splits sum.splits)
qed (use assms in simp_all)

text \<open>
  What a log shows of a reconcile that takes Keyline from \<open>K\<close> to \<open>K'\<close>: it is only the virtual server
  addressed that changes, it changes by the effect, and the result is as specified but for the shortfalls.
\<close>

definition brought :: "'w env \<Rightarrow> event list \<Rightarrow> keyline \<Rightarrow> keyline \<Rightarrow> bool" where
  "brought env evs K K' \<longleftrightarrow>
     (case evs of
        EvGet k nn (Inr obj) # _ \<Rightarrow>
          (case (client_in evs, patched evs) of
             (Some kc, Some obj') \<Rightarrow>
               (\<exists>rm'. K' = K(realm_of kc := rm') \<and> effect_on env evs obj obj' (K (realm_of kc)) rm' \<and>
                  (specified env evs obj obj' rm' \<longleftrightarrow> \<not> shortfall env evs obj obj' (K (realm_of kc)) rm'))
           | _ \<Rightarrow> False)
      | _ \<Rightarrow> False)"

lemma brought_iff:
  "brought env evs K K' \<longleftrightarrow>
     (case evs of
        EvGet k nn (Inr obj) # _ \<Rightarrow>
          (case (client_in evs, patched evs) of
             (Some kc, Some obj') \<Rightarrow>
               (\<exists>rm'. K' = K(realm_of kc := rm') \<and> effect_on env evs obj obj' (K (realm_of kc)) rm')
           | _ \<Rightarrow> False)
      | _ \<Rightarrow> False)"
proof -
  have both: "effect_on env evs obj obj' rm rm' \<and> (specified env evs obj obj' rm' \<longleftrightarrow> \<not> shortfall env evs obj obj' rm rm') \<longleftrightarrow>
      effect_on env evs obj obj' rm rm'" for obj obj' rm rm'
    using effect_specified by blast
  show ?thesis unfolding brought_def both ..
qed

definition ready_brings :: "'w env \<Rightarrow> event list \<Rightarrow> bool" where
  "ready_brings env evs \<longleftrightarrow>
     (reports_ready (ready_in env) evs \<longrightarrow>
        (\<forall>K K'. follow_log keyline_law evs K K' \<longrightarrow> brought env evs K K'))"

lemmas brings_simps = ready_brings_def brought_iff slug_in_def reported_def keyline_law_def answers_def answers_entry_def

section \<open>The controllers\<close>

lemma fun_upd_triv_realm [simp]:
  "rm\<lparr>rm_settings := rm_settings rm\<rparr> = rm"
  "rm\<lparr>rm_projects := rm_projects rm\<rparr> = rm"
  "rm\<lparr>rm_roles := rm_roles rm\<rparr> = rm"
  "rm\<lparr>rm_applications := rm_applications rm\<rparr> = rm"
  "rm\<lparr>rm_users := rm_users rm\<rparr> = rm"
  "rm\<lparr>rm_keys := rm_keys rm\<rparr> = rm"
  "rm\<lparr>rm_assigned := rm_assigned rm\<rparr> = rm"
  by simp_all

lemma fun_upd_inject [simp]:
  "K(q := x) = K(q := y) \<longleftrightarrow> x = y" "K = K(q := y) \<longleftrightarrow> K q = y"
  by (auto simp: fun_eq_iff)

lemma settings_for_merge: "settings_for sp s = merge_vs_patch (fst (build_vs_patch sp s)) s"
  by (simp add: settings_for_def merge_vs_patch_def build_vs_patch_fields overwrite_def only_if_def wants_def
      wants_slice_def slice_for_def split: option.split)

lemma settings_for_patch:
  "build_vs_patch sp s = (p, True) \<Longrightarrow> settings_for sp s = merge_vs_patch p s"
  "build_vs_patch sp s = (p, False) \<Longrightarrow> settings_for sp s = s"
  using vs_patch.flag [of sp s] vs_patch.keeps [of sp s] vs_patch.merge_empty [of s]
  by (auto simp: settings_for_merge)

lemma reconcileProject_brings:
  assumes "meta_conditions_ok (lib env)"
  shows "post (reconcileProject env nn) (\<lambda>out. ready_brings env)"
  unfolding reconcileProject_def reconcile_defs newStatusPatcher_def
  by (intro post_intros) (simp_all add: brings_simps meta_conditions_set [OF assms] project_entry_def)

lemma reconcileVirtualServer_brings:
  assumes "meta_conditions_ok (lib env)"
  shows "post (reconcileVirtualServer env nn) (\<lambda>out. ready_brings env)"
  unfolding reconcileVirtualServer_def reconcile_defs newStatusPatcher_def
  by (intro post_intros)
    (auto simp: brings_simps meta_conditions_set [OF assms] dest!: settings_for_patch [OF sym])

lemma uuid_parse_string: "uuid_ok l \<Longrightarrow> l_uuid_parse l (l_uuid_string l u) = Inr u"
  by (simp add: uuid_ok_def)

lemma uuid_parse_of: "uuid_ok l \<Longrightarrow> l_uuid_string l u = s \<Longrightarrow> l_uuid_parse l s = Inr u"
  by (auto simp: uuid_ok_def)

lemma role_patch_entry:
  "build_role_patch sp d = (p, True) \<Longrightarrow> merge_role_patch p d = role_entry sp"
  "build_role_patch sp d = (p, False) \<Longrightarrow> d = role_entry sp"
  by (cases d; auto simp: build_role_patch_def merge_role_patch_def role_entry_def empty_role_patch_def Let_def
      split: if_splits)+

lemma find_role_listed:
  "find_role n items = Some it \<Longrightarrow>
     list_all (\<lambda>it. map_option rd_name (m (slug, ri_id it)) = Some (ri_name it)) items \<Longrightarrow>
     \<exists>d. m (slug, ri_id it) = Some d \<and> rd_name d = n"
  by (auto simp: find_role_def find_Some_iff list_all_length)

lemma role_entry_name [simp]: "rd_name (role_entry sp) = role_name sp"
  by (simp add: role_entry_def)

lemma reconcileRole_brings:
  assumes "meta_conditions_ok (lib env)" "uuid_ok (lib env)"
  shows "post (reconcileRole env nn) (\<lambda>out. ready_brings env)"
  unfolding reconcileRole_def reconcile_defs newStatusPatcher_def
  by (intro post_intros)
    (auto simp: brings_simps meta_conditions_set [OF assms(1)] uuid_parse_string [OF assms(2)]
      uuid_string_nonempty [OF assms(2)] set_role_id_def map_upd_triv role_entry_def [symmetric]
      dest: uuid_parse_of [OF assms(2)] dest!: role_patch_entry [OF sym] find_role_listed split: option.splits)

lemma reconcileRoleAssignment_brings:
  assumes "meta_conditions_ok (lib env)"
  shows "post (reconcileRoleAssignment env nn) (\<lambda>out. ready_brings env)"
  unfolding reconcileRoleAssignment_def reconcile_defs newStatusPatcher_def
  by (intro post_intros)
    (auto simp: brings_simps meta_conditions_set [OF assms] list_ex_iff insert_absorb)

lemma application_for_patch:
  "buildApplicationPatch d sp = Some p \<Longrightarrow> application_for sp d = merge_app_patch p d"
  "buildApplicationPatch d sp = None \<Longrightarrow> application_for sp d = d"
proof -
  have "application_for sp d = merge_app_patch (app_patch_of d sp) d"
    by (auto simp: application_for_def merge_app_patch_def app_patch_of_def overwrite_def only_if_def wants_script_def
        slice_for_def slices_Equal_def string_or_empty_def split: option.split)
  moreover have "merge_app_patch (app_patch_of d sp) d = d" if "app_in_sync sp d"
    using that by (auto simp: app_in_sync_def merge_app_patch_def app_patch_of_def overwrite_def only_if_def)
  ultimately show "buildApplicationPatch d sp = Some p \<Longrightarrow> application_for sp d = merge_app_patch p d"
    "buildApplicationPatch d sp = None \<Longrightarrow> application_for sp d = d"
    by (auto simp: buildApplicationPatch_fields split: if_splits)
qed

lemma application_request_name [simp]: "ca_name (application_request sp) = app_name sp"
  by (simp add: application_request_def)

lemma find_application_listed:
  "find_application n items = Some it \<Longrightarrow>
     list_all (\<lambda>it. \<exists>a b. m (slug, ai_id it) = Some (a, b) \<and> a = ai_name it) items \<Longrightarrow>
     \<exists>d. m (slug, ai_id it) = Some (n, d)"
  by (auto simp: find_application_def find_Some_iff list_all_length)

lemma reconcileApplication_brings:
  assumes "meta_conditions_ok (lib env)" "uuid_ok (lib env)"
  shows "post (reconcileApplication env nn) (\<lambda>out. ready_brings env)"
  unfolding reconcileApplication_def reconcile_defs newStatusPatcher_def
  by (intro post_intros)
    (auto simp: brings_simps meta_conditions_set [OF assms(1)] uuid_parse_string [OF assms(2)]
      uuid_string_nonempty [OF assms(2)] set_application_id_def map_upd_triv application_request_def [symmetric]
      application_for_patch
      dest: uuid_parse_of [OF assms(2)] split: option.splits)

section \<open>The user controller\<close>

text \<open>What the steps make of the virtual server when they succeed.\<close>

definition effect_of :: "keyline_client \<Rightarrow> (realm \<Rightarrow> realm \<Rightarrow> bool) \<Rightarrow> event list \<Rightarrow> bool" where
  "effect_of kc P evs \<longleftrightarrow> api_segment kc evs \<and> (\<forall>rm rm'. follow_log api_law evs rm rm' \<longrightarrow> P rm rm')"

lemma effect_of_append:
  "effect_of kc P evs \<Longrightarrow> effect_of kc Q evs' \<Longrightarrow> (\<And>rm s rm'. P rm s \<Longrightarrow> Q s rm' \<Longrightarrow> R rm rm') \<Longrightarrow>
     effect_of kc R (evs @ evs')"
  unfolding effect_of_def follow_log_append api_segment_simps by blast

lemma effect_of_read:
  "effect_of kc P evs \<Longrightarrow> client_of e = Some kc \<Longrightarrow> (\<And>rm rm'. api_law e rm rm' \<Longrightarrow> rm' = rm) \<Longrightarrow>
     effect_of kc P (e # evs)"
  by (fastforce simp: effect_of_def)

definition with_keys :: "uuid \<Rightarrow> ((string \<Rightarrow> string option) \<Rightarrow> (string \<Rightarrow> string option)) \<Rightarrow> realm \<Rightarrow> realm" where
  "with_keys i f rm = rm\<lparr>rm_keys := (rm_keys rm)(i := f (rm_keys rm i))\<rparr>"

lemma with_keys_compose [simp]: "with_keys i g (with_keys i f rm) = with_keys i (\<lambda>m. g (f m)) rm"
  by (simp add: with_keys_def)

lemma with_keys_id [simp]: "with_keys i (\<lambda>m. m) rm = rm"
  by (simp add: with_keys_def)

definition associated ::
    "(string \<times> service_user_public_key) list \<Rightarrow> string set \<Rightarrow> (string \<Rightarrow> string option) \<Rightarrow> string \<Rightarrow> string option" where
  "associated ks managed m kid =
     (if kid \<in> managed then m kid
      else (case map_of ks kid of None \<Rightarrow> m kid | Some k \<Rightarrow> Some (key_pem k)))"

lemma associated_simps [simp]:
  "associated [] managed = (\<lambda>m. m)"
  "kid \<in> managed \<Longrightarrow> associated ((kid, k) # ks) managed = associated ks managed"
  by (auto simp: associated_def fun_eq_iff split: option.split)

lemma associated_next:
  "kid \<notin> managed \<Longrightarrow>
     associated ks (insert kid managed) (m(kid \<mapsto> key_pem k)) = associated ((kid, k) # ks) managed m"
  by (auto simp: associated_def fun_eq_iff split: option.split)

lemma associate_keys_effect:
  "post (associate_keys env kc i ks managed user) (\<lambda>(u, f) evs.
     api_segment kc evs \<and> user_spec u = user_spec user \<and> user_user_id (user_status u) = user_user_id (user_status user) \<and>
     (f = None \<longrightarrow>
        (\<exists>new. managed_of u = managed_of user @ new \<and> set new \<subseteq> fst ` set ks) \<and>
        effect_of kc (\<lambda>rm rm'. rm' = with_keys i (associated ks managed) rm) evs))"
proof (induction ks arbitrary: managed user)
  case Nil
  then show ?case by (auto intro!: post_return simp: effect_of_def)
next
  case (Cons p ks)
  have shift: "\<exists>new. xs @ kid # ys = xs @ new \<and> set new \<subseteq> insert kid A" if "set ys \<subseteq> A" for xs ys A and kid :: string
    using that by (intro exI [of _ "kid # ys"]) auto
  have step: "rm' = with_keys i (associated ((kid, k) # ks) managed) rm"
    if "kid \<notin> managed" "rm' = with_keys i (associated ks (insert kid managed)) (rm\<lparr>rm_keys := (rm_keys rm)(i := (rm_keys rm i)(kid \<mapsto> key_pem k))\<rparr>)"
    for kid k rm rm'
    using that by (simp add: with_keys_def associated_next)
  show ?case
    by (cases p) (auto simp: reconcile_defs effect_of_def intro!: post_intros post_mono [OF Cons.IH] shift step)
qed

definition without ::
    "(string \<times> service_user_public_key) list \<Rightarrow> string list \<Rightarrow> (string \<Rightarrow> string option) \<Rightarrow> string \<Rightarrow> string option" where
  "without desired kids m kid = (if kid \<in> set kids \<and> map_of desired kid = None then None else m kid)"

lemma without_simps [simp]:
  "without desired [] = (\<lambda>m. m)"
  "map_of desired kid \<noteq> None \<Longrightarrow> without desired (kid # kids) = without desired kids"
  by (auto simp: without_def fun_eq_iff)

lemma without_next: "map_of desired kid = None \<Longrightarrow> without desired (kid # kids) m = without desired kids (m(kid := None))"
  by (auto simp: without_def fun_eq_iff)

lemma remove_keys_effect:
  "post (remove_keys env kc i desired kids kept) (\<lambda>r evs. api_segment kc evs \<and>
     (\<not> isl r \<longrightarrow> effect_of kc (\<lambda>rm rm'. rm' = with_keys i (without desired kids) rm) evs))"
proof (induction kids arbitrary: kept)
  case Nil
  then show ?case by (auto intro!: post_return simp: effect_of_def)
next
  case (Cons kid kids)
  have step: "with_keys i (without desired (kid # kids)) rm =
      with_keys i (without desired kids) (rm\<lparr>rm_keys := (rm_keys rm)(i := (rm_keys rm i)(kid := None))\<rparr>)"
    if "map_of desired kid = None" for rm
    using that by (simp add: with_keys_def without_next)
  show ?case
    by (auto simp: reconcile_defs effect_of_def step fun_upd_idem intro!: post_intros post_mono [OF Cons.IH])
qed

lemma map_of_desired:
  "map_of (desired_keys user) kid = find (\<lambda>k. key_kid k = kid) (rev (user_public_keys (user_spec user)))"
proof -
  have "map_of (foldl (\<lambda>m k. AList.update (key_kid k) k m) [] ks) kid = find (\<lambda>k. key_kid k = kid) (rev ks)" for ks
    by (induction ks rule: rev_induct) (auto simp: update_conv')
  then show ?thesis by (simp add: desired_keys_def)
qed

lemma map_of_range_order:
  "map_of (range_order choices (desired_keys user)) = map_of (desired_keys user)"
proof (rule map_of_eqI)
  show "set (map fst (range_order choices (desired_keys user))) = set (map fst (desired_keys user))"
    using range_order_desired(2) desired_keys_keys by simp
  have "set (range_order choices (desired_keys user)) = set (desired_keys user)" by simp
  then show "\<forall>k\<in>set (map fst (range_order choices (desired_keys user))).
      map_of (range_order choices (desired_keys user)) k = map_of (desired_keys user) k"
    using range_order_desired(1) desired_keys_distinct by (metis map_of_inject_set)
qed

text \<open>Together the two loops leave the keys as specified, in whatever order the first goes.\<close>

lemma keys_for_loops:
  assumes "set new \<subseteq> desired_kids user"
  shows "without (desired_keys user) (managed_of user @ new)
      (associated (range_order choices (desired_keys user)) (set (managed_of user)) m) =
    keys_for (user_public_keys (user_spec user)) (managed_of user) m"
proof
  fix kid
  have "map_of (desired_keys user) kid = None \<longleftrightarrow> kid \<notin> desired_kids user" by (rule desired_keys_defined)
  with assms show "without (desired_keys user) (managed_of user @ new)
      (associated (range_order choices (desired_keys user)) (set (managed_of user)) m) kid =
    keys_for (user_public_keys (user_spec user)) (managed_of user) m kid"
    by (auto simp: without_def associated_def keys_for_def map_of_range_order map_of_desired split: option.splits)
qed

lemma keys_log_recorded: "keys_log kc i user (u, None) evs \<Longrightarrow> set (managed_of u) = desired_kids user"
  by (erule keys_log.cases) (use missing_kids in auto)

lemma reconcileKeys_recorded:
  "post (reconcileKeys env kc user i) (\<lambda>(u, f) evs. f = None \<longrightarrow> set (managed_of u) = desired_kids user)"
  by (rule post_mono [OF reconcileKeys_log]) (auto dest: keys_log_recorded)

lemma reconcileKeys_effect:
  "post (reconcileKeys env kc user i) (\<lambda>(u, f) evs. api_segment kc evs \<and>
     user_spec u = user_spec user \<and> user_user_id (user_status u) = user_user_id (user_status user) \<and>
     (f = None \<longrightarrow> effect_of kc (\<lambda>rm rm'. rm' =
        with_keys i (keys_for (user_public_keys (user_spec user)) (managed_of user)) rm) evs))"
  unfolding reconcileKeys_def Let_def
  by (intro post_intros post_bind [OF associate_keys_effect] post_bind [OF remove_keys_effect])
    (auto simp: range_order_desired(2) desired_keys_keys keys_for_loops split: sum.splits elim!: effect_of_append)

text \<open>The user with an id: found, or made with the name of the spec.\<close>

definition user_present :: "keyline_user \<Rightarrow> uuid \<Rightarrow> realm \<Rightarrow> realm \<Rightarrow> bool" where
  "user_present user i rm rm' \<longleftrightarrow>
     (if rm_users rm i = None
      then (\<exists>shown. rm' = rm\<lparr>rm_users := (rm_users rm)(i \<mapsto>
              \<lparr>ue_username = user_username (user_spec user), ue_is_service_user = True, ue_display_name = shown\<rparr>)\<rparr>)
      else rm' = rm)"

definition user_ensured ::
    "'w env \<Rightarrow> keyline_client \<Rightarrow> keyline_user \<Rightarrow> keyline_user \<times> ((key_reconcile_failure \<times> goerr) + uuid) \<Rightarrow>
     event list \<Rightarrow> bool" where
  "user_ensured env kc user res evs \<longleftrightarrow>
     (case res of (u, r) \<Rightarrow> api_segment kc evs \<and> evs \<noteq> [] \<and>
        user_spec u = user_spec user \<and> managed_of u = managed_of user \<and>
        (case r of Inl f \<Rightarrow> True | Inr i \<Rightarrow> l_uuid_parse (lib env) (user_user_id (user_status u)) = Inr i \<and>
           effect_of kc (user_present user i) evs))"

lemma find_or_create_user_effect:
  assumes "uuid_ok (lib env)"
  shows "post (find_or_create_user env kc user) (user_ensured env kc user)"
  unfolding find_or_create_user_def reconcile_defs
  by (intro post_intros)
    (auto simp: user_ensured_def effect_of_def user_present_def uuid_parse_string [OF assms] find_service_user_def
      find_Some_iff list_all_length split: option.splits)

lemma user_ensured_cleared: "user_ensured env kc (set_user_id s user) = user_ensured env kc user"
proof -
  have eq: "user_present (set_user_id s user) = user_present user" by (intro ext) (simp add: user_present_def)
  show ?thesis unfolding fun_eq_iff user_ensured_def eq by simp
qed

lemma user_ensured_read:
  "user_ensured env kc user res evs \<Longrightarrow> user_ensured env kc user res (EvUserGet kc j err # evs)"
  by (auto simp: user_ensured_def intro: effect_of_read split: sum.splits)

lemma ensureServiceUser_effect:
  assumes "uuid_ok (lib env)"
  shows "post (ensureServiceUser env kc user) (user_ensured env kc user)"
  unfolding ensureServiceUser_def reconcile_defs
  apply (intro post_intros post_mono [OF find_or_create_user_effect [OF assms]])
   apply (auto simp: user_ensured_cleared intro: user_ensured_read)
   apply (auto simp: user_ensured_def effect_of_def user_present_def answers_def)
  done

definition name_shown :: "string option \<Rightarrow> uuid \<Rightarrow> realm \<Rightarrow> realm" where
  "name_shown name i rm =
     (case name of
        None \<Rightarrow> rm
      | Some n \<Rightarrow> rm\<lparr>rm_users := (rm_users rm)(i := map_option (\<lambda>u. u\<lparr>ue_display_name := n\<rparr>) (rm_users rm i))\<rparr>)"

lemma push_display_name_effect:
  "post (push_display_name env kc i user) (\<lambda>e evs. api_segment kc evs \<and>
     (e = None \<longrightarrow> effect_of kc (\<lambda>rm rm'. rm' = name_shown (user_display_name (user_spec user)) i rm) evs))"
  unfolding push_display_name_def reconcile_defs
  by (intro post_intros) (auto simp: effect_of_def name_shown_def overwrite_def split: option.split)

lemma user_forI:
  assumes "rm' = rm\<lparr>rm_users := (rm_users rm)(i \<mapsto> u), rm_keys := (rm_keys rm)(i :=
      keys_for (user_public_keys (user_spec x)) (user_managed_key_ids (user_status x)) (rm_keys rm i))\<rparr>"
    and "case rm_users rm i of
           None \<Rightarrow> ue_username u = user_username (user_spec x) \<and> ue_is_service_user u
         | Some u0 \<Rightarrow> u\<lparr>ue_display_name := ue_display_name u0\<rparr> = u0"
    and "case user_display_name (user_spec x) of
           Some n \<Rightarrow> ue_display_name u = n
         | None \<Rightarrow> (case rm_users rm i of None \<Rightarrow> True | Some u0 \<Rightarrow> u = u0)"
  shows "user_for x i rm rm'"
  using assms unfolding user_for_def by blast

lemma user_for_steps:
  assumes "user_present user i rm s"
  shows "user_for user i rm (with_keys i (keys_for (user_public_keys (user_spec user)) (managed_of user))
     (name_shown (user_display_name (user_spec user)) i s))"
  using assms
  by (cases "rm_users rm i"; cases "user_display_name (user_spec user)")
    (auto simp: user_present_def name_shown_def with_keys_def map_upd_triv intro!: user_forI)

lemma user_steps_bring:
  assumes "effect_of kc (user_present user i) e1"
    and "effect_of kc (\<lambda>rm rm'. rm' = name_shown (user_display_name (user_spec user)) i rm) e2"
    and "effect_of kc (\<lambda>rm rm'. rm' = with_keys i (keys_for (user_public_keys (user_spec user)) (managed_of user)) rm) e3"
    and "follow_log keyline_law (e1 @ e2 @ e3 @ [e]) K K'" "client_of e = None"
  shows "\<exists>rm'. K' = K(realm_of kc := rm') \<and> user_for user i (K (realm_of kc)) rm'"
proof -
  have "effect_of kc (\<lambda>rm rm'. rm' =
      with_keys i (keys_for (user_public_keys (user_spec user)) (managed_of user)) (name_shown (user_display_name (user_spec user)) i rm)) (e2 @ e3)"
    by (rule effect_of_append [OF assms(2,3)]) simp
  then have "effect_of kc (user_for user i) (e1 @ e2 @ e3)"
    by (rule effect_of_append [OF assms(1)]) (simp add: user_for_steps)
  then have seg: "api_segment kc (e1 @ e2 @ e3)"
    and made: "\<forall>rm rm'. follow_log api_law (e1 @ e2 @ e3) rm rm' \<longrightarrow> user_for user i rm rm'"
    unfolding effect_of_def by blast+
  from assms(4) have "follow_log keyline_law ((e1 @ e2 @ e3) @ [e]) K K'" by simp
  then show ?thesis unfolding follow_segment [OF seg] using made by (auto simp: keyline_law_def assms(5) simp del: fun_upd_inject)
qed

lemma client_in_segment:
  "api_segment kc evs \<Longrightarrow> evs \<noteq> [] \<Longrightarrow> client_in (evs @ rest) = Some kc"
  by (cases evs) simp_all

lemma patched_segment: "api_segment kc evs \<Longrightarrow> patched (evs @ rest) = patched rest"
proof (induction evs)
  case (Cons e evs)
  then show ?case by (cases e) simp_all
qed simp

lemma reconcileUser_brings:
  assumes "meta_conditions_ok (lib env)" "uuid_ok (lib env)"
  shows "post (reconcileUser env nn) (\<lambda>out. ready_brings env)"
  unfolding reconcileUser_def reconcile_defs newStatusPatcher_def
  by (intro post_intros post_bind [OF ensureServiceUser_effect [OF assms(2)]] post_bind [OF push_display_name_effect]
      post_bind [OF post_conj [OF reconcileKeys_effect reconcileKeys_recorded]])
    (auto simp: brings_simps meta_conditions_set [OF assms(1)] user_ensured_def
      client_in_segment patched_segment dest!: user_steps_bring)

end
