(* ===== verification/Keyline_Settled.thy ===== *)
theory Keyline_Settled
  imports Keyline_Server
begin

text \<open>
  A Keyline that is in sync with an object stays as it is: the next reconcile writes nothing but the
  display name of a user, which the controller pushes every time. And what a reconcile that
  reports its object ready has made of Keyline is in sync with the object.
\<close>

section \<open>In sync\<close>

text \<open>Writes that are no more than the push of a user's display name.\<close>

fun pushes :: "string option \<Rightarrow> event \<Rightarrow> bool" where
  "pushes name (EvUserPatch kc i p err) = (pu_display_name p = name)"
| "pushes name e = (\<not> is_api_write e)"

definition name_of :: "k8s_object \<Rightarrow> string option" where
  "name_of obj = (case obj of ObjUser u \<Rightarrow> user_display_name (user_spec u) | _ \<Rightarrow> None)"

definition no_writes_but :: "k8s_object \<Rightarrow> event list \<Rightarrow> bool" where
  "no_writes_but obj evs \<longleftrightarrow>
     list_all (\<lambda>e. case name_of obj of None \<Rightarrow> \<not> is_api_write e | Some n \<Rightarrow> pushes (Some n) e) evs"

text \<open>
  Keyline is in sync with an object: the ids recorded are there and nothing differs.
\<close>

fun in_keyline :: "'w env \<Rightarrow> event list \<Rightarrow> k8s_object \<Rightarrow> realm \<Rightarrow> bool" where
  "in_keyline env evs (ObjVirtualServer x) rm \<longleftrightarrow> vs_in_sync (vs_spec x) (rm_settings rm)"
| "in_keyline env evs (ObjProject x) rm \<longleftrightarrow> rm_projects rm (proj_slug (proj_spec x)) \<noteq> None"
| "in_keyline env evs (ObjRole x) rm \<longleftrightarrow> role_role_id (role_status x) \<noteq> [] \<and>
     (case l_uuid_parse (lib env) (role_role_id (role_status x)) of
        Inl e \<Rightarrow> False
      | Inr i \<Rightarrow> rm_roles rm (slug_in evs, i) = Some (role_entry (role_spec x)))"
| "in_keyline env evs (ObjApplication x) rm \<longleftrightarrow> app_application_id (app_status x) \<noteq> [] \<and>
     (case l_uuid_parse (lib env) (app_application_id (app_status x)) of
        Inl e \<Rightarrow> False
      | Inr i \<Rightarrow> (case rm_applications rm (slug_in evs, i) of
          None \<Rightarrow> False | Some (n, d) \<Rightarrow> app_in_sync (app_spec x) d))"
| "in_keyline env evs (ObjUser x) rm \<longleftrightarrow> user_user_id (user_status x) \<noteq> [] \<and>
     set (user_managed_key_ids (user_status x)) = set (map key_kid (user_public_keys (user_spec x))) \<and>
     (case l_uuid_parse (lib env) (user_user_id (user_status x)) of
        Inl e \<Rightarrow> False
      | Inr i \<Rightarrow> rm_users rm i \<noteq> None)"
| "in_keyline env evs (ObjRoleAssignment x) rm \<longleftrightarrow>
     (case (read_of KRole evs, read_of KUser evs) of
        (Some (ObjRole r), Some (ObjUser u)) \<Rightarrow>
          (case (l_uuid_parse (lib env) (role_role_id (role_status r)),
                 l_uuid_parse (lib env) (user_user_id (user_status u))) of
             (Inr i, Inr j) \<Rightarrow> j \<in> rm_assigned rm (slug_in evs, i) \<and>
               finite (rm_assigned rm (slug_in evs, i)) \<and> card (rm_assigned rm (slug_in evs, i)) \<le> 1000
           | _ \<Rightarrow> False)
      | _ \<Rightarrow> False)"
| "in_keyline env evs _ rm \<longleftrightarrow> False"

text \<open>
  What the log of a reconcile shows against a Keyline that is \<open>K\<close> before it: no write if the object was
  not found or no client was made, and next to none if Keyline is in sync with the object.
\<close>

definition quiet_from :: "'w env \<Rightarrow> event list \<Rightarrow> keyline \<Rightarrow> bool" where
  "quiet_from env evs K \<longleftrightarrow>
     (case evs of
        EvGet k nn (Inr obj) # _ \<Rightarrow>
          (case client_in evs of
             None \<Rightarrow> list_all (\<lambda>e. \<not> is_api_write e) evs
           | Some kc \<Rightarrow> (in_keyline env evs obj (K (realm_of kc)) \<longrightarrow> no_writes_but obj evs))
      | _ \<Rightarrow> list_all (\<lambda>e. \<not> is_api_write e) evs)"

definition quiet_in_sync :: "'w env \<Rightarrow> event list \<Rightarrow> bool" where
  "quiet_in_sync env evs \<longleftrightarrow> (\<forall>K K'. follow_log keyline_law evs K K' \<longrightarrow> quiet_from env evs K)"

lemmas quiet_simps = quiet_in_sync_def quiet_from_def no_writes_but_def name_of_def slug_in_def reported_def keyline_law_def 
  answers_def answers_entry_def

lemma reconcileProject_quiet:
  shows "post (reconcileProject env nn) (\<lambda>out. quiet_in_sync env)"
  unfolding reconcileProject_def reconcile_defs newStatusPatcher_def
  by (intro post_intros) (simp_all add: quiet_simps)

lemma reconcileVirtualServer_quiet:
  shows "post (reconcileVirtualServer env nn) (\<lambda>out. quiet_in_sync env)"
  unfolding reconcileVirtualServer_def reconcile_defs newStatusPatcher_def
  by (intro post_intros) (auto simp: quiet_simps vs_patch.build_in_sync)

lemma reconcileRole_quiet:
  shows "post (reconcileRole env nn) (\<lambda>out. quiet_in_sync env)"
  unfolding reconcileRole_def reconcile_defs newStatusPatcher_def
  by (intro post_intros) (auto simp: quiet_simps role_patch.build_in_sync role_in_sync_def role_entry_def split: sum.splits)

lemma reconcileApplication_quiet:
  shows "post (reconcileApplication env nn) (\<lambda>out. quiet_in_sync env)"
  unfolding reconcileApplication_def reconcile_defs newStatusPatcher_def
  by (intro post_intros) (auto simp: quiet_simps buildApplicationPatch_fields split: sum.splits option.splits if_splits)

lemma reconcileRoleAssignment_quiet:
  shows "post (reconcileRoleAssignment env nn) (\<lambda>out. quiet_in_sync env)"
  unfolding reconcileRoleAssignment_def reconcile_defs newStatusPatcher_def
  by (intro post_intros) (auto simp: quiet_simps list_ex_iff split: sum.splits)

text \<open>The user controller: the lookup finds the user, the display name is pushed, and no key is missing or left over.\<close>

abbreviation push_only :: "keyline_user \<Rightarrow> event list \<Rightarrow> bool" where
  "push_only user \<equiv> list_all (\<lambda>e.
     case user_display_name (user_spec user) of None \<Rightarrow> \<not> is_api_write e | Some n \<Rightarrow> pushes (Some n) e)"

lemma find_or_create_user_keeps:
  "post (find_or_create_user env kc user) (\<lambda>(u, r) evs. api_segment kc evs \<and> evs \<noteq> [] \<and>
     user_spec u = user_spec user \<and> managed_of u = managed_of user)"
  unfolding find_or_create_user_def reconcile_defs by (intro post_intros) simp_all

definition quiet_if_there :: "'w env \<Rightarrow> keyline_user \<Rightarrow> event list \<Rightarrow> bool" where
  "quiet_if_there env user evs \<longleftrightarrow>
     (\<forall>i rm rm'. user_user_id (user_status user) \<noteq> [] \<longrightarrow>
        l_uuid_parse (lib env) (user_user_id (user_status user)) = Inr i \<longrightarrow> rm_users rm i \<noteq> None \<longrightarrow>
        follow_log api_law evs rm rm' \<longrightarrow> push_only user evs)"

lemma quiet_if_thereD:
  assumes "quiet_if_there env user evs" "follow_log api_law evs rm rm'" "rm_users rm i = Some u"
    "l_uuid_parse (lib env) (user_user_id (user_status user)) = Inr i" "user_user_id (user_status user) \<noteq> []"
  shows "user_display_name (user_spec user) = None \<Longrightarrow> list_all (\<lambda>e. \<not> is_api_write e) evs"
    and "user_display_name (user_spec user) = Some n \<Longrightarrow> list_all (pushes (Some n)) evs"
  using assms unfolding quiet_if_there_def by fastforce+

lemma ensureServiceUser_reads:
  "post (ensureServiceUser env kc user) (\<lambda>(u, r) evs. api_segment kc evs \<and> evs \<noteq> [] \<and>
     user_spec u = user_spec user \<and> managed_of u = managed_of user \<and>
     quiet_if_there env user evs)"
  unfolding ensureServiceUser_def reconcile_defs
  by (intro post_intros post_mono [OF find_or_create_user_keeps])
    (auto simp: quiet_if_there_def answers_def split: option.split)

lemma push_display_name_pushes:
  "post (push_display_name env kc i user) (\<lambda>e evs. api_segment kc evs \<and> push_only user evs)"
  unfolding push_display_name_def reconcile_defs by (intro post_intros) auto

lemma reconcileKeys_quiet:
  "post (reconcileKeys env kc user i) (\<lambda>(u, f) evs. api_segment kc evs \<and> user_spec u = user_spec user \<and>
     (set (managed_of user) = desired_kids user \<longrightarrow> evs = []))"
proof (cases "set (managed_of user) = desired_kids user")
  case True
  show ?thesis by (rule post_mono [OF reconcileKeys_idle [OF True]]) auto
next
  case False
  then show ?thesis by (auto intro!: post_mono [OF reconcileKeys_effect])
qed

lemma reconcileUser_quiet: "post (reconcileUser env nn) (\<lambda>out. quiet_in_sync env)"
  unfolding reconcileUser_def reconcile_defs newStatusPatcher_def
  by (intro post_intros post_bind [OF ensureServiceUser_reads] post_bind [OF push_display_name_pushes]
      post_bind [OF reconcileKeys_quiet])
    (auto simp: quiet_simps follow_segment client_in_segment intro: quiet_if_thereD split: sum.splits option.splits)

section \<open>Ready, then quiet\<close>

text \<open>
  What is left to ask when an object has been reported ready, with the virtual server \<open>rm\<close> before and
  \<open>rm'\<close> after. The id of a role parses, and the role was not merely found under its name, in which case
  its description is compared by the next reconcile only. An application sets the fields that
  the comparison takes for a difference when they are unset, and was there already if it wants a
  claims script, which a creation leaves out. An assignment is recognised among the first
  thousand users of its role.
\<close>

fun settles :: "'w env \<Rightarrow> event list \<Rightarrow> k8s_object \<Rightarrow> k8s_object \<Rightarrow> realm \<Rightarrow> realm \<Rightarrow> bool" where
  "settles env evs obj (ObjRole x) rm rm' \<longleftrightarrow>
     (case l_uuid_parse (lib env) (role_role_id (role_status x)) of
        Inl e \<Rightarrow> False
      | Inr i \<Rightarrow> rm_roles rm (slug_in evs, i) = None \<or> id_of obj = Some (role_role_id (role_status x)))"
| "settles env evs obj (ObjApplication x) rm rm' \<longleftrightarrow> app_redirect_uris (app_spec x) \<noteq> None \<and>
     app_post_logout_uris (app_spec x) \<noteq> None \<and> app_signing_algorithm (app_spec x) \<noteq> None \<and>
     (case l_uuid_parse (lib env) (app_application_id (app_status x)) of
        Inl e \<Rightarrow> False
      | Inr i \<Rightarrow> rm_applications rm (slug_in evs, i) \<noteq> None \<or> app_claims_mapping_script (app_spec x) = None)"
| "settles env evs obj (ObjRoleAssignment x) rm rm' \<longleftrightarrow>
     (case read_of KRole evs of
        Some (ObjRole r) \<Rightarrow> (case l_uuid_parse (lib env) (role_role_id (role_status r)) of
            Inl e \<Rightarrow> False
          | Inr i \<Rightarrow> finite (rm_assigned rm' (slug_in evs, i)) \<and> card (rm_assigned rm' (slug_in evs, i)) \<le> 1000)
      | _ \<Rightarrow> False)"
| "settles env evs obj obj' rm rm' \<longleftrightarrow> True"

text \<open>A later log that starts from the object as it was patched and reads the same objects around it.\<close>

definition reads_again :: "event list \<Rightarrow> event list \<Rightarrow> k8s_object \<Rightarrow> bool" where
  "reads_again evs evs2 obj' \<longleftrightarrow>
     (case evs2 of EvGet k nn (Inr obj2) # _ \<Rightarrow> obj2 = obj' | _ \<Rightarrow> False) \<and>
     slug_in evs2 = slug_in evs \<and> client_in evs2 = client_in evs \<and>
     (case obj' of
        ObjRoleAssignment x \<Rightarrow> read_of KRole evs2 = read_of KRole evs \<and> read_of KUser evs2 = read_of KUser evs
      | _ \<Rightarrow> True)"

definition quiet_after :: "'w env \<Rightarrow> event list \<Rightarrow> keyline \<Rightarrow> keyline \<Rightarrow> event list \<Rightarrow> bool" where
  "quiet_after env evs K K' evs2 \<longleftrightarrow>
     (case (evs, client_in evs, patched evs) of
        (EvGet k nn (Inr obj) # _, Some kc, Some obj') \<Rightarrow>
          (if reports_ready (ready_in env) evs \<and> settles env evs obj obj' (K (realm_of kc)) (K' (realm_of kc)) \<and>
              reads_again evs evs2 obj'
           then no_writes_but obj' evs2 else True)
      | _ \<Rightarrow> True)"

lemma app_in_sync_settled:
  assumes "app_redirect_uris sp \<noteq> None" "app_post_logout_uris sp \<noteq> None" "app_signing_algorithm sp \<noteq> None"
  shows "app_in_sync sp (application_for sp d)"
  using assms
  by (auto simp: app_in_sync_def application_for_def slice_for_def slices_Equal_def wants_script_def
      string_or_empty_def split: option.split)

lemma vs_in_sync_settled: "vs_in_sync sp (settings_for sp s)"
  by (auto simp: vs_in_sync_def settings_for_def wants_def wants_slice_def slice_for_def overwrite_def
      slices_Equal_def split: option.split)

lemma app_in_sync_created:
  assumes "created_as (application_request sp) d" "app_signing_algorithm sp \<noteq> None" "app_claims_mapping_script sp = None"
  shows "app_in_sync sp d"
  using assms
  by (auto simp: app_in_sync_def created_as_def application_request_def wants_script_def string_or_empty_def
      split: option.splits)

lemmas effect_on_simps = reads_again_def update_ok_def id_update_ok_def

lemma effect_on_in_keyline_role:
  assumes "effect_on env evs (ObjRole x) (ObjRole x') rm rm'" "update_ok env (ObjRole x) (ObjRole x')"
    and "ready_in env (role_conditions (role_status x'))" "settles env evs (ObjRole x) (ObjRole x') rm rm'"
    and "slug_in evs2 = slug_in evs"
  shows "in_keyline env evs2 (ObjRole x') rm'"
proof -
  from assms(4) obtain i where i: "l_uuid_parse (lib env) (role_role_id (role_status x')) = Inr i"
    and there: "rm_roles rm (slug_in evs, i) = None \<or> role_role_id (role_status x') = role_role_id (role_status x)"
    by (cases "l_uuid_parse (lib env) (role_role_id (role_status x'))") auto
  from assms(2,3) have spec: "role_spec x' = role_spec x" "role_role_id (role_status x') \<noteq> []"
    by (simp_all add: effect_on_simps)
  from assms(1) i there have "rm_roles rm' (slug_in evs, i) = Some (role_entry (role_spec x))"
    by (cases "rm_roles rm (slug_in evs, i)") (simp_all add: Let_def)
  then show ?thesis using spec i assms(5) by simp
qed

lemma effect_on_in_keyline_application:
  assumes "effect_on env evs (ObjApplication x) (ObjApplication x') rm rm'" "update_ok env (ObjApplication x) (ObjApplication x')"
    and "ready_in env (app_conditions (app_status x'))" "settles env evs (ObjApplication x) (ObjApplication x') rm rm'"
    and "slug_in evs2 = slug_in evs"
  shows "in_keyline env evs2 (ObjApplication x') rm'"
proof -
  from assms(1) obtain i d where i: "l_uuid_parse (lib env) (app_application_id (app_status x')) = Inr i"
    and d: "case rm_applications rm (slug_in evs, i) of
        None \<Rightarrow> created_as (application_request (app_spec x)) d \<and>
          rm' = rm\<lparr>rm_applications := (rm_applications rm)((slug_in evs, i) \<mapsto> (app_name (app_spec x), d))\<rparr>
      | Some (n, d0) \<Rightarrow> d = application_for (app_spec x) d0 \<and>
          rm' = rm\<lparr>rm_applications := (rm_applications rm)((slug_in evs, i) \<mapsto> (n, d))\<rparr>"
    by auto
  from assms(2,3) have spec: "app_spec x' = app_spec x" "app_application_id (app_status x') \<noteq> []"
    by (simp_all add: effect_on_simps)
  from d assms(4) i have "app_in_sync (app_spec x) d \<and> (\<exists>n. rm_applications rm' (slug_in evs, i) = Some (n, d))"
    by (cases "rm_applications rm (slug_in evs, i)") (auto simp: spec app_in_sync_settled app_in_sync_created)
  then show ?thesis using spec i assms(5) by auto
qed

lemma effect_on_in_keyline_user:
  assumes "effect_on env evs (ObjUser x) (ObjUser x') rm rm'" "update_ok env (ObjUser x) (ObjUser x')"
    and "ready_in env (user_conditions (user_status x'))"
  shows "in_keyline env evs2 (ObjUser x') rm'"
  using assms by (auto simp: effect_on_simps user_for_def)

lemma effect_on_in_keyline_assignment:
  assumes "effect_on env evs (ObjRoleAssignment x) obj' rm rm'" "settles env evs (ObjRoleAssignment x) (ObjRoleAssignment x') rm rm'"
    and "reads_again evs evs2 (ObjRoleAssignment x')"
  shows "in_keyline env evs2 (ObjRoleAssignment x') rm'"
proof -
  from assms(1) obtain r u where r: "read_of KRole evs = Some (ObjRole r)" "read_of KUser evs = Some (ObjUser u)"
    by (cases "read_of KRole evs"; cases "read_of KUser evs") (auto split: k8s_object.split_asm)
  with assms(1) obtain i j where i: "l_uuid_parse (lib env) (role_role_id (role_status r)) = Inr i"
      "l_uuid_parse (lib env) (user_user_id (user_status u)) = Inr j"
    and rm': "rm' = rm\<lparr>rm_assigned := (rm_assigned rm)((slug_in evs, i) := insert j (rm_assigned rm (slug_in evs, i)))\<rparr>"
    by (simp split: sum.split_asm)
  with r assms(2,3) show ?thesis by (simp add: reads_again_def)
qed

lemma effect_on_in_keyline:
  assumes "effect_on env evs obj obj' rm rm'" "update_ok env obj obj'" "ready_in env (conditions_of obj')"
    and "object_kind obj' = object_kind obj" "settles env evs obj obj' rm rm'" "reads_again evs evs2 obj'"
  shows "in_keyline env evs2 obj' rm'"
proof -
  have slug: "slug_in evs2 = slug_in evs" using assms(6) by (simp add: reads_again_def)
  note kinds = effect_on_in_keyline_role [OF _ _ _ _ slug] effect_on_in_keyline_application [OF _ _ _ _ slug]
    effect_on_in_keyline_user effect_on_in_keyline_assignment
  show ?thesis
  proof (cases obj)
    case (ObjVirtualServer x)
    with assms(1,2,4) show ?thesis by (cases obj') (auto simp: effect_on_simps vs_in_sync_settled)
  next
    case (ObjProject x)
    with assms(1,2,4) show ?thesis by (cases obj') (auto simp: effect_on_simps)
  next
    case (ObjApplication x)
    with assms(1-5) show ?thesis by (cases obj') (simp_all del: effect_on.simps settles.simps in_keyline.simps add: kinds)
  next
    case (ObjRole x)
    with assms(1-5) show ?thesis by (cases obj') (simp_all del: effect_on.simps settles.simps in_keyline.simps add: kinds)
  next
    case (ObjUser x)
    with assms(1-5) show ?thesis by (cases obj') (simp_all del: effect_on.simps settles.simps in_keyline.simps add: kinds)
  next
    case (ObjRoleAssignment x)
    with assms show ?thesis by (cases obj') (simp_all del: effect_on.simps settles.simps in_keyline.simps add: kinds)
  qed (use assms(1) in simp_all)
qed

section \<open>The contract with Keyline\<close>

lemma patched_last: "list_all (\<lambda>e. \<not> is_status_patch e) mid \<Longrightarrow> patched (mid @ [EvStatusPatch obj' obj err]) = Some obj'"
proof (induction mid)
  case (Cons e mid)
  then show ?case by (cases e) simp_all
qed simp

locale keyline_reconciler = tracked_reconciler kd reconcile follow gates
  for kd :: kind
    and reconcile :: "'w env \<Rightarrow> namespaced_name \<Rightarrow> ('w, outcome) op"
    and follow :: "kind list"
    and gates :: "kind list" +
  assumes brings:
    "meta_conditions_ok (lib env) \<Longrightarrow> uuid_ok (lib env) \<Longrightarrow> run_state (reconcile env nn) (start w) = (out, s') \<Longrightarrow>
       ready_brings env (st_trace s')"
  assumes in_sync: "run_state (reconcile env nn) (start w) = (out, s') \<Longrightarrow> quiet_in_sync env (st_trace s')"
begin

lemma ready_brought:
  assumes "meta_conditions_ok (lib env)" "uuid_ok (lib env)" "serves env kl"
    and run: "run_state (reconcile env nn) (start w) = (out, s')"
  shows "reports_ready (ready_in env) (st_trace s') \<Longrightarrow> brought env (st_trace s') (kl w) (kl (st_world s'))"
  using brings [OF assms(1,2) run] serves_follow [OF assms(3) logged run] by (simp add: ready_brings_def)

lemma quiet:
  assumes "serves env kl" and run: "run_state (reconcile env nn) (start w) = (out, s')"
  shows "quiet_from env (st_trace s') (kl w)"
  using in_sync [OF run] serves_follow [OF assms(1) logged run] by (auto simp: quiet_in_sync_def)

lemma quiet_again:
  assumes "meta_conditions_ok (lib env)" "uuid_ok (lib env)" "serves env kl"
    and run: "run_state (reconcile env nn) (start w) = (out, s')"
    and quiet: "quiet_from env evs2 (kl (st_world s'))"
  shows "quiet_after env (st_trace s') (kl w) (kl (st_world s')) evs2"
proof (rule log_shape [OF assms(1,2) run])
  fix obj mid obj' err
  assume tr: "st_trace s' = EvGet kd nn (Inr obj) # mid @ [EvStatusPatch obj' obj err]"
    and mid: "list_all (\<lambda>e. \<not> is_status_patch e) mid" and obj': "update_ok env obj obj'" "object_kind obj' = object_kind obj"
  have "no_writes_but obj' evs2"
    if ready: "reports_ready (ready_in env) (st_trace s')" and kc: "client_in (st_trace s') = Some kc"
      and settles: "settles env (st_trace s') obj obj' (kl w (realm_of kc)) (kl (st_world s') (realm_of kc))"
      and again: "reads_again (st_trace s') evs2 obj'" for kc
  proof -
    have "brought env (st_trace s') (kl w) (kl (st_world s'))" by (rule ready_brought [OF assms(1-3) run ready])
    then have "effect_on env (st_trace s') obj obj' (kl w (realm_of kc)) (kl (st_world s') (realm_of kc))"
      using kc by (auto simp: brought_iff tr patched_last [OF mid])
    moreover have "ready_in env (conditions_of obj')" using ready by (simp add: tr)
    ultimately have "in_keyline env evs2 obj' (kl (st_world s') (realm_of kc))"
      using effect_on_in_keyline obj' settles again by blast
    with quiet kc again show ?thesis
      by (auto simp: quiet_from_def reads_again_def split: list.split_asm event.split_asm sum.split_asm)
  qed
  then show ?thesis by (auto simp: quiet_after_def tr patched_last [OF mid] split: option.split)
qed (simp add: quiet_after_def)

end

interpretation virtual_server: keyline_reconciler KVirtualServer reconcileVirtualServer
  "[KVirtualServer, KInstance]" "[KInstance]"
  by unfold_locales
    (rule reconcileVirtualServer_brings [THEN postD] reconcileVirtualServer_quiet [THEN postD]; assumption)+

interpretation project: keyline_reconciler KProject reconcileProject
  "[KProject, KVirtualServer, KInstance]" "[KVirtualServer]"
  by unfold_locales
    (rule reconcileProject_brings [THEN postD] reconcileProject_quiet [THEN postD]; assumption)+

interpretation application: keyline_reconciler KApplication reconcileApplication
  "[KApplication, KProject, KVirtualServer, KInstance]" "[KProject, KVirtualServer]"
  by unfold_locales
    (rule reconcileApplication_brings [THEN postD] reconcileApplication_quiet [THEN postD]; assumption)+

interpretation role: keyline_reconciler KRole reconcileRole
  "[KRole, KProject, KVirtualServer, KInstance]" "[KProject, KVirtualServer]"
  by unfold_locales
    (rule reconcileRole_brings [THEN postD] reconcileRole_quiet [THEN postD]; assumption)+

interpretation user: keyline_reconciler KUser reconcileUser
  "[KUser, KVirtualServer, KInstance]" "[KVirtualServer]"
  by unfold_locales
    (rule reconcileUser_brings [THEN postD] reconcileUser_quiet [THEN postD]; assumption)+

interpretation role_assignment: keyline_reconciler KRoleAssignment reconcileRoleAssignment
  "[KRoleAssignment, KRole, KProject, KVirtualServer, KInstance]" "[KRole, KUser, KProject, KVirtualServer]"
  by unfold_locales
    (rule reconcileRoleAssignment_brings [THEN postD] reconcileRoleAssignment_quiet [THEN postD]; assumption)+

end
