(* ===== verification/Example_Keyline.thy ===== *)
theory Example_Keyline
  imports Keyline_Server Example_Env
begin

text \<open>
  A concrete Keyline for the witnesses: the example cluster beside an executable state of every
  virtual server, and calls that obey the law of the API in every state. Ids are numbered; a
  list answers the entries among the ids handed out so far.
\<close>

section \<open>The calls\<close>

type_synonym served = "world \<times> keyline"

text \<open>A call of the cluster leaves Keyline alone.\<close>

definition beside :: "(world \<Rightarrow> 'a \<times> world) \<Rightarrow> served \<Rightarrow> 'a \<times> served" where
  "beside f s = (case s of (w, K) \<Rightarrow> (case f w of (a, w') \<Rightarrow> (a, (w', K))))"

text \<open>A question about a virtual server, and a request that changes it and uses up a number.\<close>

definition asks :: "keyline_client \<Rightarrow> (nat \<Rightarrow> realm \<Rightarrow> 'a) \<Rightarrow> served \<Rightarrow> 'a \<times> served" where
  "asks kc f s = (case s of (w, K) \<Rightarrow> (f (w_fresh w) (K (realm_of kc)), s))"

definition does :: "keyline_client \<Rightarrow> (nat \<Rightarrow> realm \<Rightarrow> 'a \<times> realm) \<Rightarrow> served \<Rightarrow> 'a \<times> served" where
  "does kc f s =
     (case s of (w, K) \<Rightarrow> (case f (w_fresh w) (K (realm_of kc)) of
        (a, rm) \<Rightarrow> (a, (w\<lparr>w_fresh := Suc (w_fresh w)\<rparr>, K(realm_of kc := rm)))))"

lemma beside_keyline [simp]: "beside f (w, K) = (a, s') \<Longrightarrow> snd s' = K"
  by (auto simp: beside_def split: prod.splits)

definition listed :: "nat \<Rightarrow> (uuid \<Rightarrow> 'a option) \<Rightarrow> (uuid \<times> 'a) list" where
  "listed n f = List.map_filter (\<lambda>k. map_option (Pair (of_nat k)) (f (of_nat k))) [0..<n]"

lemma listed_there: "(i, x) \<in> set (listed n f) \<Longrightarrow> f i = Some x"
  by (auto simp: listed_def List.map_filter_def)

text \<open>An id that is taken already is refused, so that a creation never overwrites.\<close>

definition creates :: "(realm \<Rightarrow> uuid \<Rightarrow> 'a option) \<Rightarrow> (uuid \<Rightarrow> realm \<Rightarrow> realm) \<Rightarrow> nat \<Rightarrow> realm \<Rightarrow> (goerr + uuid) \<times> realm" where
  "creates entry add n rm =
     (if Option.is_none (entry rm (of_nat n)) then (Inr (of_nat n), add (of_nat n) rm)
      else (Inl (ApiError 500 ''no id left''), rm))"

definition members :: "nat \<Rightarrow> uuid set \<Rightarrow> goerr + uuid list" where
  "members n A =
     (let ids = filter (\<lambda>i. i \<in> A) (map of_nat [0..<n])
      in if A \<subseteq> set ids then Inr ids else Inl (ApiError 500 ''unknown id''))"

definition removes :: "uuid \<Rightarrow> string \<Rightarrow> nat \<Rightarrow> realm \<Rightarrow> goerr option \<times> realm" where
  "removes i kid n rm =
     (if Option.is_none (rm_keys rm i kid) then (Some api_not_found, rm)
      else (None, rm\<lparr>rm_keys := (rm_keys rm)(i := (rm_keys rm i)(kid := None))\<rparr>))"

definition found :: "'a option \<Rightarrow> goerr + 'a" where
  "found entry = (case entry of None \<Rightarrow> Inl api_not_found | Some x \<Rightarrow> Inr x)"

definition present :: "'a option \<Rightarrow> goerr option" where
  "present entry = (case entry of None \<Rightarrow> Some api_not_found | Some x \<Rightarrow> None)"

definition served_kube :: "served kube_client" where
  "served_kube =
     \<lparr>k_get_instance = (\<lambda>nn. beside (k_get_instance ex_kube nn)),
      k_get_virtual_server = (\<lambda>nn. beside (k_get_virtual_server ex_kube nn)),
      k_get_project = (\<lambda>nn. beside (k_get_project ex_kube nn)),
      k_get_application = (\<lambda>nn. beside (k_get_application ex_kube nn)),
      k_get_role = (\<lambda>nn. beside (k_get_role ex_kube nn)),
      k_get_user = (\<lambda>nn. beside (k_get_user ex_kube nn)),
      k_get_role_assignment = (\<lambda>nn. beside (k_get_role_assignment ex_kube nn)),
      k_get_secret = (\<lambda>nn. beside (k_get_secret ex_kube nn)),
      k_get_pvc = (\<lambda>nn. beside (k_get_pvc ex_kube nn)),
      k_get_deployment = (\<lambda>nn. beside (k_get_deployment ex_kube nn)),
      k_create_secret = (\<lambda>x. beside (k_create_secret ex_kube x)),
      k_create_pvc = (\<lambda>x. beside (k_create_pvc ex_kube x)),
      k_create_or_update_secret = (\<lambda>x f. beside (k_create_or_update_secret ex_kube x f)),
      k_create_or_update_service = (\<lambda>x f. beside (k_create_or_update_service ex_kube x f)),
      k_create_or_update_deployment = (\<lambda>x f. beside (k_create_or_update_deployment ex_kube x f)),
      k_patch_status = (\<lambda>obj base. beside (k_patch_status ex_kube obj base))\<rparr>"

definition served_api :: "served keyline_api" where
  "served_api =
     \<lparr>a_token = (\<lambda>ts. beside (a_token ex_api ts)),
      a_virtual_server_get = (\<lambda>kc. asks kc (\<lambda>n rm. Inr (rm_settings rm))),
      a_virtual_server_patch = (\<lambda>kc p. does kc (\<lambda>n rm. (None, rm\<lparr>rm_settings := merge_vs_patch p (rm_settings rm)\<rparr>))),
      a_project_get = (\<lambda>kc slug. asks kc (\<lambda>n rm. present (rm_projects rm slug))),
      a_project_create = (\<lambda>kc dto. does kc (\<lambda>n rm.
        (None, rm\<lparr>rm_projects := (rm_projects rm)(cp_slug dto \<mapsto> dto)\<rparr>))),
      a_role_get = (\<lambda>kc slug i. asks kc (\<lambda>n rm. found (rm_roles rm (slug, i)))),
      a_role_patch = (\<lambda>kc slug i p. does kc (\<lambda>n rm. (None, rm\<lparr>rm_roles :=
        (rm_roles rm)((slug, i) := map_option (merge_role_patch p) (rm_roles rm (slug, i)))\<rparr>))),
      a_role_list = (\<lambda>kc slug page sz. asks kc (\<lambda>n rm.
        Inr (map (\<lambda>(i, d). \<lparr>ri_id = i, ri_name = rd_name d\<rparr>) (listed n (\<lambda>i. rm_roles rm (slug, i)))))),
      a_role_create = (\<lambda>kc slug dto. does kc (creates (\<lambda>rm i. rm_roles rm (slug, i)) (\<lambda>i rm. rm\<lparr>rm_roles :=
        (rm_roles rm)((slug, i) \<mapsto> \<lparr>rd_name = cr_name dto, rd_description = cr_description dto\<rparr>)\<rparr>))),
      a_role_list_users = (\<lambda>kc slug i page sz. asks kc (\<lambda>n rm. members n (rm_assigned rm (slug, i)))),
      a_role_assign = (\<lambda>kc slug i u. does kc (\<lambda>n rm. (None, rm\<lparr>rm_assigned :=
        (rm_assigned rm)((slug, i) := insert u (rm_assigned rm (slug, i)))\<rparr>))),
      a_application_get = (\<lambda>kc slug i. asks kc (\<lambda>n rm. found (map_option snd (rm_applications rm (slug, i))))),
      a_application_patch = (\<lambda>kc slug i p. does kc (\<lambda>n rm. (None, rm\<lparr>rm_applications := (rm_applications rm)((slug, i) :=
        map_option (map_prod id (merge_app_patch p)) (rm_applications rm (slug, i)))\<rparr>))),
      a_application_list = (\<lambda>kc slug page sz. asks kc (\<lambda>n rm.
        Inr (map (\<lambda>(i, x). \<lparr>ai_id = i, ai_name = fst x\<rparr>) (listed n (\<lambda>i. rm_applications rm (slug, i)))))),
      a_application_create = (\<lambda>kc slug dto. does kc (creates (\<lambda>rm i. rm_applications rm (slug, i)) (\<lambda>i rm.
        rm\<lparr>rm_applications := (rm_applications rm)((slug, i) \<mapsto> (ca_name dto, ex_application dto))\<rparr>))),
      a_user_get = (\<lambda>kc i. asks kc (\<lambda>n rm. present (rm_users rm i))),
      a_user_list = (\<lambda>kc page sz. asks kc (\<lambda>n rm.
        Inr (map (\<lambda>(i, u). \<lparr>ui_id = i, ui_username = ue_username u, ui_is_service_user = ue_is_service_user u\<rparr>)
          (listed n (rm_users rm))))),
      a_user_create_service_user = (\<lambda>kc name. does kc (creates rm_users (\<lambda>i rm. rm\<lparr>rm_users :=
        (rm_users rm)(i \<mapsto> \<lparr>ue_username = name, ue_is_service_user = True, ue_display_name = name\<rparr>)\<rparr>))),
      a_user_patch = (\<lambda>kc i p. does kc (\<lambda>n rm. (None, rm\<lparr>rm_users := (rm_users rm)(i :=
        map_option (\<lambda>u. u\<lparr>ue_display_name := overwrite (pu_display_name p) (ue_display_name u)\<rparr>) (rm_users rm i))\<rparr>))),
      a_user_associate_key = (\<lambda>kc i dto. does kc (\<lambda>n rm. (None, rm\<lparr>rm_keys := (rm_keys rm)(i :=
        (rm_keys rm i)((case ak_kid dto of None \<Rightarrow> ''generated'' | Some k \<Rightarrow> k) \<mapsto> ak_public_key dto))\<rparr>))),
      a_user_remove_key = (\<lambda>kc i kid. does kc (removes i kid))\<rparr>"

definition served_lib :: "served runtime_lib" where
  "served_lib =
     \<lparr>l_now = beside (l_now ex_lib),
      l_range_choices = beside (l_range_choices ex_lib),
      l_ed25519_generate_key = beside (l_ed25519_generate_key ex_lib),
      l_public_key = l_public_key ex_lib,
      l_marshal_pkcs8 = l_marshal_pkcs8 ex_lib,
      l_marshal_pkix = l_marshal_pkix ex_lib,
      l_pem_encode = l_pem_encode ex_lib,
      l_uuid_new = beside (l_uuid_new ex_lib),
      l_uuid_string = l_uuid_string ex_lib,
      l_uuid_parse = l_uuid_parse ex_lib,
      l_set_status_condition = l_set_status_condition ex_lib,
      l_is_status_condition_true = l_is_status_condition_true ex_lib,
      l_set_controller_reference = l_set_controller_reference ex_lib,
      l_is_not_found = l_is_not_found ex_lib,
      l_ignore_not_found = l_ignore_not_found ex_lib,
      l_yaml_marshal = l_yaml_marshal ex_lib,
      l_must_parse_quantity = l_must_parse_quantity ex_lib\<rparr>"

definition served_env :: "served env" where
  "served_env = \<lparr>kube = served_kube, api = served_api, lib = served_lib\<rparr>"

section \<open>The hypotheses hold\<close>

lemma served_meta_conditions_ok: "meta_conditions_ok (lib served_env)"
  using ex_meta_conditions_ok
  by (simp add: meta_conditions_ok_def served_env_def served_lib_def ex_env_def)

lemma served_uuid_ok: "uuid_ok (lib served_env)"
  using ex_uuid_ok by (simp add: uuid_ok_def served_env_def served_lib_def ex_env_def)

lemma asks_result [simp]:
  "asks kc f s = (a, s') \<longleftrightarrow> a = f (w_fresh (fst s)) (snd s (realm_of kc)) \<and> s' = s"
  by (cases s) (auto simp: asks_def)

lemma does_result [simp]:
  "does kc f s = (a, s') \<longleftrightarrow>
     (let r = f (w_fresh (fst s)) (snd s (realm_of kc))
      in a = fst r \<and> s' = ((fst s)\<lparr>w_fresh := Suc (w_fresh (fst s))\<rparr>, (snd s)(realm_of kc := snd r)))"
  by (cases s) (auto simp: does_def Let_def split: prod.split)

lemma snd_beside [simp]: "snd (snd (beside f s)) = snd s"
  by (simp add: beside_def split: prod.split)

lemma beside_result: "beside f s = (a, s') \<Longrightarrow> snd s' = snd s"
  by (metis snd_beside snd_conv)

lemma beside_obeys: "beside f s = (a, s') \<Longrightarrow> client_of e = None \<Longrightarrow> keyline_law e (snd s) (snd s')"
  by (simp add: beside_result keyline_law_def)

lemma api_not_found_is: "isApiNotFound api_not_found"
  by code_simp

lemma other_error_is: "\<not> isApiNotFound (ApiError 500 msg)"
  by (simp add: isApiNotFound_def)

lemma answers_present: "answers (present entry) b \<longleftrightarrow> b = (entry \<noteq> None)"
  by (auto simp: answers_def present_def api_not_found_is split: option.split)

lemma answers_entry_found: "answers_entry (found entry) entry"
  by (auto simp: answers_entry_def found_def api_not_found_is split: option.split)

lemma got_beside: "got (\<lambda>nn. beside (f nn)) obj nn r s s' \<Longrightarrow> keyline_law (EvGet k nn r) (snd s) (snd s')"
  unfolding got_def by (auto simp: keyline_law_def)

lemma creates_new:
  "fst (creates entry add n rm) = Inr i \<longleftrightarrow> i = of_nat n \<and> entry rm i = None"
  "snd (creates entry add n rm) = (if entry rm (of_nat n) = None then add (of_nat n) rm else rm)"
  by (auto simp: creates_def Option.is_none_def)

lemma members_are:
  "members n A = Inr ids \<Longrightarrow> set ids = A" "members n A = Inl e \<Longrightarrow> e = ApiError 500 ''unknown id''"
  by (auto simp: members_def Let_def split: if_splits)

lemma associate_law:
  "\<exists>kid. (ak_kid ak = None \<or> ak_kid ak = Some kid) \<and>
     rm\<lparr>rm_keys := (rm_keys rm)(i := (rm_keys rm i)(case_option d (\<lambda>k. k) (ak_kid ak) \<mapsto> t))\<rparr> =
     rm\<lparr>rm_keys := (rm_keys rm)(i := (rm_keys rm i)(kid \<mapsto> t))\<rparr>"
  by (cases "ak_kid ak") auto

lemma application_law:
  "\<exists>d. created_as dto d \<and> rm\<lparr>rm_applications := m(q \<mapsto> (n, ex_application dto))\<rparr> = rm\<lparr>rm_applications := m(q \<mapsto> (n, d))\<rparr>"
  by (rule exI [of _ "ex_application dto"]) (auto simp: created_as_def ex_application_def slices_Equal_def split: option.split)

lemmas served_simps = served_api_def Let_def keyline_law_def answers_present answers_entry_found removes_def
  Option.is_none_def api_not_found_is

lemma served_made: "made served_env e s s' \<Longrightarrow> keyline_law e (snd s) (snd s')"
proof (cases e)
  case (EvGet k nn r)
  assume "made served_env e s s'"
  then show ?thesis
    by (cases k) (auto simp: EvGet served_env_def served_kube_def intro: got_beside)
qed (auto simp: served_env_def served_kube_def served_simps creates_new list_all_iff
  intro: beside_obeys beside_result associate_law application_law dest: members_are listed_there split: sum.splits)

lemma served_silently: "silently served_env s s' \<Longrightarrow> snd s' = snd s"
  by (erule silently.cases) (auto simp: served_env_def served_lib_def dest: beside_result)

lemma served_serves: "serves served_env snd"
  by (simp add: serves_def observes_def served_made served_silently)

section \<open>An example\<close>

text \<open>The example cluster with a Keyline that holds nothing but its settings.\<close>

definition empty_realm :: realm where
  "empty_realm =
     \<lparr>rm_settings = w_virtual_server ex_world, rm_projects = (\<lambda>slug. None), rm_roles = (\<lambda>q. None),
      rm_applications = (\<lambda>q. None), rm_users = (\<lambda>i. None), rm_keys = (\<lambda>i kid. None), rm_assigned = (\<lambda>q. {})\<rparr>"

definition served_world :: served where
  "served_world = (ex_world, \<lambda>q. empty_realm)"

end
