(* ===== verification/Spec2Isabelle.thy ===== *)
theory Spec2Isabelle
  imports Whole_Operator Permissions Work Keyline_Settled Example_Keyline
begin

text \<open>
  A verification development for keyline-operator, the Kubernetes operator that deploys Keyline
  servers and manages what lives inside them.

  \<^bold>\<open>The program.\<close> Seven custom resources (\<^verbatim>\<open>api/v1alpha1\<close>) each have a controller in
  \<^verbatim>\<open>internal/controller\<close>. The instance controller makes a key pair for the operator, renders the
  Keyline configuration into a Secret, and creates the key claim, the Service and the Deployment
  of a Keyline server. The other controllers call the Keyline API of that server: virtual servers
  belong to an instance, projects to a virtual server, applications and roles to a project, service
  users to a virtual server, and role assignments join a role and a user. A reconcile reads its
  object and what it refers to, waits for those to be ready, brings Keyline in line with the
  spec, and patches the object's status. \<^verbatim>\<open>cmd/main.go\<close> reads the flags, registers the controllers
  and starts the manager; \<^verbatim>\<open>zz_generated.deepcopy.go\<close> copies the API objects.

  \<^bold>\<open>The model.\<close> A reconcile is an action of the state monad over an abstract world and a log of the
  calls made, each with its answer (theory \<^verbatim>\<open>Operator_Env\<close>). All that is not in the repository
  (the Kubernetes client, the Keyline client, the API machinery, cryptography, YAML, the clock, the
  order in which Go ranges over a map) is a field of an environment record that the reconcilers
  take as an argument; nothing is assumed of it but where a theorem says so
  (\<open>meta_conditions_ok\<close>, \<open>ignore_not_found_ok\<close>, \<open>uuid_ok\<close>, \<open>owner_reference_ok\<close>). An error is a
  value, a nil dereference is the outcome \<open>Panicked\<close>, an early return is the branch that patches
  the status. Logging has no model. There is no fuel: the loops over pages, keys and mounts
  are structural recursions over their lists, and every reconcile returns.

  In the reconcilers objects are values. Where the code's sharing of memory matters, it is modelled on a
  memory: \<^verbatim>\<open>Go_Memory\<close> has cells, pointers, slices with offset, length and capacity, and the
  value that a piece of memory denotes (\<open>view\<close>). The generated copies run on that memory, one
  definition per generated function, and so do the two \<^verbatim>\<open>append\<close>s of \<^verbatim>\<open>main.go\<close>. A type is a
  description of its fields; types and copies of \<^verbatim>\<open>metav1\<close> and \<^verbatim>\<open>corev1\<close> are a parameter, of
  which \<open>imports_ok\<close> says that their copies are deep.

  \<^bold>\<open>The theories.\<close>
  \<^item> \<^verbatim>\<open>Prelude\<close>: Go's error chains, formatting, the order of a \<^verbatim>\<open>range\<close> over a map.
  \<^item> \<^verbatim>\<open>Kube_Types\<close>, \<^verbatim>\<open>Api_Types\<close>, \<^verbatim>\<open>Keyline_Types\<close>: the Kubernetes types used, the custom resources
    with their validation markers, the bodies of the Keyline API and its configuration.
  \<^item> \<^verbatim>\<open>Operator_Env\<close>: environment, log, logged calls.
  \<^item> \<^verbatim>\<open>Helpers\<close>: \<^verbatim>\<open>result.go\<close> and \<^verbatim>\<open>helpers.go\<close>.
  \<^item> \<^verbatim>\<open>Sha256\<close>, \<^verbatim>\<open>Keyline_Config\<close>: the standard library's SHA-256 and \<^verbatim>\<open>keylineconfig.go\<close>.
  \<^item> \<^verbatim>\<open>Reconciler\<close>: the calculus \<open>post\<close>, whose rules compute the log of an action branch by branch;
    the monitors, executable predicates on logs in which the properties are stated; the locales
    \<open>reconciler\<close> and \<open>gated_reconciler\<close>, the contract of a controller, and \<open>patch_builder\<close>, the
    contract of a comparison that builds a patch.
  \<^item> \<^verbatim>\<open>Example_Env\<close>: an executable environment and an example cluster, for the witnesses.
  \<^item> \<^verbatim>\<open>Instance_Controller\<close>, \<^verbatim>\<open>VirtualServer_Controller\<close>, \<^verbatim>\<open>Project_Controller\<close>,
    \<^verbatim>\<open>Application_Controller\<close>, \<^verbatim>\<open>Role_Controller\<close>, \<^verbatim>\<open>User_Controller\<close>, \<^verbatim>\<open>RoleAssignment_Controller\<close>: one
    Go file each, with its steps, its interpretation of the contract and its properties.
  \<^item> \<^verbatim>\<open>Manager\<close>: the registered controllers, and the order of dependency of the kinds.
  \<^item> \<^verbatim>\<open>Progress\<close>: the exact condition of readiness, what a reconcile reads and how it may change its
    object; the locale \<open>tracked_reconciler\<close>, interpreted by the six controllers of what lives inside
    Keyline.
  \<^item> \<^verbatim>\<open>Rounds\<close>: rounds of activities in which everything has its turn, as the locale \<open>staged\<close>.
  \<^item> \<^verbatim>\<open>Cluster\<close>: the objects that these controllers share, sequences and rounds of reconciles; the locale
    \<open>cluster_reconciler\<close> and the relation \<open>reaches\<close>.
  \<^item> \<^verbatim>\<open>Instance_Step\<close>: the calculus \<open>leads\<close> and what one reconcile of an instance makes of the objects
    of a cluster, with the abstract step \<open>instance_step\<close>.
  \<^item> \<^verbatim>\<open>Rollout\<close>: all seven controllers and the roll-out of Deployments by Kubernetes, what no happening
    disturbs, and the stages from a new cluster to a ready one.
  \<^item> \<^verbatim>\<open>Whole_Operator\<close>: the theorems about the operator as a whole, and an example cluster.
  \<^item> \<^verbatim>\<open>Work\<close>: a bound on the calls of one reconcile.
  \<^item> \<^verbatim>\<open>Execution\<close>: the world changes only by the calls in the log, and what a relation on calls therefore
    says of a whole reconcile.
  \<^item> \<^verbatim>\<open>Keyline_Server\<close>: what a virtual server of Keyline holds, the law of its API, the exact effect of each
    controller (\<open>effect_on\<close>), what its object's spec asks for (\<open>specified\<close>), and the cases in which the one
    falls short of the other (\<open>shortfall\<close>).
  \<^item> \<^verbatim>\<open>Keyline_Settled\<close>: when Keyline is in sync with an object and that nothing is written then; the locale
    \<open>keyline_reconciler\<close>, the contract of a controller with Keyline, interpreted by the six.
  \<^item> \<^verbatim>\<open>Example_Keyline\<close>: an executable Keyline that obeys the law, for the witnesses.
  \<^item> \<^verbatim>\<open>Go_Memory\<close>, \<^verbatim>\<open>Deep_Copy\<close>, \<^verbatim>\<open>V1alpha1_DeepCopy\<close>: Go's memory, the shapes of generated copies with the
    locale \<open>deep_copier\<close>, and the functions of \<^verbatim>\<open>zz_generated.deepcopy.go\<close> with the types of
    the \<^verbatim>\<open>*_types.go\<close> files and the locale \<open>object_copier\<close>.
  \<^item> \<^verbatim>\<open>Startup\<close>: \<^verbatim>\<open>main.go\<close>, the registration of the types and each \<^verbatim>\<open>SetupWithManager\<close>.
  \<^item> \<^verbatim>\<open>Permissions\<close>: the RBAC markers above each \<^verbatim>\<open>Reconcile\<close>, the roles of \<^verbatim>\<open>config/rbac\<close> and of the
    Helm chart with the arguments it passes, and the accesses that calls and options need.

  \<^bold>\<open>What is shown.\<close> In this theory, of every controller: the status discipline, the gates on what it
  refers to, the client it calls with, exactly when it reports
  readiness, and that it is done after a bounded number of calls. In the theory of each
  component: what it writes and after which answer (\<open>justified\<close>), that patches converge, that ids are recorded, the key synchronisation with its
  effect on Keyline's keys over every order and every failure, the order and content of the
  instance's resources, and that the pod, the configuration and the operator's identity agree. Four
  theorems state defects: an unparsable role id, keys of a recreated user, removals that are
  not recorded, and an application patch that never settles.

  Of Keyline: under the law of its API (\<open>serves\<close>: reads change nothing and answer what is there, a write
  that succeeds has its effect), a reconcile that reports its object ready has an exact effect and changes nothing
  else, and the object is in Keyline as its spec asks but for the cases that \<open>shortfall\<close> names; an object that Keyline is in sync with causes no write but the push of a user's
  display name; and the second of two reconciles is quiet under the conditions that \<open>settles\<close>
  names: a role found by its name is compared with its description by the next reconcile only and one with an id
  that does not parse never, a creation leaves out an application's claims script, an unset field of an application may
  count as a difference for ever, and an assignment is looked for among the first thousand users of its role.

  Of the controllers together: with the six controllers of what lives inside Keyline, four rounds, one for each
  level of references below the instance, make every object of a complete cluster ready. With the instance
  controller and the roll-out of Deployments, seven rounds do so from a cluster that holds nothing but what its
  users wrote; whatever sequence of reconciles and roll-outs runs, metadata, specs and Secrets stay; and one
  reconcile of an instance implements an abstract step on the cluster, which states the contents and the owner of what is
  written. Statuses are arbitrary at the start, so
  that the rounds may be counted from a user's last edit. The environment is then one whose calls succeed where
  they should (\<open>reliable\<close>, \<open>working\<close>); the theorems on logs above hold for every environment, also one whose
  calls mix in the doings of others.

  Of permissions: each controller's markers suffice for its calls and its watch, the two copies of the manager's
  role are what the markers ask for, and the chart's roles suffice but for metrics that are both
  enabled and secured.

  Of the copies: they denote the same value and share no memory, objects keep their type, and a
  status patch has a snapshot for its base. Of the start: the calls are those of one fixed sequence
  up to the first failure, flags are read back as written, and the servers get their own TLS
  options unless the runtime grants the first \<^verbatim>\<open>append\<close> spare capacity.

  \<^bold>\<open>What is not modelled.\<close> The flags of zap and the kubeconfig, which are a parameter of the parser;
  logging; the manager's queue, its rate limit and reconciles that overlap, which controller-runtime
  runs, so that a step of a cluster is one whole reconcile that reads what the last one wrote; a
  Deployment that becomes unavailable again during the rounds; tests, which drive processes and clusters, and
  manifests other than roles and arguments, which hold no logic. Lists of
  the Keyline API are the first page of a thousand items, as in the code. Ids are 128-bit words,
  32-bit integers are words read as signed, durations are nanoseconds. What the Go files hold beyond
  the definitions here is imports, licences, comments and the declarations of the reconcilers' client fields.
\<close>

section \<open>What holds of every controller\<close>

text \<open>
  C1: the status discipline of all seven controllers. A reconcile first reads the object it was
  called for. If that fails it calls nothing else and returns the error, unless
  \<^verbatim>\<open>IgnoreNotFound\<close> drops it. Otherwise, unless it panics, it ends with exactly one status patch,
  of that object and against the object as it was read, and the answer to the patch decides the
  result: come back after 30 seconds, or the error.
\<close>

theorem controllers_status_discipline:
  "list_all (\<lambda>c. case run_state (ctl_reconcile c nn) (start w) of (out, s) \<Rightarrow>
     status_discipline (ctl_kind c) nn (l_ignore_not_found (lib env)) out (st_trace s)) (controllers env)"
  using instance_reconciler.discipline [of env nn w] virtual_server.discipline [of env nn w]
    project.discipline [of env nn w] application.discipline [of env nn w] role.discipline [of env nn w]
    user.discipline [of env nn w] role_assignment.discipline [of env nn w]
  by (auto simp: controllers_def split: prod.splits)

text \<open>
  The kinds whose references a controller follows, and the kinds that must be ready, before it
  calls the Keyline API. The instance controller never calls the management API.
\<close>

definition gate_of :: "kind \<Rightarrow> kind list \<times> kind list" where
  "gate_of k =
     (case k of
        KVirtualServer \<Rightarrow> ([KVirtualServer, KInstance], [KInstance])
      | KProject \<Rightarrow> ([KProject, KVirtualServer, KInstance], [KVirtualServer])
      | KApplication \<Rightarrow> ([KApplication, KProject, KVirtualServer, KInstance], [KProject, KVirtualServer])
      | KRole \<Rightarrow> ([KRole, KProject, KVirtualServer, KInstance], [KProject, KVirtualServer])
      | KUser \<Rightarrow> ([KUser, KVirtualServer, KInstance], [KVirtualServer])
      | KRoleAssignment \<Rightarrow>
          ([KRoleAssignment, KRole, KProject, KVirtualServer, KInstance], [KRole, KUser, KProject, KVirtualServer])
      | _ \<Rightarrow> ([], []))"

text \<open>
  C4: the gates. Before the first call of the Keyline API, a controller has read its object and, as
  far as it follows them, everything that object refers to directly or indirectly, in the
  namespace of the object. The virtual-server controller needs the instance ready; the project
  and user controllers need the virtual server ready; the application and role controllers need
  the project and the virtual server ready; the role-assignment controller needs the role, the
  user, the project and the virtual server ready; the instance controller makes no such call.
\<close>

theorem controllers_gated:
  "list_all (\<lambda>c. case run_state (ctl_reconcile c nn) (start w) of (out, s) \<Rightarrow>
     (case gate_of (ctl_kind c) of (follow, gates) \<Rightarrow> gated (ready_in env) follow gates (st_trace s)))
     (controllers env)"
  using instance_reconciler.gate [of env nn w] virtual_server.gate [of env nn w]
    project.gate [of env nn w] application.gate [of env nn w] role.gate [of env nn w]
    user.gate [of env nn w] role_assignment.gate [of env nn w]
  by (auto simp: controllers_def gate_of_def split: prod.splits)

text \<open>
  C11: least privilege. Every call of the Keyline API is made with a client that the controller is
  entitled to: the one for the instance that the virtual server it read refers to, scoped to
  that virtual server, with the key in that instance's credentials Secret of the same namespace.
\<close>

theorem controllers_entitled:
  "list_all (\<lambda>c. case run_state (ctl_reconcile c nn) (start w) of (out, s) \<Rightarrow> clients_entitled (st_trace s))
     (controllers env)"
  using instance_reconciler.entitlement [of env nn w] virtual_server.entitlement [of env nn w]
    project.entitlement [of env nn w] application.entitlement [of env nn w] role.entitlement [of env nn w]
    user.entitlement [of env nn w] role_assignment.entitlement [of env nn w]
  by (auto simp: controllers_def split: prod.splits)

text \<open>
  C5: exact readiness, in both directions. A controller of what lives inside Keyline reports its object
  ready exactly when the object was found and everything that follows went well: each object read
  on the way exists, those it is gated on are ready and carry an id that parses where an id is
  used, and each answer of Keyline is a success, or the 404 of a lookup or of the removal of a key
  that was already gone. So the status sent never says ready after a failure, and never says not
  ready without one. The instance controller reports readiness by its own exchange with the
  server.
\<close>

theorem controllers_ready_exactly:
  assumes "meta_conditions_ok (lib env)"
  shows "list_all (\<lambda>c. case run_state (ctl_reconcile c nn) (start w) of (out, s) \<Rightarrow>
     (if ctl_kind c = KInstance then True
      else ready_exactly env (snd (gate_of (ctl_kind c))) (st_trace s))) (controllers env)"
  using virtual_server.exact [OF assms, of nn w] project.exact [OF assms, of nn w]
    application.exact [OF assms, of nn w] role.exact [OF assms, of nn w]
    user.exact [OF assms, of nn w] role_assignment.exact [OF assms, of nn w]
  by (auto simp: controllers_def gate_of_def split: prod.splits)

lemma controllers_ready_exactly_witness:
  "list_all (\<lambda>c. case run_state (ctl_reconcile c (nname ''ns'' ''r'')) (start ex_world) of (out, s) \<Rightarrow>
     (if ctl_kind c = KInstance then True
      else ready_exactly ex_env (snd (gate_of (ctl_kind c))) (st_trace s))) (controllers ex_env) \<and>
   reports_ready (ready_in ex_env)
     (st_trace (snd (run_state (reconcileRole ex_env (nname ''ns'' ''r'')) (start ex_world))))"
proof
  show "reports_ready (ready_in ex_env)
     (st_trace (snd (run_state (reconcileRole ex_env (nname ''ns'' ''r'')) (start ex_world))))"
    by code_simp
qed (rule controllers_ready_exactly [OF ex_meta_conditions_ok])



text \<open>
  C12: no needless writes. Whatever the status says, a reconcile that could not read its object or make a
  client writes nothing to Keyline, and one whose object Keyline is in sync with writes nothing but
  the display name of a user, which is sent every time.
\<close>

theorem in_sync_stays_quiet:
  assumes "serves env kl"
  shows "list_all (\<lambda>c. case run_state (ctl_reconcile c nn) (start w) of (out, s) \<Rightarrow>
     (if ctl_kind c = KInstance then True else quiet_from env (st_trace s) (kl w))) (controllers env)"
  using virtual_server.quiet [OF assms, of nn w] project.quiet [OF assms, of nn w]
    application.quiet [OF assms, of nn w] role.quiet [OF assms, of nn w]
    user.quiet [OF assms, of nn w] role_assignment.quiet [OF assms, of nn w]
  by (auto simp: controllers_def split: prod.splits)

lemma in_sync_stays_quiet_witness:
  "let w = st_world (snd (run_state (reconcileProject served_env (nname ''ns'' ''p'')) (start served_world)))
   in list_all (\<lambda>c. case run_state (ctl_reconcile c (nname ''ns'' ''p'')) (start w) of (out, s) \<Rightarrow>
        (if ctl_kind c = KInstance then True else quiet_from served_env (st_trace s) (snd w))) (controllers served_env) \<and>
      in_keyline served_env [] (ObjProject ex_project) (snd w (realm_of (operator_client ex_instance ''main'' ex_secret)))"
  unfolding Let_def
proof
  show "in_keyline served_env [] (ObjProject ex_project)
     (snd (st_world (snd (run_state (reconcileProject served_env (nname ''ns'' ''p'')) (start served_world))))
       (realm_of (operator_client ex_instance ''main'' ex_secret)))"
    by code_simp
qed (rule in_sync_stays_quiet [OF served_serves])

text \<open>
  C10: when the system comes to rest. After a reconcile that reports its object ready, a later reconcile of the
  object, which finds it as it was patched and the same objects around it, and Keyline as the first one
  left it, writes nothing but a user's display name, whatever else has happened in the cluster
  meanwhile. This holds of virtual servers, projects and users without more, and of the other kinds under the conditions of
  \<open>settles\<close>: the id of a role parses, and the first reconcile did not merely find the role under its name (it created the
  role, or the status had the id before); an application sets both URI lists and its signing algorithm, since the comparison
  can take each of these for a difference when it is unset (C40), and if it asks for a claims script, the first reconcile
  did not create it; the role of an assignment has at most a thousand users.
\<close>

theorem ready_then_quiet:
  assumes "meta_conditions_ok (lib env)" "uuid_ok (lib env)" "serves env kl"
  shows "list_all (\<lambda>c. case (run_state (ctl_reconcile c nn) (start w), run_state (ctl_reconcile c nn) (start w2)) of
     ((out, s), (out2, s2)) \<Rightarrow>
       (if ctl_kind c \<noteq> KInstance \<and> kl w2 = kl (st_world s)
        then quiet_after env (st_trace s) (kl w) (kl (st_world s)) (st_trace s2) else True)) (controllers env)"
  using virtual_server.quiet_again [OF assms, of nn w] project.quiet_again [OF assms, of nn w]
    application.quiet_again [OF assms, of nn w] role.quiet_again [OF assms, of nn w]
    user.quiet_again [OF assms, of nn w] role_assignment.quiet_again [OF assms, of nn w]
    virtual_server.quiet [OF assms(3), of nn w2] project.quiet [OF assms(3), of nn w2]
    application.quiet [OF assms(3), of nn w2] role.quiet [OF assms(3), of nn w2]
    user.quiet [OF assms(3), of nn w2] role_assignment.quiet [OF assms(3), of nn w2]
  by (auto simp: controllers_def split: prod.splits)

lemma ready_then_quiet_witness:
  "let s = snd (run_state (reconcileRole served_env (nname ''ns'' ''r'')) (start served_world));
       s2 = snd (run_state (reconcileRole served_env (nname ''ns'' ''r'')) (start (st_world s)))
   in quiet_after served_env (st_trace s) (snd served_world) (snd (st_world s)) (st_trace s2) \<and>
      reports_ready (ready_in served_env) (st_trace s) \<and>
      reads_again (st_trace s) (st_trace s2) (the (patched (st_trace s))) \<and>
      list_ex is_api_write (st_trace s) \<and> \<not> list_ex is_api_write (st_trace s2)"
proof -
  define s where "s = snd (run_state (reconcileRole served_env (nname ''ns'' ''r'')) (start served_world))"
  define s2 where "s2 = snd (run_state (reconcileRole served_env (nname ''ns'' ''r'')) (start (st_world s)))"
  have "quiet_after served_env (st_trace s) (snd served_world) (snd (st_world s)) (st_trace s2)"
    using ready_then_quiet [OF served_meta_conditions_ok served_uuid_ok served_serves,
        where nn = "nname ''ns'' ''r''" and w = served_world and ?w2.0 = "st_world s"]
    by (simp add: controllers_def s_def s2_def split: prod.splits)
  moreover have "reports_ready (ready_in served_env) (st_trace s)"
    "reads_again (st_trace s) (st_trace s2) (the (patched (st_trace s)))"
    "list_ex is_api_write (st_trace s)" "\<not> list_ex is_api_write (st_trace s2)"
    unfolding s2_def s_def by code_simp+
  ultimately show ?thesis unfolding Let_def s_def s2_def by blast
qed

text \<open>
  Isolation. Apart from the object it was called for, a reconcile reads only objects in that
  object's namespace, whatever the object's references say.
\<close>

theorem controllers_isolated:
  "list_all (\<lambda>c. case run_state (ctl_reconcile c nn) (start w) of (out, s) \<Rightarrow> isolated (st_trace s))
     (controllers env)"
  using instance_reconciler.isolation [of env nn w] virtual_server.isolation [of env nn w]
    project.isolation [of env nn w] application.isolation [of env nn w] role.isolation [of env nn w]
    user.isolation [of env nn w] role_assignment.isolation [of env nn w]
  by (auto simp: controllers_def split: prod.splits)

text \<open>
  C19: a reconcile is done after a bounded number of calls, each of its loops included: at most 13 for the
  instance, 6 to 10 for the other kinds, and for a user one more for each key of its spec and
  each key it manages. No answer of the cluster or of Keyline, no order of the keys and no
  earlier state makes it call more.
\<close>

theorem controllers_bounded_work:
  "list_all (\<lambda>c. case run_state (ctl_reconcile c nn) (start w) of (out, s) \<Rightarrow>
     length (st_trace s) \<le> work_of (ctl_kind c) + work_on (st_trace s)) (controllers env)"
  using postD [OF reconcileInstance_work [of env nn], of w] postD [OF reconcileVirtualServer_work [of env nn], of w]
    postD [OF reconcileProject_work [of env nn], of w] postD [OF reconcileApplication_work [of env nn], of w]
    postD [OF reconcileRole_work [of env nn], of w] postD [OF reconcileUser_work [of env nn], of w]
    postD [OF reconcileRoleAssignment_work [of env nn], of w]
  by (auto simp: controllers_def trans_le_add1 split: prod.splits)

text \<open>
  Honesty. If a reconcile reports its object as ready, every answer it got from Keyline was a
  success, or the 404 of a lookup or of the removal of a key that was already gone.
\<close>

theorem controllers_honest:
  assumes "meta_conditions_ok (lib env)"
  shows "list_all (\<lambda>c. case run_state (ctl_reconcile c nn) (start w) of (out, s) \<Rightarrow>
     honest (ready_in env) (st_trace s)) (controllers env)"
  using instance_reconciler.honesty [OF assms, of nn w] virtual_server.honesty [OF assms, of nn w]
    project.honesty [OF assms, of nn w] application.honesty [OF assms, of nn w] role.honesty [OF assms, of nn w]
    user.honesty [OF assms, of nn w] role_assignment.honesty [OF assms, of nn w]
  by (auto simp: controllers_def split: prod.splits)

lemma controllers_honest_witness:
  "list_all (\<lambda>c. case run_state (ctl_reconcile c (nname ''ns'' ''u'')) (start ex_world) of (out, s) \<Rightarrow>
     honest (ready_in ex_env) (st_trace s)) (controllers ex_env) \<and>
   reports_ready (ready_in ex_env)
     (st_trace (snd (run_state (reconcileUser ex_env (nname ''ns'' ''u'')) (start ex_world))))"
proof
  show "reports_ready (ready_in ex_env)
     (st_trace (snd (run_state (reconcileUser ex_env (nname ''ns'' ''u'')) (start ex_world))))"
    by code_simp
qed (rule controllers_honest [OF ex_meta_conditions_ok])

text \<open>
  A gone object stays gone. When the object a reconcile was called for is not found, no controller
  calls anything else, and the request is dropped without an error.
\<close>

theorem controllers_drop_gone_objects:
  assumes "ignore_not_found_ok (lib env)"
  shows "list_all (\<lambda>c. case run_state (ctl_reconcile c nn) (start w) of (out, s) \<Rightarrow>
     (case st_trace s of
        EvGet k nn' (Inl e) # rest \<Rightarrow> (if l_is_not_found (lib env) e then rest = [] \<and> out = ReconcileSuccess else True)
      | _ \<Rightarrow> True)) (controllers env)"
proof -
  have "case st_trace s of
      EvGet k nn' (Inl e) # rest \<Rightarrow> (if l_is_not_found (lib env) e then rest = [] \<and> out = ReconcileSuccess else True)
    | _ \<Rightarrow> True"
    if "status_discipline kd nn (l_ignore_not_found (lib env)) out (st_trace s)" for kd out and s :: "'a st"
    using that assms
    by (cases "(kd, nn, l_ignore_not_found (lib env), out, st_trace s)" rule: status_discipline.cases)
      (auto simp: ignore_not_found_ok_def result_defs)
  note drop = this
  show ?thesis
    using drop [OF instance_reconciler.discipline] drop [OF virtual_server.discipline]
      drop [OF project.discipline] drop [OF application.discipline] drop [OF role.discipline]
      drop [OF user.discipline] drop [OF role_assignment.discipline]
    by (simp add: controllers_def prod.case_eq_if)
qed

lemma controllers_drop_gone_objects_witness:
  "list_all (\<lambda>c. case run_state (ctl_reconcile c (nname ''ns'' ''gone'')) (start ex_world) of (out, s) \<Rightarrow>
     (case st_trace s of
        EvGet k nn' (Inl e) # rest \<Rightarrow>
          (if l_is_not_found (lib ex_env) e then rest = [] \<and> out = ReconcileSuccess else True)
      | _ \<Rightarrow> True)) (controllers ex_env)"
  by (rule controllers_drop_gone_objects [OF ex_ignore_not_found_ok])

section \<open>References\<close>

text \<open>
  The wait for references cannot be circular. What an object refers to is always of a kind that
  comes earlier in the order from the instance to the role assignment, so no object waits,
  directly or through others, for itself.
\<close>

theorem references_point_back:
  "list_all (\<lambda>(k, nn). k < object_kind obj) (refs_of ns obj)"
  by (rule refs_of_less)

end
